(* ===== verification/Prelude.thy ===== *)
theory Prelude
  imports Main "HOL-Library.Char_ord" "HOL-Library.List_Lexorder"
begin

text \<open>
  Shared vocabulary of the development: the Python exceptions the services raise, results
  that are a value or an exception, rows kept in lists and looked up by a key, and the list
  lemmas that several components use.  Strings are \<^typ>\<open>string\<close>; a \<open>char\<close> is one code
  point below 256, ordered as Python orders \<open>str\<close> (code point by code point, the order
  instances of \<open>Char_ord\<close> and \<open>List_Lexorder\<close>).
\<close>

named_theorems res_simps \<open>reduction of results that may be exceptions\<close>
named_theorems table_simps \<open>lookup after insert, replace and delete\<close>
named_theorems schema_simps \<open>constraint checks of the tables\<close>

section \<open>Exceptions and results\<close>

text \<open>
  One constructor per exception class of \<open>services/\<close>; each carries the code and message
  its constructor takes.  The last group holds exceptions of Python, SQLAlchemy, pydantic,
  PyJWT and httpx that the code lets through or catches.
\<close>

datatype py_exn =
    AuthenticationError string string
  | AuthorizationError string string
  | TrustedSessionError string string
  | ToolExecutionError string string "int option"
  | EntityNotFoundError string
  | InvalidManifestStateError string
  | SeedDataConflictError string
  | HTTPException nat string string
  | IntegrityError string
  | DataError string
  | OperationalError string
  | RuntimeError string
  | ValidationError string
  | KeyError string
  | TypeError string
  | ValueError string
  | JSONDecodeError
  | PyJWTError string
  | HttpClientError string

type_synonym 'a res = "py_exn + 'a"

definition bind_res :: "'a res \<Rightarrow> ('a \<Rightarrow> 'b res) \<Rightarrow> 'b res" where
  "bind_res r f = (case r of Inl e \<Rightarrow> Inl e | Inr x \<Rightarrow> f x)"

definition guard_res :: "bool \<Rightarrow> py_exn \<Rightarrow> unit res" where
  "guard_res b e = (if b then Inr () else Inl e)"

definition succeeds :: "'a res \<Rightarrow> bool" where
  "succeeds r = (case r of Inl e \<Rightarrow> False | Inr x \<Rightarrow> True)"

lemma bind_res_Inl [simp, res_simps]: "bind_res (Inl e) f = Inl e"
  by (simp add: bind_res_def)

lemma bind_res_Inr [simp, res_simps]: "bind_res (Inr x) f = f x"
  by (simp add: bind_res_def)

lemma bind_res_eq_Inr: "bind_res r f = Inr y \<longleftrightarrow> (\<exists>x. r = Inr x \<and> f x = Inr y)"
  by (cases r) auto

lemma bind_res_eq_Inl:
  "bind_res r f = Inl e \<longleftrightarrow> r = Inl e \<or> (\<exists>x. r = Inr x \<and> f x = Inl e)"
  by (cases r) auto

lemma guard_res_Inr [simp, res_simps]: "guard_res b e = Inr u \<longleftrightarrow> b"
  by (simp add: guard_res_def)

lemma guard_res_Inl [simp, res_simps]: "guard_res b e = Inl e' \<longleftrightarrow> \<not> b \<and> e' = e"
  by (auto simp: guard_res_def)

lemma guard_res_True [simp]: "guard_res True e = Inr ()"
  by (simp add: guard_res_def)

lemma guard_res_False [simp]: "guard_res False e = Inl e"
  by (simp add: guard_res_def)

lemma succeeds_Inl [simp]: "\<not> succeeds (Inl e)"
  by (simp add: succeeds_def)

lemma succeeds_Inr [simp]: "succeeds (Inr x)"
  by (simp add: succeeds_def)

lemma succeeds_iff: "succeeds r \<longleftrightarrow> (\<exists>x. r = Inr x)"
  by (cases r) auto

section \<open>Python string and list helpers\<close>

fun join_with :: "string \<Rightarrow> string list \<Rightarrow> string" where
  "join_with sep [] = []"
| "join_with sep [x] = x"
| "join_with sep (x # y # ys) = x @ sep @ join_with sep (y # ys)"

definition starts_with :: "string \<Rightarrow> string \<Rightarrow> bool" where
  "starts_with p s \<longleftrightarrow> take (length p) s = p"

definition is_ascii :: "string \<Rightarrow> bool" where
  "is_ascii s \<longleftrightarrow> list_all (\<lambda>c. of_char c < (128::nat)) s"

definition lower_char :: "char \<Rightarrow> char" where
  "lower_char c =
     (let n = of_char c :: nat in
      if 65 \<le> n \<and> n \<le> 90 then char_of (n + 32)
      else if 192 \<le> n \<and> n \<le> 222 \<and> n \<noteq> 215 then char_of (n + 32)
      else c)"

definition lower :: "string \<Rightarrow> string" where
  "lower s = map lower_char s"

definition in_length :: "nat \<Rightarrow> nat \<Rightarrow> string \<Rightarrow> bool" where
  "in_length lo hi s \<longleftrightarrow> lo \<le> length s \<and> length s \<le> hi"

section \<open>Rows of a table\<close>

text \<open>
  A table is the list of its rows in insertion order.  \<open>row_of key k rows\<close> is what
  \<open>session.scalar(select(T).where(T.key == k))\<close> returns.
\<close>

definition row_of :: "('r \<Rightarrow> 'k) \<Rightarrow> 'k \<Rightarrow> 'r list \<Rightarrow> 'r option" where
  "row_of key k rows = find (\<lambda>r. key r = k) rows"

definition replace_row :: "('r \<Rightarrow> 'k) \<Rightarrow> 'r \<Rightarrow> 'r list \<Rightarrow> 'r list" where
  "replace_row key r' rows = map (\<lambda>r. if key r = key r' then r' else r) rows"

definition remove_row :: "('r \<Rightarrow> 'k) \<Rightarrow> 'k \<Rightarrow> 'r list \<Rightarrow> 'r list" where
  "remove_row key k rows = filter (\<lambda>r. key r \<noteq> k) rows"

lemma row_of_Nil [simp, table_simps]: "row_of key k [] = None"
  by (simp add: row_of_def)

lemma row_of_Cons [simp, table_simps]:
  "row_of key k (r # rs) = (if key r = k then Some r else row_of key k rs)"
  by (simp add: row_of_def)

lemma row_of_append [table_simps]:
  "row_of key k (xs @ ys) =
     (case row_of key k xs of None \<Rightarrow> row_of key k ys | Some r \<Rightarrow> Some r)"
  by (induction xs) auto

lemma row_of_SomeD: "row_of key k rows = Some r \<Longrightarrow> r \<in> set rows \<and> key r = k"
  by (induction rows) (auto split: if_splits)

lemma row_of_NoneD: "row_of key k rows = None \<Longrightarrow> r \<in> set rows \<Longrightarrow> key r \<noteq> k"
  by (induction rows) (auto split: if_splits)

lemma row_of_None_iff: "row_of key k rows = None \<longleftrightarrow> k \<notin> key ` set rows"
  by (induction rows) auto

lemma row_of_unique:
  "distinct (map key rows) \<Longrightarrow> r \<in> set rows \<Longrightarrow> row_of key (key r) rows = Some r"
  by (induction rows) (auto simp: image_iff)

lemma row_of_replace [table_simps]:
  "row_of key k (replace_row key r' rows) =
     (if k = key r' \<and> row_of key k rows \<noteq> None then Some r' else row_of key k rows)"
  by (induction rows) (auto simp: replace_row_def)

lemma row_of_remove [table_simps]:
  "row_of key k (remove_row key k' rows) = (if k = k' then None else row_of key k rows)"
  by (induction rows) (auto simp: remove_row_def)

lemma keys_replace_row [simp, table_simps]:
  "map key (replace_row key r' rows) = map key rows"
  by (induction rows) (auto simp: replace_row_def)

lemma set_replace_row:
  "x \<in> set (replace_row key r' rows) \<Longrightarrow> x = r' \<or> (x \<in> set rows \<and> key x \<noteq> key r')"
  by (auto simp: replace_row_def split: if_splits)

lemma length_replace_row [simp]: "length (replace_row key r' rows) = length rows"
  by (simp add: replace_row_def)

lemma map_replace_row_same:
  "distinct (map key rows) \<Longrightarrow> row_of key (key r) rows = Some r0 \<Longrightarrow> g r = g r0 \<Longrightarrow>
   map g (replace_row key r rows) = map g rows"
proof (induction rows)
  case (Cons x xs)
  show ?case
  proof (cases "key x = key r")
    case True
    with Cons.prems have "r0 = x" "\<forall>y \<in> set xs. key y \<noteq> key r" by (auto simp: image_iff)
    with True Cons.prems show ?thesis by (auto simp: replace_row_def)
  next
    case False
    with Cons show ?thesis by (auto simp: replace_row_def)
  qed
qed (simp add: replace_row_def)

lemma distinct_remove_row: "distinct (map key rows) \<Longrightarrow> distinct (map key (remove_row key k rows))"
  by (induction rows) (auto simp: remove_row_def)

section \<open>Sorting rows\<close>

lemma insort_key_snoc:
  "f a \<le> f x \<Longrightarrow> insort_key f a (zs @ [x]) = insort_key f a zs @ [x]"
  by (induction zs) auto

text \<open>A row whose key exceeds every other key is sorted last.\<close>

lemma sort_key_append_max:
  "\<forall>y \<in> set xs. f y < f x \<Longrightarrow> sort_key f (xs @ [x]) = sort_key f xs @ [x]"
  by (induction xs) (auto simp: insort_key_snoc less_imp_le)

end
