(* ===== verification/Runs.thy ===== *)
theory Runs
  imports Prelude
begin

text \<open>
  Runs of the step relations of the development, as two interfaces.  \<open>invariant_runs\<close> is a step
  relation whose every step keeps an invariant; \<open>evolving_runs\<close> adds what one step may change, a
  preorder on the states.  Both hold along every run.  \<open>Concurrency\<close> provides the first for a
  worker process, \<open>System\<close> the second for the database of the proxy.
\<close>

locale invariant_runs =
  fixes step :: "'s \<Rightarrow> 's \<Rightarrow> bool"
    and inv :: "'s \<Rightarrow> bool"
  assumes step_inv: "step s s' \<Longrightarrow> inv s \<Longrightarrow> inv s'"
begin

lemma run_inv: "step\<^sup>*\<^sup>* s s' \<Longrightarrow> inv s \<Longrightarrow> inv s'"
  by (induction rule: rtranclp_induct) (auto intro: step_inv)

end

locale evolving_runs = invariant_runs +
  fixes evolves :: "'s \<Rightarrow> 's \<Rightarrow> bool"
  assumes evolves_refl: "evolves s s"
    and evolves_trans: "evolves r s \<Longrightarrow> evolves s t \<Longrightarrow> evolves r t"
    and step_evolves: "step s s' \<Longrightarrow> inv s \<Longrightarrow> evolves s s'"
begin

lemma run_evolves: "step\<^sup>*\<^sup>* s s' \<Longrightarrow> inv s \<Longrightarrow> evolves s s'"
proof (induction rule: rtranclp_induct)
  case base
  show ?case by (rule evolves_refl)
next
  case (step t u)
  have "inv t" using run_inv [OF step.hyps(1) step.prems] .
  then show ?case using evolves_trans [OF step.IH [OF step.prems] step_evolves [OF step.hyps(2)]] by blast
qed

text \<open>A property of states that evolution cannot undo stays once it holds.\<close>

lemma run_stable:
  assumes "step\<^sup>*\<^sup>* s s'" "inv s" "p s" "\<And>s t. evolves s t \<Longrightarrow> p s \<Longrightarrow> p t"
  shows "p s'"
  using assms run_evolves by blast

end

end
