(* ===== verification/Json.thy ===== *)
theory Json
  imports Prelude
begin

text \<open>
  JSON values as Python's \<open>json\<close> module sees them, and \<open>json.dumps\<close> with the options the
  services use: \<open>ensure_ascii=True, separators=(",", ":"), sort_keys=True\<close>
  (\<open>manifest_checksum\<close> in \<open>persistence/repositories.py\<close>, \<open>event_hash\<close> in
  \<open>audit/service.py\<close>).  A \<open>dict\<close> is the list of its items in insertion order, a
  \<open>float\<close> the text of its \<open>repr\<close>, which is all \<open>dumps\<close> reads of it.  The main result
  is that the canonical text determines the value up to the order of keys
  (\<open>json_dumps_canonical\<close>); the hash chain and the manifest checksum rest on it.
\<close>

datatype json =
    JNull
  | JBool bool
  | JInt int
  | JFloat string
  | JStr string
  | JArr "json list"
  | JObj "(string \<times> json) list"

section \<open>Numbers and strings\<close>

definition digit_char :: "nat \<Rightarrow> char" where
  "digit_char d = char_of (48 + d mod 10)"

fun show_nat :: "nat \<Rightarrow> string" where
  "show_nat n = (if n < 10 then [digit_char n] else show_nat (n div 10) @ [digit_char (n mod 10)])"

declare show_nat.simps [simp del]

definition show_int :: "int \<Rightarrow> string" where
  "show_int i = (if i < 0 then CHR ''-'' # show_nat (nat (- i)) else show_nat (nat i))"

definition hex_char :: "nat \<Rightarrow> char" where
  "hex_char d = (if d < 10 then char_of (48 + d) else char_of (87 + d))"

definition escape_char :: "char \<Rightarrow> string" where
  "escape_char c =
     (let n = of_char c :: nat in
      if n = 34 then [CHR 0x5C, CHR 0x22]
      else if n = 92 then [CHR 0x5C, CHR 0x5C]
      else if n = 10 then [CHR 0x5C, CHR ''n'']
      else if n = 13 then [CHR 0x5C, CHR ''r'']
      else if n = 9 then [CHR 0x5C, CHR ''t'']
      else if n = 12 then [CHR 0x5C, CHR ''f'']
      else if n = 8 then [CHR 0x5C, CHR ''b'']
      else if 32 \<le> n \<and> n \<le> 126 then [c]
      else [CHR 0x5C, CHR ''u'', CHR ''0'', CHR ''0'',
            hex_char (n div 16), hex_char (n mod 16)])"

definition quote :: "string \<Rightarrow> string" where
  "quote s = CHR 0x22 # concat (map escape_char s) @ [CHR 0x22]"

section \<open>The printer\<close>

fun json_dumps :: "json \<Rightarrow> string" where
  "json_dumps JNull = ''null''"
| "json_dumps (JBool b) = (if b then ''true'' else ''false'')"
| "json_dumps (JInt i) = show_int i"
| "json_dumps (JFloat s) = s"
| "json_dumps (JStr s) = quote s"
| "json_dumps (JArr xs) = ''['' @ join_with '','' (map json_dumps xs) @ '']''"
| "json_dumps (JObj kvs) =
     ''{'' @ join_with '',''
       (map (\<lambda>(k, t). quote k @ '':'' @ t)
         (sort_key fst (map (\<lambda>(k, v). (k, json_dumps v)) kvs))) @ ''}''"

text \<open>The value with the keys of every object sorted, which is what the text shows.\<close>

fun canonical :: "json \<Rightarrow> json" where
  "canonical (JArr xs) = JArr (map canonical xs)"
| "canonical (JObj kvs) = JObj (sort_key fst (map (\<lambda>(k, v). (k, canonical v)) kvs))"
| "canonical JNull = JNull"
| "canonical (JBool b) = JBool b"
| "canonical (JInt i) = JInt i"
| "canonical (JFloat s) = JFloat s"
| "canonical (JStr s) = JStr s"

fun render :: "json \<Rightarrow> string" where
  "render JNull = ''null''"
| "render (JBool b) = (if b then ''true'' else ''false'')"
| "render (JInt i) = show_int i"
| "render (JFloat s) = s"
| "render (JStr s) = quote s"
| "render (JArr xs) = ''['' @ join_with '','' (map render xs) @ '']''"
| "render (JObj kvs) =
     ''{'' @ join_with '','' (map (\<lambda>(k, v). quote k @ '':'' @ render v) kvs) @ ''}''"

text \<open>
  Float texts: \<open>float.__repr__\<close> yields digits with a point or an exponent, and
  \<open>dumps\<close> writes \<open>NaN\<close>, \<open>Infinity\<close> and \<open>-Infinity\<close> for the special values.
\<close>

definition is_digit :: "char \<Rightarrow> bool" where
  "is_digit c \<longleftrightarrow> 48 \<le> (of_char c :: nat) \<and> (of_char c :: nat) \<le> 57"

definition number_char :: "char \<Rightarrow> bool" where
  "number_char c \<longleftrightarrow> is_digit c \<or> c \<in> set ''+-.eE''"

definition float_text :: "string \<Rightarrow> bool" where
  "float_text s \<longleftrightarrow>
     s \<in> {''NaN'', ''Infinity'', ''-Infinity''} \<or>
     (list_all number_char s \<and> s \<noteq> [] \<and> (CHR ''.'' \<in> set s \<or> CHR ''e'' \<in> set s))"

fun wf_json :: "json \<Rightarrow> bool" where
  "wf_json (JFloat s) = float_text s"
| "wf_json (JArr xs) = list_all wf_json xs"
| "wf_json (JObj kvs) = (distinct (map fst kvs) \<and> list_all (\<lambda>(k, v). wf_json v) kvs)"
| "wf_json JNull = True"
| "wf_json (JBool b) = True"
| "wf_json (JInt i) = True"
| "wf_json (JStr s) = True"

section \<open>The printer prints the canonical value\<close>

lemma insort_key_map_val:
  "insort_key fst (k, g v) (map (\<lambda>(k, v). (k, g v)) xs) =
     map (\<lambda>(k, v). (k, g v)) (insort_key fst (k, v) xs)"
  by (induction xs) auto

lemma sort_key_map_val:
  "sort_key fst (map (\<lambda>(k, v). (k, g v)) xs) = map (\<lambda>(k, v). (k, g v)) (sort_key fst xs)"
  by (induction xs) (auto simp: insort_key_map_val)

lemma json_dumps_render: "json_dumps j = render (canonical j)"
proof (induction j)
  case (JArr xs)
  then show ?case by (auto intro!: arg_cong [where f = "join_with '',''"] map_cong)
next
  case (JObj kvs)
  have "map ((\<lambda>(k, t). quote k @ '':'' @ t) \<circ> (\<lambda>(k, v). (k, json_dumps v))) (sort_key fst kvs) =
        map ((\<lambda>(k, v). quote k @ '':'' @ render v) \<circ> (\<lambda>(k, v). (k, canonical v))) (sort_key fst kvs)"
    using JObj by (auto intro!: map_cong)
  then show ?case
    by (simp only: json_dumps.simps canonical.simps render.simps sort_key_map_val map_map)
qed auto

section \<open>Numbers decode\<close>

definition digit_value :: "char \<Rightarrow> nat" where
  "digit_value c = of_char c - 48"

definition read_nat :: "string \<Rightarrow> nat" where
  "read_nat s = foldl (\<lambda>acc c. 10 * acc + digit_value c) 0 s"

lemma digit_value_char [simp]: "digit_value (digit_char d) = d mod 10"
  by (simp add: digit_value_def digit_char_def)

lemma is_digit_char [simp]: "is_digit (digit_char d)"
proof -
  have "48 + d mod 10 < 256" by simp
  then show ?thesis by (simp add: is_digit_def digit_char_def)
qed

lemma show_nat_digits: "list_all is_digit (show_nat n)"
proof (induction n rule: show_nat.induct)
  case (1 n)
  then show ?case by (subst show_nat.simps) auto
qed

lemma show_nat_nonempty [simp]: "show_nat n \<noteq> []"
  by (subst show_nat.simps) simp

lemma read_show_nat: "read_nat (show_nat n) = n"
proof (induction n rule: show_nat.induct)
  case (1 n)
  then show ?case
    by (subst show_nat.simps) (auto simp: read_nat_def)
qed

lemma show_nat_inj: "show_nat m = show_nat n \<Longrightarrow> m = n"
  by (metis read_show_nat)

lemma show_nat_no_minus: "show_nat n \<noteq> CHR ''-'' # t"
proof
  assume "show_nat n = CHR ''-'' # t"
  with show_nat_digits [of n] have "is_digit (CHR ''-'')" by simp
  then show False by (simp add: is_digit_def)
qed

lemma show_int_inj: "show_int i = show_int j \<Longrightarrow> i = j"
  by (auto simp: show_int_def show_nat_no_minus show_nat_no_minus [symmetric]
      split: if_splits dest!: show_nat_inj)

section \<open>Texts decode uniquely\<close>

text \<open>
  \<open>delim r\<close>: what follows a value in a JSON text, the end or one of \<open>,\<close> \<open>]\<close> \<open>}\<close>.
\<close>

definition delim_char :: "char \<Rightarrow> bool" where
  "delim_char c \<longleftrightarrow> c = CHR '','' \<or> c = CHR '']'' \<or> c = CHR ''}''"

definition delim :: "string \<Rightarrow> bool" where
  "delim r \<longleftrightarrow> (case r of [] \<Rightarrow> True | c # _ \<Rightarrow> delim_char c)"

lemma delim_simps [simp]: "delim []" "delim (c # r) \<longleftrightarrow> delim_char c"
  by (simp_all add: delim_def)

lemma number_char_not_delim: "number_char c \<Longrightarrow> \<not> delim_char c"
  by (auto simp: number_char_def delim_char_def is_digit_def)

lemma token_split:
  assumes "xs @ r = ys @ s" "delim r" "delim s"
    and "\<forall>c \<in> set xs. \<not> delim_char c" "\<forall>c \<in> set ys. \<not> delim_char c"
  shows "xs = ys \<and> r = s"
proof -
  have *: "takeWhile (\<lambda>c. \<not> delim_char c) (zs @ t) = zs"
    if "delim t" "\<forall>c \<in> set zs. \<not> delim_char c" for zs t
    using that by (cases t) (auto simp: takeWhile_append2)
  from * [of r xs] * [of s ys] assms have "xs = ys" by metis
  with assms(1) show ?thesis by simp
qed

definition hex_value :: "char \<Rightarrow> nat" where
  "hex_value c = (let n = of_char c in if n < 58 then n - 48 else n - 87)"

fun unescape :: "string \<Rightarrow> (char \<times> string) option" where
  "unescape [] = None"
| "unescape (c # r) =
     (if c \<noteq> CHR 0x5C then Some (c, r)
      else (case r of
          [] \<Rightarrow> None
        | e # r' \<Rightarrow>
            if e = CHR ''u'' then Some (char_of (16 * hex_value (r' ! 2) + hex_value (r' ! 3)), drop 4 r')
            else if e = CHR ''n'' then Some (char_of (10::nat), r')
            else if e = CHR ''r'' then Some (char_of (13::nat), r')
            else if e = CHR ''t'' then Some (char_of (9::nat), r')
            else if e = CHR ''f'' then Some (char_of (12::nat), r')
            else if e = CHR ''b'' then Some (char_of (8::nat), r')
            else Some (e, r')))"

lemma hex_value_char [simp]: "d < 16 \<Longrightarrow> hex_value (hex_char d) = d"
  by (auto simp: hex_value_def hex_char_def Let_def)

lemma code_quote: "(of_char c :: nat) = 34 \<longleftrightarrow> c = CHR 0x22"
  using of_char_eq_iff [where 'a = nat, of c "CHR 0x22"] by simp

lemma code_backslash: "(of_char c :: nat) = 92 \<longleftrightarrow> c = CHR 0x5C"
  using of_char_eq_iff [where 'a = nat, of c "CHR 0x5C"] by simp

lemma unescape_escape: "unescape (escape_char c @ X) = Some (c, X)"
proof -
  have n: "of_char c div 16 < (16::nat)"
    using nat_of_char_less_256 [of c] by linarith
  have "char_of (16 * (of_char c div 16) + of_char c mod 16 :: nat) = c" by simp
  then show ?thesis
    using n by (auto simp: escape_char_def Let_def char_of_eq_iff take_bit_eq_mod
        code_quote code_backslash)
qed

lemma escape_char_inj: "escape_char c @ X = escape_char d @ Y \<Longrightarrow> c = d \<and> X = Y"
  by (metis unescape_escape option.inject prod.inject)

lemma escape_char_nonempty: "escape_char c @ X \<noteq> CHR 0x22 # Y"
  by (auto simp: escape_char_def Let_def)

lemma quote_body_inj:
  "concat (map escape_char s) @ CHR 0x22 # r = concat (map escape_char t) @ CHR 0x22 # u
   \<Longrightarrow> s = t \<and> r = u"
proof (induction s arbitrary: t)
  case Nil
  then show ?case
    by (cases t) (auto simp: escape_char_nonempty [symmetric])
next
  case (Cons c s)
  note eq = Cons.prems
  show ?case
  proof (cases t)
    case Nil
    with eq show ?thesis by (simp add: escape_char_nonempty)
  next
    case (Cons d t')
    with eq have "c = d \<and> concat (map escape_char s) @ CHR 0x22 # r =
        concat (map escape_char t') @ CHR 0x22 # u"
      by (intro escape_char_inj) simp
    with Cons.IH Cons show ?thesis by blast
  qed
qed

lemma quote_inj: "quote s @ r = quote t @ u \<Longrightarrow> s = t \<and> r = u"
  by (rule quote_body_inj) (simp add: quote_def)

text \<open>
  A sequence of items, each uniquely decodable before a delimiter, closed by a bracket.
  \<open>ok\<close> is the well-formedness of the items.
\<close>

lemma join_with_Cons:
  "join_with sep (x # xs) = x @ concat (map (\<lambda>y. sep @ y) xs)"
  by (induction xs arbitrary: x) auto

lemma items_tail_inj:
  assumes item: "\<And>x y r s. x \<in> set xs \<Longrightarrow> ok y \<Longrightarrow> f x @ r = f y @ s \<Longrightarrow>
      delim r \<Longrightarrow> delim s \<Longrightarrow> x = y \<and> r = s"
    and close: "delim_char b" "b \<noteq> CHR '',''"
    and eq: "concat (map (\<lambda>x. '','' @ f x) xs) @ b # r = concat (map (\<lambda>x. '','' @ f x) ys) @ b # s"
    and ok: "\<forall>y \<in> set ys. ok y"
  shows "xs = ys \<and> r = s"
  using item eq ok
proof (induction xs arbitrary: ys)
  case Nil
  then show ?case using close by (cases ys) auto
next
  case (Cons x xs)
  have tail_delim: "delim (concat (map (\<lambda>x. '','' @ f x) zs) @ b # t)" for zs t
    using close by (cases zs) (auto simp: delim_char_def)
  show ?case
  proof (cases ys)
    case Nil
    with Cons.prems(2) close show ?thesis by simp
  next
    case (Cons y ys')
    with Cons.prems have "x = y \<and> concat (map (\<lambda>x. '','' @ f x) xs) @ b # r =
        concat (map (\<lambda>x. '','' @ f x) ys') @ b # s"
      by (intro Cons.prems(1)) (auto intro: tail_delim [simplified])
    with Cons Cons.prems Cons.IH [of ys'] show ?thesis by auto
  qed
qed

lemma items_inj:
  assumes item: "\<And>x y r s. x \<in> set xs \<Longrightarrow> ok y \<Longrightarrow> f x @ r = f y @ s \<Longrightarrow>
      delim r \<Longrightarrow> delim s \<Longrightarrow> x = y \<and> r = s"
    and close: "delim_char b" "b \<noteq> CHR '',''"
    and start: "\<And>x. x \<in> set xs \<union> set ys \<Longrightarrow> \<not> delim (f x)"
    and eq: "join_with '','' (map f xs) @ b # r = join_with '','' (map f ys) @ b # s"
    and ok: "\<forall>y \<in> set ys. ok y"
  shows "xs = ys \<and> r = s"
proof -
  have tail_delim: "delim (concat (map (\<lambda>x. '','' @ f x) zs) @ b # t)" for zs t
    using close by (cases zs) (auto simp: delim_char_def)
  have no_close: "f x @ t \<noteq> b # u" if "x \<in> set xs \<union> set ys" for x t u
    using start [OF that] close by (cases "f x") auto
  show ?thesis
  proof (cases xs; cases ys)
    fix x xs' y ys' assume xs: "xs = x # xs'" and ys: "ys = y # ys'"
    have step: "x = y \<and> concat (map (\<lambda>x. '','' @ f x) xs') @ b # r =
        concat (map (\<lambda>x. '','' @ f x) ys') @ b # s"
      using eq ok xs ys tail_delim
      by (intro item) (auto simp: join_with_Cons comp_def)
    have "xs' = ys' \<and> r = s"
    proof (rule items_tail_inj [where ok = ok and f = f and b = b])
      fix x y r s
      assume "x \<in> set xs'" "ok y" "f x @ r = f y @ s" "delim r" "delim s"
      then show "x = y \<and> r = s" using item [of x y r s] xs by simp
    qed (use close step ok ys in auto)
    with step xs ys show ?thesis by simp
  next
    fix y ys' assume "xs = []" "ys = y # ys'"
    with eq no_close [of y] show ?thesis
      by (metis Un_iff append.assoc append_Nil join_with.simps(1) join_with_Cons list.map
          list.set_intros(1))
  next
    fix x xs' assume "xs = x # xs'" "ys = []"
    with eq no_close [of x] show ?thesis
      by (metis Un_iff append.assoc append_Nil join_with.simps(1) join_with_Cons list.map
          list.set_intros(1))
  qed (use eq in auto)
qed

section \<open>Values decode uniquely\<close>

fun is_atom :: "json \<Rightarrow> bool" where
  "is_atom (JStr s) = False"
| "is_atom (JArr xs) = False"
| "is_atom (JObj kvs) = False"
| "is_atom j = True"

lemma show_int_chars: "\<forall>c \<in> set (show_int i). is_digit c \<or> c = CHR ''-''"
  using show_nat_digits by (auto simp: show_int_def list_all_iff)

lemma show_int_start: "show_int i = c # t \<Longrightarrow> is_digit c \<or> c = CHR ''-''"
  using show_int_chars [of i] by simp

lemma float_text_start:
  "float_text (c # t) \<Longrightarrow> number_char c \<or> c = CHR ''N'' \<or> c = CHR ''I''"
  by (auto simp: float_text_def number_char_def)

lemma show_int_not_float: "float_text (show_int i) = False"
proof -
  have "CHR ''.'' \<notin> set (show_int i)" "CHR ''e'' \<notin> set (show_int i)"
    "CHR ''N'' \<notin> set (show_int i)" "CHR ''y'' \<notin> set (show_int i)"
    using show_int_chars [of i] by (auto simp: is_digit_def)
  then show ?thesis by (auto simp: float_text_def)
qed

lemma atom_chars:
  "is_atom j \<Longrightarrow> wf_json j \<Longrightarrow> \<forall>c \<in> set (render j). \<not> delim_char c"
proof (cases j)
  case (JInt i)
  then show ?thesis using show_int_chars [of i]
    by (auto simp: number_char_def delim_char_def is_digit_def)
next
  case (JFloat s)
  assume "wf_json j"
  with JFloat show ?thesis
    by (auto simp: float_text_def list_all_iff delim_char_def number_char_def is_digit_def)
qed (auto simp: delim_char_def)

definition atom_start :: "char \<Rightarrow> bool" where
  "atom_start c \<longleftrightarrow> number_char c \<or> c \<in> set ''NIntf''"

lemma atom_first:
  "is_atom j \<Longrightarrow> wf_json j \<Longrightarrow> \<exists>c t. render j = c # t \<and> atom_start c"
proof (cases j)
  case (JInt i)
  obtain c t where "show_int i = c # t" by (cases "show_int i") (auto simp: show_int_def split: if_splits)
  with JInt show_int_start [of i c t] show ?thesis
    by (auto simp: atom_start_def number_char_def)
next
  case (JFloat s)
  assume "wf_json j"
  with JFloat show ?thesis
    by (cases s) (auto simp: atom_start_def float_text_def number_char_def)
qed (auto simp: atom_start_def)

lemma atom_inj:
  assumes "is_atom a" "wf_json a" "is_atom b" "wf_json b" "render a = render b"
  shows "a = b"
proof -
  have lit: "show_int i \<noteq> c # t" if "c \<in> set ''ntf''" for i c t
    using that show_int_start [of i c t] by (auto simp: is_digit_def)
  have fl: "\<not> float_text (c # t)" if "c \<in> set ''ntf''" for c t
    using that float_text_start [of c t] by (auto simp: number_char_def is_digit_def)
  show ?thesis
    using assms show_int_not_float
    by (cases a; cases b) (auto dest: show_int_inj simp: lit fl lit [symmetric] split: if_splits)
qed

text \<open>The first character tells atoms, strings, arrays and objects apart.\<close>

fun json_kind :: "json \<Rightarrow> nat" where
  "json_kind (JStr s) = 1"
| "json_kind (JArr xs) = 2"
| "json_kind (JObj kvs) = 3"
| "json_kind j = 0"

definition char_kind :: "char \<Rightarrow> nat" where
  "char_kind c = (if c = CHR 0x22 then 1 else if c = CHR ''['' then 2 else if c = CHR ''{'' then 3 else 0)"

lemma is_atom_kind: "is_atom j \<longleftrightarrow> json_kind j = 0"
  by (cases j) auto

lemma atom_start_kind: "atom_start c \<Longrightarrow> char_kind c = 0 \<and> \<not> delim_char c"
  by (auto simp: atom_start_def char_kind_def number_char_def is_digit_def delim_char_def)

lemma render_first:
  "wf_json j \<Longrightarrow> \<exists>c t. render j = c # t \<and> char_kind c = json_kind j \<and> \<not> delim_char c"
proof (cases "is_atom j")
  case True
  assume "wf_json j"
  with True obtain c t where "render j = c # t" "atom_start c" using atom_first by blast
  with True atom_start_kind [of c] show ?thesis by (simp add: is_atom_kind)
next
  case False
  then show ?thesis by (cases j) (simp_all add: quote_def char_kind_def delim_char_def)
qed

lemma render_not_delim: "wf_json j \<Longrightarrow> \<not> delim (render j)"
  using render_first [of j] by auto

lemma render_kind:
  "wf_json a \<Longrightarrow> wf_json b \<Longrightarrow> render a @ r = render b @ s \<Longrightarrow> json_kind a = json_kind b"
  using render_first [of a] render_first [of b] by auto

lemma kind_simps: "json_kind j = 1 \<longleftrightarrow> (\<exists>s. j = JStr s)" "json_kind j = 2 \<longleftrightarrow> (\<exists>xs. j = JArr xs)"
  "json_kind j = 3 \<longleftrightarrow> (\<exists>kvs. j = JObj kvs)"
  by (cases j; simp)+

lemma atoms_unique:
  assumes "is_atom a" "wf_json a" "wf_json b" "render a @ r = render b @ s" "delim r" "delim s"
  shows "a = b \<and> r = s"
proof -
  from assms have "is_atom b" using render_kind [of a b r s] by (simp add: is_atom_kind)
  with assms have "render a = render b \<and> r = s"
    by (intro token_split) (auto dest: atom_chars)
  with assms \<open>is_atom b\<close> show ?thesis by (auto intro: atom_inj)
qed

theorem render_unique:
  assumes "wf_json a" "wf_json b" "render a @ r = render b @ s" "delim r" "delim s"
  shows "a = b \<and> r = s"
  using assms
proof (induction a arbitrary: b r s)
  case (JArr xs)
  from render_kind [OF JArr.prems(1-3)] obtain ys where b: "b = JArr ys"
    by (auto simp: kind_simps dest!: sym [of 2])
  have "xs = ys \<and> r = s"
  proof (rule items_inj [where f = render and b = "CHR '']''" and ok = wf_json])
    fix x y r s assume "x \<in> set xs" "wf_json y" "render x @ r = render y @ s" "delim r" "delim s"
    moreover from \<open>x \<in> set xs\<close> JArr.prems have "wf_json x" by (auto simp: list_all_iff)
    ultimately show "x = y \<and> r = s" by (intro JArr.IH)
  qed (use JArr.prems b in \<open>auto simp: list_all_iff delim_char_def render_not_delim\<close>)
  with b show ?case by simp
next
  case (JObj kvs)
  from render_kind [OF JObj.prems(1-3)] obtain ys where b: "b = JObj ys"
    by (auto simp: kind_simps dest!: sym [of 3])
  let ?f = "\<lambda>(k, v). quote k @ '':'' @ render v"
  have "kvs = ys \<and> r = s"
  proof (rule items_inj [where f = ?f and b = "CHR ''}''" and ok = "\<lambda>(k, v). wf_json v"])
    fix x y r s
    assume x: "x \<in> set kvs" and y: "case y of (k, v) \<Rightarrow> wf_json v"
      and eq: "?f x @ r = ?f y @ s" and d: "delim r" "delim s"
    obtain k v where kv: "x = (k, v)" by (cases x)
    obtain k' v' where kv': "y = (k', v')" by (cases y)
    from eq kv kv' have "quote k @ CHR '':'' # render v @ r = quote k' @ CHR '':'' # render v' @ s"
      by simp
    then have k: "k = k'" and v: "render v @ r = render v' @ s"
      by (auto dest: quote_inj)
    from x kv JObj.prems have "wf_json v" by (auto simp: list_all_iff)
    with JObj.IH [of x v v' r s] x y kv kv' v d have "v = v' \<and> r = s" by (auto simp: snds.simps)
    with k kv kv' show "x = y \<and> r = s" by simp
  qed (use JObj.prems b in \<open>auto simp: list_all_iff delim_char_def quote_def\<close>)
  with b show ?case by simp
next
  case (JStr t)
  from render_kind [OF JStr.prems(1-3)] have "json_kind b = 1" by simp
  then obtain u where b: "b = JStr u"
    unfolding kind_simps by blast
  with JStr.prems show ?case by (auto dest: quote_inj)
qed (rule atoms_unique; simp)+

section \<open>The canonical text determines the value\<close>

lemma map_of_sort_key:
  "distinct (map fst kvs) \<Longrightarrow> map_of (sort_key fst kvs) = map_of kvs"
  by (rule map_of_eqI) (auto simp: distinct_map image_iff intro!: map_of_is_SomeI)

lemma distinct_sort_fst: "distinct (map f (sort_key g xs)) = distinct (map f xs)"
  by (simp add: distinct_map)

lemma map_fst_val: "map fst (map (\<lambda>(k, v). (k, g v)) xs) = map fst xs"
  by (induction xs) auto

lemma wf_canonical: "wf_json j \<Longrightarrow> wf_json (canonical j)"
proof (induction j)
  case (JObj kvs)
  have "\<forall>x \<in> set kvs. wf_json (canonical (snd x))"
    using JObj by (auto simp: list_all_iff snds.simps)
  with JObj.prems show ?case
    by (auto simp: list_all_iff distinct_sort_fst map_fst_val simp del: map_map)
qed (auto simp: list_all_iff)

theorem json_dumps_canonical:
  assumes "wf_json a" "wf_json b"
  shows "json_dumps a = json_dumps b \<longleftrightarrow> canonical a = canonical b"
proof
  assume "json_dumps a = json_dumps b"
  then have "render (canonical a) @ [] = render (canonical b) @ []"
    by (simp add: json_dumps_render)
  with assms show "canonical a = canonical b"
    by (blast intro: render_unique [THEN conjunct1] wf_canonical delim_simps)
qed (simp add: json_dumps_render)

text \<open>
  For dictionaries: equal canonical texts have equal values at every key, again up to the
  order of keys inside the values.
\<close>

lemma map_of_map_val: "map_of (map (\<lambda>(k, v). (k, g v)) kvs) k = map_option g (map_of kvs k)"
  by (induction kvs) auto

lemma canonical_lookup:
  assumes "canonical (JObj a) = canonical (JObj b)" "distinct (map fst a)" "distinct (map fst b)"
  shows "map_option canonical (map_of a k) = map_option canonical (map_of b k)"
proof -
  have *: "map_of (sort_key fst (map (\<lambda>(k, v). (k, canonical v)) c)) k = map_option canonical (map_of c k)"
    if "distinct (map fst c)" for c :: "(string \<times> json) list"
    using that by (simp only: map_of_sort_key map_fst_val map_of_map_val)
  from * [OF assms(2)] * [OF assms(3)] assms(1) show ?thesis by simp
qed

lemma json_dumps_lookup:
  "wf_json (JObj a) \<Longrightarrow> wf_json (JObj b) \<Longrightarrow> json_dumps (JObj a) = json_dumps (JObj b) \<Longrightarrow>
   map_option canonical (map_of a k) = map_option canonical (map_of b k)"
  by (rule canonical_lookup) (simp_all only: json_dumps_canonical wf_json.simps)

end
