(* ===== verification/Clock.thy ===== *)
theory Clock
  imports Json
begin

text \<open>
  Python's \<open>datetime\<close>: an instant is a number of microseconds since the Unix epoch; a
  \<open>datetime\<close> value is naive (no \<open>tzinfo\<close>) or aware with an offset from UTC.  \<open>as_utc\<close> is
  \<open>security/sessions.py:as_utc\<close>; \<open>isoformat_utc\<close> is the text \<open>datetime.isoformat()\<close> gives
  for a UTC value, which \<open>audit/service.py:event_hash\<close> feeds to the hash.  The text
  determines the instant (\<open>isoformat_utc_inj\<close>), so a changed timestamp changes the hashed
  payload.
\<close>

datatype datetime = Naive int | Aware int int

fun as_utc :: "datetime \<Rightarrow> datetime" where
  "as_utc (Naive t) = Aware 0 t"
| "as_utc (Aware off t) = Aware 0 (t - off)"

text \<open>The instant an aware value denotes; naive values are read as UTC, as the code does.\<close>

fun instant :: "datetime \<Rightarrow> int" where
  "instant (Naive t) = t"
| "instant (Aware off t) = t - off"

definition now_utc :: "int \<Rightarrow> datetime" where
  "now_utc t = Aware 0 t"

fun add_seconds :: "datetime \<Rightarrow> int \<Rightarrow> datetime" where
  "add_seconds (Naive t) s = Naive (t + s * 1000000)"
| "add_seconds (Aware off t) s = Aware off (t + s * 1000000)"

definition from_timestamp :: "int \<Rightarrow> datetime" where
  "from_timestamp s = Aware 0 (s * 1000000)"

lemma instant_as_utc [simp]: "instant (as_utc d) = instant d"
  by (cases d) auto

lemma as_utc_instant: "as_utc d = Aware 0 (instant d)"
  by (cases d) auto

lemma instant_now [simp]: "instant (now_utc t) = t"
  by (simp add: now_utc_def)

lemma instant_add_seconds [simp]: "instant (add_seconds d s) = instant d + s * 1000000"
  by (cases d) auto

lemma instant_from_timestamp [simp]: "instant (from_timestamp s) = s * 1000000"
  by (simp add: from_timestamp_def)

section \<open>Civil dates\<close>

definition leap_year :: "nat \<Rightarrow> bool" where
  "leap_year y \<longleftrightarrow> y mod 4 = 0 \<and> (y mod 100 \<noteq> 0 \<or> y mod 400 = 0)"

definition year_length :: "nat \<Rightarrow> nat" where
  "year_length y = (if leap_year y then 366 else 365)"

lemma year_length_pos [simp]: "0 < year_length y"
  by (simp add: year_length_def)

definition month_lengths :: "nat \<Rightarrow> nat list" where
  "month_lengths y = [31, if leap_year y then 29 else 28, 31, 30, 31, 30, 31, 31, 30, 31, 30, 31]"

text \<open>Years and months are peeled off the day count; both give back the day of the rest.\<close>

function split_years :: "nat \<Rightarrow> nat \<Rightarrow> nat \<times> nat" where
  "split_years y n = (if n < year_length y then (y, n) else split_years (Suc y) (n - year_length y))"
  by pat_completeness auto
termination
  by (relation "measure snd") (auto simp: not_less intro!: diff_less intro: less_le_trans [OF year_length_pos])

declare split_years.simps [simp del]

fun split_months :: "nat list \<Rightarrow> nat \<Rightarrow> nat \<Rightarrow> nat \<times> nat" where
  "split_months [] m n = (m, n)"
| "split_months (l # ls) m n = (if n < l then (m, n) else split_months ls (Suc m) (n - l))"

definition civil_date :: "nat \<Rightarrow> nat \<times> nat \<times> nat" where
  "civil_date d =
     (let (y, doy) = split_years 1 d;
          (m, dom) = split_months (month_lengths y) 1 doy
      in (y, m, Suc dom))"

lemma split_years_total:
  "split_years y n = (y', r) \<Longrightarrow>
   y \<le> y' \<and> r < year_length y' \<and> n + sum year_length {0..<y} = r + sum year_length {0..<y'}"
proof (induction y n arbitrary: y' r rule: split_years.induct)
  case (1 y n)
  show ?case
  proof (cases "n < year_length y")
    case True
    with 1 show ?thesis by (simp add: split_years.simps [of y n])
  next
    case False
    with 1 show ?thesis by (auto simp: split_years.simps [of y n])
  qed
qed

lemma split_months_total:
  "split_months ls m n = (m', r) \<Longrightarrow>
   m \<le> m' \<and> m' \<le> m + length ls \<and> n = r + sum_list (take (m' - m) ls)"
proof (induction ls m n arbitrary: m' r rule: split_months.induct)
  case (2 l ls m n)
  show ?case
  proof (cases "n < l")
    case True
    with 2 show ?thesis by simp
  next
    case False
    with 2 have IH: "Suc m \<le> m' \<and> m' \<le> Suc m + length ls \<and> n - l = r + sum_list (take (m' - Suc m) ls)"
      by simp
    then have "m' - m = Suc (m' - Suc m)" by arith
    moreover have "n = l + (n - l)" using False by simp
    ultimately show ?thesis using IH by simp
  qed
qed simp

lemma split_months_day:
  "split_months ls m n = (m', r) \<Longrightarrow> n < sum_list ls \<Longrightarrow> \<forall>l \<in> set ls. l \<le> 31 \<Longrightarrow> r < 31"
  by (induction ls m n rule: split_months.induct) (auto split: if_splits)

lemma sum_month_lengths: "sum_list (month_lengths y) = year_length y"
  by (simp add: month_lengths_def year_length_def)

lemma civil_date_inj:
  assumes "civil_date d = civil_date d'"
  shows "d = d'"
proof -
  obtain y r where y: "split_years 1 d = (y, r)" by fastforce
  obtain y' r' where y': "split_years 1 d' = (y', r')" by fastforce
  obtain m k where m: "split_months (month_lengths y) 1 r = (m, k)" by fastforce
  obtain m' k' where m': "split_months (month_lengths y') 1 r' = (m', k')" by fastforce
  from assms y y' m m' have eq: "y = y'" "m = m'" "k = k'"
    by (simp_all add: civil_date_def)
  with split_months_total [OF m] split_months_total [OF m'] have "r = r'" by simp
  with eq split_years_total [OF y] split_years_total [OF y'] show ?thesis by simp
qed

lemma civil_date_bounds:
  assumes "civil_date d = (y, m, k)"
  shows "m < 100 \<and> k < 100"
proof -
  obtain r where y: "split_years 1 d = (y, r)" and m: "split_months (month_lengths y) 1 r = (m, k - 1)"
    using assms by (auto simp: civil_date_def split: prod.splits)
  have "\<forall>l \<in> set (month_lengths y). l \<le> 31" by (simp add: month_lengths_def)
  then have "k - 1 < 31"
    using split_months_day [OF m] split_years_total [OF y] by (simp add: sum_month_lengths)
  moreover have "m \<le> 1 + length (month_lengths y)" using split_months_total [OF m] by simp
  ultimately show ?thesis by (simp add: month_lengths_def)
qed

section \<open>The ISO text of a UTC instant\<close>

text \<open>\<open>pad_nat w n\<close>: the \<open>w\<close> decimal digits of \<open>n\<close>, zero-padded.\<close>

fun pad_nat :: "nat \<Rightarrow> nat \<Rightarrow> string" where
  "pad_nat 0 n = []"
| "pad_nat (Suc w) n = pad_nat w (n div 10) @ [digit_char (n mod 10)]"

definition epoch_microseconds :: int where
  "epoch_microseconds = 719162 * 86400 * 1000000"

definition clock_time :: "int \<Rightarrow> nat" where
  "clock_time t = nat (t + epoch_microseconds)"

definition iso_text :: "nat \<times> nat \<times> nat \<Rightarrow> nat \<Rightarrow> nat \<Rightarrow> string" where
  "iso_text date sec us =
     (case date of (y, m, d) \<Rightarrow>
        pad_nat 4 y @ ''-'' @ pad_nat 2 m @ ''-'' @ pad_nat 2 d @ ''T'' @
        pad_nat 2 (sec div 3600) @ '':'' @ pad_nat 2 (sec mod 3600 div 60) @ '':'' @
        pad_nat 2 (sec mod 60) @
        (if us = 0 then [] else ''.'' @ pad_nat 6 us) @ ''+00:00'')"

definition isoformat_utc :: "int \<Rightarrow> string" where
  "isoformat_utc t =
     (let u = clock_time t
      in iso_text (civil_date (u div 86400000000)) (u div 1000000 mod 86400) (u mod 1000000))"

text \<open>Python's \<open>datetime\<close> covers the years 1 to 9999.\<close>

definition valid_instant :: "int \<Rightarrow> bool" where
  "valid_instant t \<longleftrightarrow>
     0 \<le> t + epoch_microseconds \<and> fst (civil_date (clock_time t div 86400000000)) \<le> 9999"

lemma length_pad_nat [simp]: "length (pad_nat w n) = w"
  by (induction w arbitrary: n) auto

lemma pad_nat_inj: "pad_nat w m = pad_nat w n \<Longrightarrow> m < 10 ^ w \<Longrightarrow> n < 10 ^ w \<Longrightarrow> m = n"
proof (induction w arbitrary: m n)
  case (Suc w)
  from Suc.prems(1) have d: "pad_nat w (m div 10) = pad_nat w (n div 10)"
    and l: "digit_char (m mod 10) = digit_char (n mod 10)" by simp_all
  from l have "digit_value (digit_char (m mod 10)) = digit_value (digit_char (n mod 10))" by simp
  then have "m mod 10 = n mod 10" by simp
  moreover have "m div 10 = n div 10"
    using d Suc.prems by (intro Suc.IH) (auto simp: less_mult_imp_div_less mult.commute)
  ultimately show ?case by (metis div_mult_mod_eq)
qed simp

lemma seconds_of_day: "(s::nat) = 3600 * (s div 3600) + 60 * (s mod 3600 div 60) + s mod 60"
proof -
  have "s mod 3600 = 60 * (s mod 3600 div 60) + s mod 3600 mod 60" by simp
  moreover have "s mod 3600 mod 60 = s mod 60" by (simp add: mod_mod_cancel)
  moreover have "s = 3600 * (s div 3600) + s mod 3600" by simp
  ultimately show ?thesis by linarith
qed

lemma iso_text_inj:
  assumes "iso_text (y, m, d) s u = iso_text (y', m', d') s' u'"
    and "y < 10000" "y' < 10000" "m < 100" "m' < 100" "d < 100" "d' < 100"
    and "s < 86400" "s' < 86400" "u < 1000000" "u' < 1000000"
  shows "y = y' \<and> m = m' \<and> d = d' \<and> s = s' \<and> u = u'"
proof -
  have parts: "pad_nat 4 y = pad_nat 4 y'" "pad_nat 2 m = pad_nat 2 m'" "pad_nat 2 d = pad_nat 2 d'"
    "pad_nat 2 (s div 3600) = pad_nat 2 (s' div 3600)"
    "pad_nat 2 (s mod 3600 div 60) = pad_nat 2 (s' mod 3600 div 60)"
    "pad_nat 2 (s mod 60) = pad_nat 2 (s' mod 60)"
    "(if u = 0 then [] else ''.'' @ pad_nat 6 u) = (if u' = 0 then [] else ''.'' @ pad_nat 6 u')"
    using assms(1) by (simp_all add: iso_text_def append_eq_append_conv del: pad_nat.simps)
  have "s div 3600 = s' div 3600" "s mod 3600 div 60 = s' mod 3600 div 60" "s mod 60 = s' mod 60"
    using parts assms by (auto intro!: pad_nat_inj [where w = 2])
  then have "s = s'" by (metis seconds_of_day)
  moreover have "u = u'"
  proof (cases "u = 0 \<or> u' = 0")
    case True
    with parts(7) show ?thesis by (auto split: if_splits)
  next
    case False
    with parts(7) have "pad_nat 6 u = pad_nat 6 u'" by simp
    with assms show ?thesis by (auto intro: pad_nat_inj [where w = 6])
  qed
  moreover have "y = y'" using parts(1) assms by (auto intro: pad_nat_inj [where w = 4])
  moreover have "m = m'" using parts(2) assms by (auto intro: pad_nat_inj [where w = 2])
  moreover have "d = d'" using parts(3) assms by (auto intro: pad_nat_inj [where w = 2])
  ultimately show ?thesis by simp
qed

lemma microseconds_of_day:
  "(u::nat) = 86400000000 * (u div 86400000000) + 1000000 * (u div 1000000 mod 86400) + u mod 1000000"
proof -
  have "u div 1000000 = 86400 * (u div 1000000 div 86400) + u div 1000000 mod 86400" by simp
  moreover have "u div 1000000 div 86400 = u div 86400000000" by (simp add: div_mult2_eq [symmetric])
  moreover have "u = 1000000 * (u div 1000000) + u mod 1000000" by simp
  ultimately show ?thesis by linarith
qed

theorem isoformat_utc_inj:
  assumes "isoformat_utc t = isoformat_utc t'" "valid_instant t" "valid_instant t'"
  shows "t = t'"
proof -
  let ?u = "clock_time t" and ?u' = "clock_time t'"
  obtain y m d where c: "civil_date (?u div 86400000000) = (y, m, d)" by (metis prod_cases3)
  obtain y' m' d' where c': "civil_date (?u' div 86400000000) = (y', m', d')" by (metis prod_cases3)
  have eq: "y = y' \<and> m = m' \<and> d = d' \<and> ?u div 1000000 mod 86400 = ?u' div 1000000 mod 86400 \<and>
      ?u mod 1000000 = ?u' mod 1000000"
    using assms c c' civil_date_bounds [OF c] civil_date_bounds [OF c']
    by (intro iso_text_inj) (simp_all add: isoformat_utc_def Let_def valid_instant_def)
  with c c' have "?u div 86400000000 = ?u' div 86400000000" by (auto intro: civil_date_inj)
  with eq have "?u = ?u'" using microseconds_of_day [of ?u] microseconds_of_day [of ?u'] by simp
  with assms show ?thesis by (simp add: clock_time_def valid_instant_def eq_nat_nat_iff)
qed

text \<open>Every instant before the year 9990 or so is valid, without computing its date.\<close>

lemma years_le_days: "365 * n \<le> sum year_length {0..<n}"
  by (induction n) (auto simp: year_length_def)

lemma valid_instantI:
  assumes "0 \<le> t + epoch_microseconds" "clock_time t div 86400000000 \<le> 3649000"
  shows "valid_instant t"
proof -
  let ?d = "clock_time t div 86400000000"
  obtain y r where y: "split_years 1 ?d = (y, r)" by fastforce
  then have "?d + year_length 0 = r + sum year_length {0..<y}"
    using split_years_total [OF y] by simp
  with years_le_days [of y] assms have "365 * y \<le> 3649000 + 366"
    by (simp add: year_length_def split: if_splits)
  then have "y \<le> 9999" by simp
  with y assms show ?thesis by (simp add: valid_instant_def civil_date_def split: prod.splits)
qed

text \<open>Clock readings from 1970 into the 99th century; every one has a calendar date.\<close>

definition clock_reading :: "int \<Rightarrow> bool" where
  "clock_reading t \<longleftrightarrow> 0 \<le> t \<and> t < 250000000000000000"

lemma clock_reading_valid: "clock_reading t \<Longrightarrow> valid_instant t"
  by (rule valid_instantI) (auto simp: clock_reading_def clock_time_def epoch_microseconds_def)

lemma clock_reading_seconds: "clock_reading t \<Longrightarrow> clock_reading (t div 1000000 * 1000000)"
  by (auto simp: clock_reading_def)

lemma pad_nat_numeral:
  "pad_nat (numeral k) n = pad_nat (pred_numeral k) (n div 10) @ [digit_char (n mod 10)]"
  by (simp only: numeral_eq_Suc [of k] pad_nat.simps)

lemma isoformat_leap_day:
  "isoformat_utc (1154 * 86400000000 + 3661000007 - epoch_microseconds) =
     ''0004-02-29T01:01:01.000007+00:00''"
proof -
  have "civil_date 1154 = (4, 2, 29)"
    by (simp add: civil_date_def split_years.simps year_length_def leap_year_def month_lengths_def)
  then show ?thesis
    by (simp add: isoformat_utc_def iso_text_def clock_time_def pad_nat_numeral digit_char_def char_of_def bit_0)
qed

end
