(* ===== verification/Domain.thy ===== *)
theory Domain
  imports Clock
begin

text \<open>
  The data of the permission proxy and the sample CRM: the enumerations of
  \<open>domain/enums.py\<close>, one record per table of \<open>domain/models.py\<close> and
  \<open>sample_crm/domain/models.py\<close>, and the database as the record of its tables.  The columns
  that the database server fills and no code of \<open>src/\<close> reads (\<open>created_at\<close> and
  \<open>updated_at\<close> of \<open>TimestampMixin\<close> and of the customers, \<open>created_at\<close> of a manifest)
  are left out.  Field prefixes: \<open>ag\<close> Agent, \<open>td\<close> ToolDefinition, \<open>pm\<close>
  PermissionManifest, \<open>se\<close> AgentSession, \<open>ev\<close> ToolCallAuditEvent, \<open>cu\<close> CRMCustomer.
\<close>

section \<open>Enumerations\<close>

datatype agent_status = AgentActive | AgentSuspended | AgentDecommissioned

datatype tool_status = ToolActive | ToolDisabled

datatype manifest_status = ManifestDraft | ManifestActive | ManifestSuperseded | ManifestRevoked

datatype session_status = SessionActive | SessionExpired | SessionRevoked

datatype audit_decision = DecisionAllow | DecisionBlock | DecisionError

datatype execution_status =
    ExecNotForwarded
  | ExecAuthorized
  | ExecExecuted
  | ExecToolFailed
  | ExecTimedOut

fun agent_status_value :: "agent_status \<Rightarrow> string" where
  "agent_status_value AgentActive = ''active''"
| "agent_status_value AgentSuspended = ''suspended''"
| "agent_status_value AgentDecommissioned = ''decommissioned''"

fun manifest_status_value :: "manifest_status \<Rightarrow> string" where
  "manifest_status_value ManifestDraft = ''draft''"
| "manifest_status_value ManifestActive = ''active''"
| "manifest_status_value ManifestSuperseded = ''superseded''"
| "manifest_status_value ManifestRevoked = ''revoked''"

fun session_status_value :: "session_status \<Rightarrow> string" where
  "session_status_value SessionActive = ''active''"
| "session_status_value SessionExpired = ''expired''"
| "session_status_value SessionRevoked = ''revoked''"

fun audit_decision_value :: "audit_decision \<Rightarrow> string" where
  "audit_decision_value DecisionAllow = ''allow''"
| "audit_decision_value DecisionBlock = ''block''"
| "audit_decision_value DecisionError = ''error''"

fun execution_status_value :: "execution_status \<Rightarrow> string" where
  "execution_status_value ExecNotForwarded = ''not_forwarded''"
| "execution_status_value ExecAuthorized = ''authorized''"
| "execution_status_value ExecExecuted = ''executed''"
| "execution_status_value ExecToolFailed = ''tool_failed''"
| "execution_status_value ExecTimedOut = ''timed_out''"

lemma audit_decision_value_inj: "audit_decision_value s = audit_decision_value t \<Longrightarrow> s = t"
  by (cases s; cases t) auto

lemma execution_status_value_inj: "execution_status_value s = execution_status_value t \<Longrightarrow> s = t"
  by (cases s; cases t) auto

text \<open>The life cycle of a manifest as an order: a status is followed only by greater ones.\<close>

fun status_rank :: "manifest_status \<Rightarrow> nat" where
  "status_rank ManifestDraft = 0"
| "status_rank ManifestActive = 1"
| "status_rank ManifestSuperseded = 2"
| "status_rank ManifestRevoked = 3"

lemma status_rank_inj: "status_rank s = status_rank t \<Longrightarrow> s = t"
  by (cases s; cases t) auto

instantiation manifest_status :: linorder
begin

definition less_eq_manifest_status :: "manifest_status \<Rightarrow> manifest_status \<Rightarrow> bool" where
  less_eq_manifest_status_rank [simp]: "less_eq_manifest_status s t \<longleftrightarrow> status_rank s \<le> status_rank t"

definition less_manifest_status :: "manifest_status \<Rightarrow> manifest_status \<Rightarrow> bool" where
  less_manifest_status_rank [simp]: "less_manifest_status s t \<longleftrightarrow> status_rank s < status_rank t"

instance
  by standard (auto intro: status_rank_inj)

end

section \<open>Rows\<close>

record agent =
  ag_id :: string
  ag_oidc_subject :: string
  ag_name :: string
  ag_owning_team :: string
  ag_status :: agent_status

record tool_definition =
  td_id :: string
  td_name :: string
  td_adapter_type :: string
  td_private_base_url :: string
  td_allowed_operations :: "string list"
  td_request_schema :: json
  td_response_schema :: json
  td_status :: tool_status

record permission_manifest =
  pm_id :: string
  pm_agent_id :: string
  pm_version :: int
  pm_status :: manifest_status
  pm_document :: json
  pm_checksum :: string
  pm_effective_from :: datetime
  pm_expires_at :: "datetime option"
  pm_created_by :: string
  pm_approved_by :: "string option"
  pm_change_reason :: string
  pm_activated_at :: "datetime option"

record agent_session =
  se_id :: string
  se_token_jti :: string
  se_agent_id :: string
  se_user_id :: string
  se_customer_id :: string
  se_created_by_subject :: string
  se_status :: session_status
  se_created_at :: datetime
  se_expires_at :: datetime
  se_revoked_at :: "datetime option"

record audit_event =
  ev_id :: string
  ev_request_id :: string
  ev_idempotency_key :: string
  ev_sequence :: int
  ev_timestamp :: datetime
  ev_agent_id :: string
  ev_session_id :: "string option"
  ev_user_id :: "string option"
  ev_tool :: string
  ev_operation :: string
  ev_sanitized_parameters :: json
  ev_decision :: audit_decision
  ev_reason_code :: string
  ev_matched_manifest_id :: "string option"
  ev_policy_checksum :: "string option"
  ev_execution_status :: execution_status
  ev_upstream_status_code :: "int option"
  ev_decision_latency_ms :: "int option"
  ev_total_latency_ms :: "int option"
  ev_trace_id :: "string option"
  ev_previous_record_hash :: "string option"
  ev_record_hash :: string

record crm_customer =
  cu_id :: string
  cu_name :: string
  cu_email :: string
  cu_support_tier :: string
  cu_address :: string

section \<open>The database\<close>

text \<open>
  The backend is a parameter: \<open>db_store_time\<close> is what a \<open>DateTime(timezone=True)\<close> column
  gives back for a value written to it (SQLite drops the offset, PostgreSQL converts to the
  session time zone), \<open>db_checks_width\<close> says whether \<open>String(n)\<close> widths are enforced
  (PostgreSQL does, SQLite does not).  The code relies on \<open>faithful_time\<close>: a UTC value comes
  back denoting the same instant, possibly without its offset.
\<close>

record database =
  db_store_time :: "datetime \<Rightarrow> datetime"
  db_checks_width :: bool
  db_agents :: "agent list"
  db_tools :: "tool_definition list"
  db_manifests :: "permission_manifest list"
  db_sessions :: "agent_session list"
  db_events :: "audit_event list"
  db_customers :: "crm_customer list"

definition faithful_time :: "database \<Rightarrow> bool" where
  "faithful_time db \<longleftrightarrow> (\<forall>t. instant (db_store_time db (Aware 0 t)) = t)"

text \<open>The two backends the code is run on.\<close>

fun sqlite_time :: "datetime \<Rightarrow> datetime" where
  "sqlite_time (Naive t) = Naive t"
| "sqlite_time (Aware off t) = Naive t"

fun postgres_time :: "int \<Rightarrow> datetime \<Rightarrow> datetime" where
  "postgres_time tz (Naive t) = Aware tz t"
| "postgres_time tz (Aware off t) = Aware tz (t - off + tz)"

lemma sqlite_time_faithful: "instant (sqlite_time (Aware 0 t)) = t"
  by simp

lemma postgres_time_faithful: "instant (postgres_time tz (Aware 0 t)) = t"
  by simp

definition empty_database :: "(datetime \<Rightarrow> datetime) \<Rightarrow> bool \<Rightarrow> database" where
  "empty_database st w =
     \<lparr>db_store_time = st, db_checks_width = w, db_agents = [], db_tools = [],
      db_manifests = [], db_sessions = [], db_events = [], db_customers = []\<rparr>"

end
