(* ===== verification/Sha256.thy ===== *)
theory Sha256
  imports Json "HOL-Library.Word"
begin

text \<open>
  \<open>hashlib.sha256(data).hexdigest()\<close> of Python's standard library, as FIPS 180-4 defines
  it, on 32-bit words.  Both digests of the program go through it: \<open>manifest_checksum\<close> and
  \<open>event_hash\<close>.  Nothing in the development assumes that it is free of collisions; the
  tamper results name the two texts that would have to collide.
\<close>

unbundle bit_operations_syntax

type_synonym u32 = "32 word"

definition rotr32 :: "nat \<Rightarrow> u32 \<Rightarrow> u32" where
  "rotr32 n x = (drop_bit n x) OR (push_bit (32 - n) x)"

definition ch32 :: "u32 \<Rightarrow> u32 \<Rightarrow> u32 \<Rightarrow> u32" where
  "ch32 x y z = (x AND y) XOR ((NOT x) AND z)"

definition maj32 :: "u32 \<Rightarrow> u32 \<Rightarrow> u32 \<Rightarrow> u32" where
  "maj32 x y z = (x AND y) XOR (x AND z) XOR (y AND z)"

definition big_sigma0 :: "u32 \<Rightarrow> u32" where
  "big_sigma0 x = rotr32 2 x XOR rotr32 13 x XOR rotr32 22 x"

definition big_sigma1 :: "u32 \<Rightarrow> u32" where
  "big_sigma1 x = rotr32 6 x XOR rotr32 11 x XOR rotr32 25 x"

definition small_sigma0 :: "u32 \<Rightarrow> u32" where
  "small_sigma0 x = rotr32 7 x XOR rotr32 18 x XOR drop_bit 3 x"

definition small_sigma1 :: "u32 \<Rightarrow> u32" where
  "small_sigma1 x = rotr32 17 x XOR rotr32 19 x XOR drop_bit 10 x"

definition round_constants :: "u32 list" where
  "round_constants =
    [1116352408, 1899447441, 3049323471, 3921009573, 961987163, 1508970993, 2453635748, 2870763221,
     3624381080, 310598401, 607225278, 1426881987, 1925078388, 2162078206, 2614888103, 3248222580,
     3835390401, 4022224774, 264347078, 604807628, 770255983, 1249150122, 1555081692, 1996064986,
     2554220882, 2821834349, 2952996808, 3210313671, 3336571891, 3584528711, 113926993, 338241895,
     666307205, 773529912, 1294757372, 1396182291, 1695183700, 1986661051, 2177026350, 2456956037,
     2730485921, 2820302411, 3259730800, 3345764771, 3516065817, 3600352804, 4094571909, 275423344,
     430227734, 506948616, 659060556, 883997877, 958139571, 1322822218, 1537002063, 1747873779,
     1955562222, 2024104815, 2227730452, 2361852424, 2428436474, 2756734187, 3204031479, 3329325298]"

datatype hash_state = HashState u32 u32 u32 u32 u32 u32 u32 u32

definition initial_state :: hash_state where
  "initial_state = HashState 1779033703 3144134277 1013904242 2773480762
                             1359893119 2600822924 528734635 1541459225"

text \<open>The message schedule, most recent word first.\<close>

fun schedule :: "nat \<Rightarrow> u32 list \<Rightarrow> u32 list" where
  "schedule 0 ws = ws"
| "schedule (Suc n) ws =
     schedule n ((small_sigma1 (ws ! 1) + ws ! 6 + small_sigma0 (ws ! 14) + ws ! 15) # ws)"

fun sha_round :: "hash_state \<Rightarrow> u32 \<times> u32 \<Rightarrow> hash_state" where
  "sha_round (HashState a b c d e f g h) (k, w) =
     (let t1 = h + big_sigma1 e + ch32 e f g + k + w;
          t2 = big_sigma0 a + maj32 a b c
      in HashState (t1 + t2) a b c (d + t1) e f g)"

fun add_state :: "hash_state \<Rightarrow> hash_state \<Rightarrow> hash_state" where
  "add_state (HashState a b c d e f g h) (HashState a' b' c' d' e' f' g' h') =
     HashState (a + a') (b + b') (c + c') (d + d') (e + e') (f + f') (g + g') (h + h')"

definition compress :: "hash_state \<Rightarrow> u32 list \<Rightarrow> hash_state" where
  "compress st block =
     add_state st (foldl sha_round st (zip round_constants (rev (schedule 48 (rev block)))))"

definition be_bytes :: "nat \<Rightarrow> nat \<Rightarrow> nat list" where
  "be_bytes w n = map (\<lambda>i. n div 256 ^ (w - 1 - i) mod 256) [0..<w]"

definition pad_message :: "nat list \<Rightarrow> nat list" where
  "pad_message m =
     m @ [128] @ replicate ((119 - length m mod 64) mod 64) 0 @ be_bytes 8 (8 * length m)"

fun to_words :: "nat list \<Rightarrow> u32 list" where
  "to_words (a # b # c # d # r) =
     of_nat (((a * 256 + b) * 256 + c) * 256 + d) # to_words r"
| "to_words _ = []"

fun digest_blocks :: "nat \<Rightarrow> hash_state \<Rightarrow> u32 list \<Rightarrow> hash_state" where
  "digest_blocks 0 st ws = st"
| "digest_blocks (Suc n) st ws = digest_blocks n (compress st (take 16 ws)) (drop 16 ws)"

fun state_words :: "hash_state \<Rightarrow> u32 list" where
  "state_words (HashState a b c d e f g h) = [a, b, c, d, e, f, g, h]"

definition hex_word :: "u32 \<Rightarrow> string" where
  "hex_word w =
     concat (map (\<lambda>b. [hex_char (b div 16), hex_char (b mod 16)]) (be_bytes 4 (unat w)))"

definition sha256_hex :: "string \<Rightarrow> string" where
  "sha256_hex s =
     (let ws = to_words (pad_message (map of_char s))
      in concat (map hex_word (state_words (digest_blocks (length ws div 16) initial_state ws))))"

section \<open>Shape of the digest\<close>

text \<open>
  A digest has 64 characters, the width of the \<open>checksum\<close>, \<open>policy_checksum\<close>,
  \<open>previous_record_hash\<close> and \<open>record_hash\<close> columns.
\<close>

lemma length_concat_const:
  "\<forall>x \<in> set xs. length (f x) = n \<Longrightarrow> length (concat (map f xs)) = n * length xs"
  by (induction xs) auto

lemma length_be_bytes [simp]: "length (be_bytes w n) = w"
  by (simp add: be_bytes_def)

lemma length_hex_word: "length (hex_word w) = 8"
  unfolding hex_word_def by (subst length_concat_const [where n = 2]) simp_all

lemma length_state_words: "length (state_words st) = 8"
  by (cases st) simp

lemma length_sha256_hex [simp]: "length (sha256_hex s) = 64"
  unfolding sha256_hex_def Let_def
  by (subst length_concat_const [where n = 8]) (simp_all add: length_hex_word length_state_words)

end
