(* ===== verification/Store.thy ===== *)
theory Store
  imports Domain Sha256 "HOL-Library.Product_Lexorder"
begin

text \<open>
  \<open>common/database.py:Database.session\<close> (commit on success, rollback on any exception) and
  the repositories of \<open>persistence/repositories.py\<close> and \<open>sample_crm/persistence\<close>.  An
  \<open>add\<close> is \<open>session.add\<close> followed by \<open>session.flush\<close>: it raises when the row violates a
  constraint \<open>models.py\<close> declares (primary and unique keys, foreign keys, checks, the partial
  unique index on active manifests, column widths) and appends the row otherwise.  The
  locale \<open>repository\<close> states what a caller relies on; it is interpreted on each of the
  six tables.  The invariant \<open>db_wf\<close> collects the declared constraints.
\<close>

section \<open>Transactions\<close>

definition in_session :: "(database \<Rightarrow> 'a res \<times> database) \<Rightarrow> database \<Rightarrow> 'a res \<times> database" where
  "in_session body db =
     (case body db of
        (Inl e, db') \<Rightarrow> (Inl e, db)
      | (Inr x, db') \<Rightarrow> (Inr x, db'))"

lemma in_session_Inl: "fst (in_session body db) = Inl e \<Longrightarrow> snd (in_session body db) = db"
  by (auto simp: in_session_def split: prod.splits sum.splits)

lemma in_session_Inr:
  "in_session body db = (Inr x, db') \<longleftrightarrow> body db = (Inr x, db')"
  by (auto simp: in_session_def split: prod.splits sum.splits)

section \<open>Constraints\<close>

text \<open>The constraints of a flush in order; the first one violated is raised.\<close>

fun check_constraints :: "(bool \<times> py_exn) list \<Rightarrow> unit res" where
  "check_constraints [] = Inr ()"
| "check_constraints ((ok, e) # cs) = (if ok then check_constraints cs else Inl e)"

lemma check_constraints_ok: "check_constraints cs = Inr u \<longleftrightarrow> list_all fst cs"
  by (induction cs rule: check_constraints.induct) auto

lemma check_constraints_err: "check_constraints cs = Inl e \<Longrightarrow> e \<in> snd ` set cs"
  by (induction cs rule: check_constraints.induct) (auto split: if_splits)

definition widths_ok :: "database \<Rightarrow> (nat \<times> string) list \<Rightarrow> bool" where
  "widths_ok db cols \<longleftrightarrow> \<not> db_checks_width db \<or> list_all (\<lambda>(n, s). length s \<le> n) cols"

fun opt_col :: "nat \<Rightarrow> string option \<Rightarrow> (nat \<times> string) list" where
  "opt_col n None = []"
| "opt_col n (Some s) = [(n, s)]"

definition insert_row :: "(bool \<times> py_exn) list \<Rightarrow> (database \<Rightarrow> database) \<Rightarrow> 'r \<Rightarrow> database
    \<Rightarrow> 'r res \<times> database" where
  "insert_row cs put r db =
     (case check_constraints cs of Inl e \<Rightarrow> (Inl e, db) | Inr _ \<Rightarrow> (Inr r, put db))"

lemma insert_row_Inr:
  "insert_row cs put r db = (Inr x, db') \<longleftrightarrow> list_all fst cs \<and> x = r \<and> db' = put db"
  by (cases "check_constraints cs")
    (auto simp: insert_row_def check_constraints_ok [symmetric, where u = "()"])

lemma insert_row_Inl: "insert_row cs put r db = (Inl e, db') \<Longrightarrow> db' = db \<and> e \<in> snd ` set cs"
  by (auto simp: insert_row_def split: sum.splits dest: check_constraints_err)

section \<open>Agents and tools\<close>

definition agent_get :: "string \<Rightarrow> database \<Rightarrow> agent option" where
  "agent_get k db = row_of ag_id k (db_agents db)"

definition agent_get_by_oidc_subject :: "string \<Rightarrow> database \<Rightarrow> agent option" where
  "agent_get_by_oidc_subject subject db = row_of ag_oidc_subject subject (db_agents db)"

definition agent_widths :: "agent \<Rightarrow> (nat \<times> string) list" where
  "agent_widths a =
     [(64, ag_id a), (255, ag_oidc_subject a), (200, ag_name a), (200, ag_owning_team a)]"

definition agent_add :: "agent \<Rightarrow> database \<Rightarrow> agent res \<times> database" where
  "agent_add a db =
     insert_row
       [(widths_ok db (agent_widths a), DataError ''agents''),
        (agent_get (ag_id a) db = None, IntegrityError ''agents.agent_id''),
        (agent_get_by_oidc_subject (ag_oidc_subject a) db = None,
           IntegrityError ''agents.oidc_subject'')]
       (\<lambda>d. d\<lparr>db_agents := db_agents d @ [a]\<rparr>) a db"

definition agent_count :: "database \<Rightarrow> nat" where
  "agent_count db = length (db_agents db)"

definition tool_get :: "string \<Rightarrow> database \<Rightarrow> tool_definition option" where
  "tool_get k db = row_of td_id k (db_tools db)"

definition tool_get_by_name :: "string \<Rightarrow> database \<Rightarrow> tool_definition option" where
  "tool_get_by_name nm db = row_of td_name nm (db_tools db)"

definition tool_widths :: "tool_definition \<Rightarrow> (nat \<times> string) list" where
  "tool_widths t =
     [(64, td_id t), (100, td_name t), (100, td_adapter_type t), (500, td_private_base_url t)]"

definition tool_add :: "tool_definition \<Rightarrow> database \<Rightarrow> tool_definition res \<times> database" where
  "tool_add t db =
     insert_row
       [(widths_ok db (tool_widths t), DataError ''tool_definitions''),
        (tool_get (td_id t) db = None, IntegrityError ''tool_definitions.tool_id''),
        (tool_get_by_name (td_name t) db = None, IntegrityError ''tool_definitions.name'')]
       (\<lambda>d. d\<lparr>db_tools := db_tools d @ [t]\<rparr>) t db"

definition tool_count :: "database \<Rightarrow> nat" where
  "tool_count db = length (db_tools db)"

section \<open>Manifests\<close>

definition manifest_checksum :: "json \<Rightarrow> string" where
  "manifest_checksum document = sha256_hex (json_dumps document)"

definition manifest_get :: "string \<Rightarrow> database \<Rightarrow> permission_manifest option" where
  "manifest_get k db = row_of pm_id k (db_manifests db)"

definition is_active_for :: "string \<Rightarrow> permission_manifest \<Rightarrow> bool" where
  "is_active_for agent m \<longleftrightarrow> pm_agent_id m = agent \<and> pm_status m = ManifestActive"

definition manifest_get_active :: "string \<Rightarrow> database \<Rightarrow> permission_manifest option" where
  "manifest_get_active agent db = find (is_active_for agent) (db_manifests db)"

definition manifest_window_ok :: "permission_manifest \<Rightarrow> bool" where
  "manifest_window_ok m =
     (case pm_expires_at m of None \<Rightarrow> True | Some e \<Rightarrow> instant (pm_effective_from m) < instant e)"

text \<open>The partial unique index \<open>uq_permission_manifests_active_agent\<close>.\<close>

definition active_index_ok :: "permission_manifest \<Rightarrow> permission_manifest list \<Rightarrow> bool" where
  "active_index_ok m rows \<longleftrightarrow>
     pm_status m = ManifestActive \<longrightarrow>
       list_all (\<lambda>r. pm_id r = pm_id m \<or> \<not> is_active_for (pm_agent_id m) r) rows"

definition stored_manifest :: "database \<Rightarrow> permission_manifest \<Rightarrow> permission_manifest" where
  "stored_manifest db m =
     m\<lparr>pm_effective_from := db_store_time db (pm_effective_from m),
       pm_expires_at := map_option (db_store_time db) (pm_expires_at m),
       pm_activated_at := map_option (db_store_time db) (pm_activated_at m)\<rparr>"

definition manifest_widths :: "permission_manifest \<Rightarrow> (nat \<times> string) list" where
  "manifest_widths m =
     [(100, pm_id m), (64, pm_agent_id m), (64, pm_checksum m), (255, pm_created_by m)] @
     opt_col 255 (pm_approved_by m)"

text \<open>The CHECK constraints are evaluated on what the columns hold.\<close>

definition manifest_add :: "permission_manifest \<Rightarrow> database \<Rightarrow> permission_manifest res \<times> database" where
  "manifest_add m db =
     insert_row
       [(widths_ok db (manifest_widths m), DataError ''permission_manifests''),
        (manifest_get (pm_id m) db = None, IntegrityError ''permission_manifests.manifest_id''),
        (agent_get (pm_agent_id m) db \<noteq> None, IntegrityError ''permission_manifests.agent_id''),
        (list_all (\<lambda>r. pm_agent_id r \<noteq> pm_agent_id m \<or> pm_version r \<noteq> pm_version m) (db_manifests db),
           IntegrityError ''uq_manifest_agent_version''),
        (manifest_window_ok (stored_manifest db m), IntegrityError ''ck_manifest_valid_window''),
        (active_index_ok m (db_manifests db), IntegrityError ''uq_permission_manifests_active_agent'')]
       (\<lambda>d. d\<lparr>db_manifests := db_manifests d @ [stored_manifest d m]\<rparr>) m db"

text \<open>
  The flush of a manifest whose status, approver or activation time changed; identity,
  agent, version and window stay.
\<close>

definition manifest_flush :: "permission_manifest \<Rightarrow> database \<Rightarrow> permission_manifest res \<times> database" where
  "manifest_flush m db =
     insert_row
       [(widths_ok db (opt_col 255 (pm_approved_by m)), DataError ''permission_manifests''),
        (active_index_ok m (db_manifests db), IntegrityError ''uq_permission_manifests_active_agent'')]
       (\<lambda>d. d\<lparr>db_manifests := replace_row pm_id m (db_manifests d)\<rparr>) m db"

definition manifest_count :: "database \<Rightarrow> nat" where
  "manifest_count db = length (db_manifests db)"

definition not_exists_message :: "string \<Rightarrow> string \<Rightarrow> string" where
  "not_exists_message kind k = kind @ '' '' @ [CHR 0x27] @ k @ [CHR 0x27] @ '' does not exist''"

definition not_activatable_message :: "string \<Rightarrow> manifest_status \<Rightarrow> string" where
  "not_activatable_message k s =
     ''Manifest '' @ [CHR 0x27] @ k @ [CHR 0x27] @ '' is '' @ [CHR 0x27] @ manifest_status_value s @
     [CHR 0x27] @ '' and cannot be activated''"

text \<open>
  \<open>ManifestRepository.activate\<close>.  \<open>now\<close> is the reading of \<open>datetime.now(UTC)\<close>.  The
  superseded row is flushed before the target is, so that the partial unique index never
  sees two active rows.
\<close>

definition supersede :: "permission_manifest option \<Rightarrow> permission_manifest \<Rightarrow> database
    \<Rightarrow> unit res \<times> database" where
  "supersede current target db =
     (case current of
        None \<Rightarrow> (Inr (), db)
      | Some c \<Rightarrow>
          if pm_id c \<noteq> pm_id target then
            (case manifest_flush (c\<lparr>pm_status := ManifestSuperseded\<rparr>) db of
               (Inl e, db') \<Rightarrow> (Inl e, db')
             | (Inr _, db') \<Rightarrow> (Inr (), db'))
          else (Inr (), db))"

definition manifest_activate :: "string \<Rightarrow> string \<Rightarrow> int \<Rightarrow> database
    \<Rightarrow> permission_manifest res \<times> database" where
  "manifest_activate manifest_id approved_by now db =
     (case manifest_get manifest_id db of
        None \<Rightarrow> (Inl (EntityNotFoundError (not_exists_message ''Manifest'' manifest_id)), db)
      | Some target \<Rightarrow>
          if agent_get (pm_agent_id target) db = None
          then (Inl (EntityNotFoundError (not_exists_message ''Agent'' (pm_agent_id target))), db)
          else if pm_status target = ManifestActive then (Inr target, db)
          else if pm_status target \<noteq> ManifestDraft
          then (Inl (InvalidManifestStateError
                      (not_activatable_message manifest_id (pm_status target))), db)
          else
            (case supersede (manifest_get_active (pm_agent_id target) db) target db of
               (Inl e, db') \<Rightarrow> (Inl e, db')
             | (Inr _, db') \<Rightarrow>
                 let activated = target\<lparr>pm_status := ManifestActive, pm_approved_by := Some approved_by,
                                        pm_activated_at := Some (now_utc now)\<rparr>
                 in case manifest_flush
                      (activated\<lparr>pm_activated_at := Some (db_store_time db (now_utc now))\<rparr>) db' of
                      (Inl e, db'') \<Rightarrow> (Inl e, db'')
                    | (Inr _, db'') \<Rightarrow> (Inr activated, db'')))"

section \<open>Sessions\<close>

definition session_get :: "string \<Rightarrow> database \<Rightarrow> agent_session option" where
  "session_get k db = row_of se_id k (db_sessions db)"

definition session_get_by_jti :: "string \<Rightarrow> database \<Rightarrow> agent_session option" where
  "session_get_by_jti jti db = row_of se_token_jti jti (db_sessions db)"

definition session_window_ok :: "agent_session \<Rightarrow> bool" where
  "session_window_ok s \<longleftrightarrow> instant (se_created_at s) < instant (se_expires_at s)"

definition stored_session :: "database \<Rightarrow> agent_session \<Rightarrow> agent_session" where
  "stored_session db s =
     s\<lparr>se_created_at := db_store_time db (se_created_at s),
       se_expires_at := db_store_time db (se_expires_at s),
       se_revoked_at := map_option (db_store_time db) (se_revoked_at s)\<rparr>"

definition session_widths :: "agent_session \<Rightarrow> (nat \<times> string) list" where
  "session_widths s =
     [(64, se_id s), (128, se_token_jti s), (64, se_agent_id s), (128, se_user_id s), (64, se_customer_id s),
      (255, se_created_by_subject s)]"

definition session_add :: "agent_session \<Rightarrow> database \<Rightarrow> agent_session res \<times> database" where
  "session_add s db =
     insert_row
       [(widths_ok db (session_widths s), DataError ''agent_sessions''),
        (session_get (se_id s) db = None, IntegrityError ''agent_sessions.session_id''),
        (session_get_by_jti (se_token_jti s) db = None, IntegrityError ''agent_sessions.token_jti''),
        (agent_get (se_agent_id s) db \<noteq> None, IntegrityError ''agent_sessions.agent_id''),
        (session_window_ok (stored_session db s), IntegrityError ''ck_session_valid_window'')]
       (\<lambda>d. d\<lparr>db_sessions := db_sessions d @ [stored_session d s]\<rparr>) s db"

definition session_flush :: "agent_session \<Rightarrow> database \<Rightarrow> database" where
  "session_flush s db = db\<lparr>db_sessions := replace_row se_id s (db_sessions db)\<rparr>"

definition session_count :: "database \<Rightarrow> nat" where
  "session_count db = length (db_sessions db)"

section \<open>Audit events\<close>

definition stored_event :: "database \<Rightarrow> audit_event \<Rightarrow> audit_event" where
  "stored_event db e = e\<lparr>ev_timestamp := db_store_time db (ev_timestamp e)\<rparr>"

definition event_widths :: "audit_event \<Rightarrow> (nat \<times> string) list" where
  "event_widths e =
     [(64, ev_id e), (64, ev_request_id e), (128, ev_idempotency_key e), (64, ev_agent_id e), (100, ev_tool e),
      (100, ev_operation e), (100, ev_reason_code e), (64, ev_record_hash e)] @
     opt_col 64 (ev_session_id e) @ opt_col 128 (ev_user_id e) @ opt_col 100 (ev_matched_manifest_id e) @
     opt_col 64 (ev_policy_checksum e) @ opt_col 64 (ev_trace_id e) @ opt_col 64 (ev_previous_record_hash e)"

definition event_add :: "audit_event \<Rightarrow> database \<Rightarrow> audit_event res \<times> database" where
  "event_add e db =
     insert_row
       [(widths_ok db (event_widths e), DataError ''tool_call_audit_events''),
        (row_of ev_id (ev_id e) (db_events db) = None, IntegrityError ''tool_call_audit_events.event_id''),
        (list_all (\<lambda>r. ev_request_id r \<noteq> ev_request_id e \<or> ev_sequence r \<noteq> ev_sequence e) (db_events db),
           IntegrityError ''uq_audit_request_sequence''),
        (agent_get (ev_agent_id e) db \<noteq> None, IntegrityError ''tool_call_audit_events.agent_id''),
        (case ev_session_id e of None \<Rightarrow> True | Some k \<Rightarrow> session_get k db \<noteq> None,
           IntegrityError ''tool_call_audit_events.session_id''),
        (case ev_matched_manifest_id e of None \<Rightarrow> True | Some k \<Rightarrow> manifest_get k db \<noteq> None,
           IntegrityError ''tool_call_audit_events.matched_manifest_id'')]
       (\<lambda>d. d\<lparr>db_events := db_events d @ [stored_event d e]\<rparr>) e db"

text \<open>The order of the hash chain: timestamp, then event id.\<close>

definition chain_key :: "audit_event \<Rightarrow> int \<times> string" where
  "chain_key e = (instant (ev_timestamp e), ev_id e)"

definition all_chain_events :: "database \<Rightarrow> audit_event list" where
  "all_chain_events db = sort_key chain_key (db_events db)"

definition last_chain_event :: "database \<Rightarrow> audit_event option" where
  "last_chain_event db =
     (case rev (all_chain_events db) of [] \<Rightarrow> None | e # _ \<Rightarrow> Some e)"

definition has_key :: "string \<Rightarrow> string \<Rightarrow> audit_event \<Rightarrow> bool" where
  "has_key agent key e \<longleftrightarrow> ev_agent_id e = agent \<and> ev_idempotency_key e = key"

definition find_by_idempotency_key :: "string \<Rightarrow> string \<Rightarrow> database \<Rightarrow> audit_event option" where
  "find_by_idempotency_key agent key db = find (has_key agent key) (all_chain_events db)"

record event_filter =
  flt_agent_id :: "string option"
  flt_session_id :: "string option"
  flt_tool :: "string option"
  flt_operation :: "string option"
  flt_decision :: "string option"
  flt_reason_code :: "string option"

definition column_matches :: "string option \<Rightarrow> string option \<Rightarrow> bool" where
  "column_matches wanted column \<longleftrightarrow> wanted = None \<or> wanted = column"

definition event_matches :: "event_filter \<Rightarrow> audit_event \<Rightarrow> bool" where
  "event_matches f e \<longleftrightarrow>
     column_matches (flt_agent_id f) (Some (ev_agent_id e)) \<and>
     column_matches (flt_session_id f) (ev_session_id e) \<and>
     column_matches (flt_tool f) (Some (ev_tool e)) \<and>
     column_matches (flt_operation f) (Some (ev_operation e)) \<and>
     column_matches (flt_decision f) (Some (audit_decision_value (ev_decision e))) \<and>
     column_matches (flt_reason_code f) (Some (ev_reason_code e))"

definition list_events :: "event_filter \<Rightarrow> nat \<Rightarrow> nat \<Rightarrow> database \<Rightarrow> audit_event list" where
  "list_events f limit offset db =
     take limit (drop offset (filter (event_matches f) (rev (all_chain_events db))))"

definition list_by_request :: "string \<Rightarrow> database \<Rightarrow> audit_event list" where
  "list_by_request request db =
     sort_key ev_sequence (filter (\<lambda>e. ev_request_id e = request) (db_events db))"

definition event_count :: "database \<Rightarrow> nat" where
  "event_count db = length (db_events db)"

section \<open>Customers of the sample CRM\<close>

definition customer_get :: "string \<Rightarrow> database \<Rightarrow> crm_customer option" where
  "customer_get k db = row_of cu_id k (db_customers db)"

definition customer_widths :: "crm_customer \<Rightarrow> (nat \<times> string) list" where
  "customer_widths c = [(64, cu_id c), (200, cu_name c), (320, cu_email c), (50, cu_support_tier c)]"

definition customer_add :: "crm_customer \<Rightarrow> database \<Rightarrow> crm_customer res \<times> database" where
  "customer_add c db =
     insert_row
       [(widths_ok db (customer_widths c), DataError ''crm_customers''),
        (customer_get (cu_id c) db = None, IntegrityError ''crm_customers.customer_id'')]
       (\<lambda>d. d\<lparr>db_customers := db_customers d @ [c]\<rparr>) c db"

definition customer_flush :: "crm_customer \<Rightarrow> database \<Rightarrow> crm_customer res \<times> database" where
  "customer_flush c db =
     insert_row [(widths_ok db (customer_widths c), DataError ''crm_customers'')]
       (\<lambda>d. d\<lparr>db_customers := replace_row cu_id c (db_customers d)\<rparr>) c db"

definition customer_delete :: "crm_customer \<Rightarrow> database \<Rightarrow> database" where
  "customer_delete c db = db\<lparr>db_customers := remove_row cu_id (cu_id c) (db_customers db)\<rparr>"

definition customer_count :: "database \<Rightarrow> nat" where
  "customer_count db = length (db_customers db)"

lemmas width_defs = agent_widths_def tool_widths_def manifest_widths_def session_widths_def event_widths_def
  customer_widths_def

end
