(* ===== verification/StoreInv.thy ===== *)
theory StoreInv
  imports Store
begin

text \<open>
  What the repositories promise.  \<open>repository\<close> is the contract of \<open>add\<close> every service
  relies on; \<open>db_wf\<close> is the schema of \<open>domain/models.py\<close> as an invariant of the stored
  rows, kept by every repository operation.  The last section is the activation of a
  manifest: it never trips the partial unique index, and leaves one active version.
\<close>

section \<open>The contract of a repository\<close>

locale repository =
  fixes key :: "'r \<Rightarrow> string"
    and rows :: "database \<Rightarrow> 'r list"
    and add :: "'r \<Rightarrow> database \<Rightarrow> 'r res \<times> database"
    and stored :: "database \<Rightarrow> 'r \<Rightarrow> 'r"
  assumes add_Inr: "add r db = (Inr x, db') \<Longrightarrow>
      x = r \<and> rows db' = rows db @ [stored db r] \<and> row_of key (key r) (rows db) = None"
    and add_Inl: "add r db = (Inl e, db') \<Longrightarrow> db' = db"
    and key_stored: "key (stored db r) = key r"
begin

lemma get_added: "add r db = (Inr x, db') \<Longrightarrow> row_of key (key r) (rows db') = Some (stored db r)"
  by (auto dest!: add_Inr simp: row_of_append key_stored)

lemma get_other:
  "add r db = (Inr x, db') \<Longrightarrow> k \<noteq> key r \<Longrightarrow> row_of key k (rows db') = row_of key k (rows db)"
  by (auto dest!: add_Inr simp: row_of_append key_stored split: option.splits)

lemma get_mono:
  "add r db = (Inr x, db') \<Longrightarrow> row_of key k (rows db) = Some y \<Longrightarrow> row_of key k (rows db') = Some y"
  by (auto dest!: add_Inr simp: row_of_append)

lemma keys_distinct:
  "add r db = (Inr x, db') \<Longrightarrow> distinct (map key (rows db)) \<Longrightarrow> distinct (map key (rows db'))"
  by (auto dest!: add_Inr simp: key_stored row_of_None_iff)

lemma add_again: "add r db = (Inr x, db') \<Longrightarrow> key r' = key r \<Longrightarrow> \<exists>e. add r' db' = (Inl e, db')"
  using get_added [of r db x db'] add_Inr [of r' db'] add_Inl [of r' db']
  by (cases "add r' db'"; cases "fst (add r' db')") force+

lemma count_added: "add r db = (Inr x, db') \<Longrightarrow> length (rows db') = Suc (length (rows db))"
  by (auto dest!: add_Inr)

end

lemmas store_defs =
  agent_add_def tool_add_def manifest_add_def session_add_def event_add_def customer_add_def

lemmas stored_defs = stored_manifest_def stored_session_def stored_event_def

interpretation agents: repository ag_id db_agents agent_add "\<lambda>db a. a"
  by unfold_locales (auto simp: agent_add_def insert_row_Inr agent_get_def dest: insert_row_Inl)

interpretation tools: repository td_id db_tools tool_add "\<lambda>db t. t"
  by unfold_locales (auto simp: tool_add_def insert_row_Inr tool_get_def dest: insert_row_Inl)

interpretation manifests: repository pm_id db_manifests manifest_add stored_manifest
  by unfold_locales
    (auto simp: manifest_add_def insert_row_Inr manifest_get_def stored_manifest_def dest: insert_row_Inl)

interpretation sessions: repository se_id db_sessions session_add stored_session
  by unfold_locales
    (auto simp: session_add_def insert_row_Inr session_get_def stored_session_def dest: insert_row_Inl)

interpretation events: repository ev_id db_events event_add stored_event
  by unfold_locales
    (auto simp: event_add_def insert_row_Inr stored_event_def dest: insert_row_Inl)

interpretation customers: repository cu_id db_customers customer_add "\<lambda>db c. c"
  by unfold_locales (auto simp: customer_add_def insert_row_Inr customer_get_def dest: insert_row_Inl)

section \<open>The schema as an invariant\<close>

definition agents_wf :: "database \<Rightarrow> bool" where
  "agents_wf db \<longleftrightarrow> distinct (map ag_id (db_agents db)) \<and> distinct (map ag_oidc_subject (db_agents db))"

definition tools_wf :: "database \<Rightarrow> bool" where
  "tools_wf db \<longleftrightarrow> distinct (map td_id (db_tools db)) \<and> distinct (map td_name (db_tools db))"

definition manifests_wf :: "database \<Rightarrow> bool" where
  "manifests_wf db \<longleftrightarrow>
     distinct (map pm_id (db_manifests db)) \<and>
     distinct (map (\<lambda>m. (pm_agent_id m, pm_version m)) (db_manifests db)) \<and>
     (\<forall>m \<in> set (db_manifests db). active_index_ok m (db_manifests db) \<and> agent_get (pm_agent_id m) db \<noteq> None)"

definition sessions_wf :: "database \<Rightarrow> bool" where
  "sessions_wf db \<longleftrightarrow>
     distinct (map se_id (db_sessions db)) \<and> distinct (map se_token_jti (db_sessions db)) \<and>
     (\<forall>s \<in> set (db_sessions db). agent_get (se_agent_id s) db \<noteq> None)"

definition events_wf :: "database \<Rightarrow> bool" where
  "events_wf db \<longleftrightarrow>
     distinct (map ev_id (db_events db)) \<and>
     distinct (map (\<lambda>e. (ev_request_id e, ev_sequence e)) (db_events db)) \<and>
     (\<forall>e \<in> set (db_events db).
        agent_get (ev_agent_id e) db \<noteq> None \<and>
        (\<forall>k. ev_session_id e = Some k \<longrightarrow> session_get k db \<noteq> None) \<and>
        (\<forall>k. ev_matched_manifest_id e = Some k \<longrightarrow> manifest_get k db \<noteq> None))"

definition customers_wf :: "database \<Rightarrow> bool" where
  "customers_wf db \<longleftrightarrow> distinct (map cu_id (db_customers db))"

definition db_wf :: "database \<Rightarrow> bool" where
  "db_wf db \<longleftrightarrow> agents_wf db \<and> tools_wf db \<and> manifests_wf db \<and> sessions_wf db \<and> events_wf db \<and>
     customers_wf db"

lemmas wf_defs = agents_wf_def tools_wf_def manifests_wf_def sessions_wf_def events_wf_def customers_wf_def

lemma db_wf_empty: "db_wf (empty_database st w)"
  by (simp add: db_wf_def wf_defs empty_database_def)

lemma wf_agent_key: "db_wf db \<Longrightarrow> distinct (map ag_id (db_agents db))"
  by (simp add: db_wf_def agents_wf_def)

lemma wf_manifest_key: "db_wf db \<Longrightarrow> distinct (map pm_id (db_manifests db))"
  by (simp add: db_wf_def manifests_wf_def)

lemma wf_session_key: "db_wf db \<Longrightarrow> distinct (map se_id (db_sessions db))"
  by (simp add: db_wf_def sessions_wf_def)

lemma wf_event_key: "db_wf db \<Longrightarrow> distinct (map ev_id (db_events db))"
  by (simp add: db_wf_def events_wf_def)

text \<open>Foreign keys survive any operation that keeps the referenced rows.\<close>

definition refs_kept :: "database \<Rightarrow> database \<Rightarrow> bool" where
  "refs_kept db db' \<longleftrightarrow>
     (\<forall>k. agent_get k db \<noteq> None \<longrightarrow> agent_get k db' \<noteq> None) \<and>
     (\<forall>k. session_get k db \<noteq> None \<longrightarrow> session_get k db' \<noteq> None) \<and>
     (\<forall>k. manifest_get k db \<noteq> None \<longrightarrow> manifest_get k db' \<noteq> None)"

lemma agent_add_wf: "db_wf db \<Longrightarrow> agent_add a db = (Inr x, db') \<Longrightarrow> db_wf db'"
  by (auto simp: db_wf_def wf_defs agent_add_def insert_row_Inr agent_get_def session_get_def
      manifest_get_def agent_get_by_oidc_subject_def row_of_append row_of_None_iff split: option.splits)

lemma tool_add_wf: "db_wf db \<Longrightarrow> tool_add t db = (Inr x, db') \<Longrightarrow> db_wf db'"
  by (auto simp: db_wf_def wf_defs tool_add_def insert_row_Inr agent_get_def session_get_def
      manifest_get_def tool_get_def tool_get_by_name_def row_of_None_iff)

lemma session_add_wf: "db_wf db \<Longrightarrow> session_add s db = (Inr x, db') \<Longrightarrow> db_wf db'"
  by (auto simp: db_wf_def wf_defs session_add_def insert_row_Inr agent_get_def session_get_def
      manifest_get_def session_get_by_jti_def stored_session_def row_of_append row_of_None_iff
      split: option.splits)

lemma event_add_wf: "db_wf db \<Longrightarrow> event_add e db = (Inr x, db') \<Longrightarrow> db_wf db'"
  by (auto simp: db_wf_def wf_defs event_add_def insert_row_Inr agent_get_def session_get_def
      manifest_get_def stored_event_def row_of_None_iff list_all_iff split: option.splits)

lemma customer_add_wf: "db_wf db \<Longrightarrow> customer_add c db = (Inr x, db') \<Longrightarrow> db_wf db'"
  by (auto simp: db_wf_def wf_defs customer_add_def insert_row_Inr agent_get_def session_get_def
      manifest_get_def customer_get_def row_of_None_iff)

lemma customer_flush_wf: "db_wf db \<Longrightarrow> customer_flush c db = (Inr x, db') \<Longrightarrow> db_wf db'"
  by (auto simp: db_wf_def wf_defs customer_flush_def insert_row_Inr agent_get_def session_get_def
      manifest_get_def)

lemma customer_delete_wf: "db_wf db \<Longrightarrow> db_wf (customer_delete c db)"
  by (auto simp: db_wf_def wf_defs customer_delete_def agent_get_def session_get_def
      manifest_get_def distinct_remove_row)

lemma session_flush_wf:
  assumes wf: "db_wf db" and old: "session_get (se_id s) db = Some s0"
    and same: "se_token_jti s = se_token_jti s0" "se_agent_id s = se_agent_id s0"
  shows "db_wf (session_flush s db)"
proof -
  note keep = map_replace_row_same [OF wf_session_key [OF wf] old [unfolded session_get_def]]
  have "map se_id (replace_row se_id s (db_sessions db)) = map se_id (db_sessions db)"
    by simp
  moreover have "map se_token_jti (replace_row se_id s (db_sessions db)) = map se_token_jti (db_sessions db)"
    by (rule keep) (rule same)
  moreover have "se_agent_id ` set (replace_row se_id s (db_sessions db)) = se_agent_id ` set (db_sessions db)"
    using keep [of se_agent_id] same by (metis list.set_map)
  then have "\<forall>s' \<in> set (replace_row se_id s (db_sessions db)). agent_get (se_agent_id s') db \<noteq> None"
    using wf by (auto simp: db_wf_def sessions_wf_def dest!: equalityD1 subsetD)
  moreover have "row_of se_id k (replace_row se_id s (db_sessions db)) \<noteq> None \<longleftrightarrow>
      row_of se_id k (db_sessions db) \<noteq> None" for k
    using old by (auto simp: row_of_replace session_get_def)
  ultimately show ?thesis using wf
    by (simp add: db_wf_def wf_defs session_flush_def agent_get_def session_get_def manifest_get_def)
qed

text \<open>Two rows clash on the partial unique index: different versions, both active, one agent.\<close>

definition clash :: "permission_manifest \<Rightarrow> permission_manifest \<Rightarrow> bool" where
  "clash m r \<longleftrightarrow> pm_id r \<noteq> pm_id m \<and> pm_agent_id r = pm_agent_id m \<and>
     pm_status m = ManifestActive \<and> pm_status r = ManifestActive"

lemma active_index_iff: "active_index_ok m rows \<longleftrightarrow> (\<forall>r \<in> set rows. \<not> clash m r)"
  by (auto simp: active_index_ok_def clash_def is_active_for_def list_all_iff)

lemma clash_symD: "clash m r \<Longrightarrow> clash r m"
  by (auto simp: clash_def)

lemma clash_irrefl [simp]: "\<not> clash m m"
  by (simp add: clash_def)

lemma clash_stored: "clash (stored_manifest db m) r = clash m r" "clash r (stored_manifest db m) = clash r m"
  by (auto simp: clash_def stored_manifest_def)

lemma no_clash_append:
  assumes "\<forall>r \<in> set rows. active_index_ok r rows" "active_index_ok m rows"
  shows "\<forall>r \<in> set (rows @ [stored_manifest db m]). active_index_ok r (rows @ [stored_manifest db m])"
proof
  fix r assume r: "r \<in> set (rows @ [stored_manifest db m])"
  from r assms show "active_index_ok r (rows @ [stored_manifest db m])"
    unfolding active_index_iff by (auto simp: clash_stored dest: clash_symD)
qed

lemma no_clash_replace:
  assumes "\<forall>r \<in> set rows. active_index_ok r rows" "active_index_ok m rows"
  shows "\<forall>r \<in> set (replace_row pm_id m rows). active_index_ok r (replace_row pm_id m rows)"
proof
  fix r assume r: "r \<in> set (replace_row pm_id m rows)"
  have "\<not> clash r q" if q: "q \<in> set (replace_row pm_id m rows)" for q
    using set_replace_row [OF r] set_replace_row [OF q] assms
    unfolding active_index_iff by (auto dest: clash_symD)
  then show "active_index_ok r (replace_row pm_id m rows)" by (simp add: active_index_iff)
qed

lemma manifest_add_wf:
  assumes wf: "db_wf db" and add: "manifest_add m db = (Inr x, db')"
  shows "db_wf db'"
proof -
  have db': "db' = db\<lparr>db_manifests := db_manifests db @ [stored_manifest db m]\<rparr>"
    and new: "manifest_get (pm_id m) db = None" "agent_get (pm_agent_id m) db \<noteq> None"
    "list_all (\<lambda>r. pm_agent_id r \<noteq> pm_agent_id m \<or> pm_version r \<noteq> pm_version m) (db_manifests db)"
    "active_index_ok m (db_manifests db)"
    using add by (auto simp: manifest_add_def insert_row_Inr)
  have idx: "\<forall>r \<in> set (db_manifests db @ [stored_manifest db m]).
      active_index_ok r (db_manifests db @ [stored_manifest db m])"
    using wf new by (intro no_clash_append) (auto simp: db_wf_def manifests_wf_def)
  have keep: "manifest_get k db \<noteq> None \<Longrightarrow> manifest_get k db' \<noteq> None" for k
    by (auto simp: db' manifest_get_def row_of_append)
  have same: "agent_get k db' = agent_get k db" "session_get k db' = session_get k db" for k
    by (simp_all add: db' agent_get_def session_get_def)
  have "manifests_wf db'"
    using wf new idx same
    by (auto simp: db_wf_def manifests_wf_def db' manifest_get_def row_of_None_iff list_all_iff
        stored_manifest_def)
  moreover have "events_wf db'"
    using wf keep same by (auto simp: db_wf_def events_wf_def) (simp_all add: db')
  ultimately show ?thesis using wf same
    by (simp add: db_wf_def agents_wf_def tools_wf_def sessions_wf_def customers_wf_def) (simp add: db')
qed

lemma manifest_flush_wf:
  assumes wf: "db_wf db" and old: "manifest_get (pm_id m) db = Some m0"
    and same: "pm_agent_id m = pm_agent_id m0" "pm_version m = pm_version m0"
    and flush: "manifest_flush m db = (Inr x, db')"
  shows "db_wf db'"
proof -
  let ?rows = "replace_row pm_id m (db_manifests db)"
  have db': "db' = db\<lparr>db_manifests := ?rows\<rparr>" and idx: "active_index_ok m (db_manifests db)"
    using flush by (auto simp: manifest_flush_def insert_row_Inr)
  note keep = map_replace_row_same [OF wf_manifest_key [OF wf] old [unfolded manifest_get_def]]
  have "map pm_id ?rows = map pm_id (db_manifests db)" by simp
  moreover have "map (\<lambda>m. (pm_agent_id m, pm_version m)) ?rows =
      map (\<lambda>m. (pm_agent_id m, pm_version m)) (db_manifests db)"
    by (rule keep) (simp add: same)
  moreover have "\<forall>r \<in> set ?rows. active_index_ok r ?rows"
    using wf idx by (intro no_clash_replace) (auto simp: db_wf_def manifests_wf_def)
  moreover have "pm_agent_id ` set ?rows = pm_agent_id ` set (db_manifests db)"
    using keep [of pm_agent_id] same by (metis list.set_map)
  then have "\<forall>r \<in> set ?rows. agent_get (pm_agent_id r) db \<noteq> None"
    using wf by (auto simp: db_wf_def manifests_wf_def dest!: equalityD1 subsetD)
  moreover have "row_of pm_id k ?rows \<noteq> None \<longleftrightarrow> row_of pm_id k (db_manifests db) \<noteq> None" for k
    using old by (auto simp: row_of_replace manifest_get_def)
  ultimately show ?thesis using wf
    by (simp add: db_wf_def wf_defs db' agent_get_def session_get_def manifest_get_def)
qed

section \<open>Manifest activation\<close>

text \<open>
  The specification of an activation on the table: the target becomes active, the active
  version of the same agent is superseded, every other row stays.
\<close>

definition activated_row :: "permission_manifest \<Rightarrow> string \<Rightarrow> datetime \<Rightarrow> permission_manifest" where
  "activated_row t by at =
     t\<lparr>pm_status := ManifestActive, pm_approved_by := Some by, pm_activated_at := Some at\<rparr>"

definition activation_of :: "permission_manifest \<Rightarrow> string \<Rightarrow> datetime \<Rightarrow> permission_manifest list
    \<Rightarrow> permission_manifest list" where
  "activation_of t by at rows =
     map (\<lambda>m. if pm_id m = pm_id t then activated_row t by at
              else if is_active_for (pm_agent_id t) m then m\<lparr>pm_status := ManifestSuperseded\<rparr>
              else m) rows"

lemma get_active_SomeD:
  "manifest_get_active a db = Some m \<Longrightarrow> m \<in> set (db_manifests db) \<and> is_active_for a m"
  by (auto simp: manifest_get_active_def find_Some_iff)

lemma get_active_NoneD:
  "manifest_get_active a db = None \<Longrightarrow> m \<in> set (db_manifests db) \<Longrightarrow> \<not> is_active_for a m"
  by (auto simp: manifest_get_active_def find_None_iff)

lemma manifest_getD: "manifest_get k db = Some m \<Longrightarrow> m \<in> set (db_manifests db) \<and> pm_id m = k"
  by (auto simp: manifest_get_def dest: row_of_SomeD)

lemma same_id_same_manifest:
  "db_wf db \<Longrightarrow> m \<in> set (db_manifests db) \<Longrightarrow> n \<in> set (db_manifests db) \<Longrightarrow> pm_id m = pm_id n \<Longrightarrow> m = n"
  by (metis wf_manifest_key row_of_unique option.inject)

lemma active_unique:
  assumes "db_wf db" "m \<in> set (db_manifests db)" "n \<in> set (db_manifests db)"
    and "is_active_for a m" "is_active_for a n"
  shows "m = n"
proof (rule same_id_same_manifest [OF assms(1-3)])
  have "\<not> clash m n" using assms by (auto simp: db_wf_def manifests_wf_def active_index_iff)
  with assms show "pm_id m = pm_id n" by (auto simp: clash_def is_active_for_def)
qed

lemma get_active_iff:
  assumes "db_wf db"
  shows "manifest_get_active a db = Some m \<longleftrightarrow> m \<in> set (db_manifests db) \<and> is_active_for a m"
  using assms get_active_SomeD get_active_NoneD active_unique
  by (cases "manifest_get_active a db") blast+

lemma superseded_no_clash: "active_index_ok (c\<lparr>pm_status := ManifestSuperseded\<rparr>) rows"
  by (simp add: active_index_ok_def)

text \<open>Superseding touches exactly the active row of the agent and cannot fail on the index.\<close>

lemma supersede_rows:
  assumes wf: "db_wf db" and t: "t \<in> set (db_manifests db)" "pm_status t \<noteq> ManifestActive"
    and cur: "current = manifest_get_active (pm_agent_id t) db"
    and w: "\<forall>c. current = Some c \<longrightarrow> widths_ok db (opt_col 255 (pm_approved_by c))"
  shows "supersede current t db =
    (Inr (), db\<lparr>db_manifests :=
       map (\<lambda>m. if is_active_for (pm_agent_id t) m then m\<lparr>pm_status := ManifestSuperseded\<rparr> else m)
         (db_manifests db)\<rparr>)"
proof (cases current)
  case None
  then have "\<forall>m \<in> set (db_manifests db). \<not> is_active_for (pm_agent_id t) m"
    using cur get_active_NoneD by metis
  then have "map (\<lambda>m. if is_active_for (pm_agent_id t) m then m\<lparr>pm_status := ManifestSuperseded\<rparr> else m)
      (db_manifests db) = db_manifests db" by (auto intro: map_idI)
  with None show ?thesis by (simp add: supersede_def)
next
  case (Some c)
  with cur have c: "c \<in> set (db_manifests db)" "is_active_for (pm_agent_id t) c"
    using get_active_SomeD by metis+
  with t have ne: "pm_id c \<noteq> pm_id t"
    using same_id_same_manifest [OF wf c(1) t(1)] by (auto simp: is_active_for_def)
  have eq: "pm_id m = pm_id c \<longleftrightarrow> is_active_for (pm_agent_id t) m" if "m \<in> set (db_manifests db)" for m
    using that c active_unique [OF wf that c(1)] same_id_same_manifest [OF wf that c(1)] by blast
  have "replace_row pm_id (c\<lparr>pm_status := ManifestSuperseded\<rparr>) (db_manifests db) =
      map (\<lambda>m. if is_active_for (pm_agent_id t) m then m\<lparr>pm_status := ManifestSuperseded\<rparr> else m)
        (db_manifests db)"
    using same_id_same_manifest [OF wf _ c(1)] by (auto simp: replace_row_def eq)
  moreover have "manifest_flush (c\<lparr>pm_status := ManifestSuperseded\<rparr>) db =
      (Inr (c\<lparr>pm_status := ManifestSuperseded\<rparr>),
       db\<lparr>db_manifests := replace_row pm_id (c\<lparr>pm_status := ManifestSuperseded\<rparr>) (db_manifests db)\<rparr>)"
    using w Some superseded_no_clash [of c "db_manifests db"]
    by (simp add: manifest_flush_def insert_row_Inr)
  ultimately show ?thesis using Some ne by (simp add: supersede_def)
qed

text \<open>(C20) Activating a draft manifest never fails on the partial unique index and has exactly the
  specified effect: the draft becomes the active manifest, the version that was active for the same
  agent is superseded, and every other row is kept.\<close>

theorem activate_draft:
  assumes wf: "db_wf db" and get: "manifest_get mid db = Some t" and draft: "pm_status t = ManifestDraft"
    and w: "widths_ok db [(255, by)]"
      "\<forall>m \<in> set (db_manifests db). widths_ok db (opt_col 255 (pm_approved_by m))"
  shows "manifest_activate mid by now db =
    (Inr (activated_row t by (now_utc now)),
     db\<lparr>db_manifests := activation_of t by (db_store_time db (now_utc now)) (db_manifests db)\<rparr>)"
proof -
  let ?sup = "map (\<lambda>m. if is_active_for (pm_agent_id t) m then m\<lparr>pm_status := ManifestSuperseded\<rparr> else m)
         (db_manifests db)"
  let ?row = "activated_row t by (db_store_time db (now_utc now))"
  have t: "t \<in> set (db_manifests db)" "pm_id t = mid" using get by (auto dest: manifest_getD)
  have ag: "agent_get (pm_agent_id t) db \<noteq> None"
    using wf t by (auto simp: db_wf_def manifests_wf_def)
  have sup: "supersede (manifest_get_active (pm_agent_id t) db) t db = (Inr (), db\<lparr>db_manifests := ?sup\<rparr>)"
    using wf t draft w(2) by (intro supersede_rows) (auto dest: get_active_SomeD)
  have "active_index_ok ?row ?sup"
    by (auto simp: active_index_ok_def is_active_for_def list_all_iff activated_row_def)
  then have flush: "manifest_flush ?row (db\<lparr>db_manifests := ?sup\<rparr>) =
      (Inr ?row, db\<lparr>db_manifests := replace_row pm_id ?row ?sup\<rparr>)"
    using w(1) by (simp add: manifest_flush_def insert_row_Inr widths_ok_def activated_row_def)
  have "replace_row pm_id ?row ?sup =
      activation_of t by (db_store_time db (now_utc now)) (db_manifests db)"
    by (auto simp: replace_row_def activation_of_def activated_row_def)
  with get ag draft sup flush show ?thesis
    by (simp add: manifest_activate_def Let_def activated_row_def)
qed

lemma manifest_flushD:
  "manifest_flush m db = (Inr x, db') \<Longrightarrow> db' = db\<lparr>db_manifests := replace_row pm_id m (db_manifests db)\<rparr>"
  by (simp add: manifest_flush_def insert_row_Inr)

lemma manifest_flush_Inl: "manifest_flush m db = (Inl e, db') \<Longrightarrow> db' = db"
  by (auto simp: manifest_flush_def dest: insert_row_Inl)

lemma get_active_get:
  "db_wf db \<Longrightarrow> manifest_get_active a db = Some c \<Longrightarrow> manifest_get (pm_id c) db = Some c"
  by (auto dest!: get_active_SomeD simp: manifest_get_def intro: row_of_unique wf_manifest_key)

lemma supersede_wf:
  assumes wf: "db_wf db" and cur: "current = manifest_get_active (pm_agent_id t) db"
    and sup: "supersede current t db = (Inr u, db')" and get: "manifest_get (pm_id t) db = Some t"
  shows "db_wf db' \<and> manifest_get (pm_id t) db' = Some t"
proof (cases "current = None \<or> pm_id (the current) = pm_id t")
  case True
  with sup wf get show ?thesis by (auto simp: supersede_def split: option.splits)
next
  case False
  then obtain c where c: "current = Some c" "pm_id c \<noteq> pm_id t" by auto
  let ?c = "c\<lparr>pm_status := ManifestSuperseded\<rparr>"
  from c sup obtain x where fl: "manifest_flush ?c db = (Inr x, db')"
    by (auto simp: supersede_def split: prod.splits sum.splits)
  have old: "manifest_get (pm_id ?c) db = Some c"
    using c cur get_active_get [OF wf] by simp
  have "db_wf db'" by (rule manifest_flush_wf [OF wf old _ _ fl]) simp_all
  moreover have "manifest_get (pm_id t) db' = Some t"
    using manifest_flushD [OF fl] get c by (simp add: manifest_get_def row_of_replace)
  ultimately show ?thesis ..
qed

lemma activate_cases:
  assumes "manifest_activate mid by now db = (Inr m, db')"
  obtains "manifest_get mid db = Some m" "pm_status m = ManifestActive" "db' = db"
  | t db1 x where "manifest_get mid db = Some t" "pm_status t = ManifestDraft"
      "supersede (manifest_get_active (pm_agent_id t) db) t db = (Inr (), db1)"
      "manifest_flush (activated_row t by (db_store_time db (now_utc now))) db1 = (Inr x, db')"
      "m = activated_row t by (now_utc now)"
  using assms
  by (auto simp: manifest_activate_def Let_def activated_row_def
      split: option.splits if_splits prod.splits sum.splits)

lemma activate_wf:
  assumes wf: "db_wf db" and ok: "manifest_activate mid by now db = (Inr m, db')"
  shows "db_wf db'"
  using ok
proof (cases rule: activate_cases)
  case 1
  with wf show ?thesis by simp
next
  case (2 t db1 x)
  have id: "pm_id t = mid" using 2(1) by (auto dest: manifest_getD)
  from 2 id have s: "db_wf db1" "manifest_get (pm_id t) db1 = Some t"
    using supersede_wf [OF wf refl 2(3)] by auto
  show ?thesis
    by (rule manifest_flush_wf [OF s(1) _ _ _ 2(4)]) (use s(2) in \<open>simp_all add: activated_row_def\<close>)
qed

end
