(* ===== verification/Auth.thy ===== *)
theory Auth
  imports StoreInv Settings
begin

text \<open>
  \<open>security/auth.py\<close>.  PyJWT is a parameter: \<open>jwt_lib\<close> holds \<open>jwt.encode\<close> and
  \<open>jwt.decode\<close>; the latter takes the reading of the clock it checks \<open>exp\<close>, \<open>iat\<close> and
  \<open>nbf\<close> against.  \<open>jwt_roundtrip\<close> and \<open>jwt_expiry\<close> state the documented behaviour on tokens the
  library itself encoded.  The signing-key provider (PyJWKClient) is a parameter too, and so is
  what \<open>datetime.fromtimestamp\<close> makes of a \<open>float\<close> claim (\<open>float_instant\<close>, microseconds).
\<close>

section \<open>PyJWT\<close>

datatype jwt_error = ExpiredSignature | InvalidToken | OtherJwtError string

datatype claim = ClaimStr string | ClaimTime datetime

type_synonym claims = "(string \<times> json) list"

record jwt_lib =
  jwt_encode :: "(string \<times> claim) list \<Rightarrow> string \<Rightarrow> string \<Rightarrow> string"
  jwt_decode :: "string \<Rightarrow> string \<Rightarrow> string list \<Rightarrow> string \<Rightarrow> string \<Rightarrow> string list \<Rightarrow> int
    \<Rightarrow> jwt_error + claims"
  float_instant :: "string \<Rightarrow> int option"

type_synonym key_provider = "string \<Rightarrow> jwt_error + string"

text \<open>A \<open>datetime\<close> claim is encoded as its whole seconds (\<open>timegm\<close>).\<close>

definition whole_seconds :: "datetime \<Rightarrow> int" where
  "whole_seconds d = instant d div 1000000"

fun claim_json :: "claim \<Rightarrow> json" where
  "claim_json (ClaimStr s) = JStr s"
| "claim_json (ClaimTime d) = JInt (whole_seconds d)"

definition claims_json :: "(string \<times> claim) list \<Rightarrow> claims" where
  "claims_json cs = map (\<lambda>(k, c). (k, claim_json c)) cs"

definition time_claims_started :: "(string \<times> claim) list \<Rightarrow> int \<Rightarrow> bool" where
  "time_claims_started cs now \<longleftrightarrow>
     (\<forall>k \<in> {''iat'', ''nbf''}. \<forall>d. map_of cs k = Some (ClaimTime d) \<longrightarrow> whole_seconds d * 1000000 \<le> now)"

definition claims_addressed :: "(string \<times> claim) list \<Rightarrow> string \<Rightarrow> string \<Rightarrow> string list \<Rightarrow> bool" where
  "claims_addressed cs aud iss req \<longleftrightarrow>
     map_of cs ''aud'' = Some (ClaimStr aud) \<and> map_of cs ''iss'' = Some (ClaimStr iss) \<and>
     set req \<subseteq> fst ` set cs"

definition jwt_roundtrip :: "jwt_lib \<Rightarrow> bool" where
  "jwt_roundtrip L \<longleftrightarrow>
     (\<forall>cs key algs aud iss req now e.
        ''HS256'' \<in> set algs \<longrightarrow> claims_addressed cs aud iss req \<longrightarrow> time_claims_started cs now \<longrightarrow>
        map_of cs ''exp'' = Some (ClaimTime e) \<longrightarrow> now < whole_seconds e * 1000000 \<longrightarrow>
        jwt_decode L (jwt_encode L cs key ''HS256'') key algs aud iss req now = Inr (claims_json cs))"

definition jwt_expiry :: "jwt_lib \<Rightarrow> bool" where
  "jwt_expiry L \<longleftrightarrow>
     (\<forall>cs key algs aud iss req now e.
        ''HS256'' \<in> set algs \<longrightarrow> claims_addressed cs aud iss req \<longrightarrow> time_claims_started cs now \<longrightarrow>
        map_of cs ''exp'' = Some (ClaimTime e) \<longrightarrow> whole_seconds e * 1000000 \<le> now \<longrightarrow>
        jwt_decode L (jwt_encode L cs key ''HS256'') key algs aud iss req now = Inl ExpiredSignature)"

lemma map_of_claims_json: "map_of (claims_json cs) k = map_option claim_json (map_of cs k)"
  by (induction cs) (auto simp: claims_json_def)

section \<open>Principals and scopes\<close>

record principal =
  pr_subject :: string
  pr_token_use :: string
  pr_scopes :: "string set"
  pr_claims :: claims

text \<open>\<open>str.split()\<close> without an argument: the maximal runs of non-whitespace.\<close>

definition is_space :: "char \<Rightarrow> bool" where
  "is_space c \<longleftrightarrow>
     (let n = of_char c :: nat
      in 9 \<le> n \<and> n \<le> 13 \<or> 28 \<le> n \<and> n \<le> 32 \<or> n = 133 \<or> n = 160)"

fun split_words :: "string \<Rightarrow> string \<Rightarrow> string list" where
  "split_words acc [] = (if acc = [] then [] else [acc])"
| "split_words acc (c # cs) =
     (if is_space c then (if acc = [] then split_words [] cs else acc # split_words [] cs)
      else split_words (acc @ [c]) cs)"

definition split_ws :: "string \<Rightarrow> string list" where
  "split_ws s = split_words [] s"

definition scope_words :: "json option \<Rightarrow> string list" where
  "scope_words raw = (case raw of Some (JStr s) \<Rightarrow> filter (\<lambda>w. w \<noteq> []) (split_ws s) | _ \<Rightarrow> [])"

definition scp_words :: "json option \<Rightarrow> string list" where
  "scp_words raw =
     (case raw of
        Some (JArr xs) \<Rightarrow> concat (map (\<lambda>j. case j of JStr s \<Rightarrow> if s \<noteq> [] then [s] else [] | _ \<Rightarrow> []) xs)
      | _ \<Rightarrow> [])"

definition parse_scopes :: "claims \<Rightarrow> string set" where
  "parse_scopes cs = set (scope_words (map_of cs ''scope'')) \<union> set (scp_words (map_of cs ''scp''))"

definition token_uses :: "string list" where
  "token_uses = [''agent'', ''host'', ''admin'', ''auditor'']"

definition access_token_requirements :: "string list" where
  "access_token_requirements = [''exp'', ''iat'', ''iss'', ''aud'', ''sub'', ''token_use'']"

section \<open>Access tokens\<close>

text \<open>The provider the constructor of \<open>AccessTokenService\<close> keeps.\<close>

definition select_key_provider :: "proxy_settings \<Rightarrow> key_provider option \<Rightarrow> (string \<Rightarrow> key_provider)
    \<Rightarrow> key_provider option" where
  "select_key_provider s supplied jwk_client =
     (case supplied of
        Some p \<Rightarrow> Some p
      | None \<Rightarrow>
          (case px_oidc_jwks_url s of
             Some url \<Rightarrow> if \<not> px_dev_auth_enabled s then Some (jwk_client (url_text url)) else None
           | None \<Rightarrow> None))"

definition translate_jwt_error :: "jwt_error \<Rightarrow> py_exn" where
  "translate_jwt_error e =
     (case e of
        ExpiredSignature \<Rightarrow> AuthenticationError ''ACCESS_TOKEN_EXPIRED'' ''Access token has expired''
      | InvalidToken \<Rightarrow> AuthenticationError ''INVALID_ACCESS_TOKEN'' ''Access token is invalid''
      | OtherJwtError m \<Rightarrow> PyJWTError m)"

definition lift_jwt :: "(jwt_error \<Rightarrow> py_exn) \<Rightarrow> jwt_error + 'a \<Rightarrow> 'a res" where
  "lift_jwt f r = (case r of Inl e \<Rightarrow> Inl (f e) | Inr x \<Rightarrow> Inr x)"

text \<open>The \<open>try\<close> block of \<open>AccessTokenService.decode\<close>.\<close>

definition verify_access_token :: "jwt_lib \<Rightarrow> proxy_settings \<Rightarrow> key_provider option \<Rightarrow> int \<Rightarrow> string
    \<Rightarrow> claims res" where
  "verify_access_token L s provider now token =
     (if px_dev_auth_enabled s then
        lift_jwt translate_jwt_error
          (jwt_decode L token (px_dev_jwt_secret s) [''HS256''] (px_oidc_audience s)
            (url_text (px_oidc_issuer s)) access_token_requirements now)
      else
        (case provider of
           None \<Rightarrow> Inl (AuthenticationError ''OIDC_CONFIGURATION_ERROR''
                        ''The production signing-key provider is unavailable'')
         | Some get_key \<Rightarrow>
             bind_res (lift_jwt translate_jwt_error (get_key token)) (\<lambda>key.
               lift_jwt translate_jwt_error
                 (jwt_decode L token key [px_oidc_algorithm s] (px_oidc_audience s)
                   (url_text (px_oidc_issuer s)) access_token_requirements now))))"

text \<open>
  \<open>token_use not in {...}\<close> hashes the claim: a list or an object raises \<open>TypeError\<close>.
\<close>

definition check_token_use :: "json option \<Rightarrow> string res" where
  "check_token_use j =
     (case j of
        Some (JStr u) \<Rightarrow>
          if u \<in> set token_uses then Inr u
          else Inl (AuthenticationError ''INVALID_TOKEN_USE'' ''Access token use is not supported'')
      | Some (JArr _) \<Rightarrow> Inl (TypeError ''unhashable type'')
      | Some (JObj _) \<Rightarrow> Inl (TypeError ''unhashable type'')
      | _ \<Rightarrow> Inl (AuthenticationError ''INVALID_TOKEN_USE'' ''Access token use is not supported''))"

definition check_subject :: "json option \<Rightarrow> string res" where
  "check_subject j =
     (case j of
        Some (JStr s) \<Rightarrow>
          if s \<noteq> [] then Inr s
          else Inl (AuthenticationError ''INVALID_ACCESS_TOKEN'' ''Access token subject is invalid'')
      | _ \<Rightarrow> Inl (AuthenticationError ''INVALID_ACCESS_TOKEN'' ''Access token subject is invalid''))"

definition decode_access_token :: "jwt_lib \<Rightarrow> proxy_settings \<Rightarrow> key_provider option \<Rightarrow> int \<Rightarrow> string
    \<Rightarrow> principal res" where
  "decode_access_token L s provider now token =
     bind_res (verify_access_token L s provider now token) (\<lambda>cs.
     bind_res (check_subject (map_of cs ''sub'')) (\<lambda>subject.
     bind_res (check_token_use (map_of cs ''token_use'')) (\<lambda>use.
       Inr \<lparr>pr_subject = subject, pr_token_use = use, pr_scopes = parse_scopes cs, pr_claims = cs\<rparr>)))"

definition development_claims :: "proxy_settings \<Rightarrow> string \<Rightarrow> string \<Rightarrow> string set \<Rightarrow> int \<Rightarrow> int
    \<Rightarrow> (string \<times> claim) list" where
  "development_claims s subject use scopes ttl now =
     [(''iss'', ClaimStr (url_text (px_oidc_issuer s))), (''aud'', ClaimStr (px_oidc_audience s)),
      (''sub'', ClaimStr subject), (''token_use'', ClaimStr use),
      (''scope'', ClaimStr (join_with '' '' (sorted_list_of_set scopes))),
      (''iat'', ClaimTime (now_utc now)), (''nbf'', ClaimTime (now_utc now)),
      (''exp'', ClaimTime (add_seconds (now_utc now) ttl))]"

definition issue_development_token :: "jwt_lib \<Rightarrow> proxy_settings \<Rightarrow> string \<Rightarrow> string \<Rightarrow> string set
    \<Rightarrow> int \<Rightarrow> int \<Rightarrow> string res" where
  "issue_development_token L s subject use scopes ttl now =
     (if \<not> px_dev_auth_enabled s
      then Inl (AuthorizationError ''DEV_AUTH_DISABLED'' ''Development token issuance is disabled'')
      else if use \<notin> set token_uses then Inl (ValueError ''Unsupported development token type'')
      else Inr (jwt_encode L (development_claims s subject use scopes ttl now) (px_dev_jwt_secret s) ''HS256''))"

definition require_scopes :: "principal \<Rightarrow> string list \<Rightarrow> unit res" where
  "require_scopes p required =
     (let missing = set required - pr_scopes p
      in if missing \<noteq> {}
         then Inl (AuthorizationError ''INSUFFICIENT_SCOPE''
                    (''Required scope is missing: '' @ join_with '', '' (sorted_list_of_set missing)))
         else Inr ())"

definition resolve_active_agent :: "principal \<Rightarrow> database \<Rightarrow> agent res" where
  "resolve_active_agent p db =
     (if pr_token_use p \<noteq> ''agent''
      then Inl (AuthorizationError ''AGENT_TOKEN_REQUIRED'' ''An agent access token is required'')
      else (case agent_get_by_oidc_subject (pr_subject p) db of
              None \<Rightarrow> Inl (AuthorizationError ''AGENT_IDENTITY_NOT_REGISTERED''
                           ''The agent identity is not registered'')
            | Some a \<Rightarrow>
                if ag_status a \<noteq> AgentActive
                then Inl (AuthorizationError ''AGENT_NOT_ACTIVE'' ''The agent identity is not active'')
                else Inr a))"

section \<open>Properties\<close>

lemma lift_jwt_Inr: "lift_jwt f r = Inr x \<longleftrightarrow> r = Inr x"
  by (cases r) (auto simp: lift_jwt_def)

lemma check_subject_Inr: "check_subject j = Inr s \<longleftrightarrow> j = Some (JStr s) \<and> s \<noteq> []"
  by (auto simp: check_subject_def split: option.splits json.splits)

lemma check_token_use_Inr: "check_token_use j = Inr u \<longleftrightarrow> j = Some (JStr u) \<and> u \<in> set token_uses"
  by (auto simp: check_token_use_def split: option.splits json.splits if_splits)

lemma decode_access_token_Inr:
  "decode_access_token L s provider now token = Inr p \<longleftrightarrow>
     verify_access_token L s provider now token = Inr (pr_claims p) \<and>
     map_of (pr_claims p) ''sub'' = Some (JStr (pr_subject p)) \<and> pr_subject p \<noteq> [] \<and>
     map_of (pr_claims p) ''token_use'' = Some (JStr (pr_token_use p)) \<and>
     pr_token_use p \<in> set token_uses \<and> pr_scopes p = parse_scopes (pr_claims p)"
  by (auto simp: decode_access_token_def bind_res_eq_Inr check_subject_Inr check_token_use_Inr)

text \<open>
  The exceptions of the decoder.  \<open>PyJWTError\<close> and \<open>TypeError\<close> leave it uncaught.
\<close>

lemma check_subject_Inl: "check_subject j = Inl e \<Longrightarrow>
    e = AuthenticationError ''INVALID_ACCESS_TOKEN'' ''Access token subject is invalid''"
  by (auto simp: check_subject_def split: option.splits json.splits if_splits)

lemma check_token_use_Inl: "check_token_use j = Inl e \<Longrightarrow>
    e = AuthenticationError ''INVALID_TOKEN_USE'' ''Access token use is not supported'' \<or>
    e = TypeError ''unhashable type''"
  by (auto simp: check_token_use_def split: option.splits json.splits if_splits)

lemma lift_translate_Inl: "lift_jwt translate_jwt_error r = Inl e \<Longrightarrow>
    e = AuthenticationError ''ACCESS_TOKEN_EXPIRED'' ''Access token has expired'' \<or>
    e = AuthenticationError ''INVALID_ACCESS_TOKEN'' ''Access token is invalid'' \<or>
    (\<exists>m. r = Inl (OtherJwtError m) \<and> e = PyJWTError m)"
  by (auto simp: lift_jwt_def translate_jwt_error_def split: sum.splits jwt_error.splits)

lemma verify_access_token_Inl: "verify_access_token L s provider now token = Inl e \<Longrightarrow>
    (\<exists>c m. c \<in> {''OIDC_CONFIGURATION_ERROR'', ''ACCESS_TOKEN_EXPIRED'', ''INVALID_ACCESS_TOKEN''} \<and>
       e = AuthenticationError c m) \<or> (\<exists>m. e = PyJWTError m)"
  unfolding verify_access_token_def
  by (auto simp: bind_res_eq_Inl split: if_splits option.splits dest!: lift_translate_Inl)

lemma decode_access_token_Inl:
  assumes "decode_access_token L s provider now token = Inl e"
  shows "(\<exists>c m. c \<in> {''OIDC_CONFIGURATION_ERROR'', ''ACCESS_TOKEN_EXPIRED'', ''INVALID_ACCESS_TOKEN'',
       ''INVALID_TOKEN_USE''} \<and> e = AuthenticationError c m) \<or>
     (\<exists>m. e = PyJWTError m) \<or> e = TypeError ''unhashable type''"
proof -
  consider "verify_access_token L s provider now token = Inl e" | j where "check_subject j = Inl e"
    | j where "check_token_use j = Inl e"
    using assms by (fastforce simp: decode_access_token_def bind_res_eq_Inl)
  then show ?thesis
    by cases (fastforce dest: verify_access_token_Inl check_subject_Inl check_token_use_Inl)+
qed

lemma require_scopes_Inr: "require_scopes p req = Inr u \<longleftrightarrow> set req \<subseteq> pr_scopes p"
  by (auto simp: require_scopes_def Let_def)

lemma resolve_active_agent_Inr:
  "resolve_active_agent p db = Inr a \<longleftrightarrow>
     pr_token_use p = ''agent'' \<and> agent_get_by_oidc_subject (pr_subject p) db = Some a \<and>
     ag_status a = AgentActive"
  by (auto simp: resolve_active_agent_def split: option.splits if_splits)

lemma resolve_active_agent_row:
  "resolve_active_agent p db = Inr a \<Longrightarrow>
     a \<in> set (db_agents db) \<and> ag_oidc_subject a = pr_subject p \<and> ag_status a = AgentActive"
  by (auto simp: resolve_active_agent_Inr agent_get_by_oidc_subject_def dest: row_of_SomeD)

text \<open>Scope words survive the join and the split.\<close>

lemma split_words_word:
  "list_all (\<lambda>c. \<not> is_space c) w \<Longrightarrow> split_words acc (w @ CHR '' '' # r) =
     (if acc @ w = [] then split_words [] r else (acc @ w) # split_words [] r)"
  by (induction w arbitrary: acc) (auto simp: is_space_def Let_def)

lemma split_words_end:
  "list_all (\<lambda>c. \<not> is_space c) w \<Longrightarrow> split_words acc w = (if acc @ w = [] then [] else [acc @ w])"
  by (induction w arbitrary: acc) auto

definition scope_name :: "string \<Rightarrow> bool" where
  "scope_name w \<longleftrightarrow> w \<noteq> [] \<and> list_all (\<lambda>c. \<not> is_space c) w"

lemma split_join: "list_all scope_name ws \<Longrightarrow> split_ws (join_with '' '' ws) = ws"
proof (induction "'' '' :: string" ws rule: join_with.induct)
  case (3 x y ys)
  then show ?case
    using split_words_word [of x "[]" "join_with '' '' (y # ys)"]
    by (simp add: split_ws_def scope_name_def)
qed (auto simp: split_ws_def scope_name_def split_words_end)

lemma parse_scopes_join:
  assumes "finite S" "\<forall>w \<in> S. scope_name w"
    and "map_of cs ''scope'' = Some (JStr (join_with '' '' (sorted_list_of_set S)))" "map_of cs ''scp'' = None"
  shows "parse_scopes cs = S"
proof -
  have "list_all scope_name (sorted_list_of_set S)" using assms(1,2) by (simp add: list_all_iff)
  then have "split_ws (join_with '' '' (sorted_list_of_set S)) = sorted_list_of_set S" by (rule split_join)
  with assms show ?thesis by (auto simp: parse_scopes_def scope_words_def scp_words_def scope_name_def)
qed

lemma development_claims_verified:
  assumes "issued div 1000000 * 1000000 \<le> now"
  shows "claims_addressed (development_claims s subject use scopes ttl issued) (px_oidc_audience s)
      (url_text (px_oidc_issuer s)) access_token_requirements"
    and "time_claims_started (development_claims s subject use scopes ttl issued) now"
    and "map_of (development_claims s subject use scopes ttl issued) ''exp'' =
      Some (ClaimTime (add_seconds (now_utc issued) ttl))"
  using assms
  by (simp_all add: development_claims_def claims_addressed_def time_claims_started_def
      access_token_requirements_def whole_seconds_def)

lemma issued_token_verified:
  assumes L: "jwt_roundtrip L" and issue: "issue_development_token L s subject use scopes ttl issued = Inr token"
    and time: "issued \<le> now" "now < (issued + ttl * 1000000) div 1000000 * 1000000"
  shows "verify_access_token L s provider now token =
    Inr (claims_json (development_claims s subject use scopes ttl issued))"
proof -
  let ?cs = "development_claims s subject use scopes ttl issued"
  have dev: "px_dev_auth_enabled s"
    and token: "token = jwt_encode L ?cs (px_dev_jwt_secret s) ''HS256''"
    using issue by (auto simp: issue_development_token_def split: if_splits)
  have started: "issued div 1000000 * 1000000 \<le> now"
    using time(1) by (metis div_mult_mod_eq le_add_same_cancel1 order.trans pos_mod_sign zero_less_numeral)
  have "whole_seconds (add_seconds (now_utc issued) ttl) * 1000000 = (issued + ttl * 1000000) div 1000000 * 1000000"
    by (simp add: whole_seconds_def)
  then have "jwt_decode L token (px_dev_jwt_secret s) [''HS256''] (px_oidc_audience s)
      (url_text (px_oidc_issuer s)) access_token_requirements now = Inr (claims_json ?cs)"
    using L development_claims_verified [OF started] time(2) unfolding jwt_roundtrip_def token
    by (metis list.set_intros(1))
  then show ?thesis using dev by (simp add: verify_access_token_def lift_jwt_def)
qed

lemma development_claims_fields:
  "map_of (claims_json (development_claims s subject use scopes ttl issued)) ''sub'' = Some (JStr subject)"
  "map_of (claims_json (development_claims s subject use scopes ttl issued)) ''token_use'' = Some (JStr use)"
  by (simp_all add: map_of_claims_json development_claims_def)

lemma issued_token_principal:
  assumes L: "jwt_roundtrip L" and issue: "issue_development_token L s subject use scopes ttl issued = Inr token"
    and scopes: "finite scopes" "\<forall>w \<in> scopes. scope_name w" and subject: "subject \<noteq> []"
    and time: "issued \<le> now" "now < (issued + ttl * 1000000) div 1000000 * 1000000"
  shows "\<exists>p. decode_access_token L s provider now token = Inr p \<and> pr_subject p = subject \<and>
    pr_token_use p = use \<and> pr_scopes p = scopes"
proof -
  let ?cs = "development_claims s subject use scopes ttl issued"
  have "use \<in> set token_uses" using issue by (auto simp: issue_development_token_def split: if_splits)
  moreover have "parse_scopes (claims_json ?cs) = scopes"
    by (rule parse_scopes_join [OF scopes]) (simp_all add: map_of_claims_json development_claims_def)
  ultimately show ?thesis
    using issued_token_verified [OF L issue time, of provider] development_claims_fields subject
    by (auto simp: decode_access_token_def check_subject_def check_token_use_def)
qed

text \<open>Whatever subject and scopes were asked for, the use of an accepted token is the one it was issued with.\<close>

lemma issued_token_use:
  assumes "jwt_roundtrip L" "issue_development_token L s subject use scopes ttl issued = Inr token"
    and "issued \<le> now" "now < (issued + ttl * 1000000) div 1000000 * 1000000"
    and "decode_access_token L s provider now token = Inr p"
  shows "pr_token_use p = use"
  using assms(5) issued_token_verified [OF assms(1-4), of provider]
    development_claims_fields(2) [of s subject use scopes ttl issued]
  by (simp add: decode_access_token_Inr)

lemma issued_token_expires:
  assumes L: "jwt_expiry L" and issue: "issue_development_token L s subject use scopes ttl issued = Inr token"
    and time: "issued \<le> now" "(issued + ttl * 1000000) div 1000000 * 1000000 \<le> now"
  shows "decode_access_token L s provider now token =
    Inl (AuthenticationError ''ACCESS_TOKEN_EXPIRED'' ''Access token has expired'')"
proof -
  have dev: "px_dev_auth_enabled s"
    and token: "token = jwt_encode L (development_claims s subject use scopes ttl issued) (px_dev_jwt_secret s) ''HS256''"
    using issue by (auto simp: issue_development_token_def split: if_splits)
  have started: "issued div 1000000 * 1000000 \<le> now"
    using time(1) by (metis div_mult_mod_eq le_add_same_cancel1 order.trans pos_mod_sign zero_less_numeral)
  have "whole_seconds (add_seconds (now_utc issued) ttl) * 1000000 = (issued + ttl * 1000000) div 1000000 * 1000000"
    by (simp add: whole_seconds_def)
  then have "jwt_decode L token (px_dev_jwt_secret s) [''HS256''] (px_oidc_audience s)
      (url_text (px_oidc_issuer s)) access_token_requirements now = Inl ExpiredSignature"
    using L development_claims_verified [OF started] time(2) unfolding jwt_expiry_def token
    by (metis list.set_intros(1))
  with dev show ?thesis
    by (simp add: decode_access_token_def verify_access_token_def lift_jwt_def translate_jwt_error_def)
qed

text \<open>(C28) An issued development token authenticates its subject with the use and the scopes it was
  issued for up to the last whole second of its lifetime, and is reported as expired from then on,
  for every JWT library with the documented round trip and expiry.\<close>

theorem development_token_lifetime:
  assumes "jwt_roundtrip L" "jwt_expiry L"
    and "issue_development_token L s subject use scopes ttl issued = Inr token"
    and "finite scopes" "\<forall>w \<in> scopes. scope_name w" "subject \<noteq> []" "issued \<le> now"
  shows "if now < (issued + ttl * 1000000) div 1000000 * 1000000
    then \<exists>p. decode_access_token L s provider now token = Inr p \<and> pr_subject p = subject \<and>
      pr_token_use p = use \<and> pr_scopes p = scopes
    else decode_access_token L s provider now token =
      Inl (AuthenticationError ''ACCESS_TOKEN_EXPIRED'' ''Access token has expired'')"
  using issued_token_principal [OF assms(1,3-7)] issued_token_expires [OF assms(2,3,7)] by auto

end
