(* ===== verification/PlainJwt.thy ===== *)
theory PlainJwt
  imports Auth
begin

text \<open>
  A concrete \<open>jwt_lib\<close>: the token is the key and the claims in an unambiguous text, and
  decoding compares the key and checks the registered claims.  It protects nothing; it shows
  that the laws \<open>jwt_roundtrip\<close> and \<open>jwt_expiry\<close> can hold together and lets the
  development run issued tokens through the services.
\<close>

section \<open>Text of strings and numbers\<close>

definition put_str :: "string \<Rightarrow> string" where
  "put_str s = concat (map (\<lambda>c. [CHR ''1'', c]) s) @ ''0''"

fun take_str :: "string \<Rightarrow> string \<times> string" where
  "take_str (a # c # r) =
     (if a = CHR ''1'' then (let (s, r') = take_str r in (c # s, r')) else ([], c # r))"
| "take_str _ = ([], [])"

lemma take_end: "take_str (CHR ''0'' # r) = ([], r)"
  by (cases r) auto

lemma take_put_str [simp]: "take_str (put_str s @ r) = (s, r)"
  by (induction s) (auto simp: put_str_def take_end)

definition put_int :: "int \<Rightarrow> string" where
  "put_int i = (if i < 0 then ''-'' @ show_nat (nat (- i)) else ''+'' @ show_nat (nat i))"

definition read_int :: "string \<Rightarrow> int" where
  "read_int s =
     (case s of [] \<Rightarrow> 0
      | c # r \<Rightarrow> if c = CHR ''-'' then - int (read_nat r) else int (read_nat r))"

lemma read_put_int [simp]: "read_int (put_int i) = i"
  by (simp add: read_int_def put_int_def read_show_nat)

section \<open>Text of claims\<close>

definition put_claim :: "string \<times> claim \<Rightarrow> string" where
  "put_claim kc =
     put_str (fst kc) @
     (case snd kc of
        ClaimStr s \<Rightarrow> ''s'' @ put_str s
      | ClaimTime d \<Rightarrow> ''t'' @ put_str (put_int (whole_seconds d)))"

definition take_claim :: "string \<Rightarrow> (string \<times> json) \<times> string" where
  "take_claim t =
     (let (k, r) = take_str t
      in case r of
           [] \<Rightarrow> ((k, JNull), [])
         | c # r' \<Rightarrow>
             let (v, r'') = take_str r'
             in ((k, if c = CHR ''s'' then JStr v else JInt (read_int v)), r''))"

lemma take_put_claim [simp]: "take_claim (put_claim (k, c) @ r) = ((k, claim_json c), r)"
  by (cases c) (simp_all add: take_claim_def put_claim_def)

fun put_claims :: "(string \<times> claim) list \<Rightarrow> string" where
  "put_claims [] = ''.''"
| "put_claims (c # cs) = '';'' @ put_claim c @ put_claims cs"

text \<open>Each claim uses up a character, so the length of the text is enough fuel.\<close>

fun take_claims :: "nat \<Rightarrow> string \<Rightarrow> claims" where
  "take_claims (Suc n) (c # t) =
     (if c = CHR '';'' then (let (x, r) = take_claim t in x # take_claims n r) else [])"
| "take_claims _ _ = []"

lemma put_claims_length: "length cs < length (put_claims cs)"
  by (induction cs) auto

lemma take_put_claims: "length cs < n \<Longrightarrow> take_claims n (put_claims cs) = claims_json cs"
proof (induction cs arbitrary: n)
  case Nil
  then show ?case by (cases n) (auto simp: claims_json_def)
next
  case (Cons c cs)
  obtain m where n: "n = Suc m" using Cons.prems by (cases n) auto
  with Cons have "take_claims m (put_claims cs) = claims_json cs" by simp
  then show ?case by (cases c) (simp add: n claims_json_def)
qed

section \<open>The instance\<close>

definition plain_encode :: "(string \<times> claim) list \<Rightarrow> string \<Rightarrow> string \<Rightarrow> string" where
  "plain_encode cs key alg = put_str key @ put_str alg @ put_claims cs"

definition int_claim :: "claims \<Rightarrow> string \<Rightarrow> int option" where
  "int_claim cs k = (case map_of cs k of Some (JInt i) \<Rightarrow> Some i | _ \<Rightarrow> None)"

definition claim_started :: "claims \<Rightarrow> int \<Rightarrow> string \<Rightarrow> bool" where
  "claim_started cs now k = (case int_claim cs k of None \<Rightarrow> True | Some i \<Rightarrow> i * 1000000 \<le> now)"

definition registered_claims :: "claims \<Rightarrow> string \<Rightarrow> string \<Rightarrow> string list \<Rightarrow> int \<Rightarrow> jwt_error + claims" where
  "registered_claims cs aud iss req now =
     (if \<not> list_all (\<lambda>c. c \<in> fst ` set cs) req then Inl InvalidToken
      else if map_of cs ''aud'' \<noteq> Some (JStr aud) \<or> map_of cs ''iss'' \<noteq> Some (JStr iss)
      then Inl InvalidToken
      else if \<not> claim_started cs now ''iat'' \<or> \<not> claim_started cs now ''nbf'' then Inl InvalidToken
      else (case int_claim cs ''exp'' of
              None \<Rightarrow> Inr cs
            | Some e \<Rightarrow> if e * 1000000 \<le> now then Inl ExpiredSignature else Inr cs))"

definition plain_decode :: "string \<Rightarrow> string \<Rightarrow> string list \<Rightarrow> string \<Rightarrow> string \<Rightarrow> string list \<Rightarrow> int
    \<Rightarrow> jwt_error + claims" where
  "plain_decode token key algs aud iss req now =
     (let (k, r) = take_str token; (alg, text) = take_str r
      in if k \<noteq> key \<or> alg \<notin> set algs then Inl InvalidToken
         else registered_claims (take_claims (length text) text) aud iss req now)"

definition plain_jwt :: jwt_lib where
  "plain_jwt = \<lparr>jwt_encode = plain_encode, jwt_decode = plain_decode, float_instant = (\<lambda>s. None)\<rparr>"

lemma plain_decode_encode:
  "plain_decode (plain_encode cs key alg) key algs aud iss req now =
     (if alg \<in> set algs then registered_claims (claims_json cs) aud iss req now else Inl InvalidToken)"
  by (simp add: plain_decode_def plain_encode_def take_put_claims [OF put_claims_length])

lemma fst_claims_json: "fst ` set (claims_json cs) = fst ` set cs"
  by (force simp: claims_json_def)

lemma started_ok:
  "time_claims_started cs now \<Longrightarrow> k \<in> {''iat'', ''nbf''} \<Longrightarrow> claim_started (claims_json cs) now k"
  unfolding claim_started_def int_claim_def time_claims_started_def map_of_claims_json
  by (cases "map_of cs k"; cases "the (map_of cs k)") auto

lemma plain_decode_addressed:
  assumes "''HS256'' \<in> set algs" "claims_addressed cs aud iss req" "time_claims_started cs now"
    and "map_of cs ''exp'' = Some (ClaimTime e)"
  shows "plain_decode (plain_encode cs key ''HS256'') key algs aud iss req now =
    (if whole_seconds e * 1000000 \<le> now then Inl ExpiredSignature else Inr (claims_json cs))"
proof -
  have "list_all (\<lambda>c. c \<in> fst ` set (claims_json cs)) req"
    using assms(2) by (auto simp: claims_addressed_def fst_claims_json list_all_iff)
  then show ?thesis
    using assms started_ok [OF assms(3)]
    by (simp add: plain_decode_encode registered_claims_def claims_addressed_def map_of_claims_json
        int_claim_def)
qed

lemma plain_jwt_roundtrip: "jwt_roundtrip plain_jwt"
  by (simp add: jwt_roundtrip_def plain_jwt_def plain_decode_addressed)

lemma plain_jwt_expiry: "jwt_expiry plain_jwt"
  by (simp add: jwt_expiry_def plain_jwt_def plain_decode_addressed)

end
