(* ===== verification/Sessions.thy ===== *)
theory Sessions
  imports PlainJwt
begin

text \<open>
  \<open>security/sessions.py\<close>: the token codec of trusted sessions and the service that creates,
  validates and revokes them.  The two \<open>uuid4().hex\<close> values of a creation and every reading of
  the clock are arguments.  The properties: what a validated token implies of the stored row
  and its agent, that a created token validates until it expires, and that a revoked session
  never validates again.
\<close>

record trusted_session_claims =
  tc_session_id :: string
  tc_token_jti :: string
  tc_agent_id :: string
  tc_user_id :: string
  tc_customer_id :: string
  tc_issued_at :: datetime
  tc_expires_at :: datetime

record created_trusted_session =
  cts_session_id :: string
  cts_session_token :: string
  cts_agent_id :: string
  cts_user_id :: string
  cts_customer_id :: string
  cts_expires_at :: datetime

section \<open>The token codec\<close>

definition session_claims :: "proxy_settings \<Rightarrow> agent_session \<Rightarrow> (string \<times> claim) list" where
  "session_claims s row =
     [(''iss'', ClaimStr (px_session_token_issuer s)), (''aud'', ClaimStr (px_session_token_audience s)),
      (''sub'', ClaimStr (se_id row)), (''jti'', ClaimStr (se_token_jti row)),
      (''token_use'', ClaimStr ''agent_session''), (''agent_id'', ClaimStr (se_agent_id row)),
      (''user_id'', ClaimStr (se_user_id row)), (''customer_id'', ClaimStr (se_customer_id row)),
      (''iat'', ClaimTime (as_utc (se_created_at row))), (''nbf'', ClaimTime (as_utc (se_created_at row))),
      (''exp'', ClaimTime (as_utc (se_expires_at row)))]"

definition issue_session_token :: "jwt_lib \<Rightarrow> proxy_settings \<Rightarrow> agent_session \<Rightarrow> string" where
  "issue_session_token L s row =
     jwt_encode L (session_claims s row) (px_session_signing_secret s) ''HS256''"

definition session_token_requirements :: "string list" where
  "session_token_requirements =
     [''exp'', ''iat'', ''iss'', ''aud'', ''sub'', ''jti'', ''token_use'', ''agent_id'', ''user_id'',
      ''customer_id'']"

definition translate_session_jwt_error :: "jwt_error \<Rightarrow> py_exn" where
  "translate_session_jwt_error e =
     (case e of
        ExpiredSignature \<Rightarrow> TrustedSessionError ''SESSION_TOKEN_EXPIRED'' ''Session token has expired''
      | InvalidToken \<Rightarrow> TrustedSessionError ''INVALID_SESSION_TOKEN'' ''Session token is invalid''
      | OtherJwtError m \<Rightarrow> PyJWTError m)"

fun required_strings :: "claims \<Rightarrow> string list \<Rightarrow> (string \<times> string) list res" where
  "required_strings cs [] = Inr []"
| "required_strings cs (k # ks) =
     (case map_of cs k of
        Some (JStr v) \<Rightarrow>
          if v = [] then Inl (TrustedSessionError ''INVALID_SESSION_TOKEN'' ''Session token claims are invalid'')
          else bind_res (required_strings cs ks) (\<lambda>r. Inr ((k, v) # r))
      | _ \<Rightarrow> Inl (TrustedSessionError ''INVALID_SESSION_TOKEN'' ''Session token claims are invalid''))"

text \<open>\<open>datetime.fromtimestamp(value, tz=UTC)\<close>; a Python \<open>bool\<close> is an \<open>int\<close>.\<close>

definition timestamp_of :: "int \<Rightarrow> datetime res" where
  "timestamp_of t = (if valid_instant t then Inr (Aware 0 t) else Inl (ValueError ''year is out of range''))"

definition claim_timestamp :: "jwt_lib \<Rightarrow> claims \<Rightarrow> string \<Rightarrow> datetime res" where
  "claim_timestamp L cs k =
     (case map_of cs k of
        None \<Rightarrow> Inl (KeyError k)
      | Some (JInt n) \<Rightarrow> timestamp_of (n * 1000000)
      | Some (JBool b) \<Rightarrow> timestamp_of (if b then 1000000 else 0)
      | Some (JFloat f) \<Rightarrow>
          (case float_instant L f of
             None \<Rightarrow> Inl (ValueError ''cannot convert float'')
           | Some t \<Rightarrow> timestamp_of t)
      | Some _ \<Rightarrow> Inl (TypeError ''an integer or a float is required''))"

definition decode_session_token :: "jwt_lib \<Rightarrow> proxy_settings \<Rightarrow> int \<Rightarrow> string
    \<Rightarrow> trusted_session_claims res" where
  "decode_session_token L s now token =
     bind_res (lift_jwt translate_session_jwt_error
        (jwt_decode L token (px_session_signing_secret s) [''HS256''] (px_session_token_audience s)
          (px_session_token_issuer s) session_token_requirements now)) (\<lambda>cs.
     if map_of cs ''token_use'' \<noteq> Some (JStr ''agent_session'')
     then Inl (TrustedSessionError ''INVALID_SESSION_TOKEN_USE'' ''Token is not an agent session token'')
     else
       bind_res (required_strings cs [''sub'', ''jti'', ''agent_id'', ''user_id'', ''customer_id'']) (\<lambda>req.
       bind_res (claim_timestamp L cs ''iat'') (\<lambda>iat.
       bind_res (claim_timestamp L cs ''exp'') (\<lambda>ex.
         Inr \<lparr>tc_session_id = the (map_of req ''sub''), tc_token_jti = the (map_of req ''jti''),
              tc_agent_id = the (map_of req ''agent_id''), tc_user_id = the (map_of req ''user_id''),
              tc_customer_id = the (map_of req ''customer_id''), tc_issued_at = iat,
              tc_expires_at = ex\<rparr>))))"

section \<open>The service\<close>

definition session_ttl :: "proxy_settings \<Rightarrow> int option \<Rightarrow> int" where
  "session_ttl s ttl = (case ttl of None \<Rightarrow> px_session_token_ttl_seconds s | Some t \<Rightarrow> t)"

definition new_session_row :: "string \<Rightarrow> string \<Rightarrow> string \<Rightarrow> string \<Rightarrow> int \<Rightarrow> string \<Rightarrow> string \<Rightarrow> int
    \<Rightarrow> agent_session" where
  "new_session_row agent user customer created_by ttl uuid1 uuid2 now =
     \<lparr>se_id = ''sess_'' @ uuid1, se_token_jti = uuid2, se_agent_id = agent, se_user_id = user,
      se_customer_id = customer, se_created_by_subject = created_by, se_status = SessionActive,
      se_created_at = now_utc now, se_expires_at = add_seconds (now_utc now) ttl, se_revoked_at = None\<rparr>"

definition created_session :: "jwt_lib \<Rightarrow> proxy_settings \<Rightarrow> agent_session \<Rightarrow> created_trusted_session" where
  "created_session L s row =
     \<lparr>cts_session_id = se_id row, cts_session_token = issue_session_token L s row,
      cts_agent_id = se_agent_id row, cts_user_id = se_user_id row,
      cts_customer_id = se_customer_id row, cts_expires_at = as_utc (se_expires_at row)\<rparr>"

definition create_session :: "jwt_lib \<Rightarrow> proxy_settings \<Rightarrow> string \<Rightarrow> string \<Rightarrow> string \<Rightarrow> string \<Rightarrow> int option
    \<Rightarrow> string \<Rightarrow> string \<Rightarrow> int \<Rightarrow> database \<Rightarrow> created_trusted_session res \<times> database" where
  "create_session L s agent user customer created_by ttl uuid1 uuid2 now db =
     (let requested = session_ttl s ttl
      in if requested < 60 \<or> requested > px_session_token_ttl_seconds s
         then (Inl (TrustedSessionError ''INVALID_SESSION_TTL''
                     ''Session TTL is outside the permitted range''), db)
         else in_session (\<lambda>d.
           case agent_get agent d of
             None \<Rightarrow> (Inl (TrustedSessionError ''AGENT_NOT_FOUND'' ''Agent does not exist''), d)
           | Some a \<Rightarrow>
               if ag_status a \<noteq> AgentActive
               then (Inl (TrustedSessionError ''AGENT_NOT_ACTIVE'' ''Agent is not active''), d)
               else
                 (case session_add
                    (new_session_row agent user customer created_by requested uuid1 uuid2 now) d of
                    (Inl e, d') \<Rightarrow> (Inl e, d')
                  | (Inr row, d') \<Rightarrow> (Inr (created_session L s row), d'))) db)"

definition check_persisted :: "trusted_session_claims \<Rightarrow> int \<Rightarrow> database \<Rightarrow> unit res" where
  "check_persisted c now db =
     (case session_get (tc_session_id c) db of
        None \<Rightarrow> Inl (TrustedSessionError ''SESSION_NOT_FOUND'' ''Session does not exist'')
      | Some row \<Rightarrow>
          if se_token_jti row \<noteq> tc_token_jti c
          then Inl (TrustedSessionError ''SESSION_JTI_MISMATCH'' ''Session token was replaced'')
          else if se_status row \<noteq> SessionActive
          then Inl (TrustedSessionError ''SESSION_NOT_ACTIVE'' ''Session is not active'')
          else if instant (as_utc (se_expires_at row)) \<le> instant (now_utc now)
          then Inl (TrustedSessionError ''SESSION_EXPIRED'' ''Session has expired'')
          else if se_agent_id row \<noteq> tc_agent_id c \<or> se_user_id row \<noteq> tc_user_id c \<or>
                  se_customer_id row \<noteq> tc_customer_id c
          then Inl (TrustedSessionError ''SESSION_CLAIMS_MISMATCH''
                     ''Session token does not match server-side state'')
          else
            (case agent_get (se_agent_id row) db of
               None \<Rightarrow> Inl (TrustedSessionError ''AGENT_NOT_ACTIVE'' ''Agent is not active'')
             | Some a \<Rightarrow>
                 if ag_status a \<noteq> AgentActive
                 then Inl (TrustedSessionError ''AGENT_NOT_ACTIVE'' ''Agent is not active'')
                 else Inr ()))"

text \<open>\<open>validate\<close> reads the clock twice: in \<open>jwt.decode\<close> and for the stored expiry.\<close>

definition validate_session :: "jwt_lib \<Rightarrow> proxy_settings \<Rightarrow> string \<Rightarrow> int \<Rightarrow> int \<Rightarrow> string \<Rightarrow> database
    \<Rightarrow> trusted_session_claims res" where
  "validate_session L s expected_agent jwt_now now token db =
     bind_res (decode_session_token L s jwt_now token) (\<lambda>c.
     if tc_agent_id c \<noteq> expected_agent
     then Inl (TrustedSessionError ''SESSION_AGENT_MISMATCH''
                ''Session is not bound to the authenticated agent'')
     else bind_res (check_persisted c now db) (\<lambda>_. Inr c))"

definition revoke_session :: "string \<Rightarrow> int \<Rightarrow> database \<Rightarrow> agent_session res \<times> database" where
  "revoke_session k now db =
     in_session (\<lambda>d.
       case session_get k d of
         None \<Rightarrow> (Inl (TrustedSessionError ''SESSION_NOT_FOUND'' ''Session does not exist''), d)
       | Some row \<Rightarrow>
           if se_status row \<noteq> SessionRevoked then
             (let revoked = row\<lparr>se_status := SessionRevoked, se_revoked_at := Some (now_utc now)\<rparr>
              in (Inr revoked,
                  session_flush (revoked\<lparr>se_revoked_at := Some (db_store_time d (now_utc now))\<rparr>) d))
           else (Inr row, d)) db"

section \<open>Validation\<close>

lemma check_persisted_Inr:
  "check_persisted c now db = Inr u \<longleftrightarrow>
     (\<exists>row a. session_get (tc_session_id c) db = Some row \<and> se_token_jti row = tc_token_jti c \<and>
        se_status row = SessionActive \<and> now < instant (se_expires_at row) \<and>
        se_agent_id row = tc_agent_id c \<and> se_user_id row = tc_user_id c \<and>
        se_customer_id row = tc_customer_id c \<and>
        agent_get (tc_agent_id c) db = Some a \<and> ag_status a = AgentActive)"
  by (auto simp: check_persisted_def split: option.splits if_splits)

lemma validate_session_Inr:
  "validate_session L s agent jwt_now now token db = Inr c \<longleftrightarrow>
     decode_session_token L s jwt_now token = Inr c \<and> tc_agent_id c = agent \<and>
     check_persisted c now db = Inr ()"
  by (auto simp: validate_session_def bind_res_eq_Inr)

text \<open>(C14) A session token is accepted exactly when it decodes to claims that are bound to the
  authenticated agent and agree, field by field, with a stored session that is active, has not
  expired and belongs to an active agent.  The token alone never suffices.\<close>

theorem validate_session_iff:
  "validate_session L s agent jwt_now now token db = Inr c \<longleftrightarrow>
     decode_session_token L s jwt_now token = Inr c \<and> tc_agent_id c = agent \<and>
     (\<exists>row a. session_get (tc_session_id c) db = Some row \<and> se_token_jti row = tc_token_jti c \<and>
        se_status row = SessionActive \<and> now < instant (se_expires_at row) \<and>
        se_agent_id row = agent \<and> se_user_id row = tc_user_id c \<and>
        se_customer_id row = tc_customer_id c \<and>
        agent_get agent db = Some a \<and> ag_status a = AgentActive)"
  by (auto simp: validate_session_Inr check_persisted_Inr)

lemma required_strings_ok:
  "\<forall>k \<in> set ks. \<exists>v. map_of cs k = Some (JStr v) \<and> v \<noteq> [] \<Longrightarrow>
   \<exists>r. required_strings cs ks = Inr r \<and> map fst r = ks \<and> (\<forall>(k, v) \<in> set r. map_of cs k = Some (JStr v))"
proof (induction ks)
  case (Cons k ks)
  then obtain r where "required_strings cs ks = Inr r" "map fst r = ks"
    "\<forall>(k, v) \<in> set r. map_of cs k = Some (JStr v)" by auto
  moreover obtain v where "map_of cs k = Some (JStr v)" "v \<noteq> []" using Cons.prems by auto
  ultimately show ?case by simp
qed simp

section \<open>Creation\<close>

definition nonempty_ids :: "agent_session \<Rightarrow> bool" where
  "nonempty_ids row \<longleftrightarrow> se_id row \<noteq> [] \<and> se_token_jti row \<noteq> [] \<and> se_agent_id row \<noteq> [] \<and>
     se_user_id row \<noteq> [] \<and> se_customer_id row \<noteq> []"

definition claims_of :: "agent_session \<Rightarrow> trusted_session_claims" where
  "claims_of row =
     \<lparr>tc_session_id = se_id row, tc_token_jti = se_token_jti row, tc_agent_id = se_agent_id row,
      tc_user_id = se_user_id row, tc_customer_id = se_customer_id row,
      tc_issued_at = from_timestamp (whole_seconds (se_created_at row)),
      tc_expires_at = from_timestamp (whole_seconds (se_expires_at row))\<rparr>"

lemma whole_seconds_as_utc [simp]: "whole_seconds (as_utc d) = whole_seconds d"
  by (simp add: whole_seconds_def)

lemma timestamp_of_whole:
  "clock_reading (instant d) \<Longrightarrow> timestamp_of (whole_seconds d * 1000000) = Inr (from_timestamp (whole_seconds d))"
  by (simp add: timestamp_of_def whole_seconds_def from_timestamp_def clock_reading_seconds clock_reading_valid)

lemma map_of_session_claims:
  "map_of (claims_json (session_claims s row)) ''iss'' = Some (JStr (px_session_token_issuer s))"
  "map_of (claims_json (session_claims s row)) ''aud'' = Some (JStr (px_session_token_audience s))"
  "map_of (claims_json (session_claims s row)) ''sub'' = Some (JStr (se_id row))"
  "map_of (claims_json (session_claims s row)) ''jti'' = Some (JStr (se_token_jti row))"
  "map_of (claims_json (session_claims s row)) ''token_use'' = Some (JStr ''agent_session'')"
  "map_of (claims_json (session_claims s row)) ''agent_id'' = Some (JStr (se_agent_id row))"
  "map_of (claims_json (session_claims s row)) ''user_id'' = Some (JStr (se_user_id row))"
  "map_of (claims_json (session_claims s row)) ''customer_id'' = Some (JStr (se_customer_id row))"
  "map_of (claims_json (session_claims s row)) ''iat'' = Some (JInt (whole_seconds (se_created_at row)))"
  "map_of (claims_json (session_claims s row)) ''exp'' = Some (JInt (whole_seconds (se_expires_at row)))"
  by (simp_all add: map_of_claims_json session_claims_def)

lemma session_claims_verified:
  assumes "whole_seconds (se_created_at row) * 1000000 \<le> now"
  shows "claims_addressed (session_claims s row) (px_session_token_audience s) (px_session_token_issuer s)
      session_token_requirements"
    and "time_claims_started (session_claims s row) now"
    and "map_of (session_claims s row) ''exp'' = Some (ClaimTime (as_utc (se_expires_at row)))"
  using assms
  by (simp_all add: claims_addressed_def time_claims_started_def session_claims_def
      session_token_requirements_def)

lemma decode_session_claims:
  assumes "nonempty_ids row" "clock_reading (instant (se_created_at row))"
    "clock_reading (instant (se_expires_at row))"
    and "jwt_decode L token (px_session_signing_secret s) [''HS256''] (px_session_token_audience s)
      (px_session_token_issuer s) session_token_requirements now = Inr (claims_json (session_claims s row))"
  shows "decode_session_token L s now token = Inr (claims_of row)"
proof -
  let ?cs = "claims_json (session_claims s row)"
  have req: "required_strings ?cs [''sub'', ''jti'', ''agent_id'', ''user_id'', ''customer_id''] =
      Inr [(''sub'', se_id row), (''jti'', se_token_jti row), (''agent_id'', se_agent_id row),
           (''user_id'', se_user_id row), (''customer_id'', se_customer_id row)]"
    using assms(1) by (simp add: map_of_session_claims nonempty_ids_def)
  have times: "claim_timestamp L ?cs ''iat'' = Inr (from_timestamp (whole_seconds (se_created_at row)))"
    "claim_timestamp L ?cs ''exp'' = Inr (from_timestamp (whole_seconds (se_expires_at row)))"
    using assms(2,3) by (simp_all add: claim_timestamp_def map_of_session_claims timestamp_of_whole)
  show ?thesis
    using req times assms(4)
    by (simp add: decode_session_token_def lift_jwt_def map_of_session_claims claims_of_def del: required_strings.simps)
qed

lemma decode_issued:
  assumes L: "jwt_roundtrip L" and ids: "nonempty_ids row"
    and times: "clock_reading (instant (se_created_at row))" "clock_reading (instant (se_expires_at row))"
    and now: "whole_seconds (se_created_at row) * 1000000 \<le> now" "now < whole_seconds (se_expires_at row) * 1000000"
  shows "decode_session_token L s now (issue_session_token L s row) = Inr (claims_of row)"
proof (rule decode_session_claims [OF ids times])
  show "jwt_decode L (issue_session_token L s row) (px_session_signing_secret s) [''HS256'']
      (px_session_token_audience s) (px_session_token_issuer s) session_token_requirements now =
      Inr (claims_json (session_claims s row))"
    using L session_claims_verified [OF now(1)] now(2)
    unfolding jwt_roundtrip_def issue_session_token_def by (metis list.set_intros(1) whole_seconds_as_utc)
qed

lemma new_row_decodes:
  assumes "jwt_roundtrip L" and ids: "u2 \<noteq> []" "agent \<noteq> []" "user \<noteq> []" "customer \<noteq> []"
    and clock: "clock_reading now" "clock_reading (now + ttl * 1000000)"
    and t: "now \<le> t" "t < (now + ttl * 1000000) div 1000000 * 1000000"
  shows "decode_session_token L s t (issue_session_token L s (new_session_row agent user customer by ttl u1 u2 now)) =
    Inr (claims_of (new_session_row agent user customer by ttl u1 u2 now))"
proof -
  have "now div 1000000 * 1000000 \<le> now" by simp
  then show ?thesis
    using assms by (intro decode_issued) (simp_all add: nonempty_ids_def new_session_row_def whole_seconds_def)
qed

lemma create_session_Inr:
  "create_session L s agent user customer by ttl u1 u2 now db = (Inr c, db') \<longleftrightarrow>
     60 \<le> session_ttl s ttl \<and> session_ttl s ttl \<le> px_session_token_ttl_seconds s \<and>
     (\<exists>a. agent_get agent db = Some a \<and> ag_status a = AgentActive) \<and>
     session_add (new_session_row agent user customer by (session_ttl s ttl) u1 u2 now) db =
       (Inr (new_session_row agent user customer by (session_ttl s ttl) u1 u2 now), db') \<and>
     c = created_session L s (new_session_row agent user customer by (session_ttl s ttl) u1 u2 now)"
  by (auto simp: create_session_def Let_def in_session_Inr split: option.splits if_splits prod.splits sum.splits
      dest: sessions.add_Inr)

lemma create_session_Inl: "create_session L s agent user customer by ttl u1 u2 now db = (Inl e, db') \<Longrightarrow> db' = db"
  by (auto simp: create_session_def Let_def in_session_def split: if_splits prod.splits sum.splits)

lemma session_add_rows:
  "session_add r db = (x, db') \<Longrightarrow> db_agents db' = db_agents db \<and> db_manifests db' = db_manifests db \<and>
     db_tools db' = db_tools db \<and> db_events db' = db_events db \<and> db_customers db' = db_customers db \<and>
     db_store_time db' = db_store_time db \<and> db_checks_width db' = db_checks_width db"
  by (auto simp: session_add_def insert_row_def split: sum.splits)

lemma create_session_wf:
  "db_wf db \<Longrightarrow> create_session L s agent user customer by ttl u1 u2 now db = (r, db') \<Longrightarrow> db_wf db'"
  by (cases r) (auto simp: create_session_Inr dest: create_session_Inl session_add_wf)

text \<open>The stored row of a created session.\<close>

lemma created_row:
  assumes "create_session L s agent user customer by ttl u1 u2 now db = (Inr c, db')"
  shows "session_get (''sess_'' @ u1) db' =
      Some (stored_session db (new_session_row agent user customer by (session_ttl s ttl) u1 u2 now))"
    and "db_agents db' = db_agents db"
proof -
  let ?row = "new_session_row agent user customer by (session_ttl s ttl) u1 u2 now"
  have add: "session_add ?row db = (Inr ?row, db')" using assms by (simp add: create_session_Inr)
  show "session_get (''sess_'' @ u1) db' = Some (stored_session db ?row)"
    using sessions.get_added [OF add] by (simp add: session_get_def new_session_row_def)
  show "db_agents db' = db_agents db" using session_add_rows [OF add] by simp
qed

lemma created_persisted:
  assumes create: "create_session L s agent user customer by ttl u1 u2 now db = (Inr c, db')"
    and time: "faithful_time db" "later < now + session_ttl s ttl * 1000000"
  shows "check_persisted (claims_of (new_session_row agent user customer by (session_ttl s ttl) u1 u2 now))
      later db' = Inr ()"
proof -
  obtain a where "agent_get agent db = Some a" "ag_status a = AgentActive"
    using create by (auto simp: create_session_Inr)
  then have "agent_get agent db' = Some a" "ag_status a = AgentActive"
    using created_row(2) [OF create] by (simp_all add: agent_get_def)
  moreover have "later < instant (db_store_time db (add_seconds (now_utc now) (session_ttl s ttl)))"
    using time by (simp add: faithful_time_def now_utc_def)
  ultimately show ?thesis
    unfolding check_persisted_Inr using created_row(1) [OF create]
    by (auto simp: claims_of_def stored_session_def new_session_row_def)
qed

text \<open>(C15) A session that was created validates for its agent from its creation until the last
  whole second of its lifetime, on any backend whose timestamps keep the instant, and gives back the
  agent, user and customer it was created for.\<close>

theorem create_then_validate:
  assumes "jwt_roundtrip L" "faithful_time db"
    and create: "create_session L s agent user customer by ttl u1 u2 now db = (Inr c, db')"
    and ids: "u2 \<noteq> []" "agent \<noteq> []" "user \<noteq> []" "customer \<noteq> []"
    and clock: "clock_reading now" "clock_reading (now + session_ttl s ttl * 1000000)"
    and jwt: "now \<le> jwt_now" "jwt_now < (now + session_ttl s ttl * 1000000) div 1000000 * 1000000"
    and later: "later < now + session_ttl s ttl * 1000000"
  shows "\<exists>claims. validate_session L s agent jwt_now later (cts_session_token c) db' = Inr claims \<and>
    tc_session_id claims = cts_session_id c \<and> tc_agent_id claims = agent \<and>
    tc_user_id claims = user \<and> tc_customer_id claims = customer"
proof -
  let ?row = "new_session_row agent user customer by (session_ttl s ttl) u1 u2 now"
  have c: "c = created_session L s ?row" using create by (simp add: create_session_Inr)
  have "decode_session_token L s jwt_now (issue_session_token L s ?row) = Inr (claims_of ?row)"
    by (rule new_row_decodes [OF assms(1) ids clock jwt])
  then have "validate_session L s agent jwt_now later (cts_session_token c) db' = Inr (claims_of ?row)"
    using created_persisted [OF create assms(2) later]
    by (simp add: validate_session_Inr c created_session_def claims_of_def new_session_row_def)
  then show ?thesis by (auto simp: c created_session_def claims_of_def new_session_row_def)
qed

definition sample_agent :: agent where
  "sample_agent =
     \<lparr>ag_id = ''support-agent'', ag_oidc_subject = ''oidc-support-agent'', ag_name = ''Support'',
      ag_owning_team = ''Care'', ag_status = AgentActive\<rparr>"

definition sample_database :: database where
  "sample_database = (empty_database sqlite_time False)\<lparr>db_agents := [sample_agent]\<rparr>"

lemma sample_faithful: "faithful_time sample_database"
  by (simp add: faithful_time_def sample_database_def empty_database_def)

lemma sample_create:
  "\<exists>c db'. create_session plain_jwt local_proxy_settings ''support-agent'' ''u'' ''c1'' ''host''
     None ''11'' ''22'' 1700000000000000 sample_database = (Inr c, db')"
  by (simp add: create_session_Inr session_ttl_def local_proxy_settings_def session_add_def insert_row_Inr
      new_session_row_def sample_database_def sample_agent_def empty_database_def agent_get_def
      session_get_def session_get_by_jti_def widths_ok_def width_defs session_window_ok_def stored_session_def now_utc_def)

theorem create_then_validate_witness:
  "\<exists>c db' claims.
     create_session plain_jwt local_proxy_settings ''support-agent'' ''u'' ''c1'' ''host''
       None ''11'' ''22'' 1700000000000000 sample_database = (Inr c, db') \<and>
     validate_session plain_jwt local_proxy_settings ''support-agent'' 1700000000500000 1700000000600000
       (cts_session_token c) db' = Inr claims \<and> tc_customer_id claims = ''c1''"
proof -
  obtain c db' where create: "create_session plain_jwt local_proxy_settings ''support-agent'' ''u'' ''c1''
      ''host'' None ''11'' ''22'' 1700000000000000 sample_database = (Inr c, db')"
    using sample_create by blast
  have "\<exists>claims. validate_session plain_jwt local_proxy_settings ''support-agent'' 1700000000500000
      1700000000600000 (cts_session_token c) db' = Inr claims \<and> tc_session_id claims = cts_session_id c \<and>
      tc_agent_id claims = ''support-agent'' \<and> tc_user_id claims = ''u'' \<and> tc_customer_id claims = ''c1''"
    by (rule create_then_validate [OF plain_jwt_roundtrip sample_faithful create])
      (simp_all add: session_ttl_def local_proxy_settings_def clock_reading_def)
  with create show ?thesis by blast
qed

text \<open>(C27) The lifetime of a session: on a backend that stores instants, a creation that succeeds adds
  exactly one session.  It is new, active and of an active agent, names the agent, the user, the
  customer and the creator of the request, starts now and ends the requested number of seconds
  later (the configured default when none is requested), which is between one minute and the
  configured maximum; the answer reports that identity and that end.  A creation that fails leaves the
  database unchanged.\<close>

theorem create_session_outcome:
  assumes time: "faithful_time db"
    and create: "create_session L s agent user customer by ttl u1 u2 now db = (r, db')"
  shows "case r of
     Inl e \<Rightarrow> db' = db
   | Inr c \<Rightarrow>
       \<exists>a row. agent_get agent db = Some a \<and> ag_status a = AgentActive \<and>
         session_get (cts_session_id c) db = None \<and> session_get (cts_session_id c) db' = Some row \<and>
         db' = db\<lparr>db_sessions := db_sessions db @ [row]\<rparr> \<and>
         se_agent_id row = agent \<and> se_user_id row = user \<and> se_customer_id row = customer \<and>
         se_created_by_subject row = by \<and> se_status row = SessionActive \<and> se_revoked_at row = None \<and>
         instant (se_created_at row) = now \<and>
         instant (se_expires_at row) =
           now + (case ttl of None \<Rightarrow> px_session_token_ttl_seconds s | Some t \<Rightarrow> t) * 1000000 \<and>
         now + 60 * 1000000 \<le> instant (se_expires_at row) \<and>
         instant (se_expires_at row) \<le> now + px_session_token_ttl_seconds s * 1000000 \<and>
         cts_agent_id c = agent \<and> cts_user_id c = user \<and> cts_customer_id c = customer \<and>
         instant (cts_expires_at c) = instant (se_expires_at row)"
proof (cases r)
  case (Inl e)
  then show ?thesis using create create_session_Inl by auto
next
  case (Inr c)
  let ?new = "new_session_row agent user customer by (session_ttl s ttl) u1 u2 now"
  have ok: "60 \<le> session_ttl s ttl" "session_ttl s ttl \<le> px_session_token_ttl_seconds s"
    "\<exists>a. agent_get agent db = Some a \<and> ag_status a = AgentActive"
    and add: "session_add ?new db = (Inr ?new, db')" and c: "c = created_session L s ?new"
    using create Inr by (auto simp: create_session_Inr session_add_def insert_row_Inr)
  have new: "session_get (se_id ?new) db = None" "db' = db\<lparr>db_sessions := db_sessions db @ [stored_session db ?new]\<rparr>"
    using add by (auto simp: session_add_def insert_row_Inr)
  have "session_get (se_id ?new) db' = Some (stored_session db ?new)"
    using new by (simp add: session_get_def row_of_append stored_session_def)
  moreover have "instant (se_created_at (stored_session db ?new)) = now"
    "instant (se_expires_at (stored_session db ?new)) = now + session_ttl s ttl * 1000000"
    using time by (simp_all add: faithful_time_def stored_session_def new_session_row_def now_utc_def)
  moreover have "instant (cts_expires_at c) = now + session_ttl s ttl * 1000000"
    by (simp add: c created_session_def new_session_row_def now_utc_def)
  moreover have "se_agent_id (stored_session db ?new) = agent \<and> se_user_id (stored_session db ?new) = user \<and>
      se_customer_id (stored_session db ?new) = customer \<and> se_created_by_subject (stored_session db ?new) = by \<and>
      se_status (stored_session db ?new) = SessionActive \<and> se_revoked_at (stored_session db ?new) = None"
    by (simp add: stored_session_def new_session_row_def)
  moreover have "cts_agent_id c = agent" "cts_user_id c = user" "cts_customer_id c = customer" "cts_session_id c = se_id ?new"
    by (simp_all add: c created_session_def new_session_row_def)
  ultimately show ?thesis
    using ok new Inr unfolding session_ttl_def [symmetric] by auto
qed

theorem create_session_outcome_witness:
  "\<exists>c db' row. create_session plain_jwt local_proxy_settings ''support-agent'' ''u'' ''c1'' ''host'' None ''11'' ''22''
       1700000000000000 sample_database = (Inr c, db') \<and> session_get (cts_session_id c) db' = Some row \<and>
     instant (se_created_at row) = 1700000000000000 \<and> instant (se_expires_at row) = 1700001800000000"
proof -
  obtain c db' where create: "create_session plain_jwt local_proxy_settings ''support-agent'' ''u'' ''c1'' ''host''
     None ''11'' ''22'' 1700000000000000 sample_database = (Inr c, db')" using sample_create by blast
  from create_session_outcome [OF sample_faithful create] obtain row where
    "session_get (cts_session_id c) db' = Some row" "instant (se_created_at row) = 1700000000000000"
    "instant (se_expires_at row) = 1700001800000000" by (auto simp: local_proxy_settings_def)
  with create show ?thesis by blast
qed

section \<open>Revocation\<close>

definition session_revoked :: "string \<Rightarrow> database \<Rightarrow> bool" where
  "session_revoked k db \<longleftrightarrow> (\<exists>row. session_get k db = Some row \<and> se_status row = SessionRevoked)"

lemma revoke_session_rows:
  "revoke_session k now db = (r, db') \<Longrightarrow> db_agents db' = db_agents db \<and> db_manifests db' = db_manifests db \<and>
     db_tools db' = db_tools db \<and> db_events db' = db_events db \<and> db_customers db' = db_customers db \<and>
     db_store_time db' = db_store_time db \<and> db_checks_width db' = db_checks_width db"
  by (auto simp: revoke_session_def in_session_def session_flush_def Let_def split: option.splits if_splits)

lemma session_getD: "session_get k db = Some row \<Longrightarrow> row \<in> set (db_sessions db) \<and> se_id row = k"
  by (auto simp: session_get_def dest: row_of_SomeD)

lemma revoke_session_cases:
  assumes "revoke_session k now db = (Inr row', db')"
  obtains row where "session_get k db = Some row" "se_status row \<noteq> SessionRevoked"
      "row' = row\<lparr>se_status := SessionRevoked, se_revoked_at := Some (now_utc now)\<rparr>"
      "db' = session_flush (row'\<lparr>se_revoked_at := Some (db_store_time db (now_utc now))\<rparr>) db"
    | "session_get k db = Some row'" "se_status row' = SessionRevoked" "db' = db"
  using assms by (auto simp: revoke_session_def in_session_Inr Let_def split: option.splits if_splits)

lemma session_flush_get:
  "session_get (se_id r) db = Some r0 \<Longrightarrow> session_get (se_id r) (session_flush r db) = Some r"
  by (simp add: session_get_def session_flush_def row_of_replace)

lemma session_flush_other: "j \<noteq> se_id r \<Longrightarrow> session_get j (session_flush r db) = session_get j db"
  by (simp add: session_get_def session_flush_def row_of_replace)

lemma revoke_session_other:
  assumes "revoke_session k now db = (Inr row', db')" "j \<noteq> k"
  shows "session_get j db' = session_get j db"
  using assms(1)
proof (cases rule: revoke_session_cases)
  case (1 row)
  then have "se_id row = k" using session_getD by blast
  then show ?thesis using 1 assms(2) by (simp add: session_flush_other)
qed simp

lemma revoke_session_get:
  assumes "revoke_session k now db = (Inr row', db')"
  shows "\<exists>row. session_get k db' = Some row \<and> se_status row = SessionRevoked"
  using assms
proof (cases rule: revoke_session_cases)
  case (1 row)
  then have "se_id row' = k" by (auto dest: session_getD)
  then show ?thesis
    using 1 session_flush_get [of "row'\<lparr>se_revoked_at := Some (db_store_time db (now_utc now))\<rparr>" db row]
    by simp
qed auto

lemma revoke_session_wf: "db_wf db \<Longrightarrow> revoke_session k now db = (r, db') \<Longrightarrow> db_wf db'"
proof (cases r)
  case (Inr row')
  assume wf: "db_wf db" and ok: "revoke_session k now db = (r, db')"
  show "db_wf db'"
    using ok [unfolded Inr]
  proof (cases rule: revoke_session_cases)
    case (1 row)
    moreover have "se_id row = k" using session_getD 1(1) by blast
    ultimately show ?thesis
      unfolding 1(4) by (intro session_flush_wf [OF wf, where ?s0.0 = row]) simp_all
  qed (use wf in simp)
qed (auto simp: revoke_session_def in_session_def split: prod.splits sum.splits)

lemma revoked_not_valid:
  assumes "session_revoked (tc_session_id c) db"
  shows "validate_session L s agent jwt_now now token db \<noteq> Inr c"
  using assms by (auto simp: validate_session_Inr check_persisted_Inr session_revoked_def)

text \<open>Revocation succeeds exactly on existing sessions, marks the session revoked, keeps every
  other session, and is idempotent: revoking again changes nothing, the time of the first
  revocation included.\<close>

lemma revoke_session_outcome:
  "case revoke_session k now db of
     (Inl e, db') \<Rightarrow> session_get k db = None \<and> db' = db
   | (Inr row, db') \<Rightarrow>
       session_get k db \<noteq> None \<and> se_status row = SessionRevoked \<and> session_revoked k db' \<and>
       (\<forall>j. j \<noteq> k \<longrightarrow> session_get j db' = session_get j db) \<and>
       (\<forall>now'. snd (revoke_session k now' db') = db')"
proof (cases "revoke_session k now db")
  case (Pair r db')
  show ?thesis
  proof (cases r)
    case (Inl e)
    then show ?thesis using Pair
      by (auto simp: revoke_session_def in_session_def Let_def split: option.splits if_splits)
  next
    case (Inr row)
    have rev: "revoke_session k now db = (Inr row, db')" using Pair Inr by simp
    obtain r2 where r2: "session_get k db' = Some r2" "se_status r2 = SessionRevoked"
      using revoke_session_get [OF rev] by blast
    then have again: "snd (revoke_session k now' db') = db'" for now'
      by (simp add: revoke_session_def in_session_def)
    have "session_get k db \<noteq> None \<and> se_status row = SessionRevoked"
      using rev by (cases rule: revoke_session_cases) auto
    then show ?thesis using Pair Inr r2 again revoke_session_other [OF rev] by (simp add: session_revoked_def)
  qed
qed

end
