(* ===== verification/Manifest.thy ===== *)
theory Manifest
  imports Json
begin

text \<open>
  \<open>policy/manifest.py\<close>: the typed permission manifest and its strict parser.  Each
  \<open>parse_\<close> function is the pydantic model of the same name run on a JSON value: unknown
  keys are rejected (\<open>extra="forbid"\<close>), missing required ones too, literals and lengths are
  checked, and the \<open>model_validator\<close>s run last; \<open>None\<close> is a \<open>ValidationError\<close>.  How
  pydantic coerces a JSON value to \<open>int\<close> or \<open>bool\<close> in lax mode is a parameter
  (\<open>pydantic\<close>); \<open>str\<close> and \<open>Literal\<close> fields accept JSON strings only.
\<close>

record pydantic =
  lax_int :: "json \<Rightarrow> int option"
  lax_bool :: "json \<Rightarrow> bool option"

text \<open>The documented part of the coercions: a value of the type itself is kept.\<close>

definition pydantic_keeps_typed :: "pydantic \<Rightarrow> bool" where
  "pydantic_keeps_typed P \<longleftrightarrow> (\<forall>n. lax_int P (JInt n) = Some n) \<and> (\<forall>b. lax_bool P (JBool b) = Some b)"

text \<open>An instance that accepts values of the type only.\<close>

definition strict_pydantic :: pydantic where
  "strict_pydantic =
     \<lparr>lax_int = (\<lambda>j. case j of JInt n \<Rightarrow> Some n | _ \<Rightarrow> None),
      lax_bool = (\<lambda>j. case j of JBool b \<Rightarrow> Some b | _ \<Rightarrow> None)\<rparr>"

lemma strict_pydantic_keeps_typed: "pydantic_keeps_typed strict_pydantic"
  by (simp add: pydantic_keeps_typed_def strict_pydantic_def)

section \<open>The models\<close>

datatype property_constraint =
    StringConstraint "int option"
  | ObjectConstraint

record parameter_schema =
  ps_required :: "string list"
  ps_properties :: "(string \<times> property_constraint) list"
  ps_additional_properties :: bool

record session_parameter_rule =
  sr_type :: string
  sr_session_claim :: string
  sr_parameter :: string

record operation_rule =
  or_parameter_schema :: parameter_schema
  or_data_scope :: "session_parameter_rule list option"

record tool_permission =
  tp_allowed_operations :: "string list"
  tp_operation_rules :: "(string \<times> operation_rule) list"

record manifest_document =
  md_schema_version :: string
  md_manifest_id :: string
  md_agent_id :: string
  md_tools :: "(string \<times> tool_permission) list"
  md_deny_message :: string

section \<open>Field readers\<close>

definition only_keys :: "string list \<Rightarrow> (string \<times> json) list \<Rightarrow> bool" where
  "only_keys allowed kvs \<longleftrightarrow> list_all (\<lambda>(k, v). k \<in> set allowed) kvs"

fun as_str :: "json \<Rightarrow> string option" where
  "as_str (JStr s) = Some s"
| "as_str _ = None"

fun as_dict :: "json \<Rightarrow> (string \<times> json) list option" where
  "as_dict (JObj kvs) = Some kvs"
| "as_dict _ = None"

fun as_list :: "json \<Rightarrow> json list option" where
  "as_list (JArr xs) = Some xs"
| "as_list _ = None"

definition str_field :: "nat \<Rightarrow> nat \<Rightarrow> string \<Rightarrow> (string \<times> json) list \<Rightarrow> string option" where
  "str_field lo hi k kvs =
     Option.bind (map_of kvs k) (\<lambda>j. Option.bind (as_str j) (\<lambda>s. if in_length lo hi s then Some s else None))"

definition literal_field :: "string list \<Rightarrow> string \<Rightarrow> (string \<times> json) list \<Rightarrow> string option" where
  "literal_field lits k kvs =
     Option.bind (map_of kvs k) (\<lambda>j. Option.bind (as_str j) (\<lambda>s. if s \<in> set lits then Some s else None))"

fun parse_list :: "(json \<Rightarrow> 'a option) \<Rightarrow> json list \<Rightarrow> 'a list option" where
  "parse_list f [] = Some []"
| "parse_list f (j # js) =
     (case f j of None \<Rightarrow> None | Some x \<Rightarrow> map_option (\<lambda>xs. x # xs) (parse_list f js))"

fun parse_items :: "(json \<Rightarrow> 'a option) \<Rightarrow> (string \<times> json) list \<Rightarrow> (string \<times> 'a) list option" where
  "parse_items f [] = Some []"
| "parse_items f ((k, j) # js) =
     (case f j of None \<Rightarrow> None | Some x \<Rightarrow> map_option (\<lambda>xs. (k, x) # xs) (parse_items f js))"

definition str_list_field :: "string \<Rightarrow> (string \<times> json) list \<Rightarrow> string list option" where
  "str_list_field k kvs = Option.bind (map_of kvs k) (\<lambda>j. Option.bind (as_list j) (parse_list as_str))"

definition dict_field :: "(json \<Rightarrow> 'a option) \<Rightarrow> string \<Rightarrow> (string \<times> json) list
    \<Rightarrow> (string \<times> 'a) list option" where
  "dict_field f k kvs = Option.bind (map_of kvs k) (\<lambda>j. Option.bind (as_dict j) (parse_items f))"

section \<open>The parsers\<close>

definition parse_max_length :: "pydantic \<Rightarrow> (string \<times> json) list \<Rightarrow> int option option" where
  "parse_max_length P kvs =
     (case map_of kvs ''maxLength'' of
        None \<Rightarrow> Some None
      | Some JNull \<Rightarrow> Some None
      | Some j \<Rightarrow>
          (case lax_int P j of
             None \<Rightarrow> None
           | Some n \<Rightarrow> if 1 \<le> n \<and> n \<le> 4096 then Some (Some n) else None))"

definition parse_constraint :: "pydantic \<Rightarrow> json \<Rightarrow> property_constraint option" where
  "parse_constraint P j =
     (case as_dict j of
        None \<Rightarrow> None
      | Some kvs \<Rightarrow>
          (case literal_field [''string'', ''object''] ''type'' kvs of
             None \<Rightarrow> None
           | Some t \<Rightarrow>
               if t = ''string'' then
                 (if only_keys [''type'', ''maxLength''] kvs
                  then map_option StringConstraint (parse_max_length P kvs) else None)
               else if only_keys [''type''] kvs then Some ObjectConstraint else None))"

definition parse_required :: "(string \<times> json) list \<Rightarrow> string list option" where
  "parse_required kvs =
     (if map_of kvs ''required'' = None then Some [] else str_list_field ''required'' kvs)"

text \<open>
  \<open>additional_properties\<close> may be given by alias or by name (\<open>populate_by_name\<close>); the key
  that is not used counts as extra, so giving both is an error.
\<close>

definition parse_additional :: "pydantic \<Rightarrow> (string \<times> json) list \<Rightarrow> bool option" where
  "parse_additional P kvs =
     (case (map_of kvs ''additionalProperties'', map_of kvs ''additional_properties'') of
        (None, None) \<Rightarrow> Some False
      | (Some j, None) \<Rightarrow> lax_bool P j
      | (None, Some j) \<Rightarrow> lax_bool P j
      | (Some _, Some _) \<Rightarrow> None)"

definition required_fields_must_be_declared :: "parameter_schema \<Rightarrow> bool" where
  "required_fields_must_be_declared s \<longleftrightarrow> set (ps_required s) \<subseteq> fst ` set (ps_properties s)"

definition parse_parameter_schema :: "pydantic \<Rightarrow> json \<Rightarrow> parameter_schema option" where
  "parse_parameter_schema P j =
     (case as_dict j of
        None \<Rightarrow> None
      | Some kvs \<Rightarrow>
          if \<not> only_keys [''required'', ''properties'', ''additionalProperties'', ''additional_properties''] kvs
          then None
          else (case (parse_required kvs, dict_field (parse_constraint P) ''properties'' kvs,
                      parse_additional P kvs) of
                  (Some req, Some props, Some add) \<Rightarrow>
                    let s = \<lparr>ps_required = req, ps_properties = props, ps_additional_properties = add\<rparr>
                    in if required_fields_must_be_declared s then Some s else None
                | _ \<Rightarrow> None))"

definition parse_session_parameter_rule :: "json \<Rightarrow> session_parameter_rule option" where
  "parse_session_parameter_rule j =
     (case as_dict j of
        None \<Rightarrow> None
      | Some kvs \<Rightarrow>
          if \<not> only_keys [''type'', ''session_claim'', ''parameter''] kvs then None
          else (case (literal_field [''session_value_equals_parameter''] ''type'' kvs,
                      literal_field [''customer_id'', ''user_id''] ''session_claim'' kvs,
                      str_field 1 100 ''parameter'' kvs) of
                  (Some t, Some c, Some p) \<Rightarrow> Some \<lparr>sr_type = t, sr_session_claim = c, sr_parameter = p\<rparr>
                | _ \<Rightarrow> None))"

definition parse_data_scope :: "json \<Rightarrow> session_parameter_rule list option" where
  "parse_data_scope j =
     (case as_dict j of
        None \<Rightarrow> None
      | Some kvs \<Rightarrow>
          if \<not> only_keys [''all''] kvs then None
          else (case Option.bind (map_of kvs ''all'')
                       (\<lambda>l. Option.bind (as_list l) (parse_list parse_session_parameter_rule)) of
                  None \<Rightarrow> None
                | Some rules \<Rightarrow> if rules = [] then None else Some rules))"

definition parse_optional_scope :: "(string \<times> json) list \<Rightarrow> session_parameter_rule list option option" where
  "parse_optional_scope kvs =
     (case map_of kvs ''data_scope'' of
        None \<Rightarrow> Some None
      | Some JNull \<Rightarrow> Some None
      | Some j \<Rightarrow> map_option Some (parse_data_scope j))"

definition parse_operation_rule :: "pydantic \<Rightarrow> json \<Rightarrow> operation_rule option" where
  "parse_operation_rule P j =
     (case as_dict j of
        None \<Rightarrow> None
      | Some kvs \<Rightarrow>
          if \<not> only_keys [''parameter_schema'', ''data_scope''] kvs then None
          else (case (Option.bind (map_of kvs ''parameter_schema'') (parse_parameter_schema P),
                      parse_optional_scope kvs) of
                  (Some s, Some d) \<Rightarrow> Some \<lparr>or_parameter_schema = s, or_data_scope = d\<rparr>
                | _ \<Rightarrow> None))"

definition allowed_operations_must_have_rules :: "tool_permission \<Rightarrow> bool" where
  "allowed_operations_must_have_rules t \<longleftrightarrow>
     set (tp_allowed_operations t) \<subseteq> fst ` set (tp_operation_rules t) \<and>
     fst ` set (tp_operation_rules t) \<subseteq> set (tp_allowed_operations t)"

definition parse_tool_permission :: "pydantic \<Rightarrow> json \<Rightarrow> tool_permission option" where
  "parse_tool_permission P j =
     (case as_dict j of
        None \<Rightarrow> None
      | Some kvs \<Rightarrow>
          if \<not> only_keys [''allowed_operations'', ''operation_rules''] kvs then None
          else (case (str_list_field ''allowed_operations'' kvs,
                      dict_field (parse_operation_rule P) ''operation_rules'' kvs) of
                  (Some ops, Some rules) \<Rightarrow>
                    let t = \<lparr>tp_allowed_operations = ops, tp_operation_rules = rules\<rparr>
                    in if ops \<noteq> [] \<and> allowed_operations_must_have_rules t then Some t else None
                | _ \<Rightarrow> None))"

definition parse_manifest :: "pydantic \<Rightarrow> json \<Rightarrow> manifest_document option" where
  "parse_manifest P j =
     (case as_dict j of
        None \<Rightarrow> None
      | Some kvs \<Rightarrow>
          if \<not> only_keys [''schema_version'', ''manifest_id'', ''agent_id'', ''tools'', ''deny_message''] kvs
          then None
          else (case (literal_field [''1.0''] ''schema_version'' kvs,
                      str_field 1 100 ''manifest_id'' kvs, str_field 1 64 ''agent_id'' kvs,
                      dict_field (parse_tool_permission P) ''tools'' kvs,
                      str_field 1 500 ''deny_message'' kvs) of
                  (Some v, Some m, Some a, Some ts, Some d) \<Rightarrow>
                    if ts = [] then None
                    else Some \<lparr>md_schema_version = v, md_manifest_id = m, md_agent_id = a, 
                           md_tools = ts, md_deny_message = d\<rparr>
                | _ \<Rightarrow> None))"

section \<open>What a parsed manifest guarantees\<close>

text \<open>
  The constraints of the pydantic models, as a property of the parsed value.  The evaluator
  indexes \<open>operation_rules\<close> and the session values without a test and relies on them.
\<close>

definition wf_rule :: "session_parameter_rule \<Rightarrow> bool" where
  "wf_rule r \<longleftrightarrow> sr_type r = ''session_value_equals_parameter'' \<and>
     sr_session_claim r \<in> {''customer_id'', ''user_id''} \<and> in_length 1 100 (sr_parameter r)"

definition wf_constraint :: "property_constraint \<Rightarrow> bool" where
  "wf_constraint c \<longleftrightarrow> (\<forall>n. c = StringConstraint (Some n) \<longrightarrow> 1 \<le> n \<and> n \<le> 4096)"

definition wf_schema :: "parameter_schema \<Rightarrow> bool" where
  "wf_schema s \<longleftrightarrow> required_fields_must_be_declared s \<and>
     (\<forall>c \<in> snd ` set (ps_properties s). wf_constraint c)"

definition wf_operation_rule :: "operation_rule \<Rightarrow> bool" where
  "wf_operation_rule r \<longleftrightarrow> wf_schema (or_parameter_schema r) \<and>
     (\<forall>rules. or_data_scope r = Some rules \<longrightarrow> rules \<noteq> [] \<and> (\<forall>x \<in> set rules. wf_rule x))"

definition wf_tool_permission :: "tool_permission \<Rightarrow> bool" where
  "wf_tool_permission t \<longleftrightarrow> tp_allowed_operations t \<noteq> [] \<and> allowed_operations_must_have_rules t \<and>
     (\<forall>r \<in> snd ` set (tp_operation_rules t). wf_operation_rule r)"

definition wf_document :: "manifest_document \<Rightarrow> bool" where
  "wf_document d \<longleftrightarrow> md_schema_version d = ''1.0'' \<and> in_length 1 100 (md_manifest_id d) \<and>
     in_length 1 64 (md_agent_id d) \<and> in_length 1 500 (md_deny_message d) \<and> md_tools d \<noteq> [] \<and>
     (\<forall>t \<in> snd ` set (md_tools d). wf_tool_permission t)"

lemma str_field_Some: "str_field lo hi k kvs = Some s \<Longrightarrow> in_length lo hi s"
  by (auto simp: str_field_def bind_eq_Some_conv split: if_splits)

lemma literal_field_Some: "literal_field lits k kvs = Some s \<Longrightarrow> s \<in> set lits"
  by (auto simp: literal_field_def bind_eq_Some_conv split: if_splits)

lemma parse_items_elem: "parse_items f kvs = Some xs \<Longrightarrow> (k, x) \<in> set xs \<Longrightarrow> \<exists>j. f j = Some x"
  by (induction f kvs arbitrary: xs rule: parse_items.induct) (auto split: option.splits)

lemma parse_items_keys: "parse_items f kvs = Some xs \<Longrightarrow> map fst xs = map fst kvs"
  by (induction f kvs arbitrary: xs rule: parse_items.induct) (auto split: option.splits)

lemma parse_list_all:
  "parse_list f js = Some xs \<Longrightarrow> (\<And>j x. f j = Some x \<Longrightarrow> P x) \<Longrightarrow> \<forall>x \<in> set xs. P x"
  by (induction f js arbitrary: xs rule: parse_list.induct) (auto split: option.splits)

lemma dict_field_elem: "dict_field f k kvs = Some xs \<Longrightarrow> (a, x) \<in> set xs \<Longrightarrow> \<exists>j. f j = Some x"
  by (auto simp: dict_field_def bind_eq_Some_conv dest: parse_items_elem)

lemma parse_constraint_wf: "parse_constraint P j = Some c \<Longrightarrow> wf_constraint c"
  by (auto simp: parse_constraint_def parse_max_length_def wf_constraint_def
      split: option.splits if_splits json.splits)

lemma parse_constraint_wf_items:
  "dict_field (parse_constraint P) k kvs = Some xs \<Longrightarrow> (a, x) \<in> set xs \<Longrightarrow> wf_constraint x"
  by (blast dest: dict_field_elem parse_constraint_wf)

lemma parse_schema_wf: "parse_parameter_schema P j = Some s \<Longrightarrow> wf_schema s"
  by (auto simp: parse_parameter_schema_def wf_schema_def Let_def split: option.splits if_splits
      intro: parse_constraint_wf_items)

lemma parse_rule_wf: "parse_session_parameter_rule j = Some r \<Longrightarrow> wf_rule r"
  by (auto simp: parse_session_parameter_rule_def wf_rule_def split: option.splits if_splits
      dest!: literal_field_Some str_field_Some)

lemma parse_scope_wf: "parse_data_scope j = Some rules \<Longrightarrow> rules \<noteq> [] \<and> (\<forall>x \<in> set rules. wf_rule x)"
  by (auto simp: parse_data_scope_def bind_eq_Some_conv split: option.splits if_splits
      dest: parse_list_all [where P = wf_rule, OF _ parse_rule_wf])

lemma parse_operation_rule_wf: "parse_operation_rule P j = Some r \<Longrightarrow> wf_operation_rule r"
  by (auto simp: parse_operation_rule_def parse_optional_scope_def wf_operation_rule_def
      bind_eq_Some_conv split: option.splits if_splits json.splits
      dest: parse_schema_wf parse_scope_wf)

lemma parse_operation_rule_wf_items:
  "dict_field (parse_operation_rule P) k kvs = Some xs \<Longrightarrow> (a, x) \<in> set xs \<Longrightarrow> wf_operation_rule x"
  by (blast dest: dict_field_elem parse_operation_rule_wf)

lemma parse_tool_permission_wf: "parse_tool_permission P j = Some t \<Longrightarrow> wf_tool_permission t"
  by (auto simp: parse_tool_permission_def wf_tool_permission_def Let_def
      split: option.splits if_splits
      intro: parse_operation_rule_wf_items)

lemma parse_tool_permission_wf_items:
  "dict_field (parse_tool_permission P) k kvs = Some xs \<Longrightarrow> (a, x) \<in> set xs \<Longrightarrow> wf_tool_permission x"
  by (blast dest: dict_field_elem parse_tool_permission_wf)

lemma parse_manifest_wf: "parse_manifest P j = Some d \<Longrightarrow> wf_document d"
  by (auto simp: parse_manifest_def wf_document_def split: option.splits if_splits
      dest!: literal_field_Some str_field_Some
      intro: parse_tool_permission_wf_items)

section \<open>Parameter validation\<close>

text \<open>\<open>validate_parameters\<close>, its loop over the items as a recursion.\<close>

fun conforms :: "property_constraint option \<Rightarrow> json \<Rightarrow> bool" where
  "conforms None v = True"
| "conforms (Some (StringConstraint m)) v =
     (case v of
        JStr s \<Rightarrow> (case m of None \<Rightarrow> True | Some n \<Rightarrow> int (length s) \<le> n)
      | _ \<Rightarrow> False)"
| "conforms (Some ObjectConstraint) v = (case v of JObj kvs \<Rightarrow> True | _ \<Rightarrow> False)"

fun check_items :: "parameter_schema \<Rightarrow> (string \<times> json) list \<Rightarrow> bool" where
  "check_items s [] = True"
| "check_items s ((k, v) # kvs) =
     (if \<not> conforms (map_of (ps_properties s) k) v then False else check_items s kvs)"

definition validate_parameters :: "parameter_schema \<Rightarrow> (string \<times> json) list \<Rightarrow> bool" where
  "validate_parameters s ps =
     (if list_ex (\<lambda>r. r \<notin> fst ` set ps) (ps_required s) then False
      else if \<not> ps_additional_properties s \<and> fst ` set ps - fst ` set (ps_properties s) \<noteq> {} then False
      else check_items s ps)"

lemma check_items_iff: "check_items s kvs \<longleftrightarrow> (\<forall>(k, v) \<in> set kvs. conforms (map_of (ps_properties s) k) v)"
  by (induction s kvs rule: check_items.induct) auto

lemma validate_parameters_iff:
  "validate_parameters s ps \<longleftrightarrow>
     set (ps_required s) \<subseteq> fst ` set ps \<and>
     (ps_additional_properties s \<or> fst ` set ps \<subseteq> fst ` set (ps_properties s)) \<and>
     (\<forall>(k, v) \<in> set ps. conforms (map_of (ps_properties s) k) v)"
  by (auto simp: validate_parameters_def check_items_iff list_ex_iff)

lemma validate_required:
  assumes "validate_parameters s ps" "k \<in> set (ps_required s)"
  shows "\<exists>v. map_of ps k = Some v"
proof -
  have "k \<in> fst ` set ps" using assms by (auto simp: validate_parameters_iff)
  then show ?thesis by (metis map_of_eq_None_iff not_None_eq)
qed

lemma validate_string:
  assumes "validate_parameters s ps" "map_of ps k = Some v"
    and "map_of (ps_properties s) k = Some (StringConstraint m)"
  shows "\<exists>t. v = JStr t \<and> (\<forall>n. m = Some n \<longrightarrow> int (length t) \<le> n)"
proof -
  have "conforms (Some (StringConstraint m)) v"
    using assms by (fastforce simp: validate_parameters_iff dest: map_of_SomeD)
  then show ?thesis by (auto split: json.splits option.splits)
qed

end
