(* ===== verification/Evaluator.thy ===== *)
theory Evaluator
  imports Sessions Manifest
begin

text \<open>
  \<open>policy/evaluator.py\<close>: the first-failure, default-deny evaluation of a tool call against the
  active manifest of the agent.  The function reads the database and returns a decision or the
  exception that leaves it (the two dictionary lookups without a default).  The properties: it
  always returns, what an allowed call satisfies and conversely, the data scope, and the
  detection of a manifest whose document was changed.
\<close>

record policy_decision =
  pd_allowed :: bool
  pd_reason_code :: string
  pd_message :: string
  pd_manifest_id :: "string option"
  pd_policy_checksum :: "string option"

definition deny :: "string \<Rightarrow> string \<Rightarrow> permission_manifest option \<Rightarrow> policy_decision" where
  "deny code message m =
     \<lparr>pd_allowed = False, pd_reason_code = code, pd_message = message,
      pd_manifest_id = map_option pm_id m, pd_policy_checksum = map_option pm_checksum m\<rparr>"

definition allow :: "permission_manifest \<Rightarrow> policy_decision" where
  "allow m =
     \<lparr>pd_allowed = True, pd_reason_code = ''ALLOWED'', pd_message = ''Tool call is permitted'',
      pd_manifest_id = Some (pm_id m), pd_policy_checksum = Some (pm_checksum m)\<rparr>"

definition outside_window :: "permission_manifest \<Rightarrow> int \<Rightarrow> bool" where
  "outside_window m now \<longleftrightarrow>
     instant (as_utc (pm_effective_from m)) > now \<or>
     (case pm_expires_at m of None \<Rightarrow> False | Some e \<Rightarrow> instant (as_utc e) \<le> now)"

definition session_values :: "trusted_session_claims \<Rightarrow> (string \<times> string) list" where
  "session_values c = [(''customer_id'', tc_customer_id c), (''user_id'', tc_user_id c)]"

fun check_data_scope :: "trusted_session_claims \<Rightarrow> (string \<times> json) list \<Rightarrow> session_parameter_rule list
    \<Rightarrow> bool res" where
  "check_data_scope c params [] = Inr True"
| "check_data_scope c params (r # rs) =
     (case map_of (session_values c) (sr_session_claim r) of
        None \<Rightarrow> Inl (KeyError (sr_session_claim r))
      | Some v \<Rightarrow>
          if map_of params (sr_parameter r) \<noteq> Some (JStr v) then Inr False
          else check_data_scope c params rs)"

definition evaluate_rule :: "permission_manifest \<Rightarrow> manifest_document \<Rightarrow> tool_permission \<Rightarrow> string
    \<Rightarrow> trusted_session_claims \<Rightarrow> (string \<times> json) list \<Rightarrow> policy_decision res" where
  "evaluate_rule m doc policy operation c params =
     (case map_of (tp_operation_rules policy) operation of
        None \<Rightarrow> Inl (KeyError operation)
      | Some rule \<Rightarrow>
          if \<not> validate_parameters (or_parameter_schema rule) params
          then Inr (deny ''INVALID_PARAMETERS''
                     ''Tool-call parameters do not match the registered policy schema'' (Some m))
          else
            (case or_data_scope rule of
               None \<Rightarrow> Inr (allow m)
             | Some rules \<Rightarrow>
                 bind_res (check_data_scope c params rules) (\<lambda>ok.
                   if ok then Inr (allow m)
                   else Inr (deny ''DATA_SCOPE_VIOLATION'' (md_deny_message doc) (Some m)))))"

definition evaluate_document :: "permission_manifest \<Rightarrow> manifest_document \<Rightarrow> trusted_session_claims
    \<Rightarrow> string \<Rightarrow> string \<Rightarrow> (string \<times> json) list \<Rightarrow> database \<Rightarrow> policy_decision res" where
  "evaluate_document m doc c tool_name operation params db =
     (case tool_get_by_name tool_name db of
        None \<Rightarrow> Inr (deny ''TOOL_NOT_REGISTERED'' ''The requested tool is not registered'' (Some m))
      | Some tool \<Rightarrow>
          if td_status tool \<noteq> ToolActive
          then Inr (deny ''TOOL_NOT_REGISTERED'' ''The requested tool is not registered'' (Some m))
          else
            (case map_of (md_tools doc) tool_name of
               None \<Rightarrow> Inr (deny ''TOOL_NOT_ALLOWED'' (md_deny_message doc) (Some m))
             | Some policy \<Rightarrow>
                 if operation \<notin> set (td_allowed_operations tool) \<or>
                    operation \<notin> set (tp_allowed_operations policy)
                 then Inr (deny ''OPERATION_NOT_ALLOWED'' (md_deny_message doc) (Some m))
                 else evaluate_rule m doc policy operation c params))"

definition evaluate :: "pydantic \<Rightarrow> string \<Rightarrow> trusted_session_claims \<Rightarrow> string \<Rightarrow> string
    \<Rightarrow> (string \<times> json) list \<Rightarrow> int \<Rightarrow> database \<Rightarrow> policy_decision res" where
  "evaluate P agent c tool_name operation params now db =
     (case manifest_get_active agent db of
        None \<Rightarrow> Inr (deny ''MANIFEST_NOT_FOUND'' ''No active permission manifest exists'' None)
      | Some m \<Rightarrow>
          if outside_window m now
          then Inr (deny ''MANIFEST_EXPIRED'' ''The active manifest is outside its effective window'' (Some m))
          else if manifest_checksum (pm_document m) \<noteq> pm_checksum m
          then Inr (deny ''POLICY_INTEGRITY_VIOLATION''
                     ''The active manifest failed its integrity check'' (Some m))
          else
            (case parse_manifest P (pm_document m) of
               None \<Rightarrow> Inr (deny ''POLICY_CONFIGURATION_INVALID'' ''The active manifest is invalid'' (Some m))
             | Some doc \<Rightarrow>
                 if md_manifest_id doc \<noteq> pm_id m \<or> md_agent_id doc \<noteq> pm_agent_id m
                 then Inr (deny ''POLICY_CONFIGURATION_INVALID''
                            ''The active manifest identity is invalid'' (Some m))
                 else evaluate_document m doc c tool_name operation params db))"

section \<open>Totality\<close>

lemma deny_fields [simp]:
  "\<not> pd_allowed (deny c msg m)" "pd_reason_code (deny c msg m) = c" "pd_message (deny c msg m) = msg"
  "pd_manifest_id (deny c msg m) = map_option pm_id m" "deny c msg m \<noteq> allow m'" "allow m' \<noteq> deny c msg m"
  "pd_policy_checksum (deny c msg m) = map_option pm_checksum m"
  by (simp_all add: deny_def allow_def)

lemma allow_fields [simp]:
  "pd_allowed (allow m)" "pd_reason_code (allow m) = ''ALLOWED''"
  "pd_manifest_id (allow m) = Some (pm_id m)" "pd_policy_checksum (allow m) = Some (pm_checksum m)"
  by (simp_all add: allow_def)

lemma check_data_scope_total:
  "\<forall>r \<in> set rules. wf_rule r \<Longrightarrow> \<exists>b. check_data_scope c params rules = Inr b"
  by (induction rules) (auto simp: wf_rule_def session_values_def)

lemma check_data_scope_True:
  "check_data_scope c params rules = Inr True \<longleftrightarrow>
     (\<forall>r \<in> set rules. \<exists>v. map_of (session_values c) (sr_session_claim r) = Some v \<and>
        map_of params (sr_parameter r) = Some (JStr v))"
  by (induction rules) (auto split: option.splits)

lemma wf_tool_policy: "wf_document doc \<Longrightarrow> map_of (md_tools doc) k = Some policy \<Longrightarrow> wf_tool_permission policy"
  by (force simp: wf_document_def dest: map_of_SomeD)

lemma wf_rule_of:
  "wf_tool_permission policy \<Longrightarrow> map_of (tp_operation_rules policy) op = Some rule \<Longrightarrow> wf_operation_rule rule"
  by (force simp: wf_tool_permission_def dest: map_of_SomeD)

lemma wf_has_rule:
  assumes "wf_tool_permission policy" "op \<in> set (tp_allowed_operations policy)"
  shows "\<exists>rule. map_of (tp_operation_rules policy) op = Some rule"
proof -
  have "op \<in> fst ` set (tp_operation_rules policy)"
    using assms by (auto simp: wf_tool_permission_def allowed_operations_must_have_rules_def)
  then show ?thesis by (metis map_of_eq_None_iff not_None_eq)
qed

lemma evaluate_rule_total:
  assumes "wf_tool_permission policy" "operation \<in> set (tp_allowed_operations policy)"
  shows "\<exists>d. evaluate_rule m doc policy operation c params = Inr d"
proof -
  obtain rule where rule: "map_of (tp_operation_rules policy) operation = Some rule"
    using wf_has_rule [OF assms] by blast
  have "\<exists>b. check_data_scope c params rules = Inr b" if "or_data_scope rule = Some rules" for rules
    using wf_rule_of [OF assms(1) rule] that check_data_scope_total by (auto simp: wf_operation_rule_def)
  then show ?thesis by (fastforce simp: evaluate_rule_def rule split: option.splits)
qed

lemma evaluate_document_total:
  "wf_document doc \<Longrightarrow> \<exists>d. evaluate_document m doc c tool operation params db = Inr d"
  using wf_tool_policy evaluate_rule_total
  by (auto simp: evaluate_document_def split: option.splits)

lemma evaluate_returns: "\<exists>d. evaluate P agent c tool operation params now db = Inr d"
  using parse_manifest_wf evaluate_document_total
  by (auto simp: evaluate_def split: option.splits)

text \<open>(C17) Evaluation returns a decision on every input: the dictionary lookups that could raise are
  covered by the checks of the manifest parser.\<close>

theorem evaluate_total: "\<exists>d. evaluate P agent c tool operation params now db = Inr d"
  by (rule evaluate_returns)

lemma evaluate_document_tables:
  "db_tools db' = db_tools db \<Longrightarrow> evaluate_document m doc c t op ps db' = evaluate_document m doc c t op ps db"
  by (simp add: evaluate_document_def tool_get_by_name_def)

lemma evaluate_tables:
  assumes "db_manifests db' = db_manifests db" "db_tools db' = db_tools db"
  shows "evaluate P a c t op ps now db' = evaluate P a c t op ps now db"
  unfolding evaluate_def
  by (simp only: evaluate_document_tables [OF assms(2)] manifest_get_active_def assms(1))

section \<open>What is allowed\<close>

text \<open>
  The declarative policy: the conjunction of conditions under which a call is permitted by
  manifest \<open>m\<close>, without the order in which the code tests them.
\<close>

definition rule_permits :: "operation_rule \<Rightarrow> trusted_session_claims \<Rightarrow> (string \<times> json) list \<Rightarrow> bool" where
  "rule_permits rule c params \<longleftrightarrow>
     validate_parameters (or_parameter_schema rule) params \<and>
     (\<forall>r \<in> set (case or_data_scope rule of None \<Rightarrow> [] | Some rules \<Rightarrow> rules).
        \<exists>v. map_of (session_values c) (sr_session_claim r) = Some v \<and>
            map_of params (sr_parameter r) = Some (JStr v))"

definition document_permits :: "manifest_document \<Rightarrow> trusted_session_claims \<Rightarrow> string \<Rightarrow> string
    \<Rightarrow> (string \<times> json) list \<Rightarrow> database \<Rightarrow> bool" where
  "document_permits doc c tool_name operation params db \<longleftrightarrow>
     (\<exists>tool policy rule.
        tool_get_by_name tool_name db = Some tool \<and> td_status tool = ToolActive \<and>
        operation \<in> set (td_allowed_operations tool) \<and>
        map_of (md_tools doc) tool_name = Some policy \<and>
        operation \<in> set (tp_allowed_operations policy) \<and>
        map_of (tp_operation_rules policy) operation = Some rule \<and> rule_permits rule c params)"

definition manifest_in_force :: "pydantic \<Rightarrow> permission_manifest \<Rightarrow> manifest_document \<Rightarrow> int \<Rightarrow> bool" where
  "manifest_in_force P m doc now \<longleftrightarrow>
     instant (pm_effective_from m) \<le> now \<and> (\<forall>e. pm_expires_at m = Some e \<longrightarrow> now < instant e) \<and>
     manifest_checksum (pm_document m) = pm_checksum m \<and> parse_manifest P (pm_document m) = Some doc \<and>
     md_manifest_id doc = pm_id m \<and> md_agent_id doc = pm_agent_id m"

lemma evaluate_rule_allow:
  assumes "wf_tool_permission policy" "map_of (tp_operation_rules policy) operation = Some rule"
  shows "evaluate_rule m doc policy operation c params = Inr d \<and> pd_allowed d \<longleftrightarrow>
    d = allow m \<and> rule_permits rule c params"
proof (cases "or_data_scope rule")
  case None
  then show ?thesis by (auto simp: evaluate_rule_def rule_permits_def assms(2))
next
  case (Some rules)
  then have "\<forall>r \<in> set rules. wf_rule r"
    using wf_rule_of [OF assms] by (auto simp: wf_operation_rule_def)
  then obtain b where b: "check_data_scope c params rules = Inr b"
    using check_data_scope_total by blast
  then have "b \<longleftrightarrow> (\<forall>r \<in> set rules. \<exists>v. map_of (session_values c) (sr_session_claim r) = Some v \<and>
        map_of params (sr_parameter r) = Some (JStr v))"
    using check_data_scope_True [of c params rules] by (cases b) auto
  with Some b show ?thesis by (auto simp: evaluate_rule_def rule_permits_def assms(2))
qed

lemma evaluate_document_allow:
  assumes "wf_document doc"
  shows "evaluate_document m doc c tool operation params db = Inr d \<and> pd_allowed d \<longleftrightarrow>
    d = allow m \<and> document_permits doc c tool operation params db"
proof (cases "map_of (md_tools doc) tool")
  case (Some policy)
  have wf: "wf_tool_permission policy" using wf_tool_policy [OF assms Some] .
  show ?thesis
  proof (cases "operation \<in> set (tp_allowed_operations policy)")
    case True
    then obtain rule where "map_of (tp_operation_rules policy) operation = Some rule"
      using wf_has_rule [OF wf] by blast
    with Some True show ?thesis
      using evaluate_rule_allow [OF wf]
      by (auto simp: evaluate_document_def document_permits_def split: option.splits)
  qed (use Some in \<open>auto simp: evaluate_document_def document_permits_def split: option.splits\<close>)
qed (auto simp: evaluate_document_def document_permits_def split: option.splits)

lemma outside_window_iff: "outside_window m now \<longleftrightarrow>
    \<not> (instant (pm_effective_from m) \<le> now \<and> (\<forall>e. pm_expires_at m = Some e \<longrightarrow> now < instant e))"
  by (auto simp: outside_window_def split: option.splits)

lemma evaluate_allows:
  "evaluate P agent c tool operation params now db = Inr d \<and> pd_allowed d \<longleftrightarrow>
     (\<exists>m doc. manifest_get_active agent db = Some m \<and> manifest_in_force P m doc now \<and>
        document_permits doc c tool operation params db \<and> d = allow m)"
proof (cases "manifest_get_active agent db")
  case (Some m)
  show ?thesis
  proof (cases "parse_manifest P (pm_document m)")
    case (Some doc)
    have "evaluate_document m doc c tool operation params db = Inr d \<and> pd_allowed d \<longleftrightarrow>
        d = allow m \<and> document_permits doc c tool operation params db"
      using evaluate_document_allow parse_manifest_wf [OF Some] .
    with Some \<open>manifest_get_active agent db = Some m\<close> show ?thesis
      by (auto simp: evaluate_def manifest_in_force_def outside_window_iff)
  qed (use Some in \<open>auto simp: evaluate_def manifest_in_force_def outside_window_iff\<close>)
qed (auto simp: evaluate_def)

text \<open>(C5) A call is allowed exactly when the agent has an active manifest that is in force and whose
  document permits the call; the first-failure order of the code adds and loses nothing.  An
  allowing decision names that manifest and its checksum.\<close>

theorem evaluate_allowed_iff:
  "(\<exists>d. evaluate P agent c tool operation params now db = Inr d \<and> pd_allowed d \<and>
       pd_manifest_id d = Some k \<and> pd_policy_checksum d = Some h) \<longleftrightarrow>
     (\<exists>m doc. manifest_get_active agent db = Some m \<and> manifest_in_force P m doc now \<and>
        document_permits doc c tool operation params db \<and> pm_id m = k \<and> pm_checksum m = h)"
proof
  assume "\<exists>d. evaluate P agent c tool operation params now db = Inr d \<and> pd_allowed d \<and>
       pd_manifest_id d = Some k \<and> pd_policy_checksum d = Some h"
  then obtain d where "evaluate P agent c tool operation params now db = Inr d \<and> pd_allowed d"
    and d: "pd_manifest_id d = Some k" "pd_policy_checksum d = Some h" by blast
  then obtain m doc where m: "manifest_get_active agent db = Some m" "manifest_in_force P m doc now"
      "document_permits doc c tool operation params db" and "d = allow m"
    unfolding evaluate_allows by blast
  with d have "pm_id m = k" "pm_checksum m = h" by simp_all
  with m show "\<exists>m doc. manifest_get_active agent db = Some m \<and> manifest_in_force P m doc now \<and>
        document_permits doc c tool operation params db \<and> pm_id m = k \<and> pm_checksum m = h"
    by blast
next
  assume "\<exists>m doc. manifest_get_active agent db = Some m \<and> manifest_in_force P m doc now \<and>
        document_permits doc c tool operation params db \<and> pm_id m = k \<and> pm_checksum m = h"
  then obtain m where "evaluate P agent c tool operation params now db = Inr (allow m) \<and> pd_allowed (allow m)"
    and "pm_id m = k" "pm_checksum m = h"
    unfolding evaluate_allows by blast
  then show "\<exists>d. evaluate P agent c tool operation params now db = Inr d \<and> pd_allowed d \<and>
       pd_manifest_id d = Some k \<and> pd_policy_checksum d = Some h"
    by (intro exI [of _ "allow m"]) simp
qed

text \<open>(C7) Data scope: whatever else it contains, an allowed call carries in every parameter the
  matched rule ties to a session claim the value of that claim in the validated session, as a
  string.\<close>

theorem allowed_call_in_scope:
  assumes "evaluate P agent c tool operation params now db = Inr d" "pd_allowed d"
    and "manifest_get_active agent db = Some m" "parse_manifest P (pm_document m) = Some doc"
    and "map_of (md_tools doc) tool = Some policy" "map_of (tp_operation_rules policy) operation = Some rule"
    and "or_data_scope rule = Some rules" "r \<in> set rules"
  shows "map_of params (sr_parameter r) =
    Some (JStr (if sr_session_claim r = ''customer_id'' then tc_customer_id c else tc_user_id c))"
proof -
  have "rule_permits rule c params"
    using evaluate_allows [of P agent c tool operation params now db d] assms
    by (auto simp: document_permits_def manifest_in_force_def)
  then show ?thesis using assms(7,8)
    by (auto simp: rule_permits_def session_values_def split: if_splits)
qed

text \<open>(C18) Tamper evidence of the document: as long as the checksum stored with the active manifest is
  still that of the document it was created with, an allowed call was judged by that very document up
  to the order of keys, or the two documents exhibit a SHA-256 collision.  The checksum has no key:
  whoever can replace the document and its checksum together is not detected.\<close>

theorem allowed_document_untampered:
  assumes "evaluate P agent c tool operation params now db = Inr d" "pd_allowed d"
    and "manifest_get_active agent db = Some m" "pm_checksum m = manifest_checksum original"
    and "wf_json original" "wf_json (pm_document m)"
  shows "canonical (pm_document m) = canonical original \<or>
    (json_dumps (pm_document m) \<noteq> json_dumps original \<and>
     sha256_hex (json_dumps (pm_document m)) = sha256_hex (json_dumps original))"
proof -
  have "manifest_checksum (pm_document m) = pm_checksum m"
    using evaluate_allows [of P agent c tool operation params now db d] assms(1-3)
    by (auto simp: manifest_in_force_def)
  then show ?thesis
    using assms(4-6) json_dumps_canonical by (auto simp: manifest_checksum_def)
qed

end
