(* ===== verification/AuditTrail.thy ===== *)
theory AuditTrail
  imports StoreInv Json "HOL-Library.Multiset"
begin

text \<open>
  \<open>audit/service.py\<close>: sanitised parameters, the hash of an event, and the append-only
  chain of events.  The identifier and the time of a new event are arguments.  The locale
  \<open>hash_chain\<close> is the contract of such a chain (a label is the digest of the content, the
  content fixes the link to the predecessor); it is interpreted on the audit events.  The
  properties: what recording appends, when it keeps the chain intact, that a tampered history
  with the same last hash exhibits a SHA-256 collision, and that redacted values never reach
  the database.
\<close>

record audit_event_input =
  ai_request_id :: string
  ai_idempotency_key :: string
  ai_sequence :: int
  ai_agent_id :: string
  ai_session_id :: "string option"
  ai_user_id :: "string option"
  ai_tool :: string
  ai_operation :: string
  ai_parameters :: "(string \<times> json) list"
  ai_decision :: audit_decision
  ai_reason_code :: string
  ai_execution_status :: execution_status
  ai_manifest_id :: "string option"
  ai_policy_checksum :: "string option"
  ai_upstream_status_code :: "int option"
  ai_decision_latency_ms :: "int option"
  ai_total_latency_ms :: "int option"
  ai_trace_id :: "string option"

record integrity_result =
  ir_valid :: bool
  ir_events_checked :: nat
  ir_first_invalid_event_id :: "string option"

section \<open>Sanitised parameters\<close>

definition sanitize_customer :: "(string \<times> json) list \<Rightarrow> (string \<times> json) list" where
  "sanitize_customer ps =
     (case map_of ps ''customer_id'' of
        Some (JStr c) \<Rightarrow> [(''customer_id'', JStr c)]
      | _ \<Rightarrow> [])"

definition change_fields :: "json \<Rightarrow> json" where
  "change_fields changes =
     (case changes of
        JObj kvs \<Rightarrow> JArr (map JStr (sort (map fst kvs)))
      | _ \<Rightarrow> JStr ''[INVALID]'')"

definition sanitize_changes :: "(string \<times> json) list \<Rightarrow> (string \<times> json) list" where
  "sanitize_changes ps =
     (case map_of ps ''changes'' of
        None \<Rightarrow> []
      | Some changes \<Rightarrow> [(''change_fields'', change_fields changes), (''changes'', JStr ''[REDACTED]'')])"

definition unknown_names :: "(string \<times> json) list \<Rightarrow> string list" where
  "unknown_names ps = sorted_list_of_set (fst ` set ps - {''customer_id'', ''changes''})"

definition sanitize_parameters :: "(string \<times> json) list \<Rightarrow> json" where
  "sanitize_parameters ps =
     JObj (sanitize_customer ps @ sanitize_changes ps @
       (if unknown_names ps = [] then []
        else [(''ignored_parameter_names'', JArr (map JStr (unknown_names ps)))]))"

section \<open>The hash of an event\<close>

fun opt_str :: "string option \<Rightarrow> json" where
  "opt_str None = JNull"
| "opt_str (Some s) = JStr s"

fun opt_int :: "int option \<Rightarrow> json" where
  "opt_int None = JNull"
| "opt_int (Some i) = JInt i"

definition event_payload :: "audit_event \<Rightarrow> (string \<times> json) list" where
  "event_payload e =
     [(''event_id'', JStr (ev_id e)), (''request_id'', JStr (ev_request_id e)),
      (''idempotency_key'', JStr (ev_idempotency_key e)), (''sequence'', JInt (ev_sequence e)),
      (''timestamp'', JStr (isoformat_utc (instant (as_utc (ev_timestamp e))))),
      (''agent_id'', JStr (ev_agent_id e)), (''session_id'', opt_str (ev_session_id e)),
      (''user_id'', opt_str (ev_user_id e)), (''tool'', JStr (ev_tool e)),
      (''operation'', JStr (ev_operation e)),
      (''sanitized_parameters'', ev_sanitized_parameters e),
      (''decision'', JStr (audit_decision_value (ev_decision e))),
      (''reason_code'', JStr (ev_reason_code e)),
      (''matched_manifest_id'', opt_str (ev_matched_manifest_id e)),
      (''policy_checksum'', opt_str (ev_policy_checksum e)),
      (''execution_status'', JStr (execution_status_value (ev_execution_status e))),
      (''upstream_status_code'', opt_int (ev_upstream_status_code e)),
      (''decision_latency_ms'', opt_int (ev_decision_latency_ms e)),
      (''total_latency_ms'', opt_int (ev_total_latency_ms e)),
      (''trace_id'', opt_str (ev_trace_id e)),
      (''previous_record_hash'', opt_str (ev_previous_record_hash e))]"

definition event_hash :: "audit_event \<Rightarrow> string" where
  "event_hash e = sha256_hex (json_dumps (JObj (event_payload e)))"

section \<open>Recording and verifying\<close>

definition has_idempotency_key :: "string \<Rightarrow> string \<Rightarrow> database \<Rightarrow> bool" where
  "has_idempotency_key agent key db \<longleftrightarrow> find_by_idempotency_key agent key db \<noteq> None"

definition new_event :: "audit_event_input \<Rightarrow> string \<Rightarrow> int \<Rightarrow> audit_event option \<Rightarrow> audit_event" where
  "new_event d uuid now previous =
     (let e = \<lparr>ev_id = ''evt_'' @ uuid, ev_request_id = ai_request_id d,
               ev_idempotency_key = ai_idempotency_key d, ev_sequence = ai_sequence d,
               ev_timestamp = now_utc now, ev_agent_id = ai_agent_id d,
               ev_session_id = ai_session_id d, ev_user_id = ai_user_id d, ev_tool = ai_tool d,
               ev_operation = ai_operation d,
               ev_sanitized_parameters = sanitize_parameters (ai_parameters d),
               ev_decision = ai_decision d, ev_reason_code = ai_reason_code d,
               ev_matched_manifest_id = ai_manifest_id d, ev_policy_checksum = ai_policy_checksum d,
               ev_execution_status = ai_execution_status d,
               ev_upstream_status_code = ai_upstream_status_code d,
               ev_decision_latency_ms = ai_decision_latency_ms d,
               ev_total_latency_ms = ai_total_latency_ms d, ev_trace_id = ai_trace_id d,
               ev_previous_record_hash = map_option ev_record_hash previous,
               ev_record_hash = ''pending''\<rparr>
      in e\<lparr>ev_record_hash := event_hash e\<rparr>)"

definition record_event :: "audit_event_input \<Rightarrow> string \<Rightarrow> int \<Rightarrow> database \<Rightarrow> audit_event res \<times> database" where
  "record_event d uuid now db =
     in_session (\<lambda>s. event_add (new_event d uuid now (last_chain_event s)) s) db"

fun first_invalid :: "string option \<Rightarrow> audit_event list \<Rightarrow> audit_event option" where
  "first_invalid previous_hash [] = None"
| "first_invalid previous_hash (e # es) =
     (if ev_previous_record_hash e \<noteq> previous_hash \<or> ev_record_hash e \<noteq> event_hash e then Some e
      else first_invalid (Some (ev_record_hash e)) es)"

definition verify_integrity :: "database \<Rightarrow> integrity_result" where
  "verify_integrity db =
     (let es = all_chain_events db
      in case first_invalid None es of
           None \<Rightarrow> \<lparr>ir_valid = True, ir_events_checked = length es, ir_first_invalid_event_id = None\<rparr>
         | Some e \<Rightarrow> \<lparr>ir_valid = False, ir_events_checked = length es,
                     ir_first_invalid_event_id = Some (ev_id e)\<rparr>)"

section \<open>Hash chains\<close>

locale hash_chain =
  fixes ok :: "'e \<Rightarrow> bool"
    and content :: "'e \<Rightarrow> 'c"
    and digest :: "'c \<Rightarrow> 'h"
    and link :: "'e \<Rightarrow> 'h option"
    and label :: "'e \<Rightarrow> 'h"
  assumes content_link: "ok e \<Longrightarrow> ok f \<Longrightarrow> content e = content f \<Longrightarrow> link e = link f"
begin

fun chained :: "'h option \<Rightarrow> 'e list \<Rightarrow> bool" where
  "chained p [] = True"
| "chained p (e # es) \<longleftrightarrow> link e = p \<and> label e = digest (content e) \<and> chained (Some (label e)) es"

fun head_label :: "'h option \<Rightarrow> 'e list \<Rightarrow> 'h option" where
  "head_label p [] = p"
| "head_label p (e # es) = head_label (Some (label e)) es"

lemma head_label_snoc [simp]: "head_label p (es @ [e]) = Some (label e)"
  by (induction es arbitrary: p) auto

lemma chained_snoc:
  "chained p (es @ [e]) \<longleftrightarrow> chained p es \<and> link e = head_label p es \<and> label e = digest (content e)"
  by (induction es arbitrary: p) auto

lemma chained_prefix: "chained p (es @ fs) \<Longrightarrow> chained p es"
  by (induction es arbitrary: p) auto

text \<open>Two intact chains with the same last label have the same contents, or show a collision.\<close>

definition collision :: "'c \<Rightarrow> 'c \<Rightarrow> bool" where
  "collision x y \<longleftrightarrow> x \<noteq> y \<and> digest x = digest y"

lemma same_head_same_content:
  assumes "length es = length fs" "chained None es" "chained None fs"
    and "\<forall>e \<in> set es \<union> set fs. ok e" "head_label None es = head_label None fs"
  shows "map content es = map content fs \<or>
    (\<exists>e \<in> set es. \<exists>f \<in> set fs. collision (content e) (content f))"
  using assms
proof (induction es arbitrary: fs rule: rev_induct)
  case (snoc e es)
  then obtain f gs where fs: "fs = gs @ [f]" by (cases fs rule: rev_cases) auto
  have eq: "digest (content e) = digest (content f)"
    using snoc.prems unfolding fs by (auto simp: chained_snoc)
  show ?case
  proof (cases "content e = content f")
    case True
    then have "link e = link f" using content_link snoc.prems(4) fs by auto
    with snoc.prems have "map content es = map content gs \<or>
        (\<exists>e \<in> set es. \<exists>f \<in> set gs. collision (content e) (content f))"
      unfolding fs by (intro snoc.IH) (auto simp: chained_snoc)
    with True fs show ?thesis by auto
  next
    case False
    with eq fs show ?thesis by (auto simp: collision_def)
  qed
qed simp

end

section \<open>The audit chain\<close>

definition event_ok :: "audit_event \<Rightarrow> bool" where
  "event_ok e \<longleftrightarrow> wf_json (ev_sanitized_parameters e) \<and> valid_instant (instant (ev_timestamp e))"

definition event_text :: "audit_event \<Rightarrow> string" where
  "event_text e = json_dumps (JObj (event_payload e))"

lemma wf_opt [simp]: "wf_json (opt_str s)" "wf_json (opt_int i)"
  by (cases s; simp) (cases i; simp)

lemma canonical_opt [simp]: "canonical (opt_str s) = opt_str s" "canonical (opt_int i) = opt_int i"
  by (cases s; simp) (cases i; simp)

lemma opt_eq [simp]: "opt_str s = opt_str t \<longleftrightarrow> s = t" "opt_int i = opt_int j \<longleftrightarrow> i = j"
  by (cases s; cases t; simp) (cases i; cases j; simp)

lemma event_payload_wf: "event_ok e \<Longrightarrow> wf_json (JObj (event_payload e))"
  by (simp add: event_ok_def event_payload_def)

lemma event_text_lookup:
  "event_ok e \<Longrightarrow> event_ok f \<Longrightarrow> event_text e = event_text f \<Longrightarrow>
   map_option canonical (map_of (event_payload e) k) = map_option canonical (map_of (event_payload f) k)"
  unfolding event_text_def by (rule json_dumps_lookup [OF event_payload_wf event_payload_wf])

lemma event_text_link:
  "event_ok e \<Longrightarrow> event_ok f \<Longrightarrow> event_text e = event_text f \<Longrightarrow>
   ev_previous_record_hash e = ev_previous_record_hash f"
  using event_text_lookup [of e f "''previous_record_hash''"] by (simp add: event_payload_def)

interpretation chain: hash_chain event_ok event_text sha256_hex ev_previous_record_hash ev_record_hash
  by unfold_locales (rule event_text_link)

text \<open>Two events record the same: every field but the hash, the time as an instant.\<close>

definition same_record :: "audit_event \<Rightarrow> audit_event \<Rightarrow> bool" where
  "same_record e f \<longleftrightarrow>
     ev_id e = ev_id f \<and> ev_request_id e = ev_request_id f \<and>
     ev_idempotency_key e = ev_idempotency_key f \<and> ev_sequence e = ev_sequence f \<and>
     instant (ev_timestamp e) = instant (ev_timestamp f) \<and> ev_agent_id e = ev_agent_id f \<and>
     ev_session_id e = ev_session_id f \<and> ev_user_id e = ev_user_id f \<and> ev_tool e = ev_tool f \<and>
     ev_operation e = ev_operation f \<and>
     canonical (ev_sanitized_parameters e) = canonical (ev_sanitized_parameters f) \<and>
     ev_decision e = ev_decision f \<and> ev_reason_code e = ev_reason_code f \<and>
     ev_matched_manifest_id e = ev_matched_manifest_id f \<and>
     ev_policy_checksum e = ev_policy_checksum f \<and> ev_execution_status e = ev_execution_status f \<and>
     ev_upstream_status_code e = ev_upstream_status_code f \<and>
     ev_decision_latency_ms e = ev_decision_latency_ms f \<and>
     ev_total_latency_ms e = ev_total_latency_ms f \<and> ev_trace_id e = ev_trace_id f \<and>
     ev_previous_record_hash e = ev_previous_record_hash f"

lemma event_text_same:
  assumes ok: "event_ok e" "event_ok f" and eq: "event_text e = event_text f"
  shows "same_record e f"
proof -
  note at = event_text_lookup [OF ok eq]
  have "isoformat_utc (instant (ev_timestamp e)) = isoformat_utc (instant (ev_timestamp f))"
    using at [of "''timestamp''"] by (simp add: event_payload_def)
  then have "instant (ev_timestamp e) = instant (ev_timestamp f)"
    using ok by (auto simp: event_ok_def dest: isoformat_utc_inj)
  moreover have "ev_decision e = ev_decision f"
    using at [of "''decision''"] by (simp add: event_payload_def audit_decision_value_inj)
  moreover have "ev_execution_status e = ev_execution_status f"
    using at [of "''execution_status''"] by (simp add: event_payload_def execution_status_value_inj)
  ultimately show ?thesis
    unfolding same_record_def
    using at [of "''event_id''"] at [of "''request_id''"] at [of "''idempotency_key''"]
      at [of "''sequence''"] at [of "''agent_id''"] at [of "''session_id''"] at [of "''user_id''"]
      at [of "''tool''"] at [of "''operation''"] at [of "''sanitized_parameters''"]
      at [of "''reason_code''"] at [of "''matched_manifest_id''"] at [of "''policy_checksum''"]
      at [of "''upstream_status_code''"] at [of "''decision_latency_ms''"]
      at [of "''total_latency_ms''"] at [of "''trace_id''"] at [of "''previous_record_hash''"]
    by (simp add: event_payload_def)
qed

text \<open>Two different events with one record hash, both hashes correct: a SHA-256 collision.\<close>

definition event_collision :: "audit_event \<Rightarrow> audit_event \<Rightarrow> bool" where
  "event_collision e f \<longleftrightarrow> event_text e \<noteq> event_text f \<and> sha256_hex (event_text e) = sha256_hex (event_text f)"

lemma event_hash_text: "event_hash e = sha256_hex (event_text e)"
  by (simp add: event_hash_def event_text_def)

lemma first_invalid_chained: "first_invalid p es = None \<longleftrightarrow> chain.chained p es"
  by (induction es arbitrary: p) (auto simp: event_hash_text)

lemma verify_chained: "ir_valid (verify_integrity db) \<longleftrightarrow> chain.chained None (all_chain_events db)"
  by (auto simp: verify_integrity_def Let_def first_invalid_chained [symmetric] split: option.splits)

lemma verify_names_event:
  "\<not> ir_valid (verify_integrity db) \<Longrightarrow> \<exists>k. ir_first_invalid_event_id (verify_integrity db) = Some k"
  by (auto simp: verify_integrity_def Let_def split: option.splits)

lemma collision_iff: "chain.collision (event_text e) (event_text f) \<longleftrightarrow> event_collision e f"
  by (simp add: event_collision_def chain.collision_def)

lemma set_all_chain_events [simp]: "set (all_chain_events db) = set (db_events db)"
  by (simp add: all_chain_events_def)

lemma last_chain_head: "map_option ev_record_hash (last_chain_event db) = chain.head_label None (all_chain_events db)"
  by (cases "all_chain_events db" rule: rev_cases) (auto simp: last_chain_event_def)

text \<open>(C9) Tamper evidence: two audit tables of the same size whose chains both verify and end in the
  same record hash hold the same history, event by event and field by field, or they exhibit a
  SHA-256 collision.  The last hash commits to everything before it.\<close>

theorem same_head_same_history:
  assumes "event_count db = event_count db'"
    and "ir_valid (verify_integrity db)" "ir_valid (verify_integrity db')"
    and "\<forall>e \<in> set (db_events db) \<union> set (db_events db'). event_ok e"
    and "map_option ev_record_hash (last_chain_event db) = map_option ev_record_hash (last_chain_event db')"
  shows "list_all2 same_record (all_chain_events db) (all_chain_events db') \<or>
    (\<exists>e \<in> set (db_events db). \<exists>f \<in> set (db_events db'). event_collision e f)"
proof -
  have len: "length (all_chain_events db) = length (all_chain_events db')"
    using assms(1) by (simp add: all_chain_events_def event_count_def)
  have "map event_text (all_chain_events db) = map event_text (all_chain_events db') \<or>
      (\<exists>e \<in> set (db_events db). \<exists>f \<in> set (db_events db'). event_collision e f)"
    using chain.same_head_same_content [OF len] assms(2-5)
    by (simp add: verify_chained last_chain_head collision_iff)
  moreover have "list_all2 same_record (all_chain_events db) (all_chain_events db')"
    if eq: "map event_text (all_chain_events db) = map event_text (all_chain_events db')"
  proof (rule list_all2_all_nthI [OF len])
    fix n assume n: "n < length (all_chain_events db)"
    then have "event_text (all_chain_events db ! n) = event_text (all_chain_events db' ! n)"
      using eq len by (metis nth_map)
    then show "same_record (all_chain_events db ! n) (all_chain_events db' ! n)"
      using n len assms(4) nth_mem [OF n] nth_mem [of n "all_chain_events db'"]
      by (intro event_text_same) auto
  qed
  ultimately show ?thesis by blast
qed

section \<open>Recording\<close>

lemma event_hash_new: "event_hash (new_event d uuid now p) = ev_record_hash (new_event d uuid now p)"
  by (simp add: new_event_def Let_def event_hash_def event_payload_def)

lemma new_event_fields [simp]:
  "ev_id (new_event d uuid now p) = ''evt_'' @ uuid" "ev_timestamp (new_event d uuid now p) = now_utc now"
  "ev_request_id (new_event d uuid now p) = ai_request_id d"
  "ev_idempotency_key (new_event d uuid now p) = ai_idempotency_key d"
  "ev_sequence (new_event d uuid now p) = ai_sequence d" "ev_agent_id (new_event d uuid now p) = ai_agent_id d"
  "ev_sanitized_parameters (new_event d uuid now p) = sanitize_parameters (ai_parameters d)"
  "ev_decision (new_event d uuid now p) = ai_decision d"
  "ev_reason_code (new_event d uuid now p) = ai_reason_code d"
  "ev_tool (new_event d uuid now p) = ai_tool d" "ev_operation (new_event d uuid now p) = ai_operation d"
  "ev_session_id (new_event d uuid now p) = ai_session_id d" "ev_user_id (new_event d uuid now p) = ai_user_id d"
  "ev_matched_manifest_id (new_event d uuid now p) = ai_manifest_id d"
  "ev_policy_checksum (new_event d uuid now p) = ai_policy_checksum d"
  "ev_execution_status (new_event d uuid now p) = ai_execution_status d"
  "ev_upstream_status_code (new_event d uuid now p) = ai_upstream_status_code d"
  "ev_previous_record_hash (new_event d uuid now p) = map_option ev_record_hash p"
  by (simp_all add: new_event_def Let_def)

lemma record_event_Inr:
  "record_event d uuid now db = (Inr e, db') \<longleftrightarrow>
     e = new_event d uuid now (last_chain_event db) \<and> event_add e db = (Inr e, db')"
  by (auto simp: record_event_def in_session_Inr dest: events.add_Inr)

lemma record_event_Inl: "record_event d uuid now db = (Inl x, db') \<Longrightarrow> db' = db"
  by (auto simp: record_event_def in_session_def split: prod.splits sum.splits)

lemma record_event_wf: "db_wf db \<Longrightarrow> record_event d uuid now db = (r, db') \<Longrightarrow> db_wf db'"
  by (cases r) (auto simp: record_event_Inr dest: record_event_Inl event_add_wf)

lemma event_add_rows:
  "event_add e db = (r, db') \<Longrightarrow> db_agents db' = db_agents db \<and> db_manifests db' = db_manifests db \<and>
     db_tools db' = db_tools db \<and> db_sessions db' = db_sessions db \<and> db_customers db' = db_customers db \<and>
     db_store_time db' = db_store_time db \<and> db_checks_width db' = db_checks_width db"
  by (auto simp: event_add_def insert_row_def split: sum.splits)

lemma record_event_rows:
  "record_event d uuid now db = (r, db') \<Longrightarrow> db_agents db' = db_agents db \<and> db_manifests db' = db_manifests db \<and>
     db_tools db' = db_tools db \<and> db_sessions db' = db_sessions db \<and> db_customers db' = db_customers db \<and>
     db_store_time db' = db_store_time db \<and> db_checks_width db' = db_checks_width db"
  by (cases r) (auto simp: record_event_Inr dest: record_event_Inl event_add_rows)

lemma record_event_events:
  assumes "record_event d uuid now db = (Inr e, db')"
  shows "db_events db' = db_events db @ [stored_event db e]" "e = new_event d uuid now (last_chain_event db)"
    "''evt_'' @ uuid \<notin> ev_id ` set (db_events db)"
  using assms events.add_Inr [of e db e db'] by (auto simp: record_event_Inr row_of_None_iff)

lemma event_text_stored:
  "faithful_time db \<Longrightarrow> event_text (stored_event db (new_event d uuid now p)) = event_text (new_event d uuid now p)"
  by (simp add: event_text_def event_payload_def stored_event_def faithful_time_def now_utc_def)

lemma stored_event_fields [simp]:
  "ev_previous_record_hash (stored_event db e) = ev_previous_record_hash e"
  "ev_record_hash (stored_event db e) = ev_record_hash e" "ev_id (stored_event db e) = ev_id e"
  "ev_agent_id (stored_event db e) = ev_agent_id e"
  "ev_idempotency_key (stored_event db e) = ev_idempotency_key e"
  by (simp_all add: stored_event_def)

text \<open>Recording appends: on success the table gains exactly one event, linked to the last event of
  the chain, carrying the sanitised parameters of the input and its own correct hash; every older
  event is kept as it was.  On failure nothing changes.\<close>

lemma record_event_outcome:
  "case record_event d uuid now db of
     (Inl x, db') \<Rightarrow> db' = db
   | (Inr e, db') \<Rightarrow>
       db_events db' = db_events db @ [stored_event db e] \<and>
       ev_previous_record_hash e = map_option ev_record_hash (last_chain_event db) \<and>
       ev_record_hash e = event_hash e \<and>
       ev_sanitized_parameters e = sanitize_parameters (ai_parameters d) \<and>
       ev_decision e = ai_decision d \<and> ev_execution_status e = ai_execution_status d \<and>
       ev_reason_code e = ai_reason_code d"
  by (auto split: prod.splits sum.splits dest: record_event_Inl events.add_Inr
      simp: record_event_Inr event_hash_new)

lemma record_chain:
  assumes "faithful_time db" and rec: "record_event d uuid now db = (Inr e, db')"
    and later: "\<forall>f \<in> set (db_events db). chain_key f < (now, ''evt_'' @ uuid)"
  shows "all_chain_events db' = all_chain_events db @ [stored_event db e]"
    and "chain.chained None (all_chain_events db) \<Longrightarrow> chain.chained None (all_chain_events db')"
proof -
  note e = record_event_events(1,2) [OF rec]
  have key: "chain_key (stored_event db e) = (now, ''evt_'' @ uuid)"
    using assms(1) by (simp add: e(2) chain_key_def stored_event_def faithful_time_def now_utc_def)
  show all: "all_chain_events db' = all_chain_events db @ [stored_event db e]"
    unfolding all_chain_events_def e(1) by (rule sort_key_append_max) (use later key in simp)
  show "chain.chained None (all_chain_events db')" if "chain.chained None (all_chain_events db)"
    using that event_text_stored [OF assms(1)] event_hash_new
    by (simp add: all chain.chained_snoc e(2) last_chain_head event_hash_text [symmetric])
qed

text \<open>(C10) Integrity is preserved: if the chain verifies and the new event is later than every recorded
  one in the order of the chain (time, then event id), then it verifies after the recording, on any
  backend whose timestamps keep the instant.\<close>

theorem record_keeps_integrity:
  assumes "ir_valid (verify_integrity db)" "faithful_time db"
    and "record_event d uuid now db = (Inr e, db')"
    and "\<forall>f \<in> set (db_events db). chain_key f < (now, ''evt_'' @ uuid)"
  shows "ir_valid (verify_integrity db') \<and> last_chain_event db' = Some (stored_event db e)"
  using record_chain [OF assms(2-4)] assms(1) by (simp add: verify_chained last_chain_event_def)

section \<open>Order, insertion and removal\<close>

lemma chained_label: "chain.chained p es \<Longrightarrow> e \<in> set es \<Longrightarrow> ev_record_hash e = sha256_hex (event_text e)"
  by (induction es arbitrary: p) auto

lemma chained_at: "chain.chained p (as @ e # bs) \<Longrightarrow> ev_previous_record_hash e = chain.head_label p as"
  by (induction as arbitrary: p) auto

lemma collision_of_labels:
  assumes "event_ok e" "event_ok f" "ev_id e \<noteq> ev_id f" "ev_record_hash e = ev_record_hash f"
    and "ev_record_hash e = sha256_hex (event_text e)" "ev_record_hash f = sha256_hex (event_text f)"
  shows "event_collision e f"
  using assms event_text_same [of e f] by (auto simp: event_collision_def same_record_def)

lemma head_label_cases: "chain.head_label None as = Some h \<Longrightarrow> \<exists>p \<in> set as. ev_record_hash p = h"
  by (cases as rule: rev_cases) auto

text \<open>Removing an event that is not the last breaks the chain, or shows a collision.\<close>

lemma removal_breaks_chain:
  assumes "chain.chained None (as @ e # b # bs)" "chain.chained None (as @ b # bs)"
    and "\<forall>x \<in> set (as @ e # b # bs). event_ok x" "distinct (map ev_id (as @ e # b # bs))"
  shows "\<exists>x \<in> set as. event_collision x e"
proof -
  have "ev_previous_record_hash b = Some (ev_record_hash e)"
    using chained_at [of None "as @ [e]" b bs] assms(1) by simp
  moreover have "ev_previous_record_hash b = chain.head_label None as"
    using chained_at [OF assms(2)] .
  ultimately obtain x where x: "x \<in> set as" "ev_record_hash x = ev_record_hash e"
    using head_label_cases [of as "ev_record_hash e"] by metis
  have "ev_id x \<noteq> ev_id e" "event_ok x" "event_ok e"
    using assms(3,4) x(1) by (auto simp: image_iff)
  moreover have "ev_record_hash x = sha256_hex (event_text x)" "ev_record_hash e = sha256_hex (event_text e)"
    using chained_label [OF assms(1)] x(1) by simp_all
  ultimately have "event_collision x e" using x(2) collision_of_labels by blast
  with x show ?thesis by blast
qed

lemma sorted_split:
  assumes "sorted (map f (as @ n # bs))" "l \<in> set (as @ n # bs)" "f n < f l"
  shows "l \<in> set bs"
  using assms by (fastforce simp: sorted_append)

lemma chained_after_prefix:
  assumes "chain.chained None ws" "ws = as @ n # bs" "l \<in> set bs"
    and "ev_previous_record_hash n = Some (ev_record_hash l)"
    and "\<forall>x \<in> set ws. event_ok x" "distinct (map ev_id ws)"
  shows "\<exists>x \<in> set as. event_collision x l"
proof -
  obtain x where x: "x \<in> set as" "ev_record_hash x = ev_record_hash l"
    using assms(1,4) chained_at [of None as n bs] head_label_cases [of as "ev_record_hash l"]
    unfolding assms(2) by metis
  have "ev_id x \<noteq> ev_id l" "event_ok x" "event_ok l" using assms(2,3,5,6) x(1) by auto
  moreover have "ev_record_hash x = sha256_hex (event_text x)" "ev_record_hash l = sha256_hex (event_text l)"
    using chained_label [OF assms(1)] x(1) assms(2,3) by simp_all
  ultimately have "event_collision x l" using x(2) collision_of_labels by blast
  with x show ?thesis by blast
qed

lemma chain_key_distinct: "distinct (map ev_id es) \<Longrightarrow> distinct (map chain_key es)"
  by (auto simp: distinct_map inj_on_def chain_key_def)

text \<open>(C23) The order of the chain is time first, then a random identifier.  When an event is recorded that
  does not come after the last one in this order (the clock went back, or the two fall in one
  microsecond and the new identifier is the smaller), the verification fails although nothing was tampered
  with, unless the table holds a SHA-256 collision.\<close>

theorem out_of_order_record_breaks_integrity:
  assumes wf: "db_wf db" and time: "faithful_time db"
    and last: "last_chain_event db = Some l" and rec: "record_event d uuid now db = (Inr e, db')"
    and early: "(now, ''evt_'' @ uuid) < chain_key l"
    and ok: "\<forall>x \<in> set (db_events db'). event_ok x"
  shows "\<not> ir_valid (verify_integrity db') \<or>
    (\<exists>x \<in> set (db_events db'). \<exists>y \<in> set (db_events db'). event_collision x y)"
  unfolding disj_not1
proof
  assume "ir_valid (verify_integrity db')"
  then have chained: "chain.chained None (all_chain_events db')" by (simp add: verify_chained)
  note e = record_event_events(1,2) [OF rec]
  let ?n = "stored_event db e"
  have "?n \<in> set (all_chain_events db')" using e by simp
  then obtain as bs where split: "all_chain_events db' = as @ ?n # bs" by (meson split_list)
  have "l \<in> set (all_chain_events db)"
    using last by (auto simp: last_chain_event_def split: list.splits simp del: set_all_chain_events)
  then have "l \<in> set (all_chain_events db')" using e by simp
  then have "l \<in> set (as @ ?n # bs)" unfolding split .
  moreover have "chain_key ?n < chain_key l"
    using early time by (simp add: e(2) chain_key_def stored_event_def faithful_time_def now_utc_def)
  moreover have "sorted (map chain_key (as @ ?n # bs))"
    unfolding split [symmetric] all_chain_events_def by simp
  ultimately have l: "l \<in> set bs" by (rule sorted_split [rotated])
  have "ev_previous_record_hash ?n = Some (ev_record_hash l)" by (simp add: e(2) last)
  moreover have "distinct (map ev_id (all_chain_events db'))"
    using wf_event_key [OF record_event_wf [OF wf rec]]
    by (simp add: all_chain_events_def distinct_map)
  ultimately obtain x where "x \<in> set as" "event_collision x l"
    using chained_after_prefix [OF chained split l] ok by auto
  then have "x \<in> set (all_chain_events db')" "l \<in> set (all_chain_events db')" "event_collision x l"
    using split l by simp_all
  then show "\<exists>x \<in> set (db_events db'). \<exists>y \<in> set (db_events db'). event_collision x y" by auto
qed

section \<open>Removal and truncation\<close>

text \<open>(C24) Removing a single event that is not the last one of an intact trail is detected, unless the
  trail holds a SHA-256 collision.\<close>

theorem removal_detected:
  assumes "db_wf db" "ir_valid (verify_integrity db)" "\<forall>x \<in> set (db_events db). event_ok x"
    and "e \<in> set (db_events db)" "last_chain_event db \<noteq> Some e"
  shows "\<not> ir_valid (verify_integrity (db\<lparr>db_events := remove_row ev_id (ev_id e) (db_events db)\<rparr>)) \<or>
    (\<exists>x \<in> set (db_events db). event_collision x e)"
  unfolding disj_not1
proof
  let ?db' = "db\<lparr>db_events := remove_row ev_id (ev_id e) (db_events db)\<rparr>"
  assume "ir_valid (verify_integrity ?db')"
  then have chained': "chain.chained None (all_chain_events ?db')" by (simp add: verify_chained)
  have chained: "chain.chained None (all_chain_events db)" using assms(2) by (simp add: verify_chained)
  have "e \<in> set (all_chain_events db)" using assms(4) by simp
  then obtain as rest where split: "all_chain_events db = as @ e # rest" by (meson split_list)
  have ids: "distinct (map ev_id (all_chain_events db))"
    using wf_event_key [OF assms(1)] by (simp add: all_chain_events_def distinct_map)
  have "rest \<noteq> []"
    using assms(5) split by (auto simp: last_chain_event_def)
  then obtain b bs where rest: "rest = b # bs" by (cases rest) auto
  have "all_chain_events ?db' = filter (\<lambda>x. ev_id x \<noteq> ev_id e) (all_chain_events db)"
    by (simp add: all_chain_events_def remove_row_def filter_sort)
  also have "\<dots> = as @ rest"
  proof -
    have "\<forall>x \<in> set as \<union> set rest. ev_id x \<noteq> ev_id e" using ids unfolding split by (auto simp: image_iff)
    then have "filter (\<lambda>x. ev_id x \<noteq> ev_id e) as = as" "filter (\<lambda>x. ev_id x \<noteq> ev_id e) rest = rest"
      by (simp_all add: filter_id_conv)
    then show ?thesis by (simp add: split)
  qed
  finally have "chain.chained None (as @ b # bs)" using chained' rest by simp
  then obtain x where "x \<in> set as" "event_collision x e"
    using removal_breaks_chain [of as e b bs] chained split rest ids assms(3)
    by (metis set_all_chain_events)
  then show "\<exists>x \<in> set (db_events db). event_collision x e"
    using split by (metis Un_iff set_all_chain_events set_append)
qed

text \<open>What the chain does not detect: dropping any number of the most recent events leaves a table
  that verifies.  Nothing in the database fixes the length of the history.\<close>

lemma truncation_verifies:
  assumes "ir_valid (verify_integrity db)"
  shows "ir_valid (verify_integrity (db\<lparr>db_events := take n (all_chain_events db)\<rparr>))"
proof -
  have sorted: "sorted (map chain_key (take n (all_chain_events db)))"
    by (simp add: all_chain_events_def take_map [symmetric] sorted_wrt_take)
  have "chain.chained None (take n (all_chain_events db) @ drop n (all_chain_events db))"
    using assms by (simp add: verify_chained)
  then have "chain.chained None (take n (all_chain_events db))" by (rule chain.chained_prefix)
  then show ?thesis
    using sorted by (simp add: verify_chained all_chain_events_def sorted_sort_id sort_key_id_if_sorted)
qed

section \<open>Redaction\<close>

text \<open>
  What may be seen of the parameters of a call: the names of the parameters, the value of
  \<open>customer_id\<close> when it is a string, and, of \<open>changes\<close>, whether it is an object and which keys
  it has.  \<open>same_visible\<close> says that two calls agree on that and on nothing else.
\<close>

fun object_keys :: "json \<Rightarrow> string multiset option" where
  "object_keys (JObj kvs) = Some (mset (map fst kvs))"
| "object_keys _ = None"

definition same_visible :: "(string \<times> json) list \<Rightarrow> (string \<times> json) list \<Rightarrow> bool" where
  "same_visible ps qs \<longleftrightarrow>
     fst ` set ps = fst ` set qs \<and>
     (\<forall>s. map_of ps ''customer_id'' = Some (JStr s) \<longleftrightarrow> map_of qs ''customer_id'' = Some (JStr s)) \<and>
     map_option object_keys (map_of ps ''changes'') = map_option object_keys (map_of qs ''changes'')"

lemma sort_mset_eq: "mset xs = mset ys \<Longrightarrow> sort xs = sort ys"
  by (metis mset_sort properties_for_sort sorted_sort)

lemma change_fields_keys: "object_keys x = object_keys y \<Longrightarrow> change_fields x = change_fields y"
  by (cases x; cases y) (auto simp: change_fields_def simp del: mset_map dest: sort_mset_eq)

lemma sanitize_customer_same:
  assumes same: "\<And>s. map_of ps ''customer_id'' = Some (JStr s) \<longleftrightarrow> map_of qs ''customer_id'' = Some (JStr s)"
  shows "sanitize_customer ps = sanitize_customer qs"
proof (cases "\<exists>s. map_of ps ''customer_id'' = Some (JStr s)")
  case True
  then obtain s where s: "map_of ps ''customer_id'' = Some (JStr s)" ..
  then have "map_of qs ''customer_id'' = Some (JStr s)" by (simp only: same)
  with s show ?thesis by (simp add: sanitize_customer_def)
next
  case False
  have none: "sanitize_customer rs = []" if "\<nexists>s. map_of rs ''customer_id'' = Some (JStr s)" for rs
    using that by (simp add: sanitize_customer_def split: option.split json.split)
  from False have "\<nexists>s. map_of qs ''customer_id'' = Some (JStr s)" by (simp only: same) simp
  then show ?thesis using none [OF False] none by simp
qed

lemma sanitize_changes_same:
  "map_option object_keys (map_of ps ''changes'') = map_option object_keys (map_of qs ''changes'') \<Longrightarrow>
   sanitize_changes ps = sanitize_changes qs"
  by (cases "map_of ps ''changes''"; cases "map_of qs ''changes''")
    (auto simp: sanitize_changes_def dest: change_fields_keys)

lemma sanitize_same_visible:
  assumes "same_visible ps qs"
  shows "sanitize_parameters ps = sanitize_parameters qs"
proof -
  have "sanitize_customer ps = sanitize_customer qs" "sanitize_changes ps = sanitize_changes qs"
    using assms unfolding same_visible_def by (blast intro: sanitize_customer_same sanitize_changes_same)+
  moreover have "unknown_names ps = unknown_names qs" using assms by (simp add: same_visible_def unknown_names_def)
  ultimately show ?thesis by (simp add: sanitize_parameters_def)
qed

text \<open>(C25) Redaction: two calls that agree on the parameter names, on a customer id that is a string and on
  the keys of \<open>changes\<close> leave the same audit row and the same database, whatever the values of
  \<open>changes\<close> and of every other parameter are; no such value has any influence on what is stored.\<close>

theorem sanitized_parameters_reveal_only:
  assumes "same_visible ps qs"
  shows "record_event (d\<lparr>ai_parameters := ps\<rparr>) uuid now db = record_event (d\<lparr>ai_parameters := qs\<rparr>) uuid now db"
proof -
  have "new_event (d\<lparr>ai_parameters := ps\<rparr>) uuid now p = new_event (d\<lparr>ai_parameters := qs\<rparr>) uuid now p" for p
    using sanitize_same_visible [OF assms] by (simp add: new_event_def)
  then show ?thesis by (simp add: record_event_def)
qed

lemma sanitize_parameters_wf: "wf_json (sanitize_parameters ps)"
proof -
  have "wf_json (change_fields c)" for c
    by (cases c) (auto simp: change_fields_def list_all_iff)
  then show ?thesis
    by (auto simp: sanitize_parameters_def sanitize_customer_def sanitize_changes_def list_all_iff
        split: option.splits json.splits)
qed

lemma recorded_event_ok:
  "faithful_time db \<Longrightarrow> valid_instant now \<Longrightarrow> event_ok (stored_event db (new_event d uuid now p))"
  by (simp add: event_ok_def stored_event_def sanitize_parameters_wf faithful_time_def now_utc_def)

end
