(* ===== verification/CrmAdapter.thy ===== *)
theory CrmAdapter
  imports Json Settings
begin

text \<open>
  \<open>tools/crm.py\<close>: the adapter that turns an authorised tool call into one HTTP request to the
  CRM.  The HTTP client and what is behind it are a parameter, \<open>send\<close>: a request and the state
  of the outside world give a response or a failure and the next state.  \<open>tool_adapter\<close> is the
  contract the tool-call service has with any adapter; it is interpreted on this one.
\<close>

section \<open>HTTP\<close>

record http_request =
  hq_base_url :: string
  hq_timeout :: rat
  hq_method :: string
  hq_path :: string
  hq_headers :: "(string \<times> string) list"
  hq_body :: "json option"

text \<open>\<open>hp_json\<close> is what \<open>response.json()\<close> gives, \<open>None\<close> when the body is not JSON.\<close>

record http_response =
  hp_status_code :: int
  hp_json :: "json option"

datatype http_failure =
    TimeoutException
  | HTTPError
  | OtherClientError string

type_synonym 'w http_client = "http_request \<Rightarrow> 'w \<Rightarrow> (http_failure + http_response) \<times> 'w"

section \<open>Adapters\<close>

text \<open>A JSON body \<open>null\<close> is Python's \<open>None\<close>, as is the result of a 204.\<close>

record tool_execution_result =
  tx_result :: "json option"
  tx_upstream_status_code :: int

type_synonym params = "(string \<times> json) list"

type_synonym 'w adapter = "string \<Rightarrow> string \<Rightarrow> params \<Rightarrow> 'w \<Rightarrow> tool_execution_result res \<times> 'w"

record crm_adapter =
  ca_base_url :: string
  ca_internal_key :: string
  ca_timeout :: rat

definition rstrip_slash :: "string \<Rightarrow> string" where
  "rstrip_slash s = rev (dropWhile (\<lambda>c. c = CHR ''/'') (rev s))"

definition new_crm_adapter :: "proxy_settings \<Rightarrow> crm_adapter" where
  "new_crm_adapter s =
     \<lparr>ca_base_url = rstrip_slash (url_text (px_crm_base_url s)),
      ca_internal_key = px_crm_internal_api_key s, ca_timeout = px_upstream_timeout_seconds s\<rparr>"

section \<open>\<open>str()\<close> of a JSON value\<close>

text \<open>
  The path is an f-string, so a \<open>customer_id\<close> that is no string is formatted with \<open>str\<close>; lists
  and objects show the \<open>repr\<close> of their members.
\<close>

definition repr_char :: "char \<Rightarrow> char \<Rightarrow> string" where
  "repr_char q c =
     (let n = of_char c :: nat in
      if c = q \<or> n = 92 then [CHR 0x5C, c]
      else if n = 10 then [CHR 0x5C, CHR ''n'']
      else if n = 13 then [CHR 0x5C, CHR ''r'']
      else if n = 9 then [CHR 0x5C, CHR ''t'']
      else if n < 32 \<or> 127 \<le> n \<and> n \<le> 160 \<or> n = 173
      then [CHR 0x5C, CHR ''x'', hex_char (n div 16), hex_char (n mod 16)]
      else [c])"

definition repr_str :: "string \<Rightarrow> string" where
  "repr_str s =
     (let q = if CHR 0x27 \<in> set s \<and> CHR 0x22 \<notin> set s then CHR 0x22 else CHR 0x27
      in q # concat (map (repr_char q) s) @ [q])"

definition repr_float :: "string \<Rightarrow> string" where
  "repr_float s =
     (if s = ''NaN'' then ''nan'' else if s = ''Infinity'' then ''inf''
      else if s = ''-Infinity'' then ''-inf'' else s)"

fun py_repr :: "json \<Rightarrow> string" where
  "py_repr JNull = ''None''"
| "py_repr (JBool b) = (if b then ''True'' else ''False'')"
| "py_repr (JInt i) = show_int i"
| "py_repr (JFloat s) = repr_float s"
| "py_repr (JStr s) = repr_str s"
| "py_repr (JArr xs) = ''['' @ join_with '', '' (map py_repr xs) @ '']''"
| "py_repr (JObj kvs) =
     ''{'' @ join_with '', '' (map (\<lambda>(k, v). repr_str k @ '': '' @ py_repr v) kvs) @ ''}''"

definition py_str :: "json \<Rightarrow> string" where
  "py_str j = (case j of JStr s \<Rightarrow> s | _ \<Rightarrow> py_repr j)"

section \<open>The request of an operation\<close>

definition crm_request :: "crm_adapter \<Rightarrow> string \<Rightarrow> string \<Rightarrow> params \<Rightarrow> http_request res" where
  "crm_request a tool operation ps =
     (if tool \<noteq> ''crm''
      then Inl (ToolExecutionError ''TOOL_NOT_REGISTERED'' ''No adapter exists for the tool'' None)
      else
        (case map_of ps ''customer_id'' of
           None \<Rightarrow> Inl (KeyError ''customer_id'')
         | Some cid \<Rightarrow>
             let request = (\<lambda>verb body.
                   \<lparr>hq_base_url = ca_base_url a, hq_timeout = ca_timeout a, hq_method = verb,
                    hq_path = ''/customers/'' @ py_str cid,
                    hq_headers = [(''X-Internal-API-Key'', ca_internal_key a)], hq_body = body\<rparr>)
             in if operation = ''read_customer'' then Inr (request ''GET'' None)
                else if operation = ''write_customer'' then
                  (case map_of ps ''changes'' of
                     Some (JObj kvs) \<Rightarrow> Inr (request ''PATCH'' (Some (JObj kvs)))
                   | _ \<Rightarrow> Inl (ToolExecutionError ''INVALID_PARAMETERS''
                              ''write_customer requires a changes object'' None))
                else if operation = ''delete_customer'' then Inr (request ''DELETE'' None)
                else Inl (ToolExecutionError ''OPERATION_NOT_SUPPORTED''
                           ''The registered adapter does not support this operation'' None)))"

definition response_result :: "http_response \<Rightarrow> tool_execution_result res" where
  "response_result r =
     (if hp_status_code r \<ge> 400
      then Inl (ToolExecutionError ''UPSTREAM_TOOL_ERROR'' ''The protected tool rejected the request''
                 (Some (hp_status_code r)))
      else if hp_status_code r = 204
      then Inr \<lparr>tx_result = None, tx_upstream_status_code = hp_status_code r\<rparr>
      else
        (case hp_json r of
           None \<Rightarrow> Inl JSONDecodeError
         | Some j \<Rightarrow> Inr \<lparr>tx_result = (if j = JNull then None else Some j),
                         tx_upstream_status_code = hp_status_code r\<rparr>))"

definition request_outcome :: "http_failure + http_response \<Rightarrow> tool_execution_result res" where
  "request_outcome r =
     (case r of
        Inl TimeoutException \<Rightarrow>
          Inl (ToolExecutionError ''UPSTREAM_TOOL_TIMEOUT'' ''The protected tool timed out'' None)
      | Inl HTTPError \<Rightarrow>
          Inl (ToolExecutionError ''UPSTREAM_TOOL_ERROR'' ''The protected tool could not be reached'' None)
      | Inl (OtherClientError m) \<Rightarrow> Inl (HttpClientError m)
      | Inr response \<Rightarrow> response_result response)"

definition crm_execute :: "crm_adapter \<Rightarrow> 'w http_client \<Rightarrow> 'w adapter" where
  "crm_execute a send tool operation ps w =
     (case crm_request a tool operation ps of
        Inl e \<Rightarrow> (Inl e, w)
      | Inr request \<Rightarrow> (case send request w of (r, w') \<Rightarrow> (request_outcome r, w')))"

section \<open>The contract of an adapter\<close>

locale tool_adapter =
  fixes execute :: "'w adapter"
    and supported :: "string \<Rightarrow> string \<Rightarrow> bool"
  assumes unsupported: "\<not> supported tool operation \<Longrightarrow> \<exists>e. execute tool operation ps w = (Inl e, w)"
    and success_status: "execute tool operation ps w = (Inr r, w') \<Longrightarrow> tx_upstream_status_code r < 400"
begin

lemma effect_supported: "execute tool operation ps w = (r, w') \<Longrightarrow> w' \<noteq> w \<Longrightarrow> supported tool operation"
  using unsupported [of tool operation ps w] by auto

lemma success_supported: "execute tool operation ps w = (Inr r, w') \<Longrightarrow> supported tool operation"
  using unsupported [of tool operation ps w] by auto

end

definition crm_operations :: "string list" where
  "crm_operations = [''read_customer'', ''write_customer'', ''delete_customer'']"

definition crm_supported :: "string \<Rightarrow> string \<Rightarrow> bool" where
  "crm_supported tool operation \<longleftrightarrow> tool = ''crm'' \<and> operation \<in> set crm_operations"

lemma crm_request_supported: "crm_request a tool operation ps = Inr q \<Longrightarrow> crm_supported tool operation"
  by (auto simp: crm_request_def crm_supported_def crm_operations_def Let_def split: if_splits option.splits)

lemma response_result_Inr: "response_result r = Inr x \<Longrightarrow> tx_upstream_status_code x < 400"
  by (auto simp: response_result_def split: if_splits option.splits)

lemma request_outcome_Inr: "request_outcome r = Inr x \<Longrightarrow> tx_upstream_status_code x < 400"
  by (auto simp: request_outcome_def split: sum.splits http_failure.splits dest: response_result_Inr)

interpretation crm: tool_adapter "crm_execute a send" crm_supported
proof
  show "\<exists>e. crm_execute a send tool operation ps w = (Inl e, w)" if "\<not> crm_supported tool operation"
    for tool operation ps w
    using that by (auto simp: crm_execute_def split: sum.splits dest: crm_request_supported)
  show "tx_upstream_status_code r < 400" if "crm_execute a send tool operation ps w = (Inr r, w')"
    for tool operation ps w r w'
    using that by (auto simp: crm_execute_def split: sum.splits prod.splits dest: request_outcome_Inr)
qed

section \<open>Properties\<close>

definition method_of :: "string \<Rightarrow> string" where
  "method_of operation =
     (if operation = ''read_customer'' then ''GET'' else if operation = ''write_customer'' then ''PATCH''
      else ''DELETE'')"

lemma crm_request_Inr:
  "crm_request a tool operation ps = Inr q \<Longrightarrow>
     (\<exists>cid. map_of ps ''customer_id'' = Some cid \<and> hq_path q = ''/customers/'' @ py_str cid) \<and>
     hq_method q = method_of operation \<and> hq_base_url q = ca_base_url a \<and>
     hq_headers q = [(''X-Internal-API-Key'', ca_internal_key a)] \<and>
     hq_body q = (if operation = ''write_customer'' then map_of ps ''changes'' else None)"
  by (auto simp: crm_request_def method_of_def Let_def split: if_splits option.splits json.splits)

lemma crm_execute_cases:
  obtains (refused) e where "crm_request a tool operation ps = Inl e" "crm_execute a send tool operation ps w = (Inl e, w)"
  | (sent) q where "crm_request a tool operation ps = Inr q"
      "crm_execute a send tool operation ps w = (request_outcome (fst (send q w)), snd (send q w))"
  by (cases "crm_request a tool operation ps") (auto simp: crm_execute_def split: prod.splits)

text \<open>What one call of the adapter does depends on the client only through one request: the call
  fails without contacting anybody, or it sends exactly one request, to the configured CRM and with the
  internal key, whose verb is that of the operation, whose path is that of the customer named in the
  parameters and whose body is the \<open>changes\<close> of a write and nothing otherwise.\<close>

lemma crm_execute_one_request:
  "(\<exists>e. \<forall>send w. crm_execute a send tool operation ps w = (Inl e, w)) \<or>
   (\<exists>q cid. crm_supported tool operation \<and> map_of ps ''customer_id'' = Some cid \<and>
      hq_path q = ''/customers/'' @ py_str cid \<and> hq_method q = method_of operation \<and>
      hq_base_url q = ca_base_url a \<and> hq_headers q = [(''X-Internal-API-Key'', ca_internal_key a)] \<and>
      hq_body q = (if operation = ''write_customer'' then map_of ps ''changes'' else None) \<and>
      (\<forall>send w. crm_execute a send tool operation ps w = (request_outcome (fst (send q w)), snd (send q w))))"
proof (cases "crm_request a tool operation ps")
  case (Inr q)
  then have "crm_execute a send tool operation ps w = (request_outcome (fst (send q w)), snd (send q w))" for send w
    by (simp add: crm_execute_def split: prod.split)
  then show ?thesis
    using crm_request_Inr [OF Inr] crm_request_supported [OF Inr] by blast
qed (simp add: crm_execute_def)

lemma crm_request_Inl:
  "crm_request a tool operation ps = Inl e \<Longrightarrow>
     e = KeyError ''customer_id'' \<and> map_of ps ''customer_id'' = None \<or>
     (\<exists>c m. e = ToolExecutionError c m None)"
  by (auto simp: crm_request_def Let_def split: if_splits option.splits json.splits)

lemma response_result_Inl:
  "response_result p = Inl e \<Longrightarrow> (\<exists>c m s. e = ToolExecutionError c m s) \<or>
     (e = JSONDecodeError \<and> hp_status_code p < 400 \<and> hp_status_code p \<noteq> 204 \<and> hp_json p = None)"
  by (auto simp: response_result_def split: if_splits option.splits)

lemma request_outcome_Inl:
  "request_outcome r = Inl e \<Longrightarrow> (\<exists>c m s. e = ToolExecutionError c m s) \<or> (\<exists>m. r = Inl (OtherClientError m) \<and> e = HttpClientError m) \<or>
     (\<exists>p. r = Inr p \<and> e = JSONDecodeError \<and> hp_status_code p < 400 \<and> hp_status_code p \<noteq> 204 \<and>
        hp_json p = None)"
  by (auto simp: request_outcome_def split: sum.splits http_failure.splits dest: response_result_Inl)

text \<open>The adapter's error handling: the exceptions other than \<open>ToolExecutionError\<close> can only be the
  missing \<open>customer_id\<close>, a success response that is not JSON, and client errors that httpx does not
  derive from \<open>HTTPError\<close>.\<close>

lemma crm_execute_uncaught:
  assumes "fst (crm_execute a send tool operation ps w) = Inl e" "\<not> (\<exists>c m s. e = ToolExecutionError c m s)"
  shows "e = KeyError ''customer_id'' \<and> map_of ps ''customer_id'' = None \<or>
     (\<exists>q. (\<exists>m. fst (send q w) = Inl (OtherClientError m) \<and> e = HttpClientError m) \<or>
       (e = JSONDecodeError \<and>
         (\<exists>p. fst (send q w) = Inr p \<and> hp_status_code p < 400 \<and> hp_status_code p \<noteq> 204 \<and> hp_json p = None)))"
proof (cases rule: crm_execute_cases [of a tool operation ps send w])
  case (refused e')
  with assms(1) have "e' = e" by simp
  then show ?thesis using crm_request_Inl [OF refused(1)] assms(2) by blast
next
  case (sent q)
  with assms(1) have "request_outcome (fst (send q w)) = Inl e" by simp
  then show ?thesis using request_outcome_Inl assms(2) by blast
qed

end
