(* ===== verification/ToolCalls.thy ===== *)
theory ToolCalls
  imports Evaluator AuditTrail CrmAdapter
begin

text \<open>
  \<open>tool_calls.py\<close>: the enforcement pipeline of one tool call.  \<open>begin_call\<close> is the code up to
  \<open>await self.adapter.execute\<close>, \<open>finish_call\<close> the code after it, \<open>execute_call\<close> the two
  around the adapter.  \<open>call_env\<close> holds what the code reads from its surroundings, in the order
  of the calls: the request identifier, the performance counter (in nanoseconds), the clock and
  the event identifiers.  The properties: a call that is not allowed never reaches the adapter,
  the authorisation is on record before anything is forwarded, an idempotency key is forwarded
  once, and the answer agrees with the audit trail.
\<close>

record tool_call =
  cl_agent_id :: string
  cl_session :: trusted_session_claims
  cl_idempotency_key :: string
  cl_tool :: string
  cl_operation :: string
  cl_parameters :: params
  cl_trace_id :: "string option"

record call_env =
  ce_request_uuid :: string
  ce_started :: int
  ce_policy_started :: int
  ce_evaluated_at :: int
  ce_policy_done :: int
  ce_first_done :: int
  ce_first_uuid :: string
  ce_first_at :: int
  ce_second_done :: int
  ce_second_uuid :: string
  ce_second_at :: int

record tool_call_outcome =
  tco_request_id :: string
  tco_decision :: string
  tco_reason_code :: string
  tco_message :: string
  tco_result :: "json option"
  tco_upstream_status_code :: "int option"

section \<open>Latencies\<close>

text \<open>\<open>max(0, round((perf_counter() - started) * 1000))\<close>; Python rounds half to even.\<close>

definition round_to_ms :: "int \<Rightarrow> int" where
  "round_to_ms ns =
     (let q = ns div 1000000; r = ns mod 1000000
      in if r < 500000 then q else if 500000 < r then q + 1 else if even q then q else q + 1)"

definition elapsed_ms :: "int \<Rightarrow> int \<Rightarrow> int" where
  "elapsed_ms started now = max 0 (round_to_ms (now - started))"

section \<open>The pipeline\<close>

definition outcome :: "string \<Rightarrow> string \<Rightarrow> string \<Rightarrow> string \<Rightarrow> tool_call_outcome" where
  "outcome request_id decision code message =
     \<lparr>tco_request_id = request_id, tco_decision = decision, tco_reason_code = code,
      tco_message = message, tco_result = None, tco_upstream_status_code = None\<rparr>"

definition decision_of :: "string \<Rightarrow> audit_decision option" where
  "decision_of s =
     map_of [(''allow'', DecisionAllow), (''block'', DecisionBlock), (''error'', DecisionError)] s"

definition audit_input :: "tool_call_outcome \<Rightarrow> tool_call \<Rightarrow> int \<Rightarrow> execution_status
    \<Rightarrow> policy_decision option \<Rightarrow> int option \<Rightarrow> int \<Rightarrow> audit_decision \<Rightarrow> audit_event_input" where
  "audit_input out call sequence status policy latency elapsed decision =
     \<lparr>ai_request_id = tco_request_id out, ai_idempotency_key = cl_idempotency_key call,
      ai_sequence = sequence, ai_agent_id = cl_agent_id call,
      ai_session_id = Some (tc_session_id (cl_session call)),
      ai_user_id = Some (tc_user_id (cl_session call)), ai_tool = cl_tool call,
      ai_operation = cl_operation call, ai_parameters = cl_parameters call, ai_decision = decision,
      ai_reason_code = tco_reason_code out, ai_execution_status = status,
      ai_manifest_id = Option.bind policy pd_manifest_id,
      ai_policy_checksum = Option.bind policy pd_policy_checksum,
      ai_upstream_status_code = tco_upstream_status_code out, ai_decision_latency_ms = latency,
      ai_total_latency_ms = Some elapsed, ai_trace_id = cl_trace_id call\<rparr>"

text \<open>\<open>_record\<close>; the policy gives the manifest identifier and the checksum.\<close>

definition record_call :: "tool_call_outcome \<Rightarrow> tool_call \<Rightarrow> int \<Rightarrow> execution_status
    \<Rightarrow> policy_decision option \<Rightarrow> int option \<Rightarrow> int \<Rightarrow> string \<Rightarrow> int \<Rightarrow> database \<Rightarrow> unit res \<times> database" where
  "record_call out call sequence status policy latency elapsed uuid now db =
     (case decision_of (tco_decision out) of
        None \<Rightarrow> (Inl (KeyError (tco_decision out)), db)
      | Some decision \<Rightarrow>
          (case record_event (audit_input out call sequence status policy latency elapsed decision) uuid now db of
             (Inl e, db') \<Rightarrow> (Inl e, db')
           | (Inr _, db') \<Rightarrow> (Inr (), db')))"

datatype call_step =
    Answered tool_call_outcome
  | Forward policy_decision int

definition request_name :: "call_env \<Rightarrow> string" where
  "request_name env = ''req_'' @ ce_request_uuid env"

definition answer_after :: "unit res \<times> database \<Rightarrow> 'a \<Rightarrow> 'a res \<times> database" where
  "answer_after r x = (case r of (Inl e, db) \<Rightarrow> (Inl e, db) | (Inr _, db) \<Rightarrow> (Inr x, db))"

definition begin_call :: "pydantic \<Rightarrow> tool_call \<Rightarrow> call_env \<Rightarrow> database \<Rightarrow> call_step res \<times> database" where
  "begin_call P call env db =
     (if has_idempotency_key (cl_agent_id call) (cl_idempotency_key call) db then
        let out = outcome (request_name env) ''block'' ''DUPLICATE_REQUEST''
                    ''This idempotency key has already been used''
        in answer_after
             (record_call out call 0 ExecNotForwarded None None
               (elapsed_ms (ce_started env) (ce_first_done env)) (ce_first_uuid env) (ce_first_at env) db)
             (Answered out)
      else
        (case evaluate P (cl_agent_id call) (cl_session call) (cl_tool call) (cl_operation call)
                (cl_parameters call) (ce_evaluated_at env) db of
           Inl e \<Rightarrow> (Inl e, db)
         | Inr policy \<Rightarrow>
             let latency = elapsed_ms (ce_policy_started env) (ce_policy_done env);
                 elapsed = elapsed_ms (ce_started env) (ce_first_done env)
             in if \<not> pd_allowed policy then
                  let out = outcome (request_name env) ''block'' (pd_reason_code policy) (pd_message policy)
                  in answer_after
                       (record_call out call 0 ExecNotForwarded (Some policy) (Some latency) elapsed
                         (ce_first_uuid env) (ce_first_at env) db)
                       (Answered out)
                else
                  let authorized = outcome (request_name env) ''allow'' ''ALLOWED'' ''Tool call is permitted''
                  in answer_after
                       (record_call authorized call 0 ExecAuthorized (Some policy) (Some latency) elapsed
                         (ce_first_uuid env) (ce_first_at env) db)
                       (Forward policy latency)))"

definition failure_status :: "string \<Rightarrow> execution_status" where
  "failure_status code = (if code = ''UPSTREAM_TOOL_TIMEOUT'' then ExecTimedOut else ExecToolFailed)"

definition finish_call :: "tool_call \<Rightarrow> call_env \<Rightarrow> policy_decision \<Rightarrow> int \<Rightarrow> tool_execution_result res
    \<Rightarrow> database \<Rightarrow> tool_call_outcome res \<times> database" where
  "finish_call call env policy latency execution db =
     (let elapsed = elapsed_ms (ce_started env) (ce_second_done env)
      in case execution of
           Inl (ToolExecutionError code message status) \<Rightarrow>
             let out = (outcome (request_name env) ''error'' code message)
                         \<lparr>tco_upstream_status_code := status\<rparr>
             in answer_after
                  (record_call out call 1 (failure_status code) (Some policy) (Some latency) elapsed
                    (ce_second_uuid env) (ce_second_at env) db) out
         | Inl e \<Rightarrow> (Inl e, db)
         | Inr x \<Rightarrow>
             let out = (outcome (request_name env) ''allow'' ''ALLOWED'' ''Tool call executed'')
                         \<lparr>tco_result := tx_result x,
                          tco_upstream_status_code := Some (tx_upstream_status_code x)\<rparr>
             in answer_after
                  (record_call out call 1 ExecExecuted (Some policy) (Some latency) elapsed
                    (ce_second_uuid env) (ce_second_at env) db) out)"

definition execute_call :: "pydantic \<Rightarrow> 'w adapter \<Rightarrow> tool_call \<Rightarrow> call_env \<Rightarrow> database \<times> 'w
    \<Rightarrow> tool_call_outcome res \<times> database \<times> 'w" where
  "execute_call P adapter call env st =
     (let (db, w) = st
      in case begin_call P call env db of
           (Inl e, db1) \<Rightarrow> (Inl e, db1, w)
         | (Inr (Answered out), db1) \<Rightarrow> (Inr out, db1, w)
         | (Inr (Forward policy latency), db1) \<Rightarrow>
             (case adapter (cl_tool call) (cl_operation call) (cl_parameters call) w of
                (execution, w1) \<Rightarrow>
                  (case finish_call call env policy latency execution db1 of
                     (r, db2) \<Rightarrow> (r, db2, w1))))"

section \<open>What a step leaves on record\<close>

text \<open>\<open>call_event call env n dec code status e\<close>: event \<open>e\<close> is the \<open>n\<close>-th record of this call.\<close>

definition call_event :: "tool_call \<Rightarrow> call_env \<Rightarrow> int \<Rightarrow> audit_decision \<Rightarrow> string \<Rightarrow> execution_status
    \<Rightarrow> audit_event \<Rightarrow> bool" where
  "call_event call env n dec code status e \<longleftrightarrow>
     ev_request_id e = request_name env \<and> ev_sequence e = n \<and>
     ev_idempotency_key e = cl_idempotency_key call \<and> ev_agent_id e = cl_agent_id call \<and>
     ev_session_id e = Some (tc_session_id (cl_session call)) \<and>
     ev_user_id e = Some (tc_user_id (cl_session call)) \<and> ev_tool e = cl_tool call \<and>
     ev_operation e = cl_operation call \<and>
     ev_sanitized_parameters e = sanitize_parameters (cl_parameters call) \<and>
     ev_decision e = dec \<and> ev_reason_code e = code \<and> ev_execution_status e = status"

definition appends :: "database \<Rightarrow> audit_event \<Rightarrow> database \<Rightarrow> bool" where
  "appends db e db' \<longleftrightarrow> db_events db' = db_events db @ [e]"

lemma call_event_key: "call_event call env n dec code status e \<Longrightarrow> has_key (cl_agent_id call) (cl_idempotency_key call) e"
  by (simp add: call_event_def has_key_def)

lemma audit_input_fields [simp]:
  "ai_request_id (audit_input out call n st p l t d) = tco_request_id out"
  "ai_idempotency_key (audit_input out call n st p l t d) = cl_idempotency_key call"
  "ai_sequence (audit_input out call n st p l t d) = n"
  "ai_agent_id (audit_input out call n st p l t d) = cl_agent_id call"
  "ai_session_id (audit_input out call n st p l t d) = Some (tc_session_id (cl_session call))"
  "ai_user_id (audit_input out call n st p l t d) = Some (tc_user_id (cl_session call))"
  "ai_tool (audit_input out call n st p l t d) = cl_tool call"
  "ai_operation (audit_input out call n st p l t d) = cl_operation call"
  "ai_parameters (audit_input out call n st p l t d) = cl_parameters call"
  "ai_decision (audit_input out call n st p l t d) = d"
  "ai_reason_code (audit_input out call n st p l t d) = tco_reason_code out"
  "ai_execution_status (audit_input out call n st p l t d) = st"
  by (simp_all add: audit_input_def)

lemma outcome_fields [simp]:
  "tco_request_id (outcome i d c m) = i" "tco_decision (outcome i d c m) = d"
  "tco_reason_code (outcome i d c m) = c" "tco_message (outcome i d c m) = m"
  "tco_result (outcome i d c m) = None" "tco_upstream_status_code (outcome i d c m) = None"
  by (simp_all add: outcome_def)

lemma decision_of_values [simp]:
  "decision_of ''allow'' = Some DecisionAllow" "decision_of ''block'' = Some DecisionBlock"
  "decision_of ''error'' = Some DecisionError"
  by (simp_all add: decision_of_def)

lemma record_call_Inr:
  assumes "record_call out call n st p l t uuid now db = (Inr u, db')"
  shows "\<exists>dec e. decision_of (tco_decision out) = Some dec \<and>
    record_event (audit_input out call n st p l t dec) uuid now db = (Inr e, db')"
  using assms by (auto simp: record_call_def split: option.splits prod.splits sum.splits)

lemma record_call_Inl: "record_call out call n st p l t uuid now db = (Inl x, db') \<Longrightarrow> db' = db"
  by (auto simp: record_call_def split: option.splits prod.splits sum.splits dest: record_event_Inl)

lemma record_call_appends:
  assumes "record_call out call n st p l t uuid now db = (Inr u, db')"
    and "tco_request_id out = request_name env" "decision_of (tco_decision out) = Some dec"
  shows "\<exists>e. appends db e db' \<and> call_event call env n dec (tco_reason_code out) st e"
proof -
  obtain e where rec: "record_event (audit_input out call n st p l t dec) uuid now db = (Inr e, db')"
    using record_call_Inr [OF assms(1)] assms(3) by auto
  have "call_event call env n dec (tco_reason_code out) st (stored_event db e)"
    using assms(2) by (simp add: record_event_events(2) [OF rec] call_event_def stored_event_def)
  then show ?thesis using record_event_events(1) [OF rec] by (auto simp: appends_def)
qed

lemma answer_after_Inr: "answer_after r x = (Inr y, db') \<longleftrightarrow> y = x \<and> r = (Inr (), db')"
  by (auto simp: answer_after_def split: prod.splits sum.splits)

lemma answer_after_Inl: "answer_after r x = (Inl e, db') \<longleftrightarrow> r = (Inl e, db')"
  by (auto simp: answer_after_def split: prod.splits sum.splits)

lemma begin_call_Inl: "begin_call P call env db = (Inl e, db') \<Longrightarrow> db' = db"
  by (auto simp: begin_call_def Let_def answer_after_Inl split: if_splits sum.splits dest: record_call_Inl)

lemma begin_call_Answered:
  assumes "begin_call P call env db = (Inr (Answered out), db')"
  shows "\<exists>e. appends db e db' \<and> call_event call env 0 DecisionBlock (tco_reason_code out) ExecNotForwarded e \<and>
    tco_decision out = ''block'' \<and> tco_result out = None \<and> tco_request_id out = request_name env \<and>
    (if has_idempotency_key (cl_agent_id call) (cl_idempotency_key call) db
     then tco_reason_code out = ''DUPLICATE_REQUEST''
     else \<exists>d. evaluate P (cl_agent_id call) (cl_session call) (cl_tool call) (cl_operation call)
            (cl_parameters call) (ce_evaluated_at env) db = Inr d \<and> \<not> pd_allowed d \<and>
          tco_reason_code out = pd_reason_code d)"
proof (cases "has_idempotency_key (cl_agent_id call) (cl_idempotency_key call) db")
  case True
  with assms show ?thesis
    by (auto simp: begin_call_def Let_def answer_after_Inr dest!: record_call_appends [where env = env and dec = DecisionBlock])
next
  case False
  with assms show ?thesis
    by (auto simp: begin_call_def Let_def answer_after_Inr split: sum.splits if_splits
        dest!: record_call_appends [where env = env and dec = DecisionBlock])
qed

lemma begin_call_Forward:
  assumes "begin_call P call env db = (Inr (Forward policy latency), db')"
  shows "\<exists>e. appends db e db' \<and> call_event call env 0 DecisionAllow ''ALLOWED'' ExecAuthorized e"
    and "\<not> has_idempotency_key (cl_agent_id call) (cl_idempotency_key call) db"
    and "evaluate P (cl_agent_id call) (cl_session call) (cl_tool call) (cl_operation call)
      (cl_parameters call) (ce_evaluated_at env) db = Inr policy" "pd_allowed policy"
  using assms
  by (auto simp: begin_call_def Let_def answer_after_Inr split: sum.splits if_splits
      dest!: record_call_appends [where env = env and dec = DecisionAllow])

lemma finish_call_Inl: "finish_call call env policy latency x db = (Inl e, db') \<Longrightarrow> db' = db"
  by (auto simp: finish_call_def Let_def answer_after_Inl split: sum.splits py_exn.splits dest: record_call_Inl)

definition finished_status :: "tool_execution_result res \<Rightarrow> execution_status" where
  "finished_status x =
     (case x of Inl (ToolExecutionError c m s) \<Rightarrow> failure_status c | _ \<Rightarrow> ExecExecuted)"

lemma finish_call_Inr:
  assumes "finish_call call env policy latency x db = (Inr out, db')"
  shows "\<exists>e dec. appends db e db' \<and> decision_of (tco_decision out) = Some dec \<and>
    call_event call env 1 dec (tco_reason_code out) (finished_status x) e \<and>
    tco_request_id out = request_name env \<and>
    ((\<exists>c m s. x = Inl (ToolExecutionError c m s) \<and> dec = DecisionError \<and> tco_reason_code out = c \<and>
        tco_upstream_status_code out = s \<and> tco_result out = None) \<or>
     (\<exists>r. x = Inr r \<and> dec = DecisionAllow \<and> tco_reason_code out = ''ALLOWED'' \<and> tco_result out = tx_result r \<and>
        tco_upstream_status_code out = Some (tx_upstream_status_code r)))"
proof (cases x)
  case (Inl e)
  then obtain c m s where e: "e = ToolExecutionError c m s"
    using assms by (cases e) (auto simp: finish_call_def Let_def)
  with Inl assms show ?thesis
    by (auto simp: finish_call_def Let_def answer_after_Inr finished_status_def
        dest!: record_call_appends [where env = env and dec = DecisionError])
next
  case (Inr r)
  with assms show ?thesis
    by (auto simp: finish_call_def Let_def answer_after_Inr finished_status_def
        dest!: record_call_appends [where env = env and dec = DecisionAllow])
qed

section \<open>The pipeline as a whole\<close>

lemma execute_call_cases:
  assumes "execute_call P adapter call env (db, w) = (r, db', w')"
  obtains (failed) e where "begin_call P call env db = (Inl e, db)" "r = Inl e" "db' = db" "w' = w"
  | (answered) out where "begin_call P call env db = (Inr (Answered out), db')" "r = Inr out" "w' = w"
  | (forwarded) policy latency db1 x where
      "begin_call P call env db = (Inr (Forward policy latency), db1)"
      "adapter (cl_tool call) (cl_operation call) (cl_parameters call) w = (x, w')"
      "finish_call call env policy latency x db1 = (r, db')"
proof -
  obtain b db1 where b: "begin_call P call env db = (b, db1)" by (cases "begin_call P call env db")
  consider (inl) e where "b = Inl e" | (ans) out where "b = Inr (Answered out)"
    | (fwd) policy latency where "b = Inr (Forward policy latency)"
    by (cases b; cases "projr b") auto
  then show ?thesis
  proof cases
    case inl
    then have "db1 = db" using begin_call_Inl b by blast
    moreover have "r = Inl e" "db' = db1" "w' = w"
      using assms b inl by (simp_all add: execute_call_def)
    ultimately show ?thesis using b inl by (intro failed) simp_all
  next
    case ans
    then have "r = Inr out" "db' = db1" "w' = w" using assms b by (simp_all add: execute_call_def)
    then show ?thesis using b ans by (intro answered) simp_all
  next
    case fwd
    obtain x w1 where x: "adapter (cl_tool call) (cl_operation call) (cl_parameters call) w = (x, w1)"
      by (cases "adapter (cl_tool call) (cl_operation call) (cl_parameters call) w")
    obtain r2 db2 where f: "finish_call call env policy latency x db1 = (r2, db2)"
      by (cases "finish_call call env policy latency x db1")
    have "r = r2" "db' = db2" "w' = w1" using assms b fwd x f by (simp_all add: execute_call_def)
    then show ?thesis using b fwd x f by (intro forwarded) simp_all
  qed
qed

lemma has_idempotency_key_iff:
  "has_idempotency_key agent key db \<longleftrightarrow> (\<exists>e \<in> set (db_events db). has_key agent key e)"
  by (auto simp: has_idempotency_key_def find_by_idempotency_key_def all_chain_events_def find_None_iff)

text \<open>(C3) Complete mediation: if a call has any effect on the outside world, its idempotency key was
  new, the policy allowed it, and before the adapter ran the authorisation had been committed: the
  database between the two phases is the initial one with exactly that event appended, and it is a
  prefix of the final history.\<close>

theorem effect_only_after_authorization:
  assumes "execute_call P adapter call env (db, w) = (r, db', w')" "w' \<noteq> w"
  shows "\<not> has_idempotency_key (cl_agent_id call) (cl_idempotency_key call) db \<and>
    (\<exists>policy latency db1 e rest.
       evaluate P (cl_agent_id call) (cl_session call) (cl_tool call) (cl_operation call)
         (cl_parameters call) (ce_evaluated_at env) db = Inr policy \<and> pd_allowed policy \<and>
       begin_call P call env db = (Inr (Forward policy latency), db1) \<and>
       db_events db1 = db_events db @ [e] \<and>
       call_event call env 0 DecisionAllow ''ALLOWED'' ExecAuthorized e \<and>
       db_events db' = db_events db1 @ rest \<and> length rest \<le> 1)"
  using assms(1)
proof (cases rule: execute_call_cases)
  case (forwarded policy latency db1 x)
  obtain e where e: "appends db e db1" "call_event call env 0 DecisionAllow ''ALLOWED'' ExecAuthorized e"
    using begin_call_Forward(1) [OF forwarded(1)] by blast
  have "\<exists>rest. db_events db' = db_events db1 @ rest \<and> length rest \<le> 1"
  proof (cases r)
    case (Inl err)
    then have "db' = db1" using finish_call_Inl forwarded(3) by blast
    then show ?thesis by simp
  next
    case (Inr out)
    then show ?thesis using finish_call_Inr [of call env policy latency x db1 out db'] forwarded(3)
      by (auto simp: appends_def)
  qed
  then show ?thesis
    using e begin_call_Forward(2-4) [OF forwarded(1)] forwarded(1) unfolding appends_def by blast
qed (use assms(2) in simp_all)

text \<open>(C11) The answer agrees with the audit trail.  A blocked call leaves one record (sequence 0, block,
  not forwarded, the reason of the answer) and no effect; an allowed or failed one leaves two under
  the request identifier of the answer: the authorisation and, with sequence 1, the decision and the
  reason of the answer.\<close>

theorem answer_matches_audit:
  assumes "execute_call P adapter call env (db, w) = (Inr out, db', w')"
  shows "tco_request_id out = request_name env \<and>
    (if tco_decision out = ''block''
     then w' = w \<and> tco_result out = None \<and>
       (\<exists>e. db_events db' = db_events db @ [e] \<and>
          call_event call env 0 DecisionBlock (tco_reason_code out) ExecNotForwarded e)
     else \<exists>e f dec. db_events db' = db_events db @ [e, f] \<and>
          call_event call env 0 DecisionAllow ''ALLOWED'' ExecAuthorized e \<and>
          decision_of (tco_decision out) = Some dec \<and> dec \<in> {DecisionAllow, DecisionError} \<and>
          call_event call env 1 dec (tco_reason_code out)
            (finished_status (fst (adapter (cl_tool call) (cl_operation call) (cl_parameters call) w))) f)"
  using assms
proof (cases rule: execute_call_cases)
  case (answered out')
  then show ?thesis using begin_call_Answered [OF answered(1)] by (auto simp: appends_def)
next
  case (forwarded policy latency db1 x)
  obtain e where e: "appends db e db1" "call_event call env 0 DecisionAllow ''ALLOWED'' ExecAuthorized e"
    using begin_call_Forward(1) [OF forwarded(1)] by blast
  obtain f dec where f: "appends db1 f db'" "decision_of (tco_decision out) = Some dec"
    "call_event call env 1 dec (tco_reason_code out) (finished_status x) f"
    "tco_request_id out = request_name env" "dec \<in> {DecisionAllow, DecisionError}"
    using finish_call_Inr [OF forwarded(3)] by blast
  have "tco_decision out \<noteq> ''block''" using f(2,5) by auto
  with e f forwarded(2) show ?thesis by (auto simp: appends_def)
qed simp

text \<open>(C22) Exceptions: a call that raises has changed nothing at all, or it had been authorised, was
  handed to the adapter and only the authorisation is on record.\<close>

theorem exception_leaves_authorization:
  assumes "execute_call P adapter call env (db, w) = (Inl x, db', w')"
  shows "db' = db \<and> w' = w \<or>
    (\<exists>e. db_events db' = db_events db @ [e] \<and>
       call_event call env 0 DecisionAllow ''ALLOWED'' ExecAuthorized e \<and>
       w' = snd (adapter (cl_tool call) (cl_operation call) (cl_parameters call) w))"
  using assms
proof (cases rule: execute_call_cases)
  case (forwarded policy latency db1 y)
  have "db' = db1" using finish_call_Inl [OF forwarded(3)] .
  then show ?thesis
    using begin_call_Forward(1) [OF forwarded(1)] forwarded(2) by (auto simp: appends_def)
qed simp_all

text \<open>(C21) Once any record carries an agent's idempotency key, a call with that key has no effect and is
  answered as a duplicate; the events the first call left are kept.\<close>

theorem duplicate_has_no_effect:
  assumes "execute_call P adapter call env (db, w) = (r, db', w')"
    and "e \<in> set (db_events db)" "ev_agent_id e = cl_agent_id call"
    and "ev_idempotency_key e = cl_idempotency_key call"
  shows "w' = w \<and> set (db_events db) \<subseteq> set (db_events db') \<and>
    (\<forall>out. r = Inr out \<longrightarrow> tco_decision out = ''block'' \<and> tco_reason_code out = ''DUPLICATE_REQUEST'')"
proof -
  have dup: "has_idempotency_key (cl_agent_id call) (cl_idempotency_key call) db"
    using assms(2-4) by (auto simp: has_idempotency_key_iff has_key_def)
  from assms(1) show ?thesis
  proof (cases rule: execute_call_cases)
    case (answered out)
    then show ?thesis using begin_call_Answered [OF answered(1)] dup by (auto simp: appends_def)
  next
    case (forwarded policy latency db1 x)
    then show ?thesis using begin_call_Forward(2) dup by blast
  qed simp
qed

end
