(* ===== verification/Api.thy ===== *)
theory Api
  imports ToolCalls
begin

text \<open>
  The HTTP layer of the proxy: \<open>api/security_routes.py\<close>, \<open>api/tool_routes.py\<close>,
  \<open>api/audit_routes.py\<close> and the request models of \<open>api/schemas.py\<close>.  A handler takes the parsed
  request and gives the response or the exception that leaves it; FastAPI answers an
  \<open>HTTPException\<close> with its status, a failed request validation with 422 and any other exception
  with 500.  \<open>auth_env\<close> holds what every handler needs of its surroundings: PyJWT, the settings,
  the signing-key provider and the readings of the clock.
\<close>

record auth_env =
  ae_jwt :: jwt_lib
  ae_settings :: proxy_settings
  ae_provider :: "key_provider option"
  ae_token_now :: int
  ae_session_jwt_now :: int
  ae_session_now :: int

text \<open>What \<open>HTTPBearer(auto_error=False)\<close> makes of the \<open>Authorization\<close> header.\<close>

record bearer =
  br_scheme :: string
  br_credentials :: string

section \<open>Exceptions as responses\<close>

definition authentication_exception :: "string \<Rightarrow> string \<Rightarrow> py_exn" where
  "authentication_exception code message = HTTPException 401 code message"

definition authorization_exception :: "string \<Rightarrow> string \<Rightarrow> py_exn" where
  "authorization_exception code message = HTTPException 403 code message"

definition session_exception :: "string \<Rightarrow> string \<Rightarrow> py_exn" where
  "session_exception code message =
     HTTPException
       (if code \<in> {''INVALID_SESSION_TOKEN'', ''INVALID_SESSION_TOKEN_USE'', ''SESSION_TOKEN_EXPIRED'',
                   ''SESSION_EXPIRED'', ''SESSION_NOT_ACTIVE'', ''SESSION_JTI_MISMATCH'',
                   ''SESSION_CLAIMS_MISMATCH''} then 401
        else if code \<in> {''SESSION_AGENT_MISMATCH'', ''AGENT_NOT_ACTIVE''} then 403
        else if code \<in> {''AGENT_NOT_FOUND'', ''SESSION_NOT_FOUND''} then 404 else 400) code message"

fun http_error :: "py_exn \<Rightarrow> py_exn" where
  "http_error (AuthenticationError c m) = authentication_exception c m"
| "http_error (AuthorizationError c m) = authorization_exception c m"
| "http_error (TrustedSessionError c m) = session_exception c m"
| "http_error e = e"

definition catching :: "'a res \<Rightarrow> 'a res" where
  "catching r = (case r of Inl e \<Rightarrow> Inl (http_error e) | Inr x \<Rightarrow> Inr x)"

fun error_status :: "py_exn \<Rightarrow> nat" where
  "error_status (HTTPException n c m) = n"
| "error_status (ValidationError m) = 422"
| "error_status e = 500"

section \<open>Authentication\<close>

definition bearer_token :: "string \<Rightarrow> bearer option \<Rightarrow> string res" where
  "bearer_token message credentials =
     (case credentials of
        None \<Rightarrow> Inl (HTTPException 401 ''MISSING_ACCESS_TOKEN'' message)
      | Some b \<Rightarrow>
          if lower (br_scheme b) \<noteq> ''bearer'' then Inl (HTTPException 401 ''MISSING_ACCESS_TOKEN'' message)
          else Inr (br_credentials b))"

definition decode_principal :: "auth_env \<Rightarrow> string \<Rightarrow> principal res" where
  "decode_principal ae token =
     decode_access_token (ae_jwt ae) (ae_settings ae) (ae_provider ae) (ae_token_now ae) token"

definition authenticated_principal :: "auth_env \<Rightarrow> bearer option \<Rightarrow> principal res" where
  "authenticated_principal ae credentials =
     bind_res (bearer_token ''A Bearer access token is required'' credentials) (\<lambda>token.
       catching (decode_principal ae token))"

definition audit_principal :: "auth_env \<Rightarrow> bearer option \<Rightarrow> principal res" where
  "audit_principal ae credentials =
     bind_res (bearer_token ''A Bearer token is required'' credentials) (\<lambda>token.
       catching
         (bind_res (decode_principal ae token) (\<lambda>p.
          if pr_token_use p \<notin> {''auditor'', ''admin''}
          then Inl (AuthorizationError ''AUDITOR_TOKEN_REQUIRED'' ''An auditor or administrator token is required'')
          else bind_res (require_scopes p [''audit:read'']) (\<lambda>_. Inr p))))"

section \<open>Identity and sessions\<close>

record identity_response =
  id_subject :: string
  id_token_use :: string
  id_scopes :: "string list"
  id_agent_id :: "string option"
  id_agent_status :: "string option"

definition identity_me :: "auth_env \<Rightarrow> bearer option \<Rightarrow> database \<Rightarrow> identity_response res" where
  "identity_me ae credentials db =
     bind_res (authenticated_principal ae credentials) (\<lambda>p.
     let response = (\<lambda>agent. \<lparr>id_subject = pr_subject p, id_token_use = pr_token_use p,
           id_scopes = sorted_list_of_set (pr_scopes p), id_agent_id = map_option ag_id agent,
           id_agent_status = map_option (agent_status_value \<circ> ag_status) agent\<rparr>)
     in if pr_token_use p = ''agent''
        then bind_res (catching (resolve_active_agent p db)) (\<lambda>a. Inr (response (Some a)))
        else Inr (response None))"

record create_session_request =
  cq_agent_id :: string
  cq_user_id :: string
  cq_customer_id :: string
  cq_ttl_seconds :: "int option"

definition valid_create_request :: "create_session_request \<Rightarrow> bool" where
  "valid_create_request r \<longleftrightarrow>
     in_length 1 64 (cq_agent_id r) \<and> in_length 1 128 (cq_user_id r) \<and> in_length 1 64 (cq_customer_id r) \<and>
     (case cq_ttl_seconds r of None \<Rightarrow> True | Some t \<Rightarrow> 60 \<le> t \<and> t \<le> 3600)"

definition require_host :: "principal \<Rightarrow> unit res" where
  "require_host p =
     (if pr_token_use p \<notin> {''host'', ''admin''}
      then Inl (AuthorizationError ''TRUSTED_HOST_TOKEN_REQUIRED''
                 ''A trusted host or administrator token is required'')
      else Inr ())"

text \<open>The body is validated together with the dependency, whose exception comes first.\<close>

definition post_session :: "auth_env \<Rightarrow> bearer option \<Rightarrow> create_session_request \<Rightarrow> string \<Rightarrow> string \<Rightarrow> int
    \<Rightarrow> database \<Rightarrow> created_trusted_session res \<times> database" where
  "post_session ae credentials r uuid1 uuid2 now db =
     (case authenticated_principal ae credentials of
        Inl e \<Rightarrow> (Inl e, db)
      | Inr p \<Rightarrow>
          if \<not> valid_create_request r then (Inl (ValidationError ''CreateSessionRequest''), db)
          else
            (case bind_res (require_host p) (\<lambda>_. require_scopes p [''session:create'']) of
               Inl e \<Rightarrow> (Inl (http_error e), db)
             | Inr _ \<Rightarrow>
                 (case create_session (ae_jwt ae) (ae_settings ae) (cq_agent_id r) (cq_user_id r)
                         (cq_customer_id r) (pr_subject p) (cq_ttl_seconds r) uuid1 uuid2 now db of
                    (x, db') \<Rightarrow> (catching x, db'))))"

definition post_validate :: "auth_env \<Rightarrow> bearer option \<Rightarrow> string \<Rightarrow> database \<Rightarrow> trusted_session_claims res" where
  "post_validate ae credentials session_token db =
     bind_res (authenticated_principal ae credentials) (\<lambda>p.
     if \<not> in_length 32 8192 session_token then Inl (ValidationError ''ValidateSessionRequest'')
     else catching
       (bind_res (require_scopes p [''tool:invoke'']) (\<lambda>_.
        bind_res (resolve_active_agent p db) (\<lambda>a.
          validate_session (ae_jwt ae) (ae_settings ae) (ag_id a) (ae_session_jwt_now ae)
            (ae_session_now ae) session_token db))))"

definition post_revoke :: "auth_env \<Rightarrow> bearer option \<Rightarrow> string \<Rightarrow> int \<Rightarrow> database
    \<Rightarrow> agent_session res \<times> database" where
  "post_revoke ae credentials k now db =
     (case authenticated_principal ae credentials of
        Inl e \<Rightarrow> (Inl e, db)
      | Inr p \<Rightarrow>
          (case bind_res (require_host p) (\<lambda>_. require_scopes p [''session:revoke'']) of
             Inl e \<Rightarrow> (Inl (http_error e), db)
           | Inr _ \<Rightarrow> (case revoke_session k now db of (x, db') \<Rightarrow> (catching x, db'))))"

section \<open>Tool calls\<close>

record tool_call_request =
  tq_tool :: string
  tq_operation :: string
  tq_parameters :: params
  tq_session_token :: string
  tq_idempotency_key :: string
  tq_trace_id :: "string option"

definition valid_tool_request :: "tool_call_request \<Rightarrow> bool" where
  "valid_tool_request r \<longleftrightarrow>
     in_length 1 100 (tq_tool r) \<and> in_length 1 100 (tq_operation r) \<and> tq_session_token r \<noteq> [] \<and>
     in_length 8 128 (tq_idempotency_key r) \<and>
     (case tq_trace_id r of None \<Rightarrow> True | Some t \<Rightarrow> length t \<le> 256)"

record tool_call_response =
  tr_status :: nat
  tr_request_id :: string
  tr_decision :: string
  tr_reason_code :: string
  tr_message :: string
  tr_result :: "json option"

definition response_status :: "tool_call_outcome \<Rightarrow> nat" where
  "response_status out =
     (if tco_reason_code out = ''DUPLICATE_REQUEST'' then 409
      else if tco_decision out = ''block'' then 403
      else if tco_reason_code out = ''UPSTREAM_TOOL_TIMEOUT'' then 504
      else if tco_decision out = ''error'' then 502
      else 200)"

text \<open>\<open>ToolCallResponse\<close> admits an object or nothing as the result; anything else raises.\<close>

definition call_response :: "tool_call_outcome \<Rightarrow> tool_call_response res" where
  "call_response out =
     (let response = \<lparr>tr_status = response_status out, tr_request_id = tco_request_id out,
        tr_decision = tco_decision out, tr_reason_code = tco_reason_code out,
        tr_message = tco_message out, tr_result = tco_result out\<rparr>
      in case tco_result out of
           None \<Rightarrow> Inr response
         | Some (JObj kvs) \<Rightarrow> Inr response
         | Some _ \<Rightarrow> Inl (ValueError ''ToolCallResponse''))"

definition authorize_call :: "auth_env \<Rightarrow> string \<Rightarrow> string \<Rightarrow> database \<Rightarrow> (agent \<times> trusted_session_claims) res" where
  "authorize_call ae token session_token db =
     bind_res (decode_principal ae token) (\<lambda>p.
     bind_res (require_scopes p [''tool:invoke'']) (\<lambda>_.
     bind_res (resolve_active_agent p db) (\<lambda>a.
     bind_res (validate_session (ae_jwt ae) (ae_settings ae) (ag_id a) (ae_session_jwt_now ae)
        (ae_session_now ae) session_token db) (\<lambda>c. Inr (a, c)))))"

definition requested_call :: "tool_call_request \<Rightarrow> agent \<Rightarrow> trusted_session_claims \<Rightarrow> tool_call" where
  "requested_call r a c =
     \<lparr>cl_agent_id = ag_id a, cl_session = c, cl_idempotency_key = tq_idempotency_key r,
      cl_tool = tq_tool r, cl_operation = tq_operation r, cl_parameters = tq_parameters r,
      cl_trace_id = tq_trace_id r\<rparr>"

definition execute_tool_call :: "auth_env \<Rightarrow> pydantic \<Rightarrow> 'w adapter \<Rightarrow> bearer option \<Rightarrow> tool_call_request
    \<Rightarrow> call_env \<Rightarrow> database \<times> 'w \<Rightarrow> tool_call_response res \<times> database \<times> 'w" where
  "execute_tool_call ae P adapter credentials r env st =
     (if \<not> valid_tool_request r then (Inl (ValidationError ''ToolCallRequest''), st)
      else
        (case bearer_token ''A Bearer token is required'' credentials of
           Inl e \<Rightarrow> (Inl e, st)
         | Inr token \<Rightarrow>
             (case authorize_call ae token (tq_session_token r) (fst st) of
                Inl e \<Rightarrow> (Inl (http_error e), st)
              | Inr (a, c) \<Rightarrow>
                  (case execute_call P adapter (requested_call r a c) env st of
                     (x, st') \<Rightarrow> (bind_res x call_response, st')))))"

section \<open>Audit queries\<close>

definition get_events :: "auth_env \<Rightarrow> bearer option \<Rightarrow> event_filter \<Rightarrow> int \<Rightarrow> int \<Rightarrow> database
    \<Rightarrow> audit_event list res" where
  "get_events ae credentials f limit offset db =
     bind_res (audit_principal ae credentials) (\<lambda>_.
     if \<not> (1 \<le> limit \<and> limit \<le> 200 \<and> 0 \<le> offset) then Inl (ValidationError ''query'')
     else Inr (list_events f (nat limit) (nat offset) db))"

definition get_events_for_request :: "auth_env \<Rightarrow> bearer option \<Rightarrow> string \<Rightarrow> database
    \<Rightarrow> audit_event list res" where
  "get_events_for_request ae credentials request db =
     bind_res (audit_principal ae credentials) (\<lambda>_.
     let es = list_by_request request db
     in if es = [] then Inl (HTTPException 404 ''AUDIT_REQUEST_NOT_FOUND'' []) else Inr es)"

definition get_integrity :: "auth_env \<Rightarrow> bearer option \<Rightarrow> database \<Rightarrow> integrity_result res" where
  "get_integrity ae credentials db =
     bind_res (audit_principal ae credentials) (\<lambda>_. Inr (verify_integrity db))"

section \<open>Who may do what\<close>

lemma catching_Inr: "catching r = Inr x \<longleftrightarrow> r = Inr x"
  by (cases r) (auto simp: catching_def)

lemma bearer_token_Inr:
  "bearer_token m cr = Inr t \<longleftrightarrow> (\<exists>b. cr = Some b \<and> lower (br_scheme b) = ''bearer'' \<and> t = br_credentials b)"
  by (auto simp: bearer_token_def split: option.splits if_splits)

lemma authenticated_principal_Inr:
  "authenticated_principal ae cr = Inr p \<longleftrightarrow>
     (\<exists>b. cr = Some b \<and> lower (br_scheme b) = ''bearer'' \<and> decode_principal ae (br_credentials b) = Inr p)"
  by (auto simp: authenticated_principal_def bind_res_eq_Inr catching_Inr bearer_token_Inr)

lemma audit_principal_Inr:
  "audit_principal ae cr = Inr p \<longleftrightarrow>
     (\<exists>b. cr = Some b \<and> lower (br_scheme b) = ''bearer'' \<and> decode_principal ae (br_credentials b) = Inr p \<and>
        pr_token_use p \<in> {''auditor'', ''admin''} \<and> ''audit:read'' \<in> pr_scopes p)"
  by (auto simp: audit_principal_def bind_res_eq_Inr catching_Inr bearer_token_Inr require_scopes_Inr
      split: if_splits)

lemma require_host_Inr: "require_host p = Inr u \<longleftrightarrow> pr_token_use p \<in> {''host'', ''admin''}"
  by (auto simp: require_host_def)

lemma authorize_call_Inr:
  "authorize_call ae token st db = Inr (a, c) \<longleftrightarrow>
     (\<exists>p. decode_principal ae token = Inr p \<and> ''tool:invoke'' \<in> pr_scopes p \<and>
        resolve_active_agent p db = Inr a \<and>
        validate_session (ae_jwt ae) (ae_settings ae) (ag_id a) (ae_session_jwt_now ae)
          (ae_session_now ae) st db = Inr c)"
  by (auto simp: authorize_call_def bind_res_eq_Inr require_scopes_Inr)

lemma execute_tool_call_cases:
  assumes "execute_tool_call ae P adapter cr r env (db, w) = (x, db', w')"
  obtains (refused) e where "x = Inl e" "db' = db" "w' = w"
  | (executed) b a c y where "valid_tool_request r" "cr = Some b" "lower (br_scheme b) = ''bearer''"
      "authorize_call ae (br_credentials b) (tq_session_token r) db = Inr (a, c)"
      "execute_call P adapter (requested_call r a c) env (db, w) = (y, db', w')"
      "x = bind_res y call_response"
proof (cases "valid_tool_request r")
  case False
  with assms have "x = Inl (ValidationError ''ToolCallRequest'')" "db' = db" "w' = w"
    by (simp_all add: execute_tool_call_def)
  then show ?thesis by (rule refused)
next
  case True
  show ?thesis
  proof (cases "bearer_token ''A Bearer token is required'' cr")
    case (Inl e)
    with assms True have "x = Inl e" "db' = db" "w' = w" by (simp_all add: execute_tool_call_def)
    then show ?thesis by (rule refused)
  next
    case (Inr token)
    then obtain b where b: "cr = Some b" "lower (br_scheme b) = ''bearer''" "token = br_credentials b"
      by (auto simp: bearer_token_Inr)
    show ?thesis
    proof (cases "authorize_call ae token (tq_session_token r) db")
      case (Inl e)
      with True Inr assms have "x = Inl (http_error e)" "db' = db" "w' = w"
        by (simp_all add: execute_tool_call_def)
      then show ?thesis by (rule refused)
    next
      case auth: (Inr ac)
      obtain a c where ac: "ac = (a, c)" by (cases ac)
      obtain y st' where y: "execute_call P adapter (requested_call r a c) env (db, w) = (y, st')"
        by (cases "execute_call P adapter (requested_call r a c) env (db, w)")
      have "x = bind_res y call_response" "st' = (db', w')"
        using assms True Inr auth ac y by (simp_all add: execute_tool_call_def)
      with True b auth ac y show ?thesis by (intro executed) simp_all
    qed
  qed
qed

text \<open>
  \<open>caller_entitled ae cr st db a c\<close>: the credentials are those of agent \<open>a\<close>, and session token \<open>st\<close>
  stands for the live session with the claims \<open>c\<close>.
\<close>

definition token_of_agent :: "auth_env \<Rightarrow> bearer option \<Rightarrow> agent \<Rightarrow> bool" where
  "token_of_agent ae cr a \<longleftrightarrow>
     (\<exists>b claims. cr = Some b \<and> lower (br_scheme b) = ''bearer'' \<and>
        verify_access_token (ae_jwt ae) (ae_settings ae) (ae_provider ae) (ae_token_now ae)
          (br_credentials b) = Inr claims \<and>
        map_of claims ''sub'' = Some (JStr (ag_oidc_subject a)) \<and>
        map_of claims ''token_use'' = Some (JStr ''agent'') \<and> ''tool:invoke'' \<in> parse_scopes claims)"

definition live_session :: "auth_env \<Rightarrow> string \<Rightarrow> database \<Rightarrow> agent \<Rightarrow> trusted_session_claims \<Rightarrow> bool" where
  "live_session ae st db a c \<longleftrightarrow>
     decode_session_token (ae_jwt ae) (ae_settings ae) (ae_session_jwt_now ae) st = Inr c \<and>
     (\<exists>row. session_get (tc_session_id c) db = Some row \<and> se_token_jti row = tc_token_jti c \<and>
        se_agent_id row = ag_id a \<and> se_status row = SessionActive \<and>
        ae_session_now ae < instant (se_expires_at row) \<and>
        se_customer_id row = tc_customer_id c \<and> se_user_id row = tc_user_id c)"

definition caller_entitled :: "auth_env \<Rightarrow> bearer option \<Rightarrow> string \<Rightarrow> database \<Rightarrow> agent \<Rightarrow> trusted_session_claims
    \<Rightarrow> bool" where
  "caller_entitled ae cr st db a c \<longleftrightarrow>
     token_of_agent ae cr a \<and> a \<in> set (db_agents db) \<and> ag_status a = AgentActive \<and> live_session ae st db a c"

lemma authorize_call_entitled:
  assumes "cr = Some b" "lower (br_scheme b) = ''bearer''"
    and "authorize_call ae (br_credentials b) st db = Inr (a, c)"
  shows "caller_entitled ae cr st db a c"
proof -
  obtain p where p: "decode_principal ae (br_credentials b) = Inr p" "''tool:invoke'' \<in> pr_scopes p"
    "resolve_active_agent p db = Inr a"
    "validate_session (ae_jwt ae) (ae_settings ae) (ag_id a) (ae_session_jwt_now ae)
       (ae_session_now ae) st db = Inr c"
    using assms(3) by (auto simp: authorize_call_Inr)
  have "token_of_agent ae cr a"
    using p(1-3) assms(1,2) resolve_active_agent_row [OF p(3)] unfolding token_of_agent_def
    by (auto simp: decode_principal_def decode_access_token_Inr resolve_active_agent_Inr)
  moreover have "live_session ae st db a c"
    using p(4) by (auto simp: live_session_def validate_session_Inr check_persisted_Inr)
  ultimately show ?thesis using resolve_active_agent_row [OF p(3)] by (simp add: caller_entitled_def)
qed

lemma requested_call_fields [simp]:
  "cl_agent_id (requested_call r a c) = ag_id a" "cl_session (requested_call r a c) = c"
  "cl_tool (requested_call r a c) = tq_tool r" "cl_operation (requested_call r a c) = tq_operation r"
  "cl_parameters (requested_call r a c) = tq_parameters r"
  "cl_idempotency_key (requested_call r a c) = tq_idempotency_key r"
  by (simp_all add: requested_call_def)

text \<open>A request to the tool-call endpoint has an effect on the outside
  world only if its bearer token verifies and carries the scope \<open>tool:invoke\<close> for the subject of a
  registered, active agent, its session token stands for a stored session of that agent that is
  active and unexpired, its idempotency key is new, and the policy allows the call; and then the
  authorisation is on record.\<close>

lemma tool_call_mediated:
  assumes "execute_tool_call ae P adapter cr r env (db, w) = (x, db', w')" "w' \<noteq> w"
  shows "\<exists>a c policy.
    caller_entitled ae cr (tq_session_token r) db a c \<and>
    (\<forall>e \<in> set (db_events db). \<not> has_key (ag_id a) (tq_idempotency_key r) e) \<and>
    evaluate P (ag_id a) c (tq_tool r) (tq_operation r) (tq_parameters r) (ce_evaluated_at env) db = Inr policy \<and>
    pd_allowed policy \<and>
    (\<exists>e rest. db_events db' = db_events db @ e # rest \<and> ev_decision e = DecisionAllow \<and>
       ev_execution_status e = ExecAuthorized \<and> has_key (ag_id a) (tq_idempotency_key r) e)"
  using assms(1)
proof (cases rule: execute_tool_call_cases)
  case refused
  with assms(2) show ?thesis by simp
next
  case (executed b a c y)
  have entitled: "caller_entitled ae cr (tq_session_token r) db a c"
    using authorize_call_entitled executed(2-4) .
  from executed(5) show ?thesis
  proof (cases rule: execute_call_cases)
    case (forwarded policy latency db1 z)
    obtain e where e: "db_events db1 = db_events db @ [e]"
      "call_event (requested_call r a c) env 0 DecisionAllow ''ALLOWED'' ExecAuthorized e"
      using begin_call_Forward(1) [OF forwarded(1)] by (auto simp: appends_def)
    have "\<exists>rest. db_events db' = db_events db1 @ rest"
    proof (cases y)
      case (Inl err)
      then show ?thesis using finish_call_Inl forwarded(3) by blast
    next
      case (Inr out)
      then show ?thesis using finish_call_Inr forwarded(3) by (fastforce simp: appends_def)
    qed
    then obtain rest where "db_events db' = db_events db @ e # rest" using e(1) by auto
    moreover have "ev_decision e = DecisionAllow \<and> ev_execution_status e = ExecAuthorized \<and>
        has_key (ag_id a) (tq_idempotency_key r) e"
      using e(2) by (simp add: call_event_def has_key_def)
    moreover have "\<forall>e \<in> set (db_events db). \<not> has_key (ag_id a) (tq_idempotency_key r) e"
      using begin_call_Forward(2) [OF forwarded(1)] by (simp add: has_idempotency_key_iff)
    ultimately show ?thesis
      using entitled begin_call_Forward(3,4) [OF forwarded(1)] unfolding requested_call_fields by blast
  qed (use assms(2) in simp_all)
qed

section \<open>Status codes\<close>

lemma evaluate_reason: "evaluate P a c t op ps now db = Inr d \<Longrightarrow> pd_reason_code d \<noteq> ''DUPLICATE_REQUEST''"
  by (auto simp: evaluate_def evaluate_document_def evaluate_rule_def bind_res_eq_Inr
      split: option.splits if_splits)

lemma crm_error_codes:
  assumes "crm_execute a send tool op ps w = (Inl (ToolExecutionError c m s), w')"
  shows "c \<noteq> ''DUPLICATE_REQUEST''"
proof (cases rule: crm_execute_cases [of a tool op ps send w])
  case (refused e)
  with assms have "crm_request a tool op ps = Inl (ToolExecutionError c m s)" by simp
  then show ?thesis by (auto simp: crm_request_def Let_def split: if_splits option.splits json.splits)
next
  case (sent q)
  with assms have "request_outcome (fst (send q w)) = Inl (ToolExecutionError c m s)" by simp
  then show ?thesis
    by (auto simp: request_outcome_def response_result_def
        split: sum.splits http_failure.splits if_splits option.splits)
qed

lemma decision_of_cases:
  "decision_of s = Some d \<Longrightarrow> s = (case d of DecisionAllow \<Rightarrow> ''allow'' | DecisionBlock \<Rightarrow> ''block'' | DecisionError \<Rightarrow> ''error'')"
  by (auto simp: decision_of_def split: if_splits)

lemma execute_call_reason:
  assumes "execute_call P (crm_execute ad send) call env (db, w) = (Inr out, db', w')"
  shows "tco_reason_code out = ''DUPLICATE_REQUEST'' \<longleftrightarrow>
    has_idempotency_key (cl_agent_id call) (cl_idempotency_key call) db"
  using assms
proof (cases rule: execute_call_cases)
  case (answered out')
  then show ?thesis using begin_call_Answered [OF answered(1)] by (auto split: if_splits dest: evaluate_reason)
next
  case (forwarded policy latency db1 x)
  have "tco_reason_code out \<noteq> ''DUPLICATE_REQUEST''"
    using finish_call_Inr [OF forwarded(3)] forwarded(2) crm_error_codes by fastforce
  then show ?thesis using begin_call_Forward(2) [OF forwarded(1)] by simp
qed simp

text \<open>Status codes: an answer has status 200 exactly for an allowed and executed call, 409 exactly
  when the idempotency key had been used, 403 for every other blocked call, and 504 or 502 when the
  call was forwarded and failed, the former for a timeout.\<close>

lemma endpoint_status:
  assumes "execute_tool_call ae P (crm_execute ad send) cr r env (db, w) = (Inr resp, db', w')"
  shows "(tr_status resp = 200 \<longleftrightarrow> tr_decision resp = ''allow'') \<and>
    (tr_status resp = 403 \<longrightarrow> tr_decision resp = ''block'' \<and> w' = w) \<and>
    (tr_status resp = 504 \<longleftrightarrow> tr_decision resp = ''error'' \<and> tr_reason_code resp = ''UPSTREAM_TOOL_TIMEOUT'') \<and>
    (tr_status resp = 502 \<longleftrightarrow> tr_decision resp = ''error'' \<and> tr_reason_code resp \<noteq> ''UPSTREAM_TOOL_TIMEOUT'') \<and>
    (\<exists>a c. caller_entitled ae cr (tq_session_token r) db a c \<and>
       (tr_status resp = 409 \<longleftrightarrow> has_idempotency_key (ag_id a) (tq_idempotency_key r) db))"
  using assms
proof (cases rule: execute_tool_call_cases)
  case (executed b a c y)
  then obtain out where out: "y = Inr out" "call_response out = Inr resp"
    by (cases y) auto
  have resp: "tr_status resp = response_status out" "tr_decision resp = tco_decision out"
    "tr_reason_code resp = tco_reason_code out"
    using out(2) by (auto simp: call_response_def Let_def split: option.splits json.splits)
  have run: "execute_call P (crm_execute ad send) (requested_call r a c) env (db, w) = (Inr out, db', w')"
    using executed(5) out(1) by simp
  have dup: "tco_reason_code out = ''DUPLICATE_REQUEST'' \<longleftrightarrow> has_idempotency_key (ag_id a) (tq_idempotency_key r) db"
    using execute_call_reason [OF run] by simp
  have blocked: "(tco_decision out = ''block'' \<and> w' = w) \<or>
      (tco_decision out = ''allow'' \<and> tco_reason_code out = ''ALLOWED'') \<or>
      (tco_decision out = ''error'' \<and> tco_reason_code out \<noteq> ''DUPLICATE_REQUEST'')"
    using run
  proof (cases rule: execute_call_cases)
    case (answered out')
    then show ?thesis using begin_call_Answered [OF answered(1)] by auto
  next
    case (forwarded policy latency db1 x)
    have "(tco_decision out = ''allow'' \<and> tco_reason_code out = ''ALLOWED'') \<or> tco_decision out = ''error''"
      using finish_call_Inr [OF forwarded(3)] by (auto dest!: decision_of_cases)
    moreover have "tco_reason_code out \<noteq> ''DUPLICATE_REQUEST''"
      using begin_call_Forward(2) [OF forwarded(1)] dup by simp
    ultimately show ?thesis by auto
  qed simp
  have "caller_entitled ae cr (tq_session_token r) db a c"
    using authorize_call_entitled executed(2-4) .
  moreover have "tr_status resp = 409 \<longleftrightarrow> has_idempotency_key (ag_id a) (tq_idempotency_key r) db"
    using dup blocked by (auto simp: resp response_status_def)
  ultimately show ?thesis
    using blocked by (auto simp: resp response_status_def)
qed simp

section \<open>Sessions and audit\<close>

text \<open>Sessions are created only for a host or an administrator with the scope \<open>session:create\<close>, for
  an active agent; the stored session records the subject that created it.  Every refused request
  leaves the database unchanged.\<close>

lemma session_creation_authority:
  "case post_session ae cr r u1 u2 now db of
     (Inl e, db') \<Rightarrow> db' = db
   | (Inr c, db') \<Rightarrow>
       (\<exists>b p row. cr = Some b \<and> decode_principal ae (br_credentials b) = Inr p \<and>
          pr_token_use p \<in> {''host'', ''admin''} \<and> ''session:create'' \<in> pr_scopes p \<and>
          (\<exists>a. agent_get (cq_agent_id r) db = Some a \<and> ag_status a = AgentActive) \<and>
          session_get (cts_session_id c) db' = Some row \<and> se_created_by_subject row = pr_subject p \<and>
          se_agent_id row = cq_agent_id r \<and> se_customer_id row = cq_customer_id r)"
proof (cases "post_session ae cr r u1 u2 now db")
  case (Pair x db')
  show ?thesis
  proof (cases x)
    case (Inl e)
    with Pair show ?thesis
      by (auto simp: post_session_def catching_def split: sum.splits if_splits prod.splits
          dest: create_session_Inl)
  next
    case (Inr c)
    then obtain p where p: "authenticated_principal ae cr = Inr p" "require_host p = Inr ()"
        "''session:create'' \<in> pr_scopes p"
      and create: "create_session (ae_jwt ae) (ae_settings ae) (cq_agent_id r) (cq_user_id r)
        (cq_customer_id r) (pr_subject p) (cq_ttl_seconds r) u1 u2 now db = (Inr c, db')"
      using Pair by (auto simp: post_session_def catching_Inr bind_res_eq_Inr require_scopes_Inr
          split: sum.splits if_splits prod.splits)
    have "cts_session_id c = ''sess_'' @ u1"
      using create by (simp add: create_session_Inr created_session_def new_session_row_def)
    then have "\<exists>row. session_get (cts_session_id c) db' = Some row \<and> se_created_by_subject row = pr_subject p \<and>
        se_agent_id row = cq_agent_id r \<and> se_customer_id row = cq_customer_id r"
      using created_row(1) [OF create] by (simp add: stored_session_def new_session_row_def)
    moreover have "\<exists>a. agent_get (cq_agent_id r) db = Some a \<and> ag_status a = AgentActive"
      using create by (simp add: create_session_Inr)
    ultimately show ?thesis
      using Pair Inr p by (auto simp: authenticated_principal_Inr require_host_Inr)
  qed
qed

text \<open>(C26) Only auditors and administrators with the scope \<open>audit:read\<close> read the audit trail, a page
  never exceeds 200 events, and what a query returns are recorded events that match its filter.\<close>

theorem audit_readers:
  assumes "get_events ae cr f limit offset db = Inr es"
  shows "(\<exists>b p. cr = Some b \<and> decode_principal ae (br_credentials b) = Inr p \<and>
      pr_token_use p \<in> {''auditor'', ''admin''} \<and> ''audit:read'' \<in> pr_scopes p) \<and>
    length es \<le> 200 \<and> set es \<subseteq> set (db_events db) \<and> list_all (event_matches f) es \<and>
    sorted (map chain_key (rev es))"
proof -
  have es: "es = list_events f (nat limit) (nat offset) db" "limit \<le> 200"
    and p: "\<exists>p. audit_principal ae cr = Inr p"
    using assms by (auto simp: get_events_def bind_res_eq_Inr split: if_splits)
  let ?l = "filter (event_matches f) (rev (all_chain_events db))"
  have sub: "set es \<subseteq> set ?l"
    unfolding es list_events_def by (meson in_set_dropD in_set_takeD subsetI)
  have "sorted (map chain_key (all_chain_events db))" by (simp add: all_chain_events_def)
  then have "sorted_wrt (\<lambda>x y. chain_key y \<le> chain_key x) (rev (all_chain_events db))"
    by (simp add: sorted_wrt_rev sorted_map)
  then have "sorted_wrt (\<lambda>x y. chain_key y \<le> chain_key x) es"
    unfolding es list_events_def by (intro sorted_wrt_take sorted_wrt_drop sorted_wrt_filter)
  then have "sorted (map chain_key (rev es))" by (simp add: sorted_map sorted_wrt_rev)
  moreover have "length es \<le> 200" using es(2) by (simp add: es(1) list_events_def)
  ultimately show ?thesis
    using p sub by (auto simp: audit_principal_Inr list_all_iff)
qed

end
