(* ===== verification/Concurrency.thy ===== *)
theory Concurrency
  imports Runs ToolCalls
begin

text \<open>
  Overlapping tool calls.  The endpoint is a coroutine whose only suspension point is
  \<open>await self.adapter.execute\<close>, so one worker process runs \<open>begin_call\<close> and \<open>finish_call\<close> without
  interruption and interleaves them, with the requests in between, in any order; the other
  endpoints run in threads and touch no audit event.  \<open>worker_step\<close> is that interleaving.  It
  forwards every idempotency key of an agent at most once.  Several processes interleave inside
  \<open>begin_call\<close>, between its transactions; \<open>check_call\<close> and \<open>commit_call\<close> are the two halves, and
  the last section shows the race this admits.
\<close>

section \<open>One worker\<close>

record pending_call =
  pc_call :: tool_call
  pc_env :: call_env
  pc_policy :: policy_decision
  pc_latency :: int

record 'w worker =
  wk_db :: database
  wk_outside :: 'w
  wk_waiting :: "pending_call list"
  wk_returned :: "(pending_call \<times> tool_execution_result res) list"
  wk_sent :: "(string \<times> string) list"

definition call_key :: "tool_call \<Rightarrow> string \<times> string" where
  "call_key call = (cl_agent_id call, cl_idempotency_key call)"

definition key_on_record :: "database \<Rightarrow> string \<times> string \<Rightarrow> bool" where
  "key_on_record db k \<longleftrightarrow>
     (\<exists>e \<in> set (db_events db). (ev_agent_id e, ev_idempotency_key e) = k \<and>
        ev_decision e = DecisionAllow \<and> ev_execution_status e = ExecAuthorized)"

definition started_worker :: "database \<Rightarrow> 'w \<Rightarrow> 'w worker" where
  "started_worker db w =
     \<lparr>wk_db = db, wk_outside = w, wk_waiting = [], wk_returned = [], wk_sent = []\<rparr>"

inductive worker_step :: "pydantic \<Rightarrow> 'w adapter \<Rightarrow> 'w worker \<Rightarrow> 'w worker \<Rightarrow> bool"
  for P :: pydantic and adapter :: "'w adapter" where
  answer: "begin_call P call env (wk_db s) = (Inr (Answered out), db') \<Longrightarrow>
     worker_step P adapter s (s\<lparr>wk_db := db'\<rparr>)"
| raised: "begin_call P call env (wk_db s) = (Inl e, db') \<Longrightarrow>
     worker_step P adapter s (s\<lparr>wk_db := db'\<rparr>)"
| forward: "begin_call P call env (wk_db s) = (Inr (Forward policy latency), db') \<Longrightarrow>
     worker_step P adapter s
       (s\<lparr>wk_db := db',
          wk_waiting := \<lparr>pc_call = call, pc_env = env, pc_policy = policy, pc_latency = latency\<rparr> # wk_waiting s\<rparr>)"
| deliver: "wk_waiting s = as @ p # bs \<Longrightarrow>
     adapter (cl_tool (pc_call p)) (cl_operation (pc_call p)) (cl_parameters (pc_call p)) (wk_outside s) = (x, w') \<Longrightarrow>
     worker_step P adapter s
       (s\<lparr>wk_outside := w', wk_waiting := as @ bs, wk_returned := (p, x) # wk_returned s,
          wk_sent := call_key (pc_call p) # wk_sent s\<rparr>)"
| finish: "wk_returned s = as @ (p, x) # bs \<Longrightarrow>
     finish_call (pc_call p) (pc_env p) (pc_policy p) (pc_latency p) x (wk_db s) = (r, db') \<Longrightarrow>
     worker_step P adapter s (s\<lparr>wk_db := db', wk_returned := as @ bs\<rparr>)"
| endpoint: "db_events db' = db_events (wk_db s) \<Longrightarrow>
     worker_step P adapter s (s\<lparr>wk_db := db'\<rparr>)"
| environment: "worker_step P adapter s (s\<lparr>wk_outside := w'\<rparr>)"

inductive_cases worker_stepE: "worker_step P adapter s s'"

definition worker_inv :: "'w worker \<Rightarrow> bool" where
  "worker_inv s \<longleftrightarrow>
     distinct (map (call_key \<circ> pc_call) (wk_waiting s) @ wk_sent s) \<and>
     (\<forall>k \<in> set (map (call_key \<circ> pc_call) (wk_waiting s) @ wk_sent s). key_on_record (wk_db s) k)"

lemma key_on_record_mono:
  "set (db_events db) \<subseteq> set (db_events db') \<Longrightarrow> key_on_record db k \<Longrightarrow> key_on_record db' k"
  by (auto simp: key_on_record_def)

lemma worker_inv_db:
  "worker_inv s \<Longrightarrow> set (db_events (wk_db s)) \<subseteq> set (db_events db') \<Longrightarrow> worker_inv (s\<lparr>wk_db := db'\<rparr>)"
  by (auto simp: worker_inv_def intro: key_on_record_mono)

lemma begin_call_grows: "begin_call P call env db = (r, db') \<Longrightarrow> set (db_events db) \<subseteq> set (db_events db')"
proof (cases r)
  case (Inr step)
  assume "begin_call P call env db = (r, db')"
  with Inr show ?thesis
    by (cases step) (auto simp: appends_def dest!: begin_call_Answered begin_call_Forward(1))
qed (auto dest: begin_call_Inl)

lemma finish_call_grows:
  "finish_call call env policy latency x db = (r, db') \<Longrightarrow> set (db_events db) \<subseteq> set (db_events db')"
  by (cases r) (auto simp: appends_def dest!: finish_call_Inr finish_call_Inl)

lemma forward_new_key:
  assumes "begin_call P call env db = (Inr (Forward policy latency), db')"
  shows "\<not> key_on_record db (call_key call)" "key_on_record db' (call_key call)"
proof -
  show "\<not> key_on_record db (call_key call)"
    using begin_call_Forward(2) [OF assms]
    by (auto simp: key_on_record_def call_key_def has_idempotency_key_iff has_key_def)
  show "key_on_record db' (call_key call)"
    using begin_call_Forward(1) [OF assms]
    by (auto simp: key_on_record_def call_key_def appends_def call_event_def)
qed

lemma worker_inv_forward:
  assumes inv: "worker_inv s" and fwd: "begin_call P call env (wk_db s) = (Inr (Forward policy latency), db')"
    and p: "pc_call p = call"
  shows "worker_inv (s\<lparr>wk_db := db', wk_waiting := p # wk_waiting s\<rparr>)"
proof -
  let ?ks = "map (call_key \<circ> pc_call) (wk_waiting s) @ wk_sent s"
  have "call_key call \<notin> set ?ks"
    using inv forward_new_key(1) [OF fwd] unfolding worker_inv_def by blast
  moreover have "\<forall>k \<in> set ?ks. key_on_record db' k"
    using inv begin_call_grows [OF fwd] key_on_record_mono unfolding worker_inv_def by blast
  ultimately show ?thesis
    using inv forward_new_key(2) [OF fwd] p by (simp add: worker_inv_def)
qed

lemma worker_inv_step: "worker_step P adapter s s' \<Longrightarrow> worker_inv s \<Longrightarrow> worker_inv s'"
proof (induction rule: worker_step.induct)
  case (forward call env s policy latency db')
  then show ?case by (intro worker_inv_forward) simp_all
next
  case (deliver s as p bs x w')
  then show ?case by (auto simp: worker_inv_def)
next
  case (answer call env s out db')
  then show ?case by (intro worker_inv_db) (auto dest: begin_call_grows)
next
  case (raised call env s e db')
  then show ?case by (intro worker_inv_db) (auto dest: begin_call_grows)
next
  case (finish s as p x bs r db')
  have "worker_inv (s\<lparr>wk_db := db'\<rparr>)"
    using finish by (intro worker_inv_db) (auto dest: finish_call_grows)
  then show ?case by (simp add: worker_inv_def)
next
  case (endpoint db' s)
  then show ?case by (intro worker_inv_db) auto
next
  case (environment s w')
  then show ?case by (simp add: worker_inv_def)
qed

interpretation worker: invariant_runs "worker_step P adapter" worker_inv
  by unfold_locales (rule worker_inv_step)

text \<open>(C4) However the calls of one worker overlap, whatever the outside world and the other endpoints do,
  the adapter is invoked at most once for each idempotency key of an agent, and every invocation has
  its authorisation in the audit table.\<close>

theorem single_worker_forwards_once:
  assumes "(worker_step P adapter)\<^sup>*\<^sup>* (started_worker db w) s"
  shows "distinct (wk_sent s) \<and> (\<forall>k \<in> set (wk_sent s). key_on_record (wk_db s) k)"
proof -
  have "worker_inv (started_worker db w)" by (simp add: worker_inv_def started_worker_def)
  with assms have "worker_inv s" by (rule worker.run_inv)
  then show ?thesis by (simp add: worker_inv_def)
qed

section \<open>Several processes\<close>

datatype verdict =
    Duplicate
  | Judged policy_decision

text \<open>The two reads of \<open>begin_call\<close>, and its one write.\<close>

definition check_call :: "pydantic \<Rightarrow> tool_call \<Rightarrow> call_env \<Rightarrow> database \<Rightarrow> verdict res" where
  "check_call P call env db =
     (if has_idempotency_key (cl_agent_id call) (cl_idempotency_key call) db then Inr Duplicate
      else
        (case evaluate P (cl_agent_id call) (cl_session call) (cl_tool call) (cl_operation call)
                (cl_parameters call) (ce_evaluated_at env) db of
           Inl e \<Rightarrow> Inl e
         | Inr policy \<Rightarrow> Inr (Judged policy)))"

definition commit_call :: "tool_call \<Rightarrow> call_env \<Rightarrow> verdict \<Rightarrow> database \<Rightarrow> call_step res \<times> database" where
  "commit_call call env v db =
     (let elapsed = elapsed_ms (ce_started env) (ce_first_done env);
          latency = elapsed_ms (ce_policy_started env) (ce_policy_done env)
      in case v of
           Duplicate \<Rightarrow>
             let out = outcome (request_name env) ''block'' ''DUPLICATE_REQUEST''
                         ''This idempotency key has already been used''
             in answer_after
                  (record_call out call 0 ExecNotForwarded None None elapsed (ce_first_uuid env) (ce_first_at env) db)
                  (Answered out)
         | Judged policy \<Rightarrow>
             if \<not> pd_allowed policy then
               let out = outcome (request_name env) ''block'' (pd_reason_code policy) (pd_message policy)
               in answer_after
                    (record_call out call 0 ExecNotForwarded (Some policy) (Some latency) elapsed
                      (ce_first_uuid env) (ce_first_at env) db)
                    (Answered out)
             else
               let authorized = outcome (request_name env) ''allow'' ''ALLOWED'' ''Tool call is permitted''
               in answer_after
                    (record_call authorized call 0 ExecAuthorized (Some policy) (Some latency) elapsed
                      (ce_first_uuid env) (ce_first_at env) db)
                    (Forward policy latency))"

lemma begin_call_halves:
  "begin_call P call env db =
     (case check_call P call env db of Inl e \<Rightarrow> (Inl e, db) | Inr v \<Rightarrow> commit_call call env v db)"
  by (simp add: begin_call_def check_call_def commit_call_def Let_def split: sum.splits)

text \<open>Across processes the check and its record are separate transactions and the table has no
  unique constraint on the key: when two processes both check a new key before either records, both
  verdicts are forwarded, each with an event of its own, provided the two rows can be inserted.\<close>

lemma two_processes_forward_twice:
  assumes "check_call P call env1 db = Inr (Judged p1)" "pd_allowed p1"
    and "check_call P call env2 db = Inr (Judged p2)" "pd_allowed p2"
    and "\<not> (\<exists>e. fst (commit_call call env1 (Judged p1) db) = Inl e)"
    and "\<not> (\<exists>e. fst (commit_call call env2 (Judged p2) (snd (commit_call call env1 (Judged p1) db))) = Inl e)"
  shows "\<exists>l1 l2 db1 db2.
    commit_call call env1 (Judged p1) db = (Inr (Forward p1 l1), db1) \<and>
    commit_call call env2 (Judged p2) db1 = (Inr (Forward p2 l2), db2)"
proof -
  have fwd: "\<exists>l d'. commit_call call env (Judged p) d = (Inr (Forward p l), d')"
    if "pd_allowed p" "\<not> (\<exists>e. fst (commit_call call env (Judged p) d) = Inl e)" for p env d
    using that by (auto simp: commit_call_def Let_def answer_after_def split: prod.splits sum.splits)
  obtain l1 db1 where c1: "commit_call call env1 (Judged p1) db = (Inr (Forward p1 l1), db1)"
    using fwd [OF assms(2,5)] by blast
  moreover obtain l2 db2 where "commit_call call env2 (Judged p2) db1 = (Inr (Forward p2 l2), db2)"
    using fwd [OF assms(4), of env2 db1] assms(6) c1 by auto
  ultimately show ?thesis by blast
qed

end
