(* ===== verification/Seed.thy ===== *)
theory Seed
  imports Evaluator CrmAdapter
begin

text \<open>
  \<open>persistence/seed.py\<close>: the deterministic seed data and the one-transaction routine that creates
  it.  The properties: seeding is all or nothing and idempotent, and the seeded agent may read
  the customer of its session and nothing else.
\<close>

section \<open>The seed data\<close>

definition seed_agent_id :: string where
  "seed_agent_id = ''agent_support_001''"

definition seed_tool_id :: string where
  "seed_tool_id = ''tool_crm_001''"

definition seed_manifest_id :: string where
  "seed_manifest_id = ''support-agent-readonly-v1''"

definition str_array :: "string list \<Rightarrow> json" where
  "str_array ss = JArr (map JStr ss)"

definition typed :: "string \<Rightarrow> json" where
  "typed t = JObj [(''type'', JStr t)]"

definition read_only_manifest :: json where
  "read_only_manifest =
     JObj [(''schema_version'', JStr ''1.0''), (''manifest_id'', JStr seed_manifest_id),
       (''agent_id'', JStr seed_agent_id),
       (''tools'', JObj [(''crm'', JObj
          [(''allowed_operations'', str_array [''read_customer'']),
           (''operation_rules'', JObj [(''read_customer'', JObj
              [(''parameter_schema'', JObj
                  [(''required'', str_array [''customer_id'']),
                   (''properties'', JObj [(''customer_id'', typed ''string'')])]),
               (''data_scope'', JObj [(''all'', JArr [JObj
                  [(''type'', JStr ''session_value_equals_parameter''),
                   (''session_claim'', JStr ''customer_id''),
                   (''parameter'', JStr ''customer_id'')]])])])])])]),
       (''deny_message'', JStr ''This operation is not permitted for the current agent and session.'')]"

definition crm_request_schema :: json where
  "crm_request_schema =
     JObj [(''type'', JStr ''object''), (''required'', str_array [''customer_id'']),
       (''properties'', JObj
          [(''customer_id'', JObj [(''type'', JStr ''string''), (''maxLength'', JInt 64)]),
           (''changes'', typed ''object'')]),
       (''additionalProperties'', JBool False)]"

definition crm_response_schema :: json where
  "crm_response_schema =
     JObj [(''type'', JStr ''object''), (''required'', str_array [''customer_id'']),
       (''properties'', JObj
          [(''customer_id'', typed ''string''), (''name'', typed ''string''), (''email'', typed ''string''),
           (''support_tier'', typed ''string''), (''address'', typed ''string'')])]"

definition seed_customers :: "crm_customer list" where
  "seed_customers =
     [\<lparr>cu_id = ''customer_1001'', cu_name = ''Asha Rao'', cu_email = ''asha.rao@example.invalid'',
       cu_support_tier = ''gold'', cu_address = ''101 Synthetic Avenue, Bengaluru''\<rparr>,
      \<lparr>cu_id = ''customer_1002'', cu_name = ''Vikram Shah'', cu_email = ''vikram.shah@example.invalid'',
       cu_support_tier = ''silver'', cu_address = ''202 Demonstration Road, Pune''\<rparr>,
      \<lparr>cu_id = ''customer_1003'', cu_name = ''Meera Nair'', cu_email = ''meera.nair@example.invalid'',
       cu_support_tier = ''standard'', cu_address = ''303 Example Street, Kochi''\<rparr>]"

definition seed_agent :: agent where
  "seed_agent =
     \<lparr>ag_id = seed_agent_id, ag_oidc_subject = ''dev:agent_support_001'',
      ag_name = ''Read-only Support Agent'', ag_owning_team = ''Customer Support Engineering'',
      ag_status = AgentActive\<rparr>"

definition seed_tool :: tool_definition where
  "seed_tool =
     \<lparr>td_id = seed_tool_id, td_name = ''crm'', td_adapter_type = ''http_crm_v1'',
      td_private_base_url = ''http://sample-crm:8001'',
      td_allowed_operations = [''read_customer'', ''write_customer'', ''delete_customer''],
      td_request_schema = crm_request_schema, td_response_schema = crm_response_schema,
      td_status = ToolActive\<rparr>"

text \<open>\<open>datetime(2026, 1, 1, tzinfo=UTC)\<close>, in microseconds since 1970.\<close>

definition seed_effective_from :: int where
  "seed_effective_from = 1767225600 * 1000000"

definition seed_manifest :: permission_manifest where
  "seed_manifest =
     \<lparr>pm_id = seed_manifest_id, pm_agent_id = seed_agent_id, pm_version = 1, pm_status = ManifestDraft,
      pm_document = read_only_manifest, pm_checksum = manifest_checksum read_only_manifest,
      pm_effective_from = Aware 0 seed_effective_from, pm_expires_at = None,
      pm_created_by = ''phase-1-seed'', pm_approved_by = None,
      pm_change_reason = ''Initial read-only support-agent manifest'', pm_activated_at = None\<rparr>"

section \<open>The seeding transaction\<close>

record seed_summary =
  ss_agents :: nat
  ss_tools :: nat
  ss_manifests :: nat
  ss_customers :: nat
  ss_active_manifest_id :: string

text \<open>Statements that may raise, threaded through the state of the session.\<close>

definition and_then :: "'a res \<times> database \<Rightarrow> ('a \<Rightarrow> database \<Rightarrow> 'b res \<times> database) \<Rightarrow> 'b res \<times> database" where
  "and_then r f = (case r of (Inl e, db) \<Rightarrow> (Inl e, db) | (Inr x, db) \<Rightarrow> f x db)"

definition assert_equal :: "string \<Rightarrow> string \<Rightarrow> string \<Rightarrow> database \<Rightarrow> unit res \<times> database" where
  "assert_equal label actual expected db =
     (if actual \<noteq> expected
      then (Inl (SeedDataConflictError
               (''Existing seed entity has unexpected '' @ label @ '': '' @ repr_str actual @ '' != '' @
                repr_str expected)), db)
      else (Inr (), db))"

definition ensure_agent :: "database \<Rightarrow> unit res \<times> database" where
  "ensure_agent db =
     (case agent_get seed_agent_id db of
        None \<Rightarrow> and_then (agent_add seed_agent db) (\<lambda>_ d. (Inr (), d))
      | Some a \<Rightarrow> assert_equal ''OIDC subject'' (ag_oidc_subject a) ''dev:agent_support_001'' db)"

definition ensure_tool :: "database \<Rightarrow> unit res \<times> database" where
  "ensure_tool db =
     (case tool_get seed_tool_id db of
        None \<Rightarrow> and_then (tool_add seed_tool db) (\<lambda>_ d. (Inr (), d))
      | Some t \<Rightarrow> assert_equal ''tool name'' (td_name t) ''crm'' db)"

definition ensure_manifest :: "database \<Rightarrow> permission_manifest res \<times> database" where
  "ensure_manifest db =
     (case manifest_get seed_manifest_id db of
        None \<Rightarrow> manifest_add seed_manifest db
      | Some m \<Rightarrow>
          and_then (assert_equal ''manifest checksum'' (pm_checksum m) (manifest_checksum read_only_manifest) db)
            (\<lambda>_ d. (Inr m, d)))"

definition ensure_customer :: "crm_customer \<Rightarrow> database \<Rightarrow> unit res \<times> database" where
  "ensure_customer c db =
     (case customer_get (cu_id c) db of
        None \<Rightarrow> and_then (customer_add c db) (\<lambda>_ d. (Inr (), d))
      | Some old \<Rightarrow> assert_equal ''customer name'' (cu_name old) (cu_name c) db)"

fun ensure_customers :: "crm_customer list \<Rightarrow> database \<Rightarrow> unit res \<times> database" where
  "ensure_customers [] db = (Inr (), db)"
| "ensure_customers (c # cs) db = and_then (ensure_customer c db) (\<lambda>_ d. ensure_customers cs d)"

definition activate_if_draft :: "permission_manifest \<Rightarrow> int \<Rightarrow> database \<Rightarrow> permission_manifest res \<times> database" where
  "activate_if_draft m now db =
     (if pm_status m = ManifestDraft then manifest_activate (pm_id m) ''phase-1-seed'' now db
      else (Inr m, db))"

definition summary_of :: "permission_manifest \<Rightarrow> database \<Rightarrow> seed_summary" where
  "summary_of m db =
     \<lparr>ss_agents = agent_count db, ss_tools = tool_count db, ss_manifests = manifest_count db,
      ss_customers = customer_count db, ss_active_manifest_id = pm_id m\<rparr>"

definition seed_phase_1 :: "int \<Rightarrow> database \<Rightarrow> seed_summary res \<times> database" where
  "seed_phase_1 now db =
     in_session (\<lambda>d.
       and_then (ensure_agent d) (\<lambda>_ d.
       and_then (ensure_tool d) (\<lambda>_ d.
       and_then (ensure_manifest d) (\<lambda>m d.
       and_then (ensure_customers seed_customers d) (\<lambda>_ d.
       and_then (activate_if_draft m now d) (\<lambda>m d. (Inr (summary_of m d), d))))))) db"

section \<open>Seeding\<close>

lemma and_then_Inr:
  "and_then r f = (Inr y, db') \<longleftrightarrow> (\<exists>x d. r = (Inr x, d) \<and> f x d = (Inr y, db'))"
  by (auto simp: and_then_def split: prod.splits sum.splits)

lemma assert_equal_Inr: "assert_equal l a b db = (Inr u, db') \<longleftrightarrow> a = b \<and> db' = db"
  by (auto simp: assert_equal_def)

text \<open>What a run looks for.\<close>

definition seeded :: "database \<Rightarrow> bool" where
  "seeded db \<longleftrightarrow>
     (\<exists>a. agent_get seed_agent_id db = Some a \<and> ag_oidc_subject a = ''dev:agent_support_001'') \<and>
     (\<exists>t. tool_get seed_tool_id db = Some t \<and> td_name t = ''crm'') \<and>
     (\<exists>m. manifest_get seed_manifest_id db = Some m \<and>
        pm_checksum m = manifest_checksum read_only_manifest \<and> pm_status m \<noteq> ManifestDraft) \<and>
     (\<forall>c \<in> set seed_customers. \<exists>old. customer_get (cu_id c) db = Some old \<and> cu_name old = cu_name c)"

lemma ensure_customers_present:
  "\<forall>c \<in> set cs. \<exists>old. customer_get (cu_id c) db = Some old \<and> cu_name old = cu_name c \<Longrightarrow>
   ensure_customers cs db = (Inr (), db)"
  by (induction cs) (auto simp: ensure_customer_def assert_equal_def and_then_def)

lemma seed_again:
  assumes "seeded db"
  shows "\<exists>m. manifest_get seed_manifest_id db = Some m \<and> seed_phase_1 now db = (Inr (summary_of m db), db)"
proof -
  obtain a t m where "agent_get seed_agent_id db = Some a" "ag_oidc_subject a = ''dev:agent_support_001''"
    "tool_get seed_tool_id db = Some t" "td_name t = ''crm''"
    and m: "manifest_get seed_manifest_id db = Some m"
      "pm_checksum m = manifest_checksum read_only_manifest" "pm_status m \<noteq> ManifestDraft"
    using assms by (auto simp: seeded_def)
  moreover have "ensure_customers seed_customers db = (Inr (), db)"
    using assms by (intro ensure_customers_present) (simp add: seeded_def)
  ultimately show ?thesis
    by (simp add: seed_phase_1_def in_session_def ensure_agent_def ensure_tool_def ensure_manifest_def
        assert_equal_def and_then_def activate_if_draft_def)
qed

lemma ensure_agent_Inr:
  assumes "ensure_agent db = (Inr u, db')"
  shows "(\<exists>a. agent_get seed_agent_id db' = Some a \<and> ag_oidc_subject a = ''dev:agent_support_001'')"
proof (cases "agent_get seed_agent_id db")
  case None
  with assms obtain x where "agent_add seed_agent db = (Inr x, db')"
    by (auto simp: ensure_agent_def and_then_Inr)
  from agents.get_added [OF this] show ?thesis by (simp add: agent_get_def seed_agent_def)
qed (use assms in \<open>auto simp: ensure_agent_def assert_equal_Inr\<close>)

lemma ensure_tool_Inr:
  assumes "ensure_tool db = (Inr u, db')"
  shows "(\<exists>t. tool_get seed_tool_id db' = Some t \<and> td_name t = ''crm'') \<and> db_agents db' = db_agents db"
proof (cases "tool_get seed_tool_id db")
  case None
  with assms obtain x where add: "tool_add seed_tool db = (Inr x, db')"
    by (auto simp: ensure_tool_def and_then_Inr)
  then have "db_agents db' = db_agents db" by (simp add: tool_add_def insert_row_Inr)
  with tools.get_added [OF add] show ?thesis by (simp add: tool_get_def seed_tool_def)
qed (use assms in \<open>auto simp: ensure_tool_def assert_equal_Inr\<close>)

lemma ensure_manifest_Inr:
  assumes "ensure_manifest db = (Inr m, db')"
  shows "(\<exists>t. manifest_get seed_manifest_id db' = Some t \<and> pm_status t = pm_status m \<and>
      pm_checksum t = manifest_checksum read_only_manifest) \<and> pm_id m = seed_manifest_id \<and>
    db_agents db' = db_agents db \<and> db_tools db' = db_tools db"
proof (cases "manifest_get seed_manifest_id db")
  case None
  with assms have add: "manifest_add seed_manifest db = (Inr m, db')"
    by (simp add: ensure_manifest_def)
  then have "db_agents db' = db_agents db \<and> db_tools db' = db_tools db \<and> m = seed_manifest"
    by (simp add: manifest_add_def insert_row_Inr)
  with manifests.get_added [OF add] show ?thesis
    by (simp add: manifest_get_def seed_manifest_def stored_manifest_def)
qed (use assms in \<open>auto simp: ensure_manifest_def assert_equal_Inr and_then_Inr dest: manifest_getD\<close>)

lemma ensure_customer_Inr:
  assumes "ensure_customer c db = (Inr u, db')"
  shows "(\<exists>old. customer_get (cu_id c) db' = Some old \<and> cu_name old = cu_name c) \<and>
    (\<forall>k x. customer_get k db = Some x \<longrightarrow> customer_get k db' = Some x) \<and>
    db_agents db' = db_agents db \<and> db_tools db' = db_tools db \<and> db_manifests db' = db_manifests db"
proof (cases "customer_get (cu_id c) db")
  case None
  with assms obtain x where add: "customer_add c db = (Inr x, db')"
    by (auto simp: ensure_customer_def and_then_Inr)
  then have "db_agents db' = db_agents db \<and> db_tools db' = db_tools db \<and> db_manifests db' = db_manifests db"
    by (simp add: customer_add_def insert_row_Inr)
  with customers.get_added [OF add] customers.get_mono [OF add] show ?thesis
    by (simp add: customer_get_def)
qed (use assms in \<open>auto simp: ensure_customer_def assert_equal_Inr\<close>)

lemma ensure_customers_Inr:
  "ensure_customers cs db = (Inr u, db') \<Longrightarrow>
     (\<forall>c \<in> set cs. \<exists>old. customer_get (cu_id c) db' = Some old \<and> cu_name old = cu_name c) \<and>
     (\<forall>k x. customer_get k db = Some x \<longrightarrow> customer_get k db' = Some x) \<and>
     db_agents db' = db_agents db \<and> db_tools db' = db_tools db \<and> db_manifests db' = db_manifests db"
proof (induction cs arbitrary: db)
  case (Cons c cs)
  then obtain d where first: "ensure_customer c db = (Inr (), d)" and rest: "ensure_customers cs d = (Inr u, db')"
    by (auto simp: and_then_Inr)
  show ?case using ensure_customer_Inr [OF first] Cons.IH [OF rest] by auto
qed simp

lemma keys_replace_image: "key ` set (replace_row key r rows) = key ` set rows"
  by (metis keys_replace_row list.set_map)

lemma supersede_keys:
  assumes "supersede c t db = (Inr u, db')"
  shows "pm_id ` set (db_manifests db') = pm_id ` set (db_manifests db)"
proof -
  have "db' = db \<or> (\<exists>m. db' = db\<lparr>db_manifests := replace_row pm_id m (db_manifests db)\<rparr>)"
    using assms
    by (auto simp: supersede_def split: option.splits if_splits prod.splits sum.splits dest!: manifest_flushD)
  then show ?thesis by (elim disjE exE) (simp_all add: keys_replace_image)
qed

lemma activate_get:
  assumes "manifest_activate mid by now db = (Inr m, db')" "manifest_get mid db = Some t"
  shows "\<exists>a. manifest_get mid db' = Some a \<and> pm_checksum a = pm_checksum t \<and> pm_status a = ManifestActive"
  using assms(1)
proof (cases rule: activate_cases)
  case (2 t' db1 x)
  have t: "t' = t" "pm_id t = mid" using 2(1) assms(2) by (auto dest: manifest_getD)
  have "pm_id t \<in> pm_id ` set (db_manifests db)" using assms(2) by (auto dest!: manifest_getD)
  then have "row_of pm_id (pm_id t) (db_manifests db1) \<noteq> None"
    using supersede_keys [OF 2(3)] by (simp add: row_of_None_iff)
  then have "manifest_get mid db' = Some (activated_row t by (db_store_time db (now_utc now)))"
    using manifest_flushD [OF 2(4)] t by (simp add: manifest_get_def row_of_replace activated_row_def)
  then show ?thesis by (simp add: activated_row_def)
qed (use assms(2) in auto)

lemma activate_other_rows:
  "manifest_activate mid by now db = (Inr m, db') \<Longrightarrow> db_agents db' = db_agents db \<and> db_tools db' = db_tools db \<and>
     db_customers db' = db_customers db"
  by (elim activate_cases)
    (auto simp: supersede_def split: option.splits if_splits prod.splits sum.splits dest!: manifest_flushD)

lemma seed_seeds:
  assumes "seed_phase_1 now db = (Inr s, db')"
  shows "seeded db'"
proof -
  obtain d1 d2 d3 d4 m m' where steps: "ensure_agent db = (Inr (), d1)" "ensure_tool d1 = (Inr (), d2)"
    "ensure_manifest d2 = (Inr m, d3)" "ensure_customers seed_customers d3 = (Inr (), d4)"
    "activate_if_draft m now d4 = (Inr m', db')"
    using assms by (auto simp: seed_phase_1_def in_session_Inr and_then_Inr)
  obtain t where t: "manifest_get seed_manifest_id d4 = Some t" "pm_status t = pm_status m"
      "pm_checksum t = manifest_checksum read_only_manifest" "pm_id m = seed_manifest_id"
    using ensure_manifest_Inr [OF steps(3)] ensure_customers_Inr [OF steps(4)] by (auto simp: manifest_get_def)
  have before: "db_agents d4 = db_agents d1" "db_tools d4 = db_tools d2"
    "\<forall>c \<in> set seed_customers. \<exists>old. customer_get (cu_id c) d4 = Some old \<and> cu_name old = cu_name c"
    using ensure_tool_Inr [OF steps(2)] ensure_manifest_Inr [OF steps(3)] ensure_customers_Inr [OF steps(4)]
    by auto
  have after: "db_agents db' = db_agents d4 \<and> db_tools db' = db_tools d4 \<and> db_customers db' = db_customers d4"
    using steps(5) activate_other_rows by (auto simp: activate_if_draft_def split: if_splits)
  have "\<exists>a. manifest_get seed_manifest_id db' = Some a \<and> pm_checksum a = manifest_checksum read_only_manifest \<and>
      pm_status a \<noteq> ManifestDraft"
    using steps(5) t activate_get by (fastforce simp: activate_if_draft_def split: if_splits)
  with before after ensure_agent_Inr [OF steps(1)] ensure_tool_Inr [OF steps(2)] show ?thesis
    by (auto simp: seeded_def agent_get_def tool_get_def customer_get_def)
qed

text \<open>(C31) Seeding is one transaction and idempotent: a run that fails leaves the database as it was, and
  after a run that succeeds every further run succeeds, changes nothing and reports the same
  manifest.\<close>

theorem seed_outcome:
  "case seed_phase_1 now db of
     (Inl e, db') \<Rightarrow> db' = db
   | (Inr s, db') \<Rightarrow> (\<exists>s'. seed_phase_1 later db' = (Inr s', db') \<and>
       ss_active_manifest_id s' = seed_manifest_id)"
proof (cases "seed_phase_1 now db")
  case (Pair r db')
  show ?thesis
  proof (cases r)
    case (Inl e)
    with Pair show ?thesis
      by (auto simp: seed_phase_1_def in_session_def split: prod.splits sum.splits)
  next
    case (Inr s)
    then obtain m where "manifest_get seed_manifest_id db' = Some m"
      "seed_phase_1 later db' = (Inr (summary_of m db'), db')"
      using Pair seed_again [OF seed_seeds] by blast
    with Pair Inr show ?thesis by (auto simp: summary_of_def dest: manifest_getD)
  qed
qed

section \<open>What the seeded agent may do\<close>

definition seed_rule :: operation_rule where
  "seed_rule =
     \<lparr>or_parameter_schema =
        \<lparr>ps_required = [''customer_id''], ps_properties = [(''customer_id'', StringConstraint None)],
         ps_additional_properties = False\<rparr>,
      or_data_scope = Some
        [\<lparr>sr_type = ''session_value_equals_parameter'', sr_session_claim = ''customer_id'',
          sr_parameter = ''customer_id''\<rparr>]\<rparr>"

definition seed_permission :: tool_permission where
  "seed_permission =
     \<lparr>tp_allowed_operations = [''read_customer''],
      tp_operation_rules = [(''read_customer'', seed_rule)]\<rparr>"

definition seed_document :: manifest_document where
  "seed_document =
     \<lparr>md_schema_version = ''1.0'', md_manifest_id = seed_manifest_id, md_agent_id = seed_agent_id,
      md_tools = [(''crm'', seed_permission)],
      md_deny_message = ''This operation is not permitted for the current agent and session.''\<rparr>"

lemmas read_defs = only_keys_def str_field_def literal_field_def str_list_field_def dict_field_def
  in_length_def str_array_def typed_def

lemma parse_seed_schema:
  "parse_parameter_schema P (JObj
     [(''required'', str_array [''customer_id'']),
      (''properties'', JObj [(''customer_id'', typed ''string'')])]) = Some (or_parameter_schema seed_rule)"
  by (simp add: parse_parameter_schema_def parse_required_def parse_additional_def parse_constraint_def
      parse_max_length_def required_fields_must_be_declared_def read_defs seed_rule_def)

lemma parse_seed_rule:
  "parse_session_parameter_rule (JObj
     [(''type'', JStr ''session_value_equals_parameter''), (''session_claim'', JStr ''customer_id''),
      (''parameter'', JStr ''customer_id'')]) =
     Some \<lparr>sr_type = ''session_value_equals_parameter'', sr_session_claim = ''customer_id'',
           sr_parameter = ''customer_id''\<rparr>"
  by (simp add: parse_session_parameter_rule_def read_defs)

lemma parse_seed_operation_rule:
  "parse_operation_rule P (JObj
     [(''parameter_schema'', JObj
        [(''required'', str_array [''customer_id'']),
         (''properties'', JObj [(''customer_id'', typed ''string'')])]),
      (''data_scope'', JObj [(''all'', JArr [JObj
        [(''type'', JStr ''session_value_equals_parameter''), (''session_claim'', JStr ''customer_id''),
         (''parameter'', JStr ''customer_id'')]])])]) = Some seed_rule"
  by (simp add: parse_operation_rule_def parse_optional_scope_def parse_data_scope_def only_keys_def
      parse_seed_schema parse_seed_rule) (simp add: seed_rule_def)

definition seed_permission_json :: json where
  "seed_permission_json =
     JObj [(''allowed_operations'', str_array [''read_customer'']),
           (''operation_rules'', JObj [(''read_customer'', JObj
              [(''parameter_schema'', JObj
                  [(''required'', str_array [''customer_id'']),
                   (''properties'', JObj [(''customer_id'', typed ''string'')])]),
               (''data_scope'', JObj [(''all'', JArr [JObj
                  [(''type'', JStr ''session_value_equals_parameter''),
                   (''session_claim'', JStr ''customer_id''),
                   (''parameter'', JStr ''customer_id'')]])])])])]"

lemma parse_seed_permission: "parse_tool_permission P seed_permission_json = Some seed_permission"
  by (simp add: parse_tool_permission_def seed_permission_json_def only_keys_def str_list_field_def
      dict_field_def parse_seed_operation_rule)
    (simp add: str_array_def seed_permission_def allowed_operations_must_have_rules_def)

lemma read_only_tools: "read_only_manifest =
    JObj [(''schema_version'', JStr ''1.0''), (''manifest_id'', JStr seed_manifest_id),
      (''agent_id'', JStr seed_agent_id), (''tools'', JObj [(''crm'', seed_permission_json)]),
      (''deny_message'', JStr ''This operation is not permitted for the current agent and session.'')]"
  by (simp add: read_only_manifest_def seed_permission_json_def)

lemma parse_read_only: "parse_manifest P read_only_manifest = Some seed_document"
  by (simp add: parse_manifest_def read_only_tools only_keys_def str_field_def literal_field_def
      dict_field_def parse_seed_permission in_length_def seed_document_def)
    (simp add: seed_manifest_id_def seed_agent_id_def)

lemma seed_document_permits:
  "document_permits seed_document c tool operation params db \<longleftrightarrow>
     tool = ''crm'' \<and> operation = ''read_customer'' \<and>
     (\<exists>t. tool_get_by_name ''crm'' db = Some t \<and> td_status t = ToolActive \<and>
        ''read_customer'' \<in> set (td_allowed_operations t)) \<and>
     rule_permits seed_rule c params"
  by (auto simp: document_permits_def seed_document_def seed_permission_def split: if_splits)

lemma seed_rule_permits:
  assumes "distinct (map fst params)"
  shows "rule_permits seed_rule c params \<longleftrightarrow> params = [(''customer_id'', JStr (tc_customer_id c))]"
proof
  assume p: "rule_permits seed_rule c params"
  then have keys: "fst ` set params = {''customer_id''}"
    and val: "map_of params ''customer_id'' = Some (JStr (tc_customer_id c))"
    by (auto simp: rule_permits_def seed_rule_def validate_parameters_iff session_values_def)
  have "card (fst ` set params) = length params"
    using assms by (metis distinct_card length_map list.set_map)
  then have "length params = 1" using keys by simp
  then obtain kv where "params = [kv]" by (auto simp: length_Suc_conv)
  with keys val show "params = [(''customer_id'', JStr (tc_customer_id c))]"
    by (cases kv) auto
next
  assume "params = [(''customer_id'', JStr (tc_customer_id c))]"
  then show "rule_permits seed_rule c params"
    by (simp add: rule_permits_def seed_rule_def validate_parameters_iff session_values_def)
qed

text \<open>The seed manifest is the active one, untouched, and the CRM tool offers the read operation.\<close>

definition seed_in_force :: "database \<Rightarrow> bool" where
  "seed_in_force db \<longleftrightarrow>
     (case (manifest_get_active seed_agent_id db, tool_get_by_name ''crm'' db) of
        (Some m, Some t) \<Rightarrow>
          pm_document m = read_only_manifest \<and> pm_id m = seed_manifest_id \<and>
          pm_checksum m = manifest_checksum read_only_manifest \<and> pm_expires_at m = None \<and>
          instant (pm_effective_from m) = seed_effective_from \<and>
          td_status t = ToolActive \<and> ''read_customer'' \<in> set (td_allowed_operations t)
      | _ \<Rightarrow> False)"

lemma seed_authority:
  assumes "seed_in_force db" "distinct (map fst params)"
  shows "(\<exists>d. evaluate P seed_agent_id c tool operation params now db = Inr d \<and> pd_allowed d) \<longleftrightarrow>
    seed_effective_from \<le> now \<and> tool = ''crm'' \<and> operation = ''read_customer'' \<and>
    params = [(''customer_id'', JStr (tc_customer_id c))]"
proof -
  obtain m t where m: "manifest_get_active seed_agent_id db = Some m" "pm_document m = read_only_manifest"
    "pm_id m = seed_manifest_id" "pm_checksum m = manifest_checksum read_only_manifest"
    "pm_expires_at m = None" "instant (pm_effective_from m) = seed_effective_from"
    and t: "tool_get_by_name ''crm'' db = Some t" "td_status t = ToolActive"
    "''read_customer'' \<in> set (td_allowed_operations t)"
    using assms(1) by (auto simp: seed_in_force_def split: option.splits)
  have "pm_agent_id m = seed_agent_id"
    using get_active_SomeD [OF m(1)] by (simp add: is_active_for_def)
  then have "manifest_in_force P m doc now \<longleftrightarrow> doc = seed_document \<and> seed_effective_from \<le> now" for doc
    using m by (auto simp: manifest_in_force_def parse_read_only seed_document_def)
  then show ?thesis
    unfolding evaluate_allows
    using m(1) t seed_rule_permits [OF assms(2), of c] by (auto simp: seed_document_permits)
qed

text \<open>(C19) Least privilege of the seed: while the seed manifest is the active one, the decision on a call
  of the seeded agent is an allowance exactly for reading the customer its session is bound to, with
  no other parameter, from the effective date on; everything else is denied.\<close>

theorem seed_agent_authority:
  assumes "seed_in_force db" "distinct (map fst params)"
    and "evaluate P seed_agent_id c tool operation params now db = Inr d"
  shows "pd_allowed d \<longleftrightarrow>
    seed_effective_from \<le> now \<and> tool = ''crm'' \<and> operation = ''read_customer'' \<and>
    params = [(''customer_id'', JStr (tc_customer_id c))]"
  using seed_authority [OF assms(1,2), of P c tool operation now] assms(3) by auto

section \<open>Seeding a fresh database\<close>

definition seeded_manifest :: "(datetime \<Rightarrow> datetime) \<Rightarrow> int \<Rightarrow> permission_manifest" where
  "seeded_manifest st now =
     seed_manifest\<lparr>pm_status := ManifestActive, pm_approved_by := Some ''phase-1-seed'',
       pm_effective_from := st (Aware 0 seed_effective_from), pm_activated_at := Some (st (now_utc now))\<rparr>"

definition fresh_seed :: "(datetime \<Rightarrow> datetime) \<Rightarrow> bool \<Rightarrow> int \<Rightarrow> database" where
  "fresh_seed st w now =
     (empty_database st w)
       \<lparr>db_agents := [seed_agent], db_tools := [seed_tool], db_manifests := [seeded_manifest st now],
        db_customers := seed_customers\<rparr>"

lemma ensure_agent_fresh:
  "ensure_agent (empty_database st w) = (Inr (), (empty_database st w)\<lparr>db_agents := [seed_agent]\<rparr>)"
  by (simp add: ensure_agent_def and_then_def agent_add_def insert_row_def empty_database_def agent_get_def
      agent_get_by_oidc_subject_def widths_ok_def width_defs seed_agent_def seed_agent_id_def)

lemma ensure_tool_fresh:
  "db_tools db = [] \<Longrightarrow> ensure_tool db = (Inr (), db\<lparr>db_tools := [seed_tool]\<rparr>)"
  by (simp add: ensure_tool_def and_then_def tool_add_def insert_row_def tool_get_def
      tool_get_by_name_def widths_ok_def width_defs seed_tool_def seed_tool_id_def)

lemma ensure_manifest_fresh:
  "db_manifests db = [] \<Longrightarrow> db_agents db = [seed_agent] \<Longrightarrow>
   ensure_manifest db = (Inr seed_manifest, db\<lparr>db_manifests := [stored_manifest db seed_manifest]\<rparr>)"
  by (simp add: ensure_manifest_def manifest_add_def insert_row_def manifest_get_def agent_get_def
      widths_ok_def width_defs seed_manifest_def seed_manifest_id_def seed_agent_def seed_agent_id_def
      manifest_checksum_def manifest_window_ok_def stored_manifest_def active_index_ok_def)

lemma ensure_customers_fresh:
  "db_customers db = [] \<Longrightarrow> ensure_customers seed_customers db = (Inr (), db\<lparr>db_customers := seed_customers\<rparr>)"
  by (simp add: seed_customers_def ensure_customer_def and_then_def customer_add_def insert_row_def
      customer_get_def widths_ok_def width_defs)

lemma activate_fresh:
  assumes "db_agents db = [seed_agent]" "db_manifests db = [stored_manifest db seed_manifest]"
  shows "activate_if_draft seed_manifest now db =
    (Inr ((stored_manifest db seed_manifest)\<lparr>pm_status := ManifestActive, pm_approved_by := Some ''phase-1-seed'',
            pm_activated_at := Some (now_utc now)\<rparr>),
     db\<lparr>db_manifests := [seeded_manifest (db_store_time db) now]\<rparr>)"
  using assms
  by (simp add: activate_if_draft_def manifest_activate_def manifest_get_def agent_get_def stored_manifest_def
      manifest_get_active_def is_active_for_def supersede_def manifest_flush_def insert_row_def
      active_index_ok_def replace_row_def Let_def widths_ok_def width_defs)
    (simp add: seed_manifest_def seed_agent_def seeded_manifest_def)

text \<open>On a fresh database of any backend, column widths enforced or not, seeding succeeds; it
  creates one agent, one tool, one active manifest and three customers.\<close>

lemma seed_fresh_database:
  "seed_phase_1 now (empty_database st w) =
     (Inr \<lparr>ss_agents = 1, ss_tools = 1, ss_manifests = 1, ss_customers = 3,
           ss_active_manifest_id = seed_manifest_id\<rparr>, fresh_seed st w now)"
proof -
  let ?d1 = "(empty_database st w)\<lparr>db_agents := [seed_agent]\<rparr>"
  let ?d2 = "?d1\<lparr>db_tools := [seed_tool]\<rparr>"
  let ?d3 = "?d2\<lparr>db_manifests := [stored_manifest ?d2 seed_manifest]\<rparr>"
  let ?d4 = "?d3\<lparr>db_customers := seed_customers\<rparr>"
  have "ensure_tool ?d1 = (Inr (), ?d2)" by (rule ensure_tool_fresh) (simp add: empty_database_def)
  moreover have "ensure_manifest ?d2 = (Inr seed_manifest, ?d3)"
    by (rule ensure_manifest_fresh) (simp_all add: empty_database_def)
  moreover have "ensure_customers seed_customers ?d3 = (Inr (), ?d4)"
    by (rule ensure_customers_fresh) (simp add: empty_database_def)
  moreover have "\<exists>m. activate_if_draft seed_manifest now ?d4 = (Inr m, fresh_seed st w now) \<and> pm_id m = seed_manifest_id"
    using activate_fresh [of ?d4 now]
    by (simp add: stored_manifest_def fresh_seed_def empty_database_def) (simp add: seed_manifest_def)
  ultimately show ?thesis
    by (auto simp: seed_phase_1_def in_session_def and_then_def ensure_agent_fresh summary_of_def
        agent_count_def tool_count_def manifest_count_def customer_count_def)
      (simp_all add: fresh_seed_def seed_customers_def)
qed

section \<open>A seeded database at work\<close>

definition sample_claims :: trusted_session_claims where
  "sample_claims =
     \<lparr>tc_session_id = ''sess_1'', tc_token_jti = ''jti_1'', tc_agent_id = seed_agent_id,
      tc_user_id = ''user_7'', tc_customer_id = ''customer_1001'', tc_issued_at = Aware 0 1800000000000000,
      tc_expires_at = Aware 0 1800001800000000\<rparr>"

definition sample_params :: params where
  "sample_params = [(''customer_id'', JStr ''customer_1001'')]"

lemma fresh_active: "manifest_get_active seed_agent_id (fresh_seed st w now) = Some (seeded_manifest st now)"
  by (simp add: manifest_get_active_def fresh_seed_def seeded_manifest_def seed_manifest_def is_active_for_def)

lemma fresh_tool: "tool_get_by_name ''crm'' (fresh_seed st w now) = Some seed_tool"
  by (simp add: tool_get_by_name_def fresh_seed_def seed_tool_def)

lemma seeded_manifest_fields:
  "pm_id (seeded_manifest st now) = seed_manifest_id" "pm_agent_id (seeded_manifest st now) = seed_agent_id"
  "pm_document (seeded_manifest st now) = read_only_manifest"
  "pm_checksum (seeded_manifest st now) = manifest_checksum read_only_manifest"
  "pm_expires_at (seeded_manifest st now) = None"
  "pm_effective_from (seeded_manifest st now) = st (Aware 0 seed_effective_from)"
  by (simp_all add: seeded_manifest_def seed_manifest_def)

lemma seed_tool_fields:
  "td_status seed_tool = ToolActive" "''read_customer'' \<in> set (td_allowed_operations seed_tool)"
  by (simp_all add: seed_tool_def)

lemma fresh_allows:
  assumes "instant (st (Aware 0 seed_effective_from)) \<le> now" "tc_customer_id c = ''customer_1001''"
  shows "evaluate P seed_agent_id c ''crm'' ''read_customer'' sample_params now (fresh_seed st w t) =
    Inr (allow (seeded_manifest st t))"
proof -
  have "manifest_in_force P (seeded_manifest st t) seed_document now"
    using assms(1) by (simp add: manifest_in_force_def seeded_manifest_fields parse_read_only seed_document_def)
  moreover have "document_permits seed_document c ''crm'' ''read_customer'' sample_params (fresh_seed st w t)"
    using seed_rule_permits [of sample_params c] assms(2)
    by (simp add: seed_document_permits fresh_tool seed_tool_fields sample_params_def)
  ultimately show ?thesis
    using evaluate_allows [of P seed_agent_id c _ _ _ now "fresh_seed st w t" "allow (seeded_manifest st t)"]
      fresh_active by blast
qed

lemma fresh_in_force: "instant (st (Aware 0 seed_effective_from)) = seed_effective_from \<Longrightarrow> seed_in_force (fresh_seed st w t)"
  by (simp add: seed_in_force_def fresh_active fresh_tool seeded_manifest_fields seed_tool_fields)

theorem seed_agent_authority_witness:
  "pd_allowed (allow (seeded_manifest sqlite_time 0)) \<longleftrightarrow>
     seed_effective_from \<le> 1800000000000000 \<and> ''crm'' = ''crm'' \<and> ''read_customer'' = ''read_customer'' \<and>
     sample_params = [(''customer_id'', JStr (tc_customer_id sample_claims))]"
proof (rule seed_agent_authority)
  show "seed_in_force (fresh_seed sqlite_time True 0)" by (rule fresh_in_force) simp
  show "distinct (map fst sample_params)" by (simp add: sample_params_def)
  show "evaluate strict_pydantic seed_agent_id sample_claims ''crm'' ''read_customer'' sample_params
      1800000000000000 (fresh_seed sqlite_time True 0) = Inr (allow (seeded_manifest sqlite_time 0))"
    by (rule fresh_allows) (simp_all add: seed_effective_from_def sample_claims_def)
qed

theorem allowed_call_in_scope_witness:
  "map_of sample_params ''customer_id'' = Some (JStr (tc_customer_id sample_claims))"
proof -
  have rule: "map_of (md_tools seed_document) ''crm'' = Some seed_permission"
    "map_of (tp_operation_rules seed_permission) ''read_customer'' = Some seed_rule"
    "or_data_scope seed_rule = Some
       [\<lparr>sr_type = ''session_value_equals_parameter'', sr_session_claim = ''customer_id'',
         sr_parameter = ''customer_id''\<rparr>]"
    by (simp_all add: seed_document_def seed_permission_def seed_rule_def)
  have eval: "evaluate strict_pydantic seed_agent_id sample_claims ''crm'' ''read_customer'' sample_params
      1800000000000000 (fresh_seed sqlite_time True 0) = Inr (allow (seeded_manifest sqlite_time 0))"
    by (rule fresh_allows) (simp_all add: seed_effective_from_def sample_claims_def)
  show ?thesis
    using allowed_call_in_scope [OF eval allow_fields(1) fresh_active _ rule(1,2) rule(3) list.set_intros(1)]
    by (simp add: seeded_manifest_fields parse_read_only)
qed

lemma read_only_wf: "wf_json read_only_manifest"
  by (simp add: read_only_manifest_def str_array_def typed_def)

theorem allowed_document_untampered_witness:
  "canonical (pm_document (seeded_manifest sqlite_time 0)) = canonical read_only_manifest \<or>
   (json_dumps (pm_document (seeded_manifest sqlite_time 0)) \<noteq> json_dumps read_only_manifest \<and>
    sha256_hex (json_dumps (pm_document (seeded_manifest sqlite_time 0))) =
      sha256_hex (json_dumps read_only_manifest))"
proof (rule allowed_document_untampered [OF _ allow_fields(1) fresh_active])
  show "evaluate strict_pydantic seed_agent_id sample_claims ''crm'' ''read_customer'' sample_params
      1800000000000000 (fresh_seed sqlite_time True 0) = Inr (allow (seeded_manifest sqlite_time 0))"
    by (rule fresh_allows) (simp_all add: seed_effective_from_def sample_claims_def)
qed (simp_all add: seeded_manifest_fields read_only_wf)

end
