(* ===== verification/SampleCrm.thy ===== *)
theory SampleCrm
  imports CrmAdapter StoreInv Manifest
begin

text \<open>
  The protected tool, \<open>sample_crm/api.py\<close>: the internal credential, the three customer routes and
  the patch model.  The parameters, in \<open>crm_lib\<close>, are what is not under \<open>src/\<close>: the e-mail
  validator behind \<open>EmailStr\<close>, the body FastAPI gives a failed validation, its answer to
  requests whose path is not one of the customer routes, and the way of a URL from the client to the
  application: \<open>cr_target\<close> takes the base URL and the path given to the httpx client to the decoded
  path the application routes, or to the failure of the client.  httpx escapes characters, removes
  dot segments and splits off query and fragment, and the server decodes what it receives.  The properties: nothing happens
  without the credential, what each route does to the table, and that no request breaks the
  schema.
\<close>

record crm_lib =
  cr_email :: "string \<Rightarrow> string option"
  cr_invalid_body :: json
  cr_other_route :: "string \<Rightarrow> http_request \<Rightarrow> http_response"
  cr_target :: "string \<Rightarrow> string \<Rightarrow> http_failure + string"

section \<open>The credential\<close>

text \<open>\<open>hmac.compare_digest\<close> on two \<open>str\<close> raises \<open>TypeError\<close> unless both are ASCII.\<close>

definition compare_digest :: "string \<Rightarrow> string \<Rightarrow> bool res" where
  "compare_digest a b =
     (if is_ascii a \<and> is_ascii b then Inr (a = b)
      else Inl (TypeError ''comparing strings with non-ASCII characters is not supported''))"

definition invalid_credential :: py_exn where
  "invalid_credential = HTTPException 401 ''INVALID_INTERNAL_CREDENTIAL'' []"

definition require_internal_key :: "crm_settings \<Rightarrow> string option \<Rightarrow> unit res" where
  "require_internal_key s supplied =
     (case supplied of
        None \<Rightarrow> Inl invalid_credential
      | Some k \<Rightarrow>
          bind_res (compare_digest k (cs_internal_api_key s)) (\<lambda>same.
            if same then Inr () else Inl invalid_credential))"

section \<open>The patch model\<close>

text \<open>
  A patch is the list of the fields the body sets, in the order of the model, with their values;
  \<open>None\<close> is an explicit \<open>null\<close>, which every field admits.
\<close>

type_synonym patch = "(string \<times> string option) list"

definition patch_text :: "nat \<Rightarrow> string \<Rightarrow> string option" where
  "patch_text hi s = (if in_length 1 hi s then Some s else None)"

definition patch_field :: "(string \<Rightarrow> string option) \<Rightarrow> string \<Rightarrow> (string \<times> json) list \<Rightarrow> patch option" where
  "patch_field check k kvs =
     (case map_of kvs k of
        None \<Rightarrow> Some []
      | Some JNull \<Rightarrow> Some [(k, None)]
      | Some (JStr s) \<Rightarrow> (case check s of None \<Rightarrow> None | Some t \<Rightarrow> Some [(k, Some t)])
      | Some _ \<Rightarrow> None)"

definition parse_patch :: "crm_lib \<Rightarrow> json option \<Rightarrow> patch option" where
  "parse_patch E body =
     (case body of
        Some (JObj kvs) \<Rightarrow>
          if \<not> only_keys [''name'', ''email'', ''support_tier'', ''address''] kvs then None
          else (case (patch_field (patch_text 200) ''name'' kvs, patch_field (cr_email E) ''email'' kvs,
                      patch_field (patch_text 50) ''support_tier'' kvs,
                      patch_field (patch_text 1000) ''address'' kvs) of
                  (Some n, Some e, Some t, Some a) \<Rightarrow>
                    let p = n @ e @ t @ a in if p = [] then None else Some p
                | _ \<Rightarrow> None)
      | _ \<Rightarrow> None)"

section \<open>The routes\<close>

definition customer_not_found :: py_exn where
  "customer_not_found = HTTPException 404 ''CUSTOMER_NOT_FOUND'' []"

definition customer_json :: "crm_customer \<Rightarrow> json" where
  "customer_json c =
     JObj [(''customer_id'', JStr (cu_id c)), (''name'', JStr (cu_name c)), (''email'', JStr (cu_email c)),
           (''support_tier'', JStr (cu_support_tier c)), (''address'', JStr (cu_address c))]"

definition read_customer :: "string \<Rightarrow> database \<Rightarrow> json option res \<times> database" where
  "read_customer k db =
     in_session (\<lambda>d.
       case customer_get k d of
         None \<Rightarrow> (Inl customer_not_found, d)
       | Some c \<Rightarrow> (Inr (Some (customer_json c)), d)) db"

definition set_field :: "string \<Rightarrow> string \<Rightarrow> crm_customer \<Rightarrow> crm_customer" where
  "set_field k v c =
     (if k = ''name'' then c\<lparr>cu_name := v\<rparr> else if k = ''email'' then c\<lparr>cu_email := v\<rparr>
      else if k = ''support_tier'' then c\<lparr>cu_support_tier := v\<rparr>
      else if k = ''address'' then c\<lparr>cu_address := v\<rparr> else c)"

text \<open>The flush of a row with a \<open>NULL\<close> in one of its columns violates \<open>NOT NULL\<close>.\<close>

fun apply_patch :: "patch \<Rightarrow> crm_customer \<Rightarrow> crm_customer res" where
  "apply_patch [] c = Inr c"
| "apply_patch ((k, v) # p) c =
     (case v of
        None \<Rightarrow> Inl (IntegrityError (''crm_customers.'' @ k))
      | Some s \<Rightarrow> apply_patch p (set_field k s c))"

definition update_customer :: "string \<Rightarrow> patch \<Rightarrow> database \<Rightarrow> json option res \<times> database" where
  "update_customer k p db =
     in_session (\<lambda>d.
       case customer_get k d of
         None \<Rightarrow> (Inl customer_not_found, d)
       | Some c \<Rightarrow>
           (case apply_patch p c of
              Inl e \<Rightarrow> (Inl e, d)
            | Inr c' \<Rightarrow>
                (case customer_flush c' d of
                   (Inl e, d') \<Rightarrow> (Inl e, d')
                 | (Inr c', d') \<Rightarrow> (Inr (Some (customer_json c')), d')))) db"

definition delete_customer :: "string \<Rightarrow> database \<Rightarrow> json option res \<times> database" where
  "delete_customer k db =
     in_session (\<lambda>d.
       case customer_get k d of
         None \<Rightarrow> (Inl customer_not_found, d)
       | Some c \<Rightarrow> (Inr None, customer_delete c d)) db"

section \<open>The application\<close>

text \<open>The route \<open>/customers/{customer_id}\<close>: the rest of the path is one segment, which is not empty.\<close>

definition customer_of_path :: "string \<Rightarrow> string option" where
  "customer_of_path p =
     (if starts_with ''/customers/'' p \<and> drop 11 p \<noteq> [] \<and> CHR ''/'' \<notin> set (drop 11 p)
      then Some (drop 11 p) else None)"

lemma customer_of_path_iff:
  "customer_of_path p = Some k \<longleftrightarrow> p = ''/customers/'' @ k \<and> k \<noteq> [] \<and> CHR ''/'' \<notin> set k"
proof
  assume some: "customer_of_path p = Some k"
  then have k: "starts_with ''/customers/'' p" "k = drop 11 p" "k \<noteq> []" "CHR ''/'' \<notin> set k"
    unfolding customer_of_path_def by (auto split: if_splits)
  have "take (length ''/customers/'') p = ''/customers/''" using k(1) by (simp only: starts_with_def)
  moreover have "length ''/customers/'' = 11" by simp
  ultimately have "''/customers/'' @ k = take 11 p @ drop 11 p" unfolding k(2) by (simp only:)
  then have "p = ''/customers/'' @ k" by (simp only: append_take_drop_id)
  with k(3,4) show "p = ''/customers/'' @ k \<and> k \<noteq> [] \<and> CHR ''/'' \<notin> set k" by blast
next
  assume "p = ''/customers/'' @ k \<and> k \<noteq> [] \<and> CHR ''/'' \<notin> set k"
  then show "customer_of_path p = Some k" by (simp add: customer_of_path_def starts_with_def)
qed

text \<open>Header names are compared in lower case.\<close>

definition header :: "string \<Rightarrow> http_request \<Rightarrow> string option" where
  "header k q = map_of (map (\<lambda>(n, v). (lower n, v)) (hq_headers q)) (lower k)"

definition dispatch :: "crm_lib \<Rightarrow> crm_settings \<Rightarrow> string \<Rightarrow> http_request \<Rightarrow> database
    \<Rightarrow> json option res \<times> database" where
  "dispatch E s k q db =
     (if hq_method q = ''PATCH'' then
        (case (parse_patch E (hq_body q), require_internal_key s (header ''X-Internal-API-Key'' q)) of
           (_, Inl e) \<Rightarrow> (Inl e, db)
         | (None, Inr _) \<Rightarrow> (Inl (ValidationError ''CustomerPatch''), db)
         | (Some p, Inr _) \<Rightarrow> update_customer k p db)
      else
        (case require_internal_key s (header ''X-Internal-API-Key'' q) of
           Inl e \<Rightarrow> (Inl e, db)
         | Inr _ \<Rightarrow> if hq_method q = ''DELETE'' then delete_customer k db else read_customer k db))"

definition render_response :: "crm_lib \<Rightarrow> json option res \<Rightarrow> http_response" where
  "render_response E r =
     (case r of
        Inr (Some j) \<Rightarrow> \<lparr>hp_status_code = 200, hp_json = Some j\<rparr>
      | Inr None \<Rightarrow> \<lparr>hp_status_code = 204, hp_json = None\<rparr>
      | Inl (HTTPException n code m) \<Rightarrow>
          \<lparr>hp_status_code = int n, hp_json = Some (JObj [(''detail'', JObj [(''code'', JStr code)])])\<rparr>
      | Inl (ValidationError m) \<Rightarrow> \<lparr>hp_status_code = 422, hp_json = Some (cr_invalid_body E)\<rparr>
      | Inl e \<Rightarrow> \<lparr>hp_status_code = 500, hp_json = None\<rparr>)"

text \<open>\<open>crm_routes\<close> is the application on a request that arrived with the path \<open>p\<close>, \<open>crm_app\<close> the HTTP
  client in front of it.\<close>

definition crm_routes :: "crm_lib \<Rightarrow> crm_settings \<Rightarrow> string \<Rightarrow> http_request \<Rightarrow> database
    \<Rightarrow> http_response \<times> database" where
  "crm_routes E s p q db =
     (case customer_of_path p of
        Some k \<Rightarrow>
          if hq_method q \<in> {''GET'', ''PATCH'', ''DELETE''}
          then (case dispatch E s k q db of (r, db') \<Rightarrow> (render_response E r, db'))
          else (cr_other_route E p q, db)
      | None \<Rightarrow> (cr_other_route E p q, db))"

definition sent_to :: "crm_lib \<Rightarrow> (string \<Rightarrow> http_request \<Rightarrow> database \<Rightarrow> http_response \<times> database) \<Rightarrow>
    database http_client" where
  "sent_to E app q db =
     (case cr_target E (hq_base_url q) (hq_path q) of
        Inl failure \<Rightarrow> (Inl failure, db)
      | Inr p \<Rightarrow> (case app p q db of (r, db') \<Rightarrow> (Inr r, db')))"

definition crm_app :: "crm_lib \<Rightarrow> crm_settings \<Rightarrow> database http_client" where
  "crm_app E s = sent_to E (crm_routes E s)"

section \<open>Properties\<close>

lemma require_internal_key_Inr:
  "require_internal_key s k = Inr u \<longleftrightarrow>
     is_ascii (cs_internal_api_key s) \<and> k = Some (cs_internal_api_key s)"
  by (auto simp: require_internal_key_def compare_digest_def split: option.splits if_splits)

lemma update_customer_Inr:
  "update_customer k p db = (Inr r, db') \<longleftrightarrow>
     (\<exists>c c'. customer_get k db = Some c \<and> apply_patch p c = Inr c' \<and>
        customer_flush c' db = (Inr c', db') \<and> r = Some (customer_json c'))"
proof -
  have "customer_flush c' d = (Inr x, d') \<Longrightarrow> x = c'" for c' d x d'
    by (simp add: customer_flush_def insert_row_Inr)
  then show ?thesis
    by (auto simp: update_customer_def in_session_Inr split: option.splits sum.splits prod.splits)
qed

lemma update_customer_Inl: "update_customer k p db = (Inl e, db') \<Longrightarrow> db' = db"
  by (auto simp: update_customer_def in_session_def split: prod.splits sum.splits)

lemma delete_customer_cases:
  "delete_customer k db = (case customer_get k db of
     None \<Rightarrow> (Inl customer_not_found, db) | Some c \<Rightarrow> (Inr None, customer_delete c db))"
  by (auto simp: delete_customer_def in_session_def split: option.splits)

lemma read_customer_cases:
  "read_customer k db = (case customer_get k db of
     None \<Rightarrow> (Inl customer_not_found, db) | Some c \<Rightarrow> (Inr (Some (customer_json c)), db))"
  by (auto simp: read_customer_def in_session_def split: option.splits)

lemma apply_patch_id: "apply_patch p c = Inr c' \<Longrightarrow> cu_id c' = cu_id c"
  by (induction p c rule: apply_patch.induct) (auto simp: set_field_def split: option.splits if_splits)

lemma update_customer_wf:
  assumes "db_wf db" "update_customer k p db = (r, db')"
  shows "db_wf db'"
proof (cases r)
  case (Inl e)
  with assms show ?thesis using update_customer_Inl by blast
next
  case (Inr x)
  with assms show ?thesis by (auto simp: update_customer_Inr intro: customer_flush_wf)
qed

lemma delete_customer_wf: "db_wf db \<Longrightarrow> delete_customer k db = (r, db') \<Longrightarrow> db_wf db'"
  by (auto simp: delete_customer_cases split: option.splits intro: customer_delete_wf)

lemma read_customer_db: "read_customer k db = (r, db') \<Longrightarrow> db' = db"
  by (auto simp: read_customer_cases split: option.splits)

lemma dispatch_wf: "db_wf db \<Longrightarrow> dispatch E s k q db = (r, db') \<Longrightarrow> db_wf db'"
  by (auto simp: dispatch_def split: if_splits option.splits sum.splits
      dest: update_customer_wf delete_customer_wf read_customer_db)

lemma dispatch_refused:
  assumes "require_internal_key s (header ''X-Internal-API-Key'' q) = Inl e"
  shows "dispatch E s k q db = (Inl e, db)"
  using assms by (simp add: dispatch_def split: option.splits)

lemma require_internal_key_Inl:
  "require_internal_key s k = Inl e \<Longrightarrow> e = invalid_credential \<or> (\<exists>m. e = TypeError m)"
  by (auto simp: require_internal_key_def compare_digest_def split: option.splits if_splits)

text \<open>(C29) Without the internal key the CRM changes and discloses nothing: whatever the request, the database
  stays as it is, and a request that arrives at a customer route, for any identifier in its path, is
  answered with 401, or with 500 when the key is not ASCII, and no customer data.\<close>

theorem crm_requires_credential:
  assumes key: "header ''X-Internal-API-Key'' q \<noteq> Some (cs_internal_api_key s)"
  shows "snd (crm_app E s q db) = db \<and>
    (\<forall>p k. cr_target E (hq_base_url q) (hq_path q) = Inr p \<and> customer_of_path p = Some k \<and>
       hq_method q \<in> {''GET'', ''PATCH'', ''DELETE''} \<longrightarrow>
       (\<exists>n body. fst (crm_app E s q db) = Inr \<lparr>hp_status_code = n, hp_json = body\<rparr> \<and> n \<in> {401, 500} \<and>
          body \<in> {None, Some (JObj [(''detail'', JObj [(''code'', JStr ''INVALID_INTERNAL_CREDENTIAL'')])])}))"
proof -
  obtain e where e: "require_internal_key s (header ''X-Internal-API-Key'' q) = Inl e"
    using key require_internal_key_Inr [of s "header ''X-Internal-API-Key'' q"]
    by (cases "require_internal_key s (header ''X-Internal-API-Key'' q)") auto
  have "snd (crm_app E s q db) = db"
    using dispatch_refused [OF e]
    by (auto simp: crm_app_def sent_to_def crm_routes_def split: sum.splits option.splits prod.splits)
  then show ?thesis
    using dispatch_refused [OF e] require_internal_key_Inl [OF e]
    by (auto simp: crm_app_def sent_to_def crm_routes_def render_response_def invalid_credential_def)
qed

text \<open>Whatever request reaches the CRM, the schema of the database holds afterwards.\<close>

lemma crm_app_keeps_schema: "db_wf db \<Longrightarrow> db_wf (snd (crm_app E s q db))"
  by (auto simp: crm_app_def sent_to_def crm_routes_def split: sum.splits option.splits prod.splits dest: dispatch_wf)

text \<open>The value a field has after a patch.\<close>

fun field_of :: "string \<Rightarrow> crm_customer \<Rightarrow> string" where
  "field_of k c =
     (if k = ''name'' then cu_name c else if k = ''email'' then cu_email c
      else if k = ''support_tier'' then cu_support_tier c else cu_address c)"

definition patch_keys :: "string list" where
  "patch_keys = [''name'', ''email'', ''support_tier'', ''address'']"

lemma field_of_set:
  "k \<in> set patch_keys \<Longrightarrow> j \<in> set patch_keys \<Longrightarrow>
   field_of k (set_field j v c) = (if k = j then v else field_of k c)"
  by (auto simp: patch_keys_def set_field_def)

lemma apply_patch_fields:
  "apply_patch p c = Inr c' \<Longrightarrow> distinct (map fst p) \<Longrightarrow> fst ` set p \<subseteq> set patch_keys \<Longrightarrow> k \<in> set patch_keys \<Longrightarrow>
   field_of k c' = (case map_of p k of Some (Some v) \<Rightarrow> v | _ \<Rightarrow> field_of k c)"
proof (induction p c rule: apply_patch.induct)
  case (2 j v p c)
  then obtain s where v: "v = Some s" "apply_patch p (set_field j s c) = Inr c'"
    by (cases v) auto
  have "j \<notin> fst ` set p" using "2.prems"(2) by simp
  then have "map_of p j = None" by (simp add: map_of_eq_None_iff)
  with 2 v show ?case by (auto simp: field_of_set split: option.splits simp del: field_of.simps)
qed simp

lemma patch_field_keys: "patch_field f k kvs = Some p \<Longrightarrow> map fst p = [] \<or> map fst p = [k]"
  by (auto simp: patch_field_def split: option.splits json.splits)

lemma parse_patch_keys:
  assumes "parse_patch E body = Some p"
  shows "distinct (map fst p) \<and> fst ` set p \<subseteq> set patch_keys \<and> p \<noteq> []"
proof -
  obtain kvs n e t a where parts: "patch_field (patch_text 200) ''name'' kvs = Some n"
    "patch_field (cr_email E) ''email'' kvs = Some e" "patch_field (patch_text 50) ''support_tier'' kvs = Some t"
    "patch_field (patch_text 1000) ''address'' kvs = Some a" and p: "p = n @ e @ t @ a" "p \<noteq> []"
    using assms by (auto simp: parse_patch_def Let_def split: option.splits json.splits if_splits)
  have "map fst p = map fst n @ map fst e @ map fst t @ map fst a" by (simp add: p)
  then have "distinct (map fst p) \<and> set (map fst p) \<subseteq> set patch_keys"
    using patch_field_keys [OF parts(1)] patch_field_keys [OF parts(2)] patch_field_keys [OF parts(3)]
      patch_field_keys [OF parts(4)] by (auto simp: patch_keys_def)
  with p(2) show ?thesis by simp
qed

text \<open>(C30) A successful patch changes exactly the fields it names, to the values it gives, in the one
  customer it addresses; the answer shows the new record.\<close>

theorem patch_outcome:
  assumes "parse_patch E body = Some p" "update_customer k p db = (Inr r, db')"
  shows "\<exists>c c'. customer_get k db = Some c \<and> customer_get k db' = Some c' \<and> r = Some (customer_json c') \<and>
    (\<forall>j \<in> set patch_keys. field_of j c' = (case map_of p j of Some (Some v) \<Rightarrow> v | _ \<Rightarrow> field_of j c)) \<and>
    (\<forall>i. i \<noteq> k \<longrightarrow> customer_get i db' = customer_get i db)"
proof -
  obtain c c' where c: "customer_get k db = Some c" "apply_patch p c = Inr c'"
    and flush: "customer_flush c' db = (Inr c', db')" and r: "r = Some (customer_json c')"
    using assms(2) by (auto simp: update_customer_Inr)
  have id: "cu_id c' = k" using apply_patch_id [OF c(2)] c(1) by (auto simp: customer_get_def dest: row_of_SomeD)
  have db': "db' = db\<lparr>db_customers := replace_row cu_id c' (db_customers db)\<rparr>"
    using flush by (simp add: customer_flush_def insert_row_Inr)
  have "customer_get k db' = Some c'" "\<forall>i. i \<noteq> k \<longrightarrow> customer_get i db' = customer_get i db"
    using c(1) id by (simp_all add: db' customer_get_def row_of_replace)
  moreover have "\<forall>j \<in> set patch_keys. field_of j c' = (case map_of p j of Some (Some v) \<Rightarrow> v | _ \<Rightarrow> field_of j c)"
    using apply_patch_fields [OF c(2)] parse_patch_keys [OF assms(1)] by blast
  ultimately show ?thesis using c(1) r by blast
qed

lemma apply_patch_null: "None \<in> snd ` set p \<Longrightarrow> \<exists>j. apply_patch p c = Inl (IntegrityError (''crm_customers.'' @ j))"
proof (induction p arbitrary: c)
  case (Cons x p)
  then show ?case by (cases x; cases "snd x") auto
qed simp

text \<open>The patch model admits an explicit \<open>null\<close>; the route then fails with a server error on the
  \<open>NOT NULL\<close> column instead of a validation error, and rolls back.\<close>

lemma null_patch_is_server_error:
  assumes "parse_patch E body = Some p" "None \<in> snd ` set p" "customer_get k db = Some c"
  shows "\<exists>e. update_customer k p db = (Inl e, db) \<and>
    render_response E (Inl e) = \<lparr>hp_status_code = 500, hp_json = None\<rparr>"
proof -
  obtain j where "apply_patch p c = Inl (IntegrityError (''crm_customers.'' @ j))"
    using apply_patch_null [OF assms(2)] by blast
  then show ?thesis using assms(3) by (simp add: update_customer_def in_session_def render_response_def)
qed

end
