(* ===== verification/EndToEnd.thy ===== *)
theory EndToEnd
  imports Concurrency Seed SampleCrm
begin

text \<open>
  The proxy in front of the CRM: \<open>execute_call\<close> with the HTTP adapter whose client is the CRM
  application itself.  The properties follow one call from the decision to the customer table.
\<close>

definition proxied :: "crm_lib \<Rightarrow> proxy_settings \<Rightarrow> crm_settings \<Rightarrow> database adapter" where
  "proxied E s cs = crm_execute (new_crm_adapter s) (crm_app E cs)"

definition shared_key :: "proxy_settings \<Rightarrow> crm_settings \<Rightarrow> bool" where
  "shared_key s cs \<longleftrightarrow>
     px_crm_internal_api_key s = cs_internal_api_key cs \<and> is_ascii (cs_internal_api_key cs)"

text \<open>
  Identifiers of letters, digits, \<open>-\<close> and \<open>_\<close> are characters RFC 3986 leaves unescaped.
  \<open>direct_target\<close>: with the configured base URL, which names no path of its own, the path of such an
  identifier arrives at the application as it was written.
\<close>

definition plain_char :: "char \<Rightarrow> bool" where
  "plain_char c \<longleftrightarrow>
     (let n = of_char c :: nat
      in 48 \<le> n \<and> n \<le> 57 \<or> 65 \<le> n \<and> n \<le> 90 \<or> 97 \<le> n \<and> n \<le> 122 \<or> n = 45 \<or> n = 95)"

definition plain_id :: "string \<Rightarrow> bool" where
  "plain_id s \<longleftrightarrow> s \<noteq> [] \<and> list_all plain_char s"

definition direct_target :: "crm_lib \<Rightarrow> proxy_settings \<Rightarrow> bool" where
  "direct_target E s \<longleftrightarrow>
     (\<forall>k. plain_id k \<longrightarrow>
        cr_target E (ca_base_url (new_crm_adapter s)) (''/customers/'' @ k) = Inr (''/customers/'' @ k))"

lemma get_keeps_crm: "hq_method q = ''GET'' \<Longrightarrow> snd (crm_app E cs q crm) = crm"
  by (auto simp: crm_app_def sent_to_def crm_routes_def dispatch_def split: option.splits prod.splits sum.splits
      dest: read_customer_db)

lemma read_request:
  "crm_request a ''crm'' ''read_customer'' [(''customer_id'', JStr k)] = Inr
     \<lparr>hq_base_url = ca_base_url a, hq_timeout = ca_timeout a, hq_method = ''GET'',
      hq_path = ''/customers/'' @ k, hq_headers = [(''X-Internal-API-Key'', ca_internal_key a)], hq_body = None\<rparr>"
  by (simp add: crm_request_def py_str_def Let_def)

lemma customer_of_plain: "plain_id k \<Longrightarrow> customer_of_path (''/customers/'' @ k) = Some k"
proof -
  assume k: "plain_id k"
  have "\<not> plain_char CHR ''/''" by (simp add: plain_char_def)
  with k have "CHR ''/'' \<notin> set k" by (auto simp: plain_id_def list_all_iff)
  with k show ?thesis by (simp add: customer_of_path_iff plain_id_def)
qed

lemma internal_key_sent [simp]: "hq_headers q = [(k, v)] \<Longrightarrow> header k q = Some v"
  by (simp add: header_def)

lemma proxied_read_keeps:
  "proxied E s cs ''crm'' ''read_customer'' [(''customer_id'', JStr k)] crm = (x, crm') \<Longrightarrow> crm' = crm"
  by (auto simp: proxied_def crm_execute_def read_request get_keeps_crm split: prod.splits dest: arg_cong [where f = snd])

lemma proxied_read_result:
  assumes "shared_key s cs" "direct_target E s" "plain_id k"
  shows "fst (proxied E s cs ''crm'' ''read_customer'' [(''customer_id'', JStr k)] crm) =
    (case customer_get k crm of
       None \<Rightarrow> Inl (ToolExecutionError ''UPSTREAM_TOOL_ERROR'' ''The protected tool rejected the request'' (Some 404))
     | Some c \<Rightarrow> Inr \<lparr>tx_result = Some (customer_json c), tx_upstream_status_code = 200\<rparr>)"
proof -
  have "customer_of_path (''/customers/'' @ k) = Some k" using customer_of_plain [OF assms(3)] .
  moreover have "cr_target E (ca_base_url (new_crm_adapter s)) (''/customers/'' @ k) = Inr (''/customers/'' @ k)"
    using assms(2,3) by (simp add: direct_target_def)
  moreover have "require_internal_key cs (Some (px_crm_internal_api_key s)) = Inr ()"
    using assms(1) by (simp add: require_internal_key_Inr shared_key_def)
  ultimately show ?thesis
    by (simp add: proxied_def crm_execute_def read_request crm_app_def sent_to_def crm_routes_def dispatch_def
        new_crm_adapter_def read_customer_cases render_response_def request_outcome_def response_result_def
        customer_not_found_def customer_json_def split: option.splits prod.splits)
qed

text \<open>(C6) The seeded agent end to end: whatever it calls, the customer table of the CRM is unchanged, and
  a result it is given is the stored record of the customer its session is bound to (for session
  customers whose identifier needs no escaping in a URL).\<close>

theorem seeded_agent_end_to_end:
  assumes "seed_in_force db" "cl_agent_id call = seed_agent_id" "distinct (map fst (cl_parameters call))"
    and "shared_key s cs" "direct_target E s" "plain_id (tc_customer_id (cl_session call))"
    and run: "execute_call P (proxied E s cs) call env (db, crm) = (r, db', crm')"
  shows "crm' = crm \<and>
    (\<forall>out j. r = Inr out \<and> tco_result out = Some j \<longrightarrow>
       tco_decision out = ''allow'' \<and> cl_operation call = ''read_customer'' \<and>
       (\<exists>c. customer_get (tc_customer_id (cl_session call)) crm = Some c \<and> j = customer_json c))"
  using run
proof (cases rule: execute_call_cases)
  case (answered out)
  then show ?thesis using begin_call_Answered [OF answered(1)] by auto
next
  case (forwarded policy latency db1 x)
  let ?k = "tc_customer_id (cl_session call)"
  have call: "cl_tool call = ''crm''" "cl_operation call = ''read_customer''"
    "cl_parameters call = [(''customer_id'', JStr ?k)]"
    using seed_authority [OF assms(1,3), of P "cl_session call" "cl_tool call" "cl_operation call"]
      begin_call_Forward(3,4) [OF forwarded(1)] assms(2) by auto
  have x: "x = fst (proxied E s cs ''crm'' ''read_customer'' [(''customer_id'', JStr ?k)] crm)"
    and "crm' = crm"
    using forwarded(2) proxied_read_keeps by (auto simp: call)
  moreover have "tco_decision out = ''allow'' \<and> (\<exists>c. customer_get ?k crm = Some c \<and> j = customer_json c)"
    if out: "r = Inr out" "tco_result out = Some j" for out j
  proof -
    obtain dec where dec: "decision_of (tco_decision out) = Some dec" and
      "(\<exists>c m s. x = Inl (ToolExecutionError c m s) \<and> tco_result out = None) \<or>
       (\<exists>t. x = Inr t \<and> dec = DecisionAllow \<and> tco_result out = tx_result t)"
      using finish_call_Inr [of call env policy latency x db1 out db'] forwarded(3) out(1) by blast
    then obtain t where t: "x = Inr t" "dec = DecisionAllow" "tx_result t = Some j" using out(2) by auto
    have "tco_decision out = ''allow''"
      using dec t(2) by (auto simp: decision_of_def split: if_splits)
    with t show ?thesis
      using x proxied_read_result [OF assms(4-6), of crm] by (auto split: option.splits)
  qed
  ultimately show ?thesis using call by blast
qed simp

lemma update_other: "update_customer k p crm = (r, crm') \<Longrightarrow> i \<noteq> k \<Longrightarrow> customer_get i crm' = customer_get i crm"
proof (cases r)
  case (Inr y)
  assume upd: "update_customer k p crm = (r, crm')" and "i \<noteq> k"
  with Inr obtain c c' where c: "customer_get k crm = Some c" "apply_patch p c = Inr c'"
    "customer_flush c' crm = (Inr c', crm')" by (auto simp: update_customer_Inr)
  moreover have "cu_id c' = k"
    using apply_patch_id [OF c(2)] c(1) by (auto simp: customer_get_def dest: row_of_SomeD)
  ultimately show ?thesis using \<open>i \<noteq> k\<close>
    by (auto simp: customer_flush_def insert_row_Inr customer_get_def row_of_replace)
qed (auto dest: update_customer_Inl)

lemma delete_other: "delete_customer k crm = (r, crm') \<Longrightarrow> i \<noteq> k \<Longrightarrow> customer_get i crm' = customer_get i crm"
  by (auto simp: delete_customer_cases customer_delete_def customer_get_def row_of_remove
      split: option.splits dest: row_of_SomeD)

lemma crm_app_other:
  assumes "crm_app E cs q crm = (a, crm')" "crm' \<noteq> crm"
  shows "\<exists>k. cr_target E (hq_base_url q) (hq_path q) = Inr (''/customers/'' @ k) \<and> k \<noteq> [] \<and> CHR ''/'' \<notin> set k \<and>
    hq_method q \<in> {''PATCH'', ''DELETE''} \<and> (\<forall>i. i \<noteq> k \<longrightarrow> customer_get i crm' = customer_get i crm)"
  using assms
  by (auto simp: crm_app_def sent_to_def crm_routes_def dispatch_def customer_of_path_iff
      split: option.splits if_splits prod.splits sum.splits dest: read_customer_db intro: update_other delete_other)

text \<open>(C16) Confinement: a proxied call of any agent that changes the CRM was allowed by the policy, is a
  write or a delete, and leaves every customer as it was but the one in whose path the URL of its
  \<open>customer_id\<close> arrives at the CRM; for an identifier that needs no escaping that is the customer it
  names.  Another identifier may stand for another customer, since the adapter does not escape it.\<close>

theorem proxied_effect_confined:
  assumes run: "execute_call P (proxied E s cs) call env (db, crm) = (r, db', crm')" and "crm' \<noteq> crm"
  shows "\<exists>policy cid k.
    evaluate P (cl_agent_id call) (cl_session call) (cl_tool call) (cl_operation call)
      (cl_parameters call) (ce_evaluated_at env) db = Inr policy \<and> pd_allowed policy \<and>
    cl_operation call \<in> {''write_customer'', ''delete_customer''} \<and>
    map_of (cl_parameters call) ''customer_id'' = Some cid \<and>
    cr_target E (ca_base_url (new_crm_adapter s)) (''/customers/'' @ py_str cid) = Inr (''/customers/'' @ k) \<and>
    CHR ''/'' \<notin> set k \<and> (\<forall>i. i \<noteq> k \<longrightarrow> customer_get i crm' = customer_get i crm) \<and>
    (direct_target E s \<and> plain_id (py_str cid) \<longrightarrow> k = py_str cid)"
  using run
proof (cases rule: execute_call_cases)
  case (forwarded policy latency db1 x)
  show ?thesis
  proof (cases rule: crm_execute_cases [of "new_crm_adapter s" "cl_tool call" "cl_operation call"
        "cl_parameters call" "crm_app E cs" crm])
    case (refused e)
    with forwarded(2) assms(2) show ?thesis by (simp add: proxied_def)
  next
    case (sent q)
    obtain a crm2 where app: "crm_app E cs q crm = (a, crm2)" by (cases "crm_app E cs q crm")
    have "crm2 = crm'" using forwarded(2) sent(2) app by (simp add: proxied_def)
    with app obtain k where k: "cr_target E (hq_base_url q) (hq_path q) = Inr (''/customers/'' @ k)"
      "CHR ''/'' \<notin> set k" "hq_method q \<in> {''PATCH'', ''DELETE''}" "\<forall>i. i \<noteq> k \<longrightarrow> customer_get i crm' = customer_get i crm"
      using assms(2) crm_app_other by blast
    obtain cid where cid: "map_of (cl_parameters call) ''customer_id'' = Some cid" "hq_path q = ''/customers/'' @ py_str cid"
      and base: "hq_base_url q = ca_base_url (new_crm_adapter s)" and verb: "hq_method q = method_of (cl_operation call)"
      using crm_request_Inr [OF sent(1)] by blast
    have "cl_operation call \<in> {''write_customer'', ''delete_customer''}"
      using k(3) verb crm_request_supported [OF sent(1)]
      by (auto simp: method_of_def crm_supported_def crm_operations_def)
    moreover have "k = py_str cid" if "direct_target E s" "plain_id (py_str cid)"
      using that k(1) cid(2) base by (simp add: direct_target_def)
    ultimately show ?thesis
      using k(1,2,4) [unfolded cid(2) base] cid(1) begin_call_Forward(3,4) [OF forwarded(1)]
      by (intro exI [of _ policy] exI [of _ cid] exI [of _ k] conjI impI) simp_all
  qed
qed (use assms(2) in simp_all)

text \<open>The other identifiers: the proxy deletes whatever customer the URL arrives at, under the
  identifier the caller wrote.\<close>

lemma proxied_delete_by_path:
  assumes "shared_key s cs" "customer_get k crm = Some c" "k \<noteq> []" "CHR ''/'' \<notin> set k"
    and "cr_target E (ca_base_url (new_crm_adapter s)) (''/customers/'' @ written) = Inr (''/customers/'' @ k)"
  shows "proxied E s cs ''crm'' ''delete_customer'' [(''customer_id'', JStr written)] crm =
    (Inr \<lparr>tx_result = None, tx_upstream_status_code = 204\<rparr>, customer_delete c crm)"
proof -
  have "customer_of_path (''/customers/'' @ k) = Some k" using assms(3,4) by (simp add: customer_of_path_iff)
  moreover have "require_internal_key cs (Some (px_crm_internal_api_key s)) = Inr ()"
    using assms(1) by (simp add: require_internal_key_Inr shared_key_def)
  ultimately show ?thesis
    using assms(2,5)
    by (simp add: proxied_def crm_execute_def crm_request_def py_str_def crm_app_def sent_to_def crm_routes_def
        dispatch_def new_crm_adapter_def delete_customer_cases render_response_def request_outcome_def
        response_result_def Let_def)
qed

end
