(* ===== verification/System.thy ===== *)
theory System
  imports Runs Api EndToEnd
begin

text \<open>
  The database of the proxy over its lifetime.  \<open>db_step\<close> has one rule per operation that writes:
  the session endpoints, the two phases of a tool call (so that calls overlap), the activation of
  a manifest and the seeding.  The invariants hold along every sequence of steps: the schema, an
  audit trail that only grows, manifests that are immutable and only move forward in their life
  cycle, and sessions that keep their identity and stay revoked once revoked.
\<close>

section \<open>Steps\<close>

inductive db_step :: "database \<Rightarrow> database \<Rightarrow> bool" where
  session_created: "post_session ae cr r u1 u2 now db = (x, db') \<Longrightarrow> db_step db db'"
| session_revoked: "post_revoke ae cr k now db = (x, db') \<Longrightarrow> db_step db db'"
| manifest_activated: "in_session (manifest_activate mid by now) db = (m, db') \<Longrightarrow> db_step db db'"
| database_seeded: "seed_phase_1 now db = (s, db') \<Longrightarrow> db_step db db'"
| call_begun: "begin_call P call env db = (step, db') \<Longrightarrow> db_step db db'"
| call_finished: "finish_call call env policy latency x db = (out, db') \<Longrightarrow> db_step db db'"

inductive_cases db_stepE: "db_step db db'"

section \<open>What evolves, and how\<close>

definition manifest_successor :: "permission_manifest \<Rightarrow> permission_manifest \<Rightarrow> bool" where
  "manifest_successor m m' \<longleftrightarrow>
     pm_document m' = pm_document m \<and> pm_checksum m' = pm_checksum m \<and> pm_agent_id m' = pm_agent_id m \<and>
     pm_version m' = pm_version m \<and> pm_effective_from m' = pm_effective_from m \<and>
     pm_expires_at m' = pm_expires_at m \<and> pm_status m \<le> pm_status m'"

definition session_successor :: "agent_session \<Rightarrow> agent_session \<Rightarrow> bool" where
  "session_successor s s' \<longleftrightarrow>
     se_token_jti s' = se_token_jti s \<and> se_agent_id s' = se_agent_id s \<and> se_user_id s' = se_user_id s \<and>
     se_customer_id s' = se_customer_id s \<and> se_expires_at s' = se_expires_at s \<and>
     (se_status s = SessionRevoked \<longrightarrow> s' = s)"

definition evolves :: "database \<Rightarrow> database \<Rightarrow> bool" where
  "evolves db db' \<longleftrightarrow>
     (\<exists>new. db_events db' = db_events db @ new) \<and>
     (\<forall>k m. manifest_get k db = Some m \<longrightarrow> (\<exists>m'. manifest_get k db' = Some m' \<and> manifest_successor m m')) \<and>
     (\<forall>k s. session_get k db = Some s \<longrightarrow> (\<exists>s'. session_get k db' = Some s' \<and> session_successor s s'))"

lemma manifest_successor_refl [simp]: "manifest_successor m m"
  by (simp add: manifest_successor_def)

lemma session_successor_refl [simp]: "session_successor s s"
  by (simp add: session_successor_def)

lemma evolves_refl: "evolves db db"
  by (simp add: evolves_def)

lemma manifest_successor_trans: "manifest_successor x y \<Longrightarrow> manifest_successor y z \<Longrightarrow> manifest_successor x z"
  by (auto simp: manifest_successor_def)

lemma session_successor_trans: "session_successor x y \<Longrightarrow> session_successor y z \<Longrightarrow> session_successor x z"
  by (auto simp: session_successor_def)

lemma evolves_manifest:
  "evolves a b \<Longrightarrow> manifest_get k a = Some m \<Longrightarrow> \<exists>m'. manifest_get k b = Some m' \<and> manifest_successor m m'"
  by (simp add: evolves_def)

lemma evolves_session:
  "evolves a b \<Longrightarrow> session_get k a = Some s \<Longrightarrow> \<exists>s'. session_get k b = Some s' \<and> session_successor s s'"
  by (simp add: evolves_def)

lemma evolves_trans:
  assumes "evolves a b" "evolves b c"
  shows "evolves a c"
  unfolding evolves_def
proof (intro conjI allI impI)
  show "\<exists>new. db_events c = db_events a @ new" using assms by (auto simp: evolves_def)
  show "\<exists>m'. manifest_get k c = Some m' \<and> manifest_successor m m'" if "manifest_get k a = Some m" for k m
    using evolves_manifest [OF assms(1) that] evolves_manifest [OF assms(2)] manifest_successor_trans by meson
  show "\<exists>s'. session_get k c = Some s' \<and> session_successor s s'" if "session_get k a = Some s" for k s
    using evolves_session [OF assms(1) that] evolves_session [OF assms(2)] session_successor_trans by meson
qed

lemma evolves_same:
  "db_events db' = db_events db \<Longrightarrow> db_manifests db' = db_manifests db \<Longrightarrow> db_sessions db' = db_sessions db \<Longrightarrow>
   evolves db db'"
  by (simp add: evolves_def manifest_get_def session_get_def)

lemma evolves_events:
  "db_events db' = db_events db @ new \<Longrightarrow> db_manifests db' = db_manifests db \<Longrightarrow>
   db_sessions db' = db_sessions db \<Longrightarrow> evolves db db'"
  by (simp add: evolves_def manifest_get_def session_get_def)

section \<open>Each operation\<close>

lemma post_session_cases:
  "post_session ae cr r u1 u2 now db = (x, db') \<Longrightarrow>
     db' = db \<or> (\<exists>subject c. create_session (ae_jwt ae) (ae_settings ae) (cq_agent_id r) (cq_user_id r)
        (cq_customer_id r) subject (cq_ttl_seconds r) u1 u2 now db = (c, db'))"
  by (auto simp: post_session_def split: sum.splits if_splits prod.splits)

lemma create_session_evolves:
  assumes "create_session L s agent user customer by ttl u1 u2 now db = (x, db')"
  shows "evolves db db'"
proof (cases x)
  case (Inl e)
  with assms have "db' = db" using create_session_Inl by blast
  then show ?thesis by (simp add: evolves_refl)
next
  case (Inr c)
  with assms have add: "session_add (new_session_row agent user customer by (session_ttl s ttl) u1 u2 now) db =
      (Inr (new_session_row agent user customer by (session_ttl s ttl) u1 u2 now), db')"
    by (simp add: create_session_Inr)
  then show ?thesis
    using session_add_rows [OF add] sessions.get_mono [OF add]
    by (auto simp: evolves_def manifest_get_def session_get_def)
qed

lemma post_revoke_cases:
  "post_revoke ae cr k now db = (x, db') \<Longrightarrow> db' = db \<or> (\<exists>y. revoke_session k now db = (y, db'))"
  by (auto simp: post_revoke_def split: sum.splits prod.splits)

lemma revoke_session_Inl: "revoke_session k now db = (Inl e, db') \<Longrightarrow> db' = db"
  by (auto simp: revoke_session_def in_session_def split: prod.splits sum.splits)

lemma revoke_session_evolves:
  assumes "revoke_session k now db = (x, db')"
  shows "evolves db db'"
proof (cases x)
  case (Inl e)
  with assms have "db' = db" using revoke_session_Inl by blast
  then show ?thesis by (simp add: evolves_refl)
next
  case (Inr row)
  have rev: "revoke_session k now db = (Inr row, db')" using assms Inr by simp
  have "\<exists>s'. session_get j db' = Some s' \<and> session_successor s s'" if s: "session_get j db = Some s" for j s
  proof (cases "j = k")
    case False
    then show ?thesis using revoke_session_other [OF rev] s by simp
  next
    case True
    from rev show ?thesis
    proof (cases rule: revoke_session_cases)
      case (1 row0)
      have "se_id row = k" using 1(1,3) session_getD by fastforce
      then have "session_get k db' = Some (row\<lparr>se_revoked_at := Some (db_store_time db (now_utc now))\<rparr>)"
        using session_flush_get [of "row\<lparr>se_revoked_at := Some (db_store_time db (now_utc now))\<rparr>" db row0] 1(1,4)
        by simp
      then show ?thesis using 1 s True by (simp add: session_successor_def)
    next
      case 2
      then show ?thesis using s True by simp
    qed
  qed
  then show ?thesis using revoke_session_rows [OF rev] by (simp add: evolves_def manifest_get_def)
qed

lemma manifest_flush_evolves:
  assumes flush: "manifest_flush m db = (Inr x, db')" and old: "manifest_get (pm_id m) db = Some m0"
    and suc: "manifest_successor m0 m"
  shows "evolves db db'"
proof -
  have "\<exists>m'. manifest_get k db' = Some m' \<and> manifest_successor n m'" if "manifest_get k db = Some n" for k n
    using that old suc manifest_flushD [OF flush] by (auto simp: manifest_get_def row_of_replace)
  then show ?thesis using manifest_flushD [OF flush] by (simp add: evolves_def session_get_def)
qed

lemma supersede_evolves:
  assumes wf: "db_wf db" and sup: "supersede (manifest_get_active a db) t db = (Inr u, db')"
  shows "evolves db db'"
proof (cases "manifest_get_active a db")
  case None
  with sup show ?thesis by (simp add: supersede_def evolves_refl)
next
  case (Some c)
  show ?thesis
  proof (cases "pm_id c = pm_id t")
    case True
    with Some sup show ?thesis by (simp add: supersede_def evolves_refl)
  next
    case False
    with Some sup obtain x where flush: "manifest_flush (c\<lparr>pm_status := ManifestSuperseded\<rparr>) db = (Inr x, db')"
      by (auto simp: supersede_def split: prod.splits sum.splits)
    have "manifest_get (pm_id c) db = Some c" "pm_status c = ManifestActive"
      using get_active_get [OF wf Some] get_active_SomeD [OF Some] by (simp_all add: is_active_for_def)
    then show ?thesis
      by (intro manifest_flush_evolves [OF flush, of c]) (simp_all add: manifest_successor_def)
  qed
qed

lemma activate_evolves:
  assumes wf: "db_wf db" and ok: "manifest_activate mid by now db = (Inr m, db')"
  shows "evolves db db'"
  using ok
proof (cases rule: activate_cases)
  case 1
  then show ?thesis by (simp add: evolves_refl)
next
  case (2 t db1 x)
  have id: "pm_id t = mid" using 2(1) by (auto dest: manifest_getD)
  have t: "manifest_get (pm_id t) db1 = Some t" using supersede_wf [OF wf refl 2(3)] 2(1) id by simp
  have "evolves db db1" using supersede_evolves [OF wf 2(3)] .
  moreover have "evolves db1 db'"
    by (rule manifest_flush_evolves [OF 2(4), of t])
      (use t 2(2) in \<open>simp_all add: activated_row_def manifest_successor_def\<close>)
  ultimately show ?thesis by (rule evolves_trans)
qed

lemma activation_Inl: "in_session (manifest_activate mid by now) db = (Inl e, db') \<Longrightarrow> db' = db"
  by (auto simp: in_session_def split: prod.splits sum.splits)

lemma agent_add_evolves: "agent_add a db = (Inr x, db') \<Longrightarrow> evolves db db'"
  by (intro evolves_same) (auto simp: agent_add_def insert_row_Inr)

lemma tool_add_evolves: "tool_add t db = (Inr x, db') \<Longrightarrow> evolves db db'"
  by (intro evolves_same) (auto simp: tool_add_def insert_row_Inr)

lemma customer_add_evolves: "customer_add c db = (Inr x, db') \<Longrightarrow> evolves db db'"
  by (intro evolves_same) (auto simp: customer_add_def insert_row_Inr)

lemma manifest_add_evolves:
  assumes "manifest_add m db = (Inr x, db')"
  shows "evolves db db'"
proof -
  have "db_events db' = db_events db" "db_sessions db' = db_sessions db"
    using assms by (auto simp: manifest_add_def insert_row_Inr)
  then show ?thesis
    using manifests.get_mono [OF assms] by (simp add: evolves_def manifest_get_def session_get_def)
qed

text \<open>Every statement of the seeding keeps the schema and evolves the database.\<close>

definition good_step :: "database \<Rightarrow> database \<Rightarrow> bool" where
  "good_step db db' \<longleftrightarrow> (db_wf db \<longrightarrow> db_wf db' \<and> evolves db db')"

lemma good_refl [simp]: "good_step db db"
  by (simp add: good_step_def evolves_refl)

lemma good_trans: "good_step a b \<Longrightarrow> good_step b c \<Longrightarrow> good_step a c"
  using evolves_trans by (auto simp: good_step_def)

lemma ensure_agent_good: "ensure_agent db = (Inr u, db') \<Longrightarrow> good_step db db'"
  by (auto simp: ensure_agent_def and_then_Inr assert_equal_Inr good_step_def evolves_refl
      split: option.splits intro: agent_add_wf agent_add_evolves)

lemma ensure_tool_good: "ensure_tool db = (Inr u, db') \<Longrightarrow> good_step db db'"
  by (auto simp: ensure_tool_def and_then_Inr assert_equal_Inr good_step_def evolves_refl
      split: option.splits intro: tool_add_wf tool_add_evolves)

lemma ensure_manifest_good: "ensure_manifest db = (Inr m, db') \<Longrightarrow> good_step db db'"
  by (auto simp: ensure_manifest_def and_then_Inr assert_equal_Inr good_step_def evolves_refl
      split: option.splits intro: manifest_add_wf manifest_add_evolves)

lemma ensure_customer_good: "ensure_customer c db = (Inr u, db') \<Longrightarrow> good_step db db'"
  by (auto simp: ensure_customer_def and_then_Inr assert_equal_Inr good_step_def evolves_refl
      split: option.splits intro: customer_add_wf customer_add_evolves)

lemma ensure_customers_good: "ensure_customers cs db = (Inr u, db') \<Longrightarrow> good_step db db'"
  by (induction cs arbitrary: db) (auto simp: and_then_Inr intro: good_trans dest: ensure_customer_good)

lemma activate_if_draft_good: "activate_if_draft m now db = (Inr m', db') \<Longrightarrow> good_step db db'"
  by (auto simp: activate_if_draft_def good_step_def evolves_refl split: if_splits
      intro: activate_wf activate_evolves)

lemma seed_good: "seed_phase_1 now db = (r, db') \<Longrightarrow> good_step db db'"
proof (cases r)
  case (Inl e)
  assume "seed_phase_1 now db = (r, db')"
  with Inl have "db' = db" by (auto simp: seed_phase_1_def in_session_def split: prod.splits sum.splits)
  then show ?thesis by simp
next
  case (Inr s)
  assume "seed_phase_1 now db = (r, db')"
  with Inr obtain d1 d2 d3 d4 m m' where "ensure_agent db = (Inr (), d1)" "ensure_tool d1 = (Inr (), d2)"
    "ensure_manifest d2 = (Inr m, d3)" "ensure_customers seed_customers d3 = (Inr (), d4)"
    "activate_if_draft m now d4 = (Inr m', db')"
    by (auto simp: seed_phase_1_def in_session_Inr and_then_Inr)
  then show ?thesis
    by (meson good_trans ensure_agent_good ensure_tool_good ensure_manifest_good ensure_customers_good
        activate_if_draft_good)
qed

lemma record_call_good: "record_call out call n st p l t uuid now db = (x, db') \<Longrightarrow> good_step db db'"
proof (cases x)
  case (Inl e)
  assume "record_call out call n st p l t uuid now db = (x, db')"
  with Inl have "db' = db" using record_call_Inl by blast
  then show ?thesis by simp
next
  case (Inr u)
  assume "record_call out call n st p l t uuid now db = (x, db')"
  with Inr obtain dec e where rec: "record_event (audit_input out call n st p l t dec) uuid now db = (Inr e, db')"
    using record_call_Inr by blast
  have "evolves db db'"
    using record_event_events(1) [OF rec] record_event_rows [OF rec] by (intro evolves_events) auto
  then show ?thesis using record_event_wf [OF _ rec] by (simp add: good_step_def)
qed

lemma answer_after_db: "answer_after r x = (y, db') \<Longrightarrow> snd r = db'"
  by (auto simp: answer_after_def split: prod.splits sum.splits)

lemma answer_after_good:
  "answer_after (record_call out call n st p l t uuid now db) x = (y, db') \<Longrightarrow> good_step db db'"
  by (metis answer_after_db prod.collapse record_call_good)

lemma begin_call_good: "begin_call P call env db = (step, db') \<Longrightarrow> good_step db db'"
  by (auto simp: begin_call_def Let_def split: if_splits sum.splits dest: answer_after_good)

lemma finish_call_good: "finish_call call env policy latency x db = (out, db') \<Longrightarrow> good_step db db'"
  by (auto simp: finish_call_def Let_def split: sum.splits py_exn.splits dest: answer_after_good)

lemma post_session_good: "post_session ae cr r u1 u2 now db = (x, db') \<Longrightarrow> good_step db db'"
  using post_session_cases create_session_wf create_session_evolves
  by (metis good_refl good_step_def)

lemma post_revoke_good: "post_revoke ae cr k now db = (x, db') \<Longrightarrow> good_step db db'"
  using post_revoke_cases revoke_session_wf revoke_session_evolves
  by (metis good_refl good_step_def)

lemma activation_good: "in_session (manifest_activate mid by now) db = (m, db') \<Longrightarrow> good_step db db'"
proof (cases m)
  case (Inl e)
  assume "in_session (manifest_activate mid by now) db = (m, db')"
  with Inl have "db' = db" using activation_Inl by blast
  then show ?thesis by simp
next
  case (Inr r)
  assume "in_session (manifest_activate mid by now) db = (m, db')"
  with Inr have "manifest_activate mid by now db = (Inr r, db')" by (simp add: in_session_Inr)
  then show ?thesis using activate_wf activate_evolves by (auto simp: good_step_def)
qed

lemma db_step_good: "db_step db db' \<Longrightarrow> good_step db db'"
  by (erule db_stepE)
    (blast dest: post_session_good post_revoke_good activation_good seed_good begin_call_good finish_call_good)+

interpretation runs: evolving_runs db_step db_wf evolves
  by unfold_locales (auto simp: good_step_def evolves_refl dest: db_step_good intro: evolves_trans)

lemma reachable_wf: "db_step\<^sup>*\<^sup>* (empty_database st w) db \<Longrightarrow> db_wf db"
  by (rule runs.run_inv [OF _ db_wf_empty])

lemma session_revoked_stable: "evolves db db' \<Longrightarrow> session_revoked k db \<Longrightarrow> session_revoked k db'"
  by (fastforce simp: session_revoked_def session_successor_def dest: evolves_session)

section \<open>Along every run\<close>

text \<open>(C12) From an empty database of either backend, every sequence of operations of the service, calls
  overlapping or not, keeps the schema: keys are unique, references resolve, and no agent ever has
  two active manifests.\<close>

theorem reachable_schema:
  assumes "db_step\<^sup>*\<^sup>* (empty_database st w) db"
  shows "db_wf db \<and>
    (\<forall>m \<in> set (db_manifests db). \<forall>n \<in> set (db_manifests db).
       is_active_for a m \<and> is_active_for a n \<longrightarrow> m = n)"
  using reachable_wf [OF assms] active_unique by blast

text \<open>(C13) The past is immutable: along every run, the audit trail is only appended to, and a manifest
  keeps its document, checksum, owner, version and window and never returns to an earlier status.\<close>

theorem history_immutable:
  assumes "db_wf db" "db_step\<^sup>*\<^sup>* db db'"
  shows "take (event_count db) (db_events db') = db_events db \<and>
    (\<forall>k m. manifest_get k db = Some m \<longrightarrow> (\<exists>m'. manifest_get k db' = Some m' \<and> manifest_successor m m'))"
proof -
  have ev: "evolves db db'" by (rule runs.run_evolves [OF assms(2,1)])
  then obtain new where "db_events db' = db_events db @ new" by (auto simp: evolves_def)
  then show ?thesis using evolves_manifest [OF ev] by (simp add: event_count_def)
qed

text \<open>(C8) Revocation is final: once a session has been revoked, no token validates for it after any
  further sequence of operations, at any time.\<close>

theorem revoked_forever:
  assumes "db_wf db" "session_revoked k db" "db_step\<^sup>*\<^sup>* db db'"
    and "validate_session L s agent jwt_now now token db' = Inr c"
  shows "tc_session_id c \<noteq> k"
proof
  assume k: "tc_session_id c = k"
  have "session_revoked k db'"
    using runs.run_stable [where p = "session_revoked k", OF assms(3,1,2)] session_revoked_stable by blast
  then show False using revoked_not_valid [of c db' L s agent jwt_now now token] assms(4) k by simp
qed

end
