(* ===== verification/Progress.thy ===== *)
theory Progress
  imports Api EndToEnd
begin

text \<open>
  When a call is answered.  The safety properties of \<open>ToolCalls\<close> hold of whatever is answered; here
  are the conditions under which the recording, and with it the pipeline, does not fail: the
  columns are wide enough, the identifiers are new, the rows that the event refers to exist.  The
  property: such a call is answered, and the trail verifies afterwards.
\<close>

section \<open>When recording succeeds\<close>

definition input_fits :: "audit_event_input \<Rightarrow> string \<Rightarrow> bool" where
  "input_fits d uuid \<longleftrightarrow>
     length uuid \<le> 60 \<and> length (ai_request_id d) \<le> 64 \<and> length (ai_idempotency_key d) \<le> 128 \<and>
     length (ai_agent_id d) \<le> 64 \<and> length (ai_tool d) \<le> 100 \<and> length (ai_operation d) \<le> 100 \<and>
     length (ai_reason_code d) \<le> 100 \<and>
     list_all (\<lambda>(n, s). length s \<le> n)
       (opt_col 64 (ai_session_id d) @ opt_col 128 (ai_user_id d) @ opt_col 100 (ai_manifest_id d) @
        opt_col 64 (ai_policy_checksum d) @ opt_col 64 (ai_trace_id d))"

definition references_ok :: "audit_event_input \<Rightarrow> database \<Rightarrow> bool" where
  "references_ok d db \<longleftrightarrow>
     agent_get (ai_agent_id d) db \<noteq> None \<and>
     (case ai_session_id d of None \<Rightarrow> True | Some k \<Rightarrow> session_get k db \<noteq> None) \<and>
     (case ai_manifest_id d of None \<Rightarrow> True | Some k \<Rightarrow> manifest_get k db \<noteq> None)"

definition ids_new :: "audit_event_input \<Rightarrow> string \<Rightarrow> database \<Rightarrow> bool" where
  "ids_new d uuid db \<longleftrightarrow>
     (\<forall>e \<in> set (db_events db). ev_id e \<noteq> ''evt_'' @ uuid \<and>
        (ev_request_id e \<noteq> ai_request_id d \<or> ev_sequence e \<noteq> ai_sequence d))"

text \<open>Every stored hash is a SHA-256 digest.\<close>

definition hashes_ok :: "database \<Rightarrow> bool" where
  "hashes_ok db \<longleftrightarrow> (\<forall>e \<in> set (db_events db). length (ev_record_hash e) \<le> 64)"

lemma last_hash_fits:
  assumes "hashes_ok db"
  shows "list_all (\<lambda>(n, s). length s \<le> n) (opt_col 64 (map_option ev_record_hash (last_chain_event db)))"
proof (cases "last_chain_event db")
  case (Some e)
  then have "e \<in> set (all_chain_events db)"
    by (auto simp: last_chain_event_def simp del: set_all_chain_events split: list.splits)
  then have "e \<in> set (db_events db)" by simp
  with Some assms show ?thesis by (simp add: hashes_ok_def)
qed simp

lemma new_event_trace [simp]: "ev_trace_id (new_event d uuid now p) = ai_trace_id d"
  by (simp add: new_event_def Let_def)

lemma new_event_hash [simp]: "length (ev_record_hash (new_event d uuid now p)) = 64"
  by (simp add: event_hash_def flip: event_hash_new)

lemma record_event_succeeds:
  assumes "db_checks_width db \<Longrightarrow> input_fits d uuid \<and> hashes_ok db" "references_ok d db" "ids_new d uuid db"
  shows "record_event d uuid now db =
    (Inr (new_event d uuid now (last_chain_event db)),
     db\<lparr>db_events := db_events db @ [stored_event db (new_event d uuid now (last_chain_event db))]\<rparr>)"
proof -
  let ?e = "new_event d uuid now (last_chain_event db)"
  have "event_add ?e db = (Inr ?e, db\<lparr>db_events := db_events db @ [stored_event db ?e]\<rparr>)"
    using assms last_hash_fits [of db]
    by (auto simp: event_add_def insert_row_Inr widths_ok_def width_defs input_fits_def references_ok_def ids_new_def
        row_of_None_iff list_all_iff split: option.splits)
  then show ?thesis by (simp add: record_event_Inr)
qed

text \<open>The trail verifies, and every event in it is older than \<open>t\<close>.\<close>

definition trail_ok :: "database \<Rightarrow> int \<Rightarrow> bool" where
  "trail_ok db t \<longleftrightarrow>
     ir_valid (verify_integrity db) \<and> hashes_ok db \<and> (\<forall>e \<in> set (db_events db). instant (ev_timestamp e) < t)"

lemma trail_ok_later: "trail_ok db t \<Longrightarrow> t \<le> t' \<Longrightarrow> trail_ok db t'"
  by (fastforce simp: trail_ok_def)

definition with_event :: "audit_event \<Rightarrow> database \<Rightarrow> database" where
  "with_event e db = db\<lparr>db_events := db_events db @ [e]\<rparr>"

lemma with_event_fields [simp]:
  "db_events (with_event e db) = db_events db @ [e]" "db_agents (with_event e db) = db_agents db"
  "db_tools (with_event e db) = db_tools db" "db_manifests (with_event e db) = db_manifests db"
  "db_sessions (with_event e db) = db_sessions db" "db_customers (with_event e db) = db_customers db"
  "db_store_time (with_event e db) = db_store_time db" "db_checks_width (with_event e db) = db_checks_width db"
  "agent_get k (with_event e db) = agent_get k db" "session_get k (with_event e db) = session_get k db"
  "manifest_get k (with_event e db) = manifest_get k db"
  "manifest_get_active k (with_event e db) = manifest_get_active k db"
  "tool_get_by_name k (with_event e db) = tool_get_by_name k db"
  "faithful_time (with_event e db) = faithful_time db" "references_ok d (with_event e db) = references_ok d db"
  by (simp_all add: with_event_def agent_get_def session_get_def manifest_get_def manifest_get_active_def
      tool_get_by_name_def faithful_time_def references_ok_def split: option.splits)

lemma record_event_trail:
  assumes time: "faithful_time db" and trail: "trail_ok db now"
    and "db_checks_width db \<Longrightarrow> input_fits d uuid" "references_ok d db" "ids_new d uuid db"
  shows "\<exists>e. record_event d uuid now db = (Inr (new_event d uuid now (last_chain_event db)), with_event e db) \<and>
    e = stored_event db (new_event d uuid now (last_chain_event db)) \<and> instant (ev_timestamp e) = now \<and>
    (\<forall>t. now < t \<longrightarrow> trail_ok (with_event e db) t)"
proof -
  let ?n = "new_event d uuid now (last_chain_event db)"
  let ?e = "stored_event db ?n"
  have rec: "record_event d uuid now db = (Inr ?n, with_event ?e db)"
    using record_event_succeeds [of db d uuid now] assms by (simp add: trail_ok_def with_event_def)
  have now: "instant (ev_timestamp ?e) = now"
    using time by (simp add: stored_event_def faithful_time_def now_utc_def)
  have "\<forall>f \<in> set (db_events db). chain_key f < (now, ''evt_'' @ uuid)"
    using trail by (auto simp: trail_ok_def chain_key_def)
  from record_chain(2) [OF time rec this] trail
  have "ir_valid (verify_integrity (with_event ?e db))" by (simp add: verify_chained trail_ok_def)
  then have "trail_ok (with_event ?e db) t" if "now < t" for t
    using that trail now by (fastforce simp: trail_ok_def hashes_ok_def)
  with rec now show ?thesis by blast
qed

lemma record_call_succeeds:
  assumes "faithful_time db" "trail_ok db now" "decision_of (tco_decision out) = Some dec"
    and "tco_request_id out = request_name env"
    and "db_checks_width db \<Longrightarrow> input_fits (audit_input out call n st p l t dec) uuid"
    and "references_ok (audit_input out call n st p l t dec) db"
    and "ids_new (audit_input out call n st p l t dec) uuid db"
  shows "\<exists>e. record_call out call n st p l t uuid now db = (Inr (), with_event e db) \<and>
    call_event call env n dec (tco_reason_code out) st e \<and> ev_id e = ''evt_'' @ uuid \<and>
    instant (ev_timestamp e) = now \<and> (\<forall>t. now < t \<longrightarrow> trail_ok (with_event e db) t)"
proof -
  obtain e where e: "record_event (audit_input out call n st p l t dec) uuid now db =
      (Inr (new_event (audit_input out call n st p l t dec) uuid now (last_chain_event db)), with_event e db)"
    "e = stored_event db (new_event (audit_input out call n st p l t dec) uuid now (last_chain_event db))"
    "instant (ev_timestamp e) = now" "\<forall>t. now < t \<longrightarrow> trail_ok (with_event e db) t"
    using record_event_trail [OF assms(1,2,5-7)] by blast
  have "call_event call env n dec (tco_reason_code out) st e"
    using assms(4) unfolding e(2) by (simp add: call_event_def stored_event_def)
  moreover have "record_call out call n st p l t uuid now db = (Inr (), with_event e db)"
    using e(1) assms(3) by (simp add: record_call_def)
  ultimately show ?thesis using e(2-4) by auto
qed

section \<open>When a call is answered\<close>

text \<open>
  A request in order: the rows its events refer to exist, its identifiers are new, the clock has
  moved on since the last event and moves on between its own two, and, where the backend enforces
  widths, its strings fit.
\<close>

definition call_fits :: "tool_call \<Rightarrow> call_env \<Rightarrow> bool" where
  "call_fits call env \<longleftrightarrow>
     length (ce_request_uuid env) \<le> 60 \<and> length (ce_first_uuid env) \<le> 60 \<and> length (ce_second_uuid env) \<le> 60 \<and>
     length (cl_idempotency_key call) \<le> 128 \<and> length (cl_agent_id call) \<le> 64 \<and> length (cl_tool call) \<le> 100 \<and>
     length (cl_operation call) \<le> 100 \<and> length (tc_session_id (cl_session call)) \<le> 64 \<and>
     length (tc_user_id (cl_session call)) \<le> 128 \<and>
     (case cl_trace_id call of None \<Rightarrow> True | Some t \<Rightarrow> length t \<le> 64)"

definition call_ready :: "tool_call \<Rightarrow> call_env \<Rightarrow> database \<Rightarrow> bool" where
  "call_ready call env db \<longleftrightarrow>
     faithful_time db \<and> trail_ok db (ce_first_at env) \<and> ce_first_at env < ce_second_at env \<and>
     ce_first_uuid env \<noteq> ce_second_uuid env \<and>
     agent_get (cl_agent_id call) db \<noteq> None \<and> session_get (tc_session_id (cl_session call)) db \<noteq> None \<and>
     (\<forall>e \<in> set (db_events db). ev_request_id e \<noteq> request_name env \<and>
        ev_id e \<notin> {''evt_'' @ ce_first_uuid env, ''evt_'' @ ce_second_uuid env}) \<and>
     (\<forall>m. manifest_get_active (cl_agent_id call) db = Some m \<longrightarrow> manifest_get (pm_id m) db \<noteq> None \<and>
        length (pm_id m) \<le> 100 \<and> length (pm_checksum m) \<le> 64) \<and>
     (db_checks_width db \<longrightarrow> call_fits call env)"

definition decision_about :: "permission_manifest option \<Rightarrow> policy_decision \<Rightarrow> bool" where
  "decision_about active d \<longleftrightarrow>
     length (pd_reason_code d) \<le> 100 \<and>
     (pd_manifest_id d = None \<and> pd_policy_checksum d = None \<or>
      (\<exists>m. active = Some m \<and> pd_manifest_id d = Some (pm_id m) \<and> pd_policy_checksum d = Some (pm_checksum m)))"

lemma decision_about_simps [simp]:
  "decision_about (Some m) (allow m)" "decision_about (Some m) (deny c msg (Some m)) \<longleftrightarrow> length c \<le> 100"
  "decision_about a (deny c msg None) \<longleftrightarrow> length c \<le> 100"
  by (auto simp: decision_about_def)

lemma evaluate_rule_about:
  "evaluate_rule m doc policy operation c params = Inr d \<Longrightarrow> decision_about (Some m) d"
  by (auto simp: evaluate_rule_def bind_res_eq_Inr split: option.splits if_splits)

lemma evaluate_document_about:
  "evaluate_document m doc c tool operation params db = Inr d \<Longrightarrow> decision_about (Some m) d"
  by (auto simp: evaluate_document_def split: option.splits if_splits dest: evaluate_rule_about)

lemma evaluate_about:
  "evaluate P agent c tool operation params now db = Inr d \<Longrightarrow> decision_about (manifest_get_active agent db) d"
  by (auto simp: evaluate_def split: option.splits if_splits dest: evaluate_document_about)

lemma call_ready_input:
  assumes "call_ready call env db" "tco_request_id out = request_name env" "length (tco_reason_code out) \<le> 100"
    and "case policy of None \<Rightarrow> True | Some d \<Rightarrow> decision_about (manifest_get_active (cl_agent_id call) db) d"
    and "u \<in> {ce_first_uuid env, ce_second_uuid env}"
  shows "db_checks_width db \<Longrightarrow> input_fits (audit_input out call n st policy l t dec) u"
    and "references_ok (audit_input out call n st policy l t dec) db"
    and "ids_new (audit_input out call n st policy l t dec) u db"
proof -
  show "input_fits (audit_input out call n st policy l t dec) u" if "db_checks_width db"
    using that assms
    by (cases policy; cases "cl_trace_id call")
      (auto simp: call_ready_def call_fits_def input_fits_def audit_input_def request_name_def decision_about_def)
  show "references_ok (audit_input out call n st policy l t dec) db"
    using assms(1,4)
    by (cases policy) (auto simp: call_ready_def references_ok_def audit_input_def decision_about_def)
  show "ids_new (audit_input out call n st policy l t dec) u db"
    using assms(1,2,5) by (auto simp: call_ready_def ids_new_def)
qed

text \<open>The first record of a call in order.\<close>

definition recorded :: "tool_call \<Rightarrow> call_env \<Rightarrow> int \<Rightarrow> audit_decision \<Rightarrow> string \<Rightarrow> execution_status \<Rightarrow> database
    \<Rightarrow> audit_event \<Rightarrow> bool" where
  "recorded call env n dec code st db e \<longleftrightarrow>
     call_event call env n dec code st e \<and>
     ev_id e = ''evt_'' @ (if n = 0 then ce_first_uuid env else ce_second_uuid env) \<and>
     instant (ev_timestamp e) = (if n = 0 then ce_first_at env else ce_second_at env) \<and>
     (\<forall>t. instant (ev_timestamp e) < t \<longrightarrow> trail_ok (with_event e db) t)"

lemma first_record:
  assumes ready: "call_ready call env db" and out: "tco_request_id out = request_name env"
    "length (tco_reason_code out) \<le> 100" "decision_of (tco_decision out) = Some dec"
    and "case policy of None \<Rightarrow> True | Some d \<Rightarrow> decision_about (manifest_get_active (cl_agent_id call) db) d"
  shows "\<exists>e. record_call out call 0 st policy l t (ce_first_uuid env) (ce_first_at env) db = (Inr (), with_event e db) \<and>
    recorded call env 0 dec (tco_reason_code out) st db e"
proof -
  have first: "ce_first_uuid env \<in> {ce_first_uuid env, ce_second_uuid env}" by simp
  have "faithful_time db" "trail_ok db (ce_first_at env)" using ready by (simp_all add: call_ready_def)
  note r = record_call_succeeds [OF this out(3,1) call_ready_input [OF ready out(1,2) assms(5) first]]
  obtain e where "record_call out call 0 st policy l t (ce_first_uuid env) (ce_first_at env) db = (Inr (), with_event e db)"
    "call_event call env 0 dec (tco_reason_code out) st e" "ev_id e = ''evt_'' @ ce_first_uuid env"
    "instant (ev_timestamp e) = ce_first_at env" "\<forall>u. ce_first_at env < u \<longrightarrow> trail_ok (with_event e db) u"
    using r [where n = 0 and st = st and l = l and t = t] by blast
  then show ?thesis by (auto simp: recorded_def)
qed

lemma begin_call_ready:
  assumes ready: "call_ready call env db"
  shows "\<exists>step e.
    begin_call P call env db = (Inr step, with_event e db) \<and>
    (if has_idempotency_key (cl_agent_id call) (cl_idempotency_key call) db
     then step = Answered (outcome (request_name env) ''block'' ''DUPLICATE_REQUEST''
            ''This idempotency key has already been used'') \<and>
          recorded call env 0 DecisionBlock ''DUPLICATE_REQUEST'' ExecNotForwarded db e
     else \<exists>d. evaluate P (cl_agent_id call) (cl_session call) (cl_tool call) (cl_operation call)
              (cl_parameters call) (ce_evaluated_at env) db = Inr d \<and>
            (if pd_allowed d
             then step = Forward d (elapsed_ms (ce_policy_started env) (ce_policy_done env)) \<and>
               recorded call env 0 DecisionAllow ''ALLOWED'' ExecAuthorized db e
             else step = Answered (outcome (request_name env) ''block'' (pd_reason_code d) (pd_message d)) \<and>
               recorded call env 0 DecisionBlock (pd_reason_code d) ExecNotForwarded db e))"
proof (cases "has_idempotency_key (cl_agent_id call) (cl_idempotency_key call) db")
  case True
  then show ?thesis
    using first_record [OF ready, of "outcome (request_name env) ''block'' ''DUPLICATE_REQUEST''
        ''This idempotency key has already been used''" DecisionBlock None ExecNotForwarded None
        "elapsed_ms (ce_started env) (ce_first_done env)"]
    by (auto simp: begin_call_def Let_def answer_after_def)
next
  case False
  obtain d where d: "evaluate P (cl_agent_id call) (cl_session call) (cl_tool call) (cl_operation call)
      (cl_parameters call) (ce_evaluated_at env) db = Inr d"
    using evaluate_returns by blast
  note about = evaluate_about [OF d]
  show ?thesis
    using False d about
      first_record [OF ready, of "outcome (request_name env) ''block'' (pd_reason_code d) (pd_message d)"
        DecisionBlock "Some d" ExecNotForwarded "Some (elapsed_ms (ce_policy_started env) (ce_policy_done env))"
        "elapsed_ms (ce_started env) (ce_first_done env)"]
      first_record [OF ready, of "outcome (request_name env) ''allow'' ''ALLOWED'' ''Tool call is permitted''"
        DecisionAllow "Some d" ExecAuthorized "Some (elapsed_ms (ce_policy_started env) (ce_policy_done env))"
        "elapsed_ms (ce_started env) (ce_first_done env)"]
    by (auto simp: begin_call_def Let_def answer_after_def decision_about_def)
qed

lemma second_record:
  assumes ready: "call_ready call env db" and first: "recorded call env 0 dec0 code0 st0 db e"
    and out: "tco_request_id out = request_name env" "length (tco_reason_code out) \<le> 100"
      "decision_of (tco_decision out) = Some dec"
    and about: "decision_about (manifest_get_active (cl_agent_id call) db) policy"
  shows "\<exists>e'. record_call out call 1 st (Some policy) l t (ce_second_uuid env) (ce_second_at env) (with_event e db) =
      (Inr (), with_event e' (with_event e db)) \<and>
    recorded call env 1 dec (tco_reason_code out) st (with_event e db) e'"
proof -
  let ?d = "audit_input out call 1 st (Some policy) l t dec"
  have second: "ce_second_uuid env \<in> {ce_first_uuid env, ce_second_uuid env}" by simp
  have some: "case Some policy of None \<Rightarrow> True
      | Some d \<Rightarrow> decision_about (manifest_get_active (cl_agent_id call) db) d" using about by simp
  note in_db = call_ready_input [OF ready out(1,2) some second, where n = 1 and st = st and l = l and t = t and dec = dec]
  have time: "faithful_time (with_event e db)" "trail_ok (with_event e db) (ce_second_at env)"
    using ready first by (simp_all add: call_ready_def recorded_def)
  have fits: "input_fits ?d (ce_second_uuid env)" if "db_checks_width (with_event e db)"
    using in_db(1) that by simp
  have refs: "references_ok ?d (with_event e db)" using in_db(2) by simp
  have ids: "ids_new ?d (ce_second_uuid env) (with_event e db)"
    using in_db(3) first ready by (auto simp: ids_new_def recorded_def call_event_def call_ready_def)
  obtain e' where "record_call out call 1 st (Some policy) l t (ce_second_uuid env) (ce_second_at env) (with_event e db) =
      (Inr (), with_event e' (with_event e db))"
    "call_event call env 1 dec (tco_reason_code out) st e'" "ev_id e' = ''evt_'' @ ce_second_uuid env"
    "instant (ev_timestamp e') = ce_second_at env"
    "\<forall>u. ce_second_at env < u \<longrightarrow> trail_ok (with_event e' (with_event e db)) u"
    using record_call_succeeds [OF time out(3,1) fits refs ids] by blast
  then show ?thesis by (auto simp: recorded_def)
qed

text \<open>What an adapter may do: return a result, or raise the exception the pipeline handles.\<close>

definition adapter_reports :: "tool_execution_result res \<Rightarrow> bool" where
  "adapter_reports x \<longleftrightarrow>
     (case x of Inr r \<Rightarrow> True | Inl (ToolExecutionError c m s) \<Rightarrow> length c \<le> 100 | Inl e \<Rightarrow> False)"

definition execution_outcome :: "call_env \<Rightarrow> tool_execution_result res \<Rightarrow> tool_call_outcome" where
  "execution_outcome env x =
     (case x of
        Inr r \<Rightarrow> (outcome (request_name env) ''allow'' ''ALLOWED'' ''Tool call executed'')
          \<lparr>tco_result := tx_result r, tco_upstream_status_code := Some (tx_upstream_status_code r)\<rparr>
      | Inl e \<Rightarrow>
          (case e of
             ToolExecutionError c m s \<Rightarrow>
               (outcome (request_name env) ''error'' c m)\<lparr>tco_upstream_status_code := s\<rparr>
           | _ \<Rightarrow> outcome (request_name env) ''error'' [] []))"

lemma finish_call_ready:
  assumes ready: "call_ready call env db" and first: "recorded call env 0 dec0 code0 st0 db e"
    and about: "decision_about (manifest_get_active (cl_agent_id call) db) policy" and x: "adapter_reports x"
  shows "\<exists>e' dec. finish_call call env policy latency x (with_event e db) =
      (Inr (execution_outcome env x), with_event e' (with_event e db)) \<and>
    recorded call env 1 dec (tco_reason_code (execution_outcome env x)) (finished_status x) (with_event e db) e'"
proof (cases x)
  case (Inl err)
  then obtain c m s where err: "err = ToolExecutionError c m s" "length c \<le> 100"
    using x by (cases err) (auto simp: adapter_reports_def)
  let ?out = "(outcome (request_name env) ''error'' c m)\<lparr>tco_upstream_status_code := s\<rparr>"
  have "tco_request_id ?out = request_name env" "length (tco_reason_code ?out) \<le> 100"
    "decision_of (tco_decision ?out) = Some DecisionError" using err(2) by (simp_all add: outcome_def)
  from second_record [OF ready first this about, of "failure_status c" "Some latency"
      "elapsed_ms (ce_started env) (ce_second_done env)"]
  show ?thesis using Inl err(1)
    by (auto simp: finish_call_def Let_def answer_after_def execution_outcome_def finished_status_def)
next
  case (Inr r)
  let ?out = "(outcome (request_name env) ''allow'' ''ALLOWED'' ''Tool call executed'')
      \<lparr>tco_result := tx_result r, tco_upstream_status_code := Some (tx_upstream_status_code r)\<rparr>"
  have "tco_request_id ?out = request_name env" "length (tco_reason_code ?out) \<le> 100"
    "decision_of (tco_decision ?out) = Some DecisionAllow" by (simp_all add: outcome_def)
  from second_record [OF ready first this about, of ExecExecuted "Some latency"
      "elapsed_ms (ce_started env) (ce_second_done env)"]
  show ?thesis using Inr
    by (auto simp: finish_call_def Let_def answer_after_def execution_outcome_def finished_status_def)
qed

text \<open>(C36) Progress: a call in order is answered.  If the rows its events refer to exist, its
  identifiers are new, the clock has moved on since the last event and the strings fit their columns,
  the pipeline raises nothing, whatever the policy decides and whether the tool succeeds or
  reports an error, and the audit trail, one or two events longer, still verifies.\<close>

theorem ready_call_answered:
  assumes "call_ready call env db"
    and "adapter_reports (fst (adapter (cl_tool call) (cl_operation call) (cl_parameters call) w))"
  shows "\<exists>out db' w'. execute_call P adapter call env (db, w) = (Inr out, db', w') \<and>
    ir_valid (verify_integrity db') \<and> event_count db' \<in> {event_count db + 1, event_count db + 2}"
proof -
  obtain x w1 where x: "adapter (cl_tool call) (cl_operation call) (cl_parameters call) w = (x, w1)"
    by (cases "adapter (cl_tool call) (cl_operation call) (cl_parameters call) w")
  obtain step e where b: "begin_call P call env db = (Inr step, with_event e db)"
    and step: "(\<exists>out dec st. step = Answered out \<and> recorded call env 0 dec (tco_reason_code out) st db e) \<or>
      (\<exists>d l. step = Forward d l \<and> decision_about (manifest_get_active (cl_agent_id call) db) d \<and>
         recorded call env 0 DecisionAllow ''ALLOWED'' ExecAuthorized db e)"
    using begin_call_ready [OF assms(1), of P] evaluate_about by (fastforce split: if_splits)
  have valid: "ir_valid (verify_integrity (with_event f db'))" if "recorded call env n dec code st db' f" for n dec code st db' f
    using that less_add_one [of "instant (ev_timestamp f)"] unfolding recorded_def trail_ok_def by blast
  from step show ?thesis
  proof (elim disjE exE conjE)
    fix out dec st
    assume "step = Answered out" "recorded call env 0 dec (tco_reason_code out) st db e"
    then show ?thesis using b valid by (auto simp: execute_call_def event_count_def)
  next
    fix d l
    assume d: "step = Forward d l" "decision_about (manifest_get_active (cl_agent_id call) db) d"
      "recorded call env 0 DecisionAllow ''ALLOWED'' ExecAuthorized db e"
    obtain e' dec where "finish_call call env d l x (with_event e db) =
        (Inr (execution_outcome env x), with_event e' (with_event e db))"
      "recorded call env 1 dec (tco_reason_code (execution_outcome env x)) (finished_status x) (with_event e db) e'"
      using finish_call_ready [OF assms(1) d(3,2), of x l] assms(2) x by auto
    then show ?thesis using b x d(1) valid by (auto simp: execute_call_def event_count_def)
  qed
qed

end
