(* ===== verification/Samples.thy ===== *)
theory Samples
  imports System Progress
begin

text \<open>
  One concrete run of the proxy, on which the properties with hypotheses are shown to apply: the
  seeded database with a live session, the tokens of \<open>plain_jwt\<close>, a permitted call, the two
  events it records.
\<close>

section \<open>A seeded database with a session\<close>

definition sample_now :: int where
  "sample_now = 1800000000000000"

definition sample_seeded :: database where
  "sample_seeded = fresh_seed sqlite_time False 1767225600000000"

definition sample_row :: agent_session where
  "sample_row = new_session_row seed_agent_id ''user_7'' ''customer_1001'' ''host'' 1800 ''11'' ''22'' sample_now"

definition sample_live :: database where
  "sample_live = sample_seeded\<lparr>db_sessions := [stored_session sample_seeded sample_row]\<rparr>"

definition sample_policy :: policy_decision where
  "sample_policy = allow (seeded_manifest sqlite_time 1767225600000000)"

lemma seeded_wf: "db_wf sample_seeded"
proof -
  have "seed_phase_1 1767225600000000 (empty_database sqlite_time False) =
      (Inr \<lparr>ss_agents = 1, ss_tools = 1, ss_manifests = 1, ss_customers = 3,
           ss_active_manifest_id = seed_manifest_id\<rparr>, sample_seeded)"
    unfolding sample_seeded_def by (rule seed_fresh_database)
  from seed_good [OF this] show ?thesis using db_wf_empty by (simp add: good_step_def)
qed

lemma seeded_fields:
  "db_events sample_seeded = []" "db_sessions sample_seeded = []" "db_agents sample_seeded = [seed_agent]"
  "db_store_time sample_seeded = sqlite_time" "\<not> db_checks_width sample_seeded"
  "db_manifests sample_seeded = [seeded_manifest sqlite_time 1767225600000000]"
  "db_tools sample_seeded = [seed_tool]" "db_customers sample_seeded = seed_customers"
  by (simp_all add: sample_seeded_def fresh_seed_def empty_database_def)

lemma seeded_agent: "agent_get seed_agent_id sample_seeded = Some seed_agent"
  by (simp add: agent_get_def seeded_fields seed_agent_def)

lemma sample_session_add: "session_add sample_row sample_seeded = (Inr sample_row, sample_live)"
  using seeded_agent
  by (simp add: session_add_def insert_row_Inr widths_ok_def width_defs session_get_def session_get_by_jti_def
      sample_live_def seeded_fields sample_row_def new_session_row_def session_window_ok_def stored_session_def now_utc_def)

lemma live_wf: "db_wf sample_live"
  using session_add_wf [OF seeded_wf sample_session_add] .

lemma live_faithful: "faithful_time sample_live"
  by (simp add: faithful_time_def sample_live_def seeded_fields)

lemma live_fields:
  "db_events sample_live = []" "db_manifests sample_live = db_manifests sample_seeded"
  "db_tools sample_live = db_tools sample_seeded" "\<not> db_checks_width sample_live"
  "agent_get seed_agent_id sample_live = Some seed_agent"
  "session_get ''sess_11'' sample_live = Some (stored_session sample_seeded sample_row)"
  "manifest_get seed_manifest_id sample_live = Some (seeded_manifest sqlite_time 1767225600000000)"
  by (simp_all add: sample_live_def seeded_fields agent_get_def session_get_def manifest_get_def seed_agent_def
      seeded_manifest_fields stored_session_def sample_row_def new_session_row_def)

section \<open>Rows that fit\<close>

lemma record_event_fits:
  assumes "\<not> db_checks_width db" "''evt_'' @ uuid \<notin> ev_id ` set (db_events db)"
    and "\<forall>r \<in> set (db_events db). ev_request_id r \<noteq> ai_request_id d \<or> ev_sequence r \<noteq> ai_sequence d"
    and "agent_get (ai_agent_id d) db \<noteq> None" "\<forall>k. ai_session_id d = Some k \<longrightarrow> session_get k db \<noteq> None"
    and "\<forall>k. ai_manifest_id d = Some k \<longrightarrow> manifest_get k db \<noteq> None"
  shows "record_event d uuid now db =
    (Inr (new_event d uuid now (last_chain_event db)),
     db\<lparr>db_events := db_events db @ [stored_event db (new_event d uuid now (last_chain_event db))]\<rparr>)"
proof -
  have "references_ok d db"
    using assms(4-6) by (cases "ai_session_id d"; cases "ai_manifest_id d") (simp_all add: references_ok_def)
  moreover have "ids_new d uuid db" using assms(2,3) unfolding ids_new_def by (simp add: image_iff) metis
  ultimately show ?thesis using record_event_succeeds [of db d uuid now] assms(1) by simp
qed

definition sample_call :: tool_call where
  "sample_call =
     \<lparr>cl_agent_id = seed_agent_id, cl_session = claims_of sample_row, cl_idempotency_key = ''key-0001'',
      cl_tool = ''crm'', cl_operation = ''read_customer'', cl_parameters = sample_params, cl_trace_id = None\<rparr>"

definition sample_env :: call_env where
  "sample_env =
     \<lparr>ce_request_uuid = ''r1'', ce_started = 0, ce_policy_started = 1000000, ce_evaluated_at = sample_now,
      ce_policy_done = 3000000, ce_first_done = 4000000, ce_first_uuid = ''e1'', ce_first_at = sample_now + 1000,
      ce_second_done = 9000000, ce_second_uuid = ''e2'', ce_second_at = sample_now + 2000\<rparr>"

lemma sample_allowed:
  "sample_now \<le> now \<Longrightarrow> evaluate P seed_agent_id (claims_of sample_row) ''crm'' ''read_customer'' sample_params now
     sample_live = Inr sample_policy"
  unfolding evaluate_tables [OF live_fields(2,3)] sample_seeded_def sample_policy_def
  by (rule fresh_allows)
    (simp_all add: seed_effective_from_def sample_now_def claims_of_def sample_row_def new_session_row_def)

lemma sample_call_fields:
  "cl_agent_id sample_call = seed_agent_id" "cl_idempotency_key sample_call = ''key-0001''"
  "cl_tool sample_call = ''crm''" "cl_operation sample_call = ''read_customer''"
  "cl_parameters sample_call = sample_params" "cl_session sample_call = claims_of sample_row"
  "tc_session_id (claims_of sample_row) = ''sess_11''"
  by (simp_all add: sample_call_def claims_of_def sample_row_def new_session_row_def)

lemma sample_policy_fields:
  "pd_allowed sample_policy" "pd_manifest_id sample_policy = Some seed_manifest_id"
  by (simp_all add: sample_policy_def seeded_manifest_fields)

section \<open>The permitted call\<close>

definition sample_request :: string where
  "sample_request = request_name sample_env"

definition sample_authorized :: audit_event where
  "sample_authorized =
     new_event (audit_input (outcome sample_request ''allow'' ''ALLOWED'' ''Tool call is permitted'') sample_call 0
         ExecAuthorized (Some sample_policy) (Some 2) 4 DecisionAllow)
       ''e1'' (sample_now + 1000) None"

definition sample_between :: database where
  "sample_between = sample_live\<lparr>db_events := [stored_event sample_live sample_authorized]\<rparr>"

lemma sample_last: "last_chain_event sample_live = None"
  by (simp add: last_chain_event_def all_chain_events_def live_fields)

lemma sample_no_key: "\<not> has_idempotency_key seed_agent_id ''key-0001'' sample_live"
  by (simp add: has_idempotency_key_iff live_fields)

lemma sample_record_authorized:
  "record_event (audit_input (outcome sample_request ''allow'' ''ALLOWED'' ''Tool call is permitted'') sample_call 0
      ExecAuthorized (Some sample_policy) (Some 2) 4 DecisionAllow) ''e1'' (sample_now + 1000) sample_live =
    (Inr sample_authorized, sample_between)"
  using record_event_fits [of sample_live "''e1''" "audit_input (outcome sample_request ''allow'' ''ALLOWED''
      ''Tool call is permitted'') sample_call 0 ExecAuthorized (Some sample_policy) (Some 2) 4 DecisionAllow"
      "sample_now + 1000"]
  by (simp add: live_fields sample_call_fields sample_last sample_authorized_def sample_between_def)
    (simp add: audit_input_def sample_policy_fields live_fields)

lemma sample_env_latency:
  "elapsed_ms (ce_policy_started sample_env) (ce_policy_done sample_env) = 2"
  "elapsed_ms (ce_started sample_env) (ce_first_done sample_env) = 4"
  "elapsed_ms (ce_started sample_env) (ce_second_done sample_env) = 9"
  by (simp_all add: sample_env_def elapsed_ms_def round_to_ms_def Let_def)

lemma sample_env_fields:
  "ce_evaluated_at sample_env = sample_now" "ce_first_uuid sample_env = ''e1''"
  "ce_first_at sample_env = sample_now + 1000" "ce_second_uuid sample_env = ''e2''"
  "ce_second_at sample_env = sample_now + 2000" "request_name sample_env = sample_request"
  by (simp_all add: sample_env_def sample_request_def)

lemma sample_begin:
  "begin_call P sample_call sample_env sample_live = (Inr (Forward sample_policy 2), sample_between)"
  by (simp add: begin_call_def sample_call_fields sample_no_key sample_allowed sample_policy_fields Let_def
      sample_env_latency sample_env_fields record_call_def answer_after_def sample_record_authorized)

lemma between_fields:
  "db_events sample_between = [stored_event sample_live sample_authorized]" "\<not> db_checks_width sample_between"
  "agent_get seed_agent_id sample_between = Some seed_agent" "session_get ''sess_11'' sample_between = Some (stored_session sample_seeded sample_row)"
  "manifest_get seed_manifest_id sample_between = Some (seeded_manifest sqlite_time 1767225600000000)"
  using live_fields by (simp_all add: sample_between_def agent_get_def session_get_def manifest_get_def)

lemma stored_event_more [simp]:
  "ev_request_id (stored_event db e) = ev_request_id e" "ev_sequence (stored_event db e) = ev_sequence e"
  by (simp_all add: stored_event_def)

lemma authorized_fields:
  "ev_id sample_authorized = ''evt_e1''" "ev_agent_id sample_authorized = seed_agent_id"
  "ev_request_id sample_authorized = sample_request" "ev_sequence sample_authorized = 0"
  "ev_idempotency_key sample_authorized = ''key-0001''" "ev_decision sample_authorized = DecisionAllow"
  "ev_execution_status sample_authorized = ExecAuthorized"
  "ev_timestamp sample_authorized = now_utc (sample_now + 1000)"
  by (simp_all add: sample_authorized_def sample_call_fields)

definition sample_result :: tool_execution_result where
  "sample_result = \<lparr>tx_result = Some (JObj []), tx_upstream_status_code = 200\<rparr>"

lemma sample_finish:
  "\<exists>out e. finish_call sample_call sample_env sample_policy 2 (Inr sample_result) sample_between =
     (Inr out, sample_between\<lparr>db_events := [stored_event sample_live sample_authorized, e]\<rparr>) \<and>
     call_response out = Inr \<lparr>tr_status = 200, tr_request_id = sample_request, tr_decision = ''allow'',
       tr_reason_code = ''ALLOWED'', tr_message = ''Tool call executed'', tr_result = Some (JObj [])\<rparr>"
proof -
  let ?out = "(outcome sample_request ''allow'' ''ALLOWED'' ''Tool call executed'')
      \<lparr>tco_result := Some (JObj []), tco_upstream_status_code := Some 200\<rparr>"
  let ?d = "audit_input ?out sample_call 1 ExecExecuted (Some sample_policy) (Some 2) 9 DecisionAllow"
  have input: "ai_manifest_id ?d = Some seed_manifest_id"
    by (simp add: audit_input_def sample_policy_fields)
  let ?e = "new_event ?d ''e2'' (sample_now + 2000) (last_chain_event sample_between)"
  have "record_event ?d ''e2'' (sample_now + 2000) sample_between =
      (Inr ?e, sample_between\<lparr>db_events := [stored_event sample_live sample_authorized,
         stored_event sample_between ?e]\<rparr>)"
    using record_event_fits [of sample_between "''e2''" ?d "sample_now + 2000"]
    by (simp add: between_fields sample_call_fields authorized_fields input)
  then show ?thesis
    by (auto simp: finish_call_def sample_env_latency sample_env_fields sample_result_def record_call_def
        answer_after_def Let_def call_response_def response_status_def outcome_def)
qed

text \<open>A CRM that answers every request with an empty object and counts the requests.\<close>

definition counting_client :: "nat http_client" where
  "counting_client q w = (Inr \<lparr>hp_status_code = 200, hp_json = Some (JObj [])\<rparr>, Suc w)"

definition counting_adapter :: "nat adapter" where
  "counting_adapter = crm_execute (new_crm_adapter local_proxy_settings) counting_client"

lemma counting_read:
  "counting_adapter ''crm'' ''read_customer'' sample_params w = (Inr sample_result, Suc w)"
  by (simp add: counting_adapter_def crm_execute_def sample_params_def read_request counting_client_def
      request_outcome_def response_result_def sample_result_def)

definition broken_adapter :: "nat adapter" where
  "broken_adapter tool operation ps w = (Inl JSONDecodeError, Suc w)"

lemma sample_execute:
  "\<exists>out db'. execute_call strict_pydantic counting_adapter sample_call sample_env (sample_live, 0) =
     (Inr out, db', 1)"
  using sample_finish
  by (auto simp: execute_call_def sample_begin sample_call_fields counting_read)

lemma sample_crash:
  "execute_call strict_pydantic broken_adapter sample_call sample_env (sample_live, 0) =
     (Inl JSONDecodeError, sample_between, 1)"
  by (simp add: execute_call_def sample_begin broken_adapter_def finish_call_def Let_def)

section \<open>The properties of the pipeline, applied\<close>

theorem effect_only_after_authorization_witness:
  "\<exists>out db' e rest. execute_call strict_pydantic counting_adapter sample_call sample_env (sample_live, 0) =
       (Inr out, db', 1) \<and>
     db_events db' = e # rest \<and> call_event sample_call sample_env 0 DecisionAllow ''ALLOWED'' ExecAuthorized e"
proof -
  obtain out db' where run: "execute_call strict_pydantic counting_adapter sample_call sample_env (sample_live, 0) =
      (Inr out, db', 1)" using sample_execute by blast
  then show ?thesis using effect_only_after_authorization [OF run] by (auto simp: live_fields)
qed

theorem answer_matches_audit_witness:
  "\<exists>out db'. execute_call strict_pydantic counting_adapter sample_call sample_env (sample_live, 0) =
       (Inr out, db', 1) \<and> tco_request_id out = sample_request"
proof -
  obtain out db' where run: "execute_call strict_pydantic counting_adapter sample_call sample_env (sample_live, 0) =
      (Inr out, db', 1)" using sample_execute by blast
  then show ?thesis using answer_matches_audit [OF run] by (auto simp: sample_env_fields)
qed

theorem exception_leaves_authorization_witness:
  "\<exists>e. db_events sample_between = [e] \<and> call_event sample_call sample_env 0 DecisionAllow ''ALLOWED'' ExecAuthorized e"
  using exception_leaves_authorization [OF sample_crash]
  by (auto simp: live_fields)

theorem duplicate_has_no_effect_witness:
  "\<exists>r db'. execute_call strict_pydantic counting_adapter sample_call sample_env (sample_between, 5) = (r, db', 5)"
proof -
  obtain r db' w' where run: "execute_call strict_pydantic counting_adapter sample_call sample_env (sample_between, 5)
      = (r, db', w')" by (metis prod_cases3)
  have "w' = 5"
    using duplicate_has_no_effect [OF run, of "stored_event sample_live sample_authorized"]
    by (simp add: between_fields authorized_fields sample_call_fields)
  with run show ?thesis by blast
qed

section \<open>The endpoint\<close>

definition sample_auth :: auth_env where
  "sample_auth =
     \<lparr>ae_jwt = plain_jwt, ae_settings = local_proxy_settings, ae_provider = None,
      ae_token_now = sample_now, ae_session_jwt_now = sample_now, ae_session_now = sample_now\<rparr>"

definition sample_tool_request :: tool_call_request where
  "sample_tool_request =
     \<lparr>tq_tool = ''crm'', tq_operation = ''read_customer'', tq_parameters = sample_params,
      tq_session_token = issue_session_token plain_jwt local_proxy_settings sample_row,
      tq_idempotency_key = ''key-0001'', tq_trace_id = None\<rparr>"

lemma issue_sample:
  "use \<in> set token_uses \<Longrightarrow> \<exists>token. issue_development_token plain_jwt local_proxy_settings subject use scopes 900 sample_now = Inr token"
  by (simp add: issue_development_token_def local_proxy_settings_def)

lemma sample_principal:
  assumes "use \<in> set token_uses" "scope_name scope" "subject \<noteq> []"
  shows "\<exists>token p. decode_principal sample_auth token = Inr p \<and> pr_subject p = subject \<and> pr_token_use p = use \<and>
    pr_scopes p = {scope}"
proof -
  obtain token where "issue_development_token plain_jwt local_proxy_settings subject use {scope} 900 sample_now = Inr token"
    using issue_sample [OF assms(1)] by blast
  from issued_token_principal [OF plain_jwt_roundtrip this, of sample_now None] assms(2,3)
  show ?thesis by (auto simp: decode_principal_def sample_auth_def sample_now_def)
qed

lemma sample_session_valid:
  assumes "agent_get seed_agent_id db = Some seed_agent"
    and "session_get ''sess_11'' db = Some (stored_session sample_seeded sample_row)"
  shows "validate_session plain_jwt local_proxy_settings seed_agent_id sample_now sample_now
     (issue_session_token plain_jwt local_proxy_settings sample_row) db = Inr (claims_of sample_row)"
proof -
  have "decode_session_token plain_jwt local_proxy_settings sample_now
      (issue_session_token plain_jwt local_proxy_settings sample_row) = Inr (claims_of sample_row)"
    by (rule decode_issued [OF plain_jwt_roundtrip])
      (simp_all add: nonempty_ids_def sample_row_def new_session_row_def seed_agent_id_def clock_reading_def
        sample_now_def whole_seconds_def)
  moreover have "check_persisted (claims_of sample_row) sample_now db = Inr ()"
    using assms
    by (simp add: check_persisted_Inr claims_of_def sample_row_def new_session_row_def stored_session_def
        seeded_fields now_utc_def seed_agent_def)
  ultimately show ?thesis
    by (simp add: validate_session_Inr claims_of_def sample_row_def new_session_row_def)
qed

lemma sample_authorize:
  "\<exists>token. authorize_call sample_auth token (tq_session_token sample_tool_request) sample_live =
     Inr (seed_agent, claims_of sample_row)"
proof -
  obtain token p where p: "decode_principal sample_auth token = Inr p" "pr_subject p = ''dev:agent_support_001''"
    "pr_token_use p = ''agent''" "pr_scopes p = {''tool:invoke''}"
    using sample_principal [of "''agent''" "''tool:invoke''" "''dev:agent_support_001''"]
    by (auto simp: token_uses_def scope_name_def is_space_def)
  have "resolve_active_agent p sample_live = Inr seed_agent"
    using p(2,3) by (simp add: resolve_active_agent_Inr agent_get_by_oidc_subject_def sample_live_def
        seeded_fields seed_agent_def)
  moreover have "ag_id seed_agent = seed_agent_id" by (simp add: seed_agent_def)
  ultimately show ?thesis
    using p(1,4) sample_session_valid [OF live_fields(5,6)]
    by (auto simp: authorize_call_Inr sample_auth_def sample_tool_request_def)
qed

lemma requested_sample: "requested_call sample_tool_request seed_agent (claims_of sample_row) = sample_call"
  by (simp add: requested_call_def sample_tool_request_def sample_call_def seed_agent_def)

lemma sample_endpoint:
  "\<exists>b resp db'. execute_tool_call sample_auth strict_pydantic counting_adapter (Some b) sample_tool_request sample_env
     (sample_live, 0) = (Inr resp, db', 1) \<and> tr_status resp = 200"
proof -
  obtain token where token: "authorize_call sample_auth token (tq_session_token sample_tool_request) sample_live =
      Inr (seed_agent, claims_of sample_row)" using sample_authorize by blast
  have "valid_tool_request sample_tool_request"
    by (simp add: valid_tool_request_def sample_tool_request_def in_length_def issue_session_token_def
        plain_jwt_def plain_encode_def put_str_def)
  moreover have "bearer_token m (Some \<lparr>br_scheme = ''bearer'', br_credentials = token\<rparr>) = Inr token" for m
    by (simp add: bearer_token_def lower_def lower_char_def Let_def)
  moreover obtain out e where "finish_call sample_call sample_env sample_policy 2 (Inr sample_result) sample_between =
      (Inr out, sample_between\<lparr>db_events := [stored_event sample_live sample_authorized, e]\<rparr>)"
    "call_response out = Inr \<lparr>tr_status = 200, tr_request_id = sample_request, tr_decision = ''allow'',
       tr_reason_code = ''ALLOWED'', tr_message = ''Tool call executed'', tr_result = Some (JObj [])\<rparr>"
    using sample_finish by blast
  ultimately have "execute_tool_call sample_auth strict_pydantic counting_adapter
      (Some \<lparr>br_scheme = ''bearer'', br_credentials = token\<rparr>) sample_tool_request sample_env (sample_live, 0) =
      (Inr \<lparr>tr_status = 200, tr_request_id = sample_request, tr_decision = ''allow'',
         tr_reason_code = ''ALLOWED'', tr_message = ''Tool call executed'', tr_result = Some (JObj [])\<rparr>,
       sample_between\<lparr>db_events := [stored_event sample_live sample_authorized, e]\<rparr>, 1)"
    using token
    by (simp add: execute_tool_call_def requested_sample execute_call_def sample_begin sample_call_fields counting_read)
  then show ?thesis by (metis tool_call_response.select_convs(1))
qed

theorem endpoint_status_witness:
  "\<exists>b resp db'. execute_tool_call sample_auth strict_pydantic counting_adapter (Some b) sample_tool_request sample_env
     (sample_live, 0) = (Inr resp, db', 1) \<and> tr_decision resp = ''allow''"
proof -
  obtain b resp db' where run: "execute_tool_call sample_auth strict_pydantic counting_adapter (Some b)
      sample_tool_request sample_env (sample_live, 0) = (Inr resp, db', 1)" and "tr_status resp = 200"
    using sample_endpoint by blast
  then show ?thesis using endpoint_status [OF run [unfolded counting_adapter_def]] by auto
qed

theorem audit_readers_witness:
  "\<exists>b es. get_events sample_auth (Some b) \<lparr>flt_agent_id = None, flt_session_id = None, flt_tool = Some ''crm'',
       flt_operation = None, flt_decision = None, flt_reason_code = None\<rparr> 100 0 sample_between = Inr es \<and>
     length es \<le> 200"
proof -
  obtain token p where p: "decode_principal sample_auth token = Inr p" "pr_token_use p = ''auditor''"
    "pr_scopes p = {''audit:read''}"
    using sample_principal [of "''auditor''" "''audit:read''" "''olga''"]
    by (auto simp: token_uses_def scope_name_def is_space_def)
  have "audit_principal sample_auth (Some \<lparr>br_scheme = ''bearer'', br_credentials = token\<rparr>) = Inr p"
    using p by (simp add: audit_principal_Inr lower_def lower_char_def Let_def)
  then obtain es where es: "get_events sample_auth (Some \<lparr>br_scheme = ''bearer'', br_credentials = token\<rparr>)
      \<lparr>flt_agent_id = None, flt_session_id = None, flt_tool = Some ''crm'', flt_operation = None,
       flt_decision = None, flt_reason_code = None\<rparr> 100 0 sample_between = Inr es"
    by (simp add: get_events_def)
  then show ?thesis using audit_readers [OF es] by blast
qed

section \<open>Overlapping calls\<close>

theorem single_worker_forwards_once_witness:
  "\<exists>s. (worker_step strict_pydantic counting_adapter)\<^sup>*\<^sup>* (started_worker sample_live 0) s \<and>
     wk_sent s = [(seed_agent_id, ''key-0001'')] \<and> key_on_record (wk_db s) (seed_agent_id, ''key-0001'')"
proof -
  let ?p = "\<lparr>pc_call = sample_call, pc_env = sample_env, pc_policy = sample_policy, pc_latency = 2\<rparr>"
  let ?s0 = "started_worker sample_live (0::nat)"
  let ?s1 = "?s0\<lparr>wk_db := sample_between, wk_waiting := ?p # wk_waiting ?s0\<rparr>"
  let ?s2 = "?s1\<lparr>wk_outside := Suc 0, wk_waiting := [] @ [], wk_returned := (?p, Inr sample_result) # wk_returned ?s1,
      wk_sent := call_key (pc_call ?p) # wk_sent ?s1\<rparr>"
  have "worker_step strict_pydantic counting_adapter ?s0 ?s1"
    by (rule worker_step.forward) (simp add: started_worker_def sample_begin)
  moreover have "worker_step strict_pydantic counting_adapter ?s1 ?s2"
    by (rule worker_step.deliver) (simp_all add: started_worker_def sample_call_fields counting_read)
  ultimately have run: "(worker_step strict_pydantic counting_adapter)\<^sup>*\<^sup>* ?s0 ?s2"
    by (meson r_into_rtranclp rtranclp_trans)
  have "wk_sent ?s2 = [(seed_agent_id, ''key-0001'')]"
    by (simp add: started_worker_def call_key_def sample_call_fields)
  then show ?thesis using run single_worker_forwards_once [OF run] by (intro exI [of _ ?s2]) simp
qed

definition second_env :: call_env where
  "second_env = sample_env\<lparr>ce_request_uuid := ''r2'', ce_first_uuid := ''e3''\<rparr>"

lemma second_commit:
  "\<exists>l db'. commit_call sample_call second_env (Judged sample_policy) sample_between = (Inr (Forward sample_policy l), db')"
proof -
  have name: "request_name second_env \<noteq> sample_request"
    by (simp add: sample_request_def request_name_def second_env_def sample_env_def)
  have input: "ai_manifest_id (audit_input out sample_call 0 ExecAuthorized (Some sample_policy) l t d) = Some seed_manifest_id"
    for out l t d
    by (simp add: audit_input_def sample_policy_fields)
  have rec: "\<exists>e db'. record_event (audit_input (outcome (request_name second_env) ''allow'' ''ALLOWED'' ''Tool call is permitted'')
      sample_call 0 ExecAuthorized (Some sample_policy) l t DecisionAllow) ''e3'' now sample_between = (Inr e, db')"
    for l t now
    using record_event_fits [of sample_between "''e3''" "audit_input (outcome (request_name second_env) ''allow''
      ''ALLOWED'' ''Tool call is permitted'') sample_call 0 ExecAuthorized (Some sample_policy) l t DecisionAllow" now]
      name by (auto simp: between_fields sample_call_fields authorized_fields input)
  have uuid: "ce_first_uuid second_env = ''e3''" by (simp add: second_env_def)
  obtain e db' where "record_event (audit_input (outcome (request_name second_env) ''allow'' ''ALLOWED'' ''Tool call is permitted'')
      sample_call 0 ExecAuthorized (Some sample_policy)
      (Some (elapsed_ms (ce_policy_started second_env) (ce_policy_done second_env)))
      (elapsed_ms (ce_started second_env) (ce_first_done second_env)) DecisionAllow)
      ''e3'' (ce_first_at second_env) sample_between = (Inr e, db')"
    using rec by blast
  then show ?thesis
    by (simp add: commit_call_def Let_def sample_policy_fields answer_after_def record_call_def uuid)
qed

lemma first_commit:
  "commit_call sample_call sample_env (Judged sample_policy) sample_live = (Inr (Forward sample_policy 2), sample_between)"
  using sample_begin [of strict_pydantic]
  by (simp add: begin_call_halves check_call_def sample_call_fields sample_no_key sample_env_fields sample_allowed)

theorem two_processes_forward_twice_witness:
  "\<exists>l1 l2 db1 db2. commit_call sample_call sample_env (Judged sample_policy) sample_live = (Inr (Forward sample_policy l1), db1) \<and>
     commit_call sample_call second_env (Judged sample_policy) db1 = (Inr (Forward sample_policy l2), db2)"
proof (rule two_processes_forward_twice)
  show "check_call strict_pydantic sample_call sample_env sample_live = Inr (Judged sample_policy)"
    by (simp add: check_call_def sample_call_fields sample_no_key sample_env_fields sample_allowed)
  show "check_call strict_pydantic sample_call second_env sample_live = Inr (Judged sample_policy)"
    by (simp add: check_call_def sample_call_fields sample_no_key second_env_def sample_env_fields sample_allowed)
  show "\<not> (\<exists>e. fst (commit_call sample_call second_env (Judged sample_policy)
      (snd (commit_call sample_call sample_env (Judged sample_policy) sample_live))) = Inl e)"
    using second_commit by (auto simp: first_commit)
qed (simp_all add: sample_policy_fields first_commit)

section \<open>Proxy and CRM\<close>

definition sample_crm_settings :: crm_settings where
  "sample_crm_settings =
     \<lparr>cs_app_env = EnvTest, cs_log_level = LevelInfo, cs_service_version = ''0.1.0'', cs_host = ''0.0.0.0'',
      cs_service_name = ''sample-crm'', cs_port = 8001, cs_database_url = ''sqlite://'',
      cs_internal_api_key = default_crm_key\<rparr>"

text \<open>A client that cuts query and fragment off and passes the rest on.\<close>

definition sample_crm_lib :: crm_lib where
  "sample_crm_lib =
     \<lparr>cr_email = Some, cr_invalid_body = JNull,
      cr_other_route = (\<lambda>p q. \<lparr>hp_status_code = 404, hp_json = Some (JObj [])\<rparr>),
      cr_target = (\<lambda>base p. Inr (takeWhile (\<lambda>c. c \<noteq> CHR ''?'' \<and> c \<noteq> CHR ''#'') p))\<rparr>"

lemma sample_direct: "direct_target sample_crm_lib s"
proof -
  have "c \<noteq> CHR ''?'' \<and> c \<noteq> CHR ''#''" if "plain_char c" for c using that by (auto simp: plain_char_def)
  then have "takeWhile (\<lambda>c. c \<noteq> CHR ''?'' \<and> c \<noteq> CHR ''#'') k = k" if "plain_id k" for k
    using that by (auto simp: plain_id_def takeWhile_eq_all_conv list_all_iff simp del: char.inject)
  then show ?thesis by (simp add: direct_target_def sample_crm_lib_def del: takeWhile_eq_all_conv)
qed

lemma sample_shared_key: "shared_key local_proxy_settings sample_crm_settings"
  by (simp add: shared_key_def local_proxy_settings_def sample_crm_settings_def default_crm_key_def is_ascii_def)

lemma live_in_force: "seed_in_force sample_live"
proof -
  have "seed_in_force (fresh_seed sqlite_time False 1767225600000000)" by (rule fresh_in_force) simp
  then show ?thesis
    by (simp add: seed_in_force_def manifest_get_active_def tool_get_by_name_def live_fields sample_seeded_def)
qed

theorem seeded_agent_end_to_end_witness:
  "\<exists>r db'. execute_call strict_pydantic (proxied sample_crm_lib local_proxy_settings sample_crm_settings) sample_call
     sample_env (sample_live, sample_seeded) = (r, db', sample_seeded)"
proof -
  obtain r db' crm' where run: "execute_call strict_pydantic
      (proxied sample_crm_lib local_proxy_settings sample_crm_settings) sample_call sample_env
      (sample_live, sample_seeded) = (r, db', crm')" by (metis prod_cases3)
  have "crm' = sample_seeded"
    using seeded_agent_end_to_end [OF live_in_force sample_call_fields(1) _ sample_shared_key sample_direct _ run]
    by (simp add: sample_call_fields sample_params_def claims_of_def sample_row_def new_session_row_def
        plain_id_def plain_char_def)
  with run show ?thesis by blast
qed

text \<open>A manifest that also lets the agent delete, without a data scope.\<close>

definition eraser_rule :: operation_rule where
  "eraser_rule = \<lparr>or_parameter_schema = or_parameter_schema seed_rule, or_data_scope = None\<rparr>"

definition eraser_permission :: tool_permission where
  "eraser_permission =
     \<lparr>tp_allowed_operations = [''delete_customer''], tp_operation_rules = [(''delete_customer'', eraser_rule)]\<rparr>"

definition eraser_permission_json :: json where
  "eraser_permission_json =
     JObj [(''allowed_operations'', str_array [''delete_customer'']),
           (''operation_rules'', JObj [(''delete_customer'', JObj
              [(''parameter_schema'', JObj
                  [(''required'', str_array [''customer_id'']),
                   (''properties'', JObj [(''customer_id'', typed ''string'')])])])])]"

definition eraser_json :: json where
  "eraser_json =
     JObj [(''schema_version'', JStr ''1.0''), (''manifest_id'', JStr seed_manifest_id),
       (''agent_id'', JStr seed_agent_id), (''tools'', JObj [(''crm'', eraser_permission_json)]),
       (''deny_message'', JStr ''no'')]"

definition eraser_document :: manifest_document where
  "eraser_document =
     \<lparr>md_schema_version = ''1.0'', md_manifest_id = seed_manifest_id, md_agent_id = seed_agent_id,
      md_tools = [(''crm'', eraser_permission)], md_deny_message = ''no''\<rparr>"

lemma parse_eraser_rule:
  "parse_operation_rule P (JObj
     [(''parameter_schema'', JObj
        [(''required'', str_array [''customer_id'']),
         (''properties'', JObj [(''customer_id'', typed ''string'')])])]) = Some eraser_rule"
  by (simp add: parse_operation_rule_def parse_optional_scope_def only_keys_def parse_seed_schema eraser_rule_def)

lemma parse_eraser_permission: "parse_tool_permission P eraser_permission_json = Some eraser_permission"
  by (simp add: parse_tool_permission_def eraser_permission_json_def only_keys_def str_list_field_def
      dict_field_def parse_eraser_rule)
    (simp add: str_array_def eraser_permission_def allowed_operations_must_have_rules_def)

lemma parse_eraser: "parse_manifest P eraser_json = Some eraser_document"
  by (simp add: parse_manifest_def eraser_json_def only_keys_def str_field_def literal_field_def
      dict_field_def parse_eraser_permission in_length_def eraser_document_def)
    (simp add: seed_manifest_id_def seed_agent_id_def)

definition eraser_manifest :: permission_manifest where
  "eraser_manifest = (seeded_manifest sqlite_time 1767225600000000)
     \<lparr>pm_document := eraser_json, pm_checksum := manifest_checksum eraser_json\<rparr>"

definition eraser_live :: database where
  "eraser_live = sample_live\<lparr>db_manifests := [eraser_manifest]\<rparr>"

definition erase_call :: tool_call where
  "erase_call = sample_call\<lparr>cl_operation := ''delete_customer''\<rparr>"

lemma eraser_live_fields:
  "db_events eraser_live = []" "\<not> db_checks_width eraser_live"
  "agent_get seed_agent_id eraser_live = Some seed_agent"
  "session_get ''sess_11'' eraser_live = Some (stored_session sample_seeded sample_row)"
  "manifest_get seed_manifest_id eraser_live = Some eraser_manifest"
  using live_fields
  by (simp_all add: eraser_live_def agent_get_def session_get_def manifest_get_def eraser_manifest_def
      seeded_manifest_fields)

lemma erase_allowed:
  "evaluate P seed_agent_id (claims_of sample_row) ''crm'' ''delete_customer'' sample_params sample_now eraser_live =
     Inr (allow eraser_manifest)"
proof -
  have "manifest_get_active seed_agent_id eraser_live = Some eraser_manifest"
    by (simp add: eraser_live_def manifest_get_active_def eraser_manifest_def is_active_for_def
        seeded_manifest_def seed_manifest_def)
  moreover have "manifest_in_force P eraser_manifest eraser_document sample_now"
    by (simp add: manifest_in_force_def eraser_manifest_def seeded_manifest_fields parse_eraser
        eraser_document_def seed_effective_from_def sample_now_def)
  moreover have "rule_permits eraser_rule (claims_of sample_row) sample_params"
    by (simp add: rule_permits_def eraser_rule_def seed_rule_def validate_parameters_iff sample_params_def)
  then have "document_permits eraser_document (claims_of sample_row) ''crm'' ''delete_customer'' sample_params eraser_live"
    by (simp add: document_permits_def eraser_document_def eraser_permission_def eraser_live_def live_fields
        tool_get_by_name_def seeded_fields seed_tool_def)
  ultimately show ?thesis
    using evaluate_allows [of P seed_agent_id "claims_of sample_row" "''crm''" "''delete_customer''" sample_params
        sample_now eraser_live "allow eraser_manifest"] by blast
qed

lemma erase_begin:
  "\<exists>l db1. begin_call P erase_call sample_env eraser_live = (Inr (Forward (allow eraser_manifest) l), db1)"
proof -
  have fields: "cl_agent_id erase_call = seed_agent_id" "cl_idempotency_key erase_call = ''key-0001''"
    "cl_tool erase_call = ''crm''" "cl_operation erase_call = ''delete_customer''"
    "cl_parameters erase_call = sample_params" "cl_session erase_call = claims_of sample_row"
    by (simp_all add: erase_call_def sample_call_fields)
  let ?d = "audit_input (outcome sample_request ''allow'' ''ALLOWED'' ''Tool call is permitted'') erase_call 0
      ExecAuthorized (Some (allow eraser_manifest)) (Some 2) 4 DecisionAllow"
  have "ai_manifest_id ?d = Some seed_manifest_id"
    by (simp add: audit_input_def eraser_manifest_def seeded_manifest_fields)
  then obtain e db1 where "record_event ?d ''e1'' (sample_now + 1000) eraser_live = (Inr e, db1)"
    using record_event_fits [of eraser_live "''e1''" ?d "sample_now + 1000"]
    by (simp add: eraser_live_fields fields sample_call_fields)
  then show ?thesis
    by (simp add: begin_call_def fields has_idempotency_key_iff eraser_live_fields erase_allowed Let_def
        sample_env_latency sample_env_fields record_call_def answer_after_def)
qed

lemma sample_crm_delete:
  "\<exists>x. proxied sample_crm_lib local_proxy_settings sample_crm_settings ''crm'' ''delete_customer'' sample_params
     sample_seeded = (x, sample_seeded\<lparr>db_customers := tl seed_customers\<rparr>)"
proof -
  have key: "require_internal_key sample_crm_settings (Some default_crm_key) = Inr ()"
    using sample_shared_key by (simp add: require_internal_key_Inr shared_key_def sample_crm_settings_def)
  have "customer_of_path (''/customers/'' @ ''customer_1001'') = Some ''customer_1001''"
    by (rule customer_of_plain) (simp add: plain_id_def plain_char_def)
  then show ?thesis
    using key
    by (simp add: proxied_def crm_execute_def crm_request_def sample_params_def py_str_def Let_def crm_app_def
        sent_to_def crm_routes_def sample_crm_lib_def dispatch_def new_crm_adapter_def local_proxy_settings_def delete_customer_cases
        customer_get_def seeded_fields seed_customers_def customer_delete_def remove_row_def)
qed

theorem proxied_effect_confined_witness:
  "\<exists>r db' crm'. execute_call strict_pydantic (proxied sample_crm_lib local_proxy_settings sample_crm_settings)
     erase_call sample_env (eraser_live, sample_seeded) = (r, db', crm') \<and> crm' \<noteq> sample_seeded \<and>
     (\<forall>i. i \<noteq> ''customer_1001'' \<longrightarrow> customer_get i crm' = customer_get i sample_seeded)"
proof -
  let ?ad = "proxied sample_crm_lib local_proxy_settings sample_crm_settings"
  obtain l db1 where "begin_call strict_pydantic erase_call sample_env eraser_live =
      (Inr (Forward (allow eraser_manifest) l), db1)" using erase_begin by blast
  moreover obtain x where "?ad ''crm'' ''delete_customer'' sample_params sample_seeded =
      (x, sample_seeded\<lparr>db_customers := tl seed_customers\<rparr>)" using sample_crm_delete by blast
  ultimately obtain r db' where run: "execute_call strict_pydantic ?ad erase_call sample_env (eraser_live, sample_seeded) =
      (r, db', sample_seeded\<lparr>db_customers := tl seed_customers\<rparr>)"
    by (cases "finish_call erase_call sample_env (allow eraser_manifest) l x db1")
      (simp add: execute_call_def erase_call_def sample_call_fields)
  have "db_customers sample_seeded \<noteq> tl seed_customers"
    by (simp add: seeded_fields seed_customers_def)
  then have diff: "sample_seeded\<lparr>db_customers := tl seed_customers\<rparr> \<noteq> sample_seeded"
    by (metis database.select_convs(8) database.surjective database.update_convs(8))
  obtain cid k where "map_of (cl_parameters erase_call) ''customer_id'' = Some cid"
    "plain_id (py_str cid) \<longrightarrow> k = py_str cid"
    "\<forall>i. i \<noteq> k \<longrightarrow> customer_get i (sample_seeded\<lparr>db_customers := tl seed_customers\<rparr>) = customer_get i sample_seeded"
    using proxied_effect_confined [OF run diff] sample_direct by metis
  moreover have "map_of (cl_parameters erase_call) ''customer_id'' = Some (JStr ''customer_1001'')"
    by (simp add: erase_call_def sample_call_fields sample_params_def)
  moreover have "plain_id (py_str (JStr ''customer_1001''))" by (simp add: py_str_def plain_id_def plain_char_def)
  moreover have "py_str (JStr ''customer_1001'') = ''customer_1001''" by (simp add: py_str_def)
  ultimately have "\<forall>i. i \<noteq> ''customer_1001'' \<longrightarrow>
      customer_get i (sample_seeded\<lparr>db_customers := tl seed_customers\<rparr>) = customer_get i sample_seeded"
    by (metis option.inject)
  with run diff show ?thesis by blast
qed

text \<open>An identifier with a query: the customer before the question mark is deleted.\<close>

lemma query_names_other_customer:
  "proxied sample_crm_lib local_proxy_settings sample_crm_settings ''crm'' ''delete_customer''
     [(''customer_id'', JStr ''customer_1001?x'')] sample_seeded =
   (Inr \<lparr>tx_result = None, tx_upstream_status_code = 204\<rparr>, customer_delete (hd seed_customers) sample_seeded)"
proof (rule proxied_delete_by_path [OF sample_shared_key])
  show "customer_get ''customer_1001'' sample_seeded = Some (hd seed_customers)"
    by (simp add: customer_get_def seeded_fields seed_customers_def)
qed (simp_all add: sample_crm_lib_def)

section \<open>The database over time\<close>

lemma seed_run: "db_step\<^sup>*\<^sup>* (empty_database sqlite_time False) sample_seeded"
  unfolding sample_seeded_def
  by (intro r_into_rtranclp db_step.database_seeded [OF seed_fresh_database])

theorem reachable_schema_witness:
  "db_wf sample_seeded \<and>
   \<not> (\<exists>m \<in> set (db_manifests sample_seeded). \<exists>n \<in> set (db_manifests sample_seeded).
      is_active_for seed_agent_id m \<and> is_active_for seed_agent_id n \<and> m \<noteq> n)"
  using reachable_schema [OF seed_run] by blast

lemma call_run: "db_step\<^sup>*\<^sup>* sample_live sample_between"
  by (intro r_into_rtranclp db_step.call_begun [OF sample_begin [of strict_pydantic]])

theorem history_immutable_witness:
  "take (event_count sample_live) (db_events sample_between) = db_events sample_live \<and>
   (\<exists>m'. manifest_get seed_manifest_id sample_between = Some m' \<and>
      manifest_successor (seeded_manifest sqlite_time 1767225600000000) m')"
  using history_immutable [OF live_wf call_run] live_fields(7) by blast

definition old_row :: agent_session where
  "old_row = (new_session_row seed_agent_id ''user_8'' ''customer_1002'' ''host'' 1800 ''98'' ''99'' sample_now)
     \<lparr>se_status := SessionRevoked\<rparr>"

definition two_sessions :: database where
  "two_sessions = sample_live\<lparr>db_sessions := db_sessions sample_live @ [stored_session sample_live old_row]\<rparr>"

lemma two_sessions_add: "session_add old_row sample_live = (Inr old_row, two_sessions)"
  using live_fields(4,5)
  by (simp add: session_add_def insert_row_Inr widths_ok_def width_defs session_get_def session_get_by_jti_def
      two_sessions_def sample_live_def seeded_fields old_row_def sample_row_def new_session_row_def
      stored_session_def session_window_ok_def now_utc_def)

lemma two_sessions_fields:
  "agent_get seed_agent_id two_sessions = Some seed_agent"
  "session_get ''sess_11'' two_sessions = Some (stored_session sample_seeded sample_row)"
  "session_get ''sess_98'' two_sessions = Some (stored_session sample_live old_row)"
  using live_fields(5)
  by (simp_all add: two_sessions_def agent_get_def session_get_def sample_live_def sample_row_def old_row_def
      new_session_row_def stored_session_def)

theorem revoked_forever_witness:
  "session_revoked ''sess_98'' two_sessions \<and>
   validate_session plain_jwt local_proxy_settings seed_agent_id sample_now sample_now
     (issue_session_token plain_jwt local_proxy_settings sample_row) two_sessions = Inr (claims_of sample_row) \<and>
   tc_session_id (claims_of sample_row) \<noteq> ''sess_98''"
proof -
  have revoked: "session_revoked ''sess_98'' two_sessions"
    by (simp add: session_revoked_def two_sessions_fields stored_session_def old_row_def)
  have valid: "validate_session plain_jwt local_proxy_settings seed_agent_id sample_now sample_now
     (issue_session_token plain_jwt local_proxy_settings sample_row) two_sessions = Inr (claims_of sample_row)"
    by (rule sample_session_valid [OF two_sessions_fields(1,2)])
  have "tc_session_id (claims_of sample_row) \<noteq> ''sess_98''"
    by (rule revoked_forever [OF session_add_wf [OF live_wf two_sessions_add] revoked rtranclp.rtrancl_refl valid])
  with revoked valid show ?thesis by blast
qed

theorem revoke_session_outcome_witness:
  "session_get ''sess_98'' (snd (revoke_session ''sess_11'' sample_now two_sessions)) = session_get ''sess_98'' two_sessions"
proof (cases "revoke_session ''sess_11'' sample_now two_sessions")
  case (Pair r db')
  then show ?thesis
    using revoke_session_outcome [where k = "''sess_11''" and now = sample_now and db = two_sessions] two_sessions_fields(2)
    by (cases r) auto
qed

theorem development_token_lifetime_witness:
  "\<exists>token. decode_access_token plain_jwt local_proxy_settings None (sample_now + 900000000) token =
     Inl (AuthenticationError ''ACCESS_TOKEN_EXPIRED'' ''Access token has expired'')"
proof -
  obtain token where "issue_development_token plain_jwt local_proxy_settings ''olga'' ''auditor'' {''audit:read''} 900
      sample_now = Inr token"
    using issue_sample [of "''auditor''"] by (auto simp: token_uses_def)
  from development_token_lifetime [OF plain_jwt_roundtrip plain_jwt_expiry this, of "sample_now + 900000000" None]
  show ?thesis by (auto simp: scope_name_def is_space_def sample_now_def)
qed

definition draft_manifest :: permission_manifest where
  "draft_manifest = seed_manifest\<lparr>pm_id := ''v2'', pm_version := 2\<rparr>"

definition draft_live :: database where
  "draft_live = sample_live\<lparr>db_manifests := db_manifests sample_live @ [stored_manifest sample_live draft_manifest]\<rparr>"

lemma draft_fields:
  "pm_id draft_manifest = ''v2''" "pm_agent_id draft_manifest = seed_agent_id" "pm_version draft_manifest = 2"
  "pm_status draft_manifest = ManifestDraft" "pm_expires_at draft_manifest = None"
  by (simp_all add: draft_manifest_def seed_manifest_def)

lemma draft_add: "manifest_add draft_manifest sample_live = (Inr draft_manifest, draft_live)"
  using live_fields(4,5)
  by (simp add: manifest_add_def insert_row_Inr widths_ok_def width_defs manifest_get_def live_fields(2) seeded_fields
      draft_fields manifest_window_ok_def stored_manifest_def active_index_ok_def is_active_for_def draft_live_def)
    (simp add: seeded_manifest_def seed_manifest_def seed_manifest_id_def)

theorem activate_draft_witness:
  "\<exists>m rows. manifest_activate ''v2'' ''ops'' sample_now draft_live = (Inr m, draft_live\<lparr>db_manifests := rows\<rparr>) \<and>
     map pm_status rows = [ManifestSuperseded, ManifestActive]"
proof -
  let ?t = "stored_manifest sample_live draft_manifest"
  have wf: "db_wf draft_live" by (rule manifest_add_wf [OF live_wf draft_add])
  have t: "pm_id ?t = ''v2''" "pm_status ?t = ManifestDraft" "pm_agent_id ?t = seed_agent_id"
    by (simp_all add: stored_manifest_def draft_fields)
  have rows: "db_manifests draft_live = [seeded_manifest sqlite_time 1767225600000000, ?t]"
    by (simp add: draft_live_def live_fields seeded_fields)
  have id: "pm_id (seeded_manifest sqlite_time 1767225600000000) \<noteq> ''v2''"
    by (simp add: seeded_manifest_fields seed_manifest_id_def)
  have get: "manifest_get ''v2'' draft_live = Some ?t"
    using t id by (simp add: manifest_get_def rows)
  have width: "widths_ok draft_live cs" for cs
    using live_fields(4) by (simp add: widths_ok_def width_defs draft_live_def)
  have active: "is_active_for seed_agent_id (seeded_manifest sqlite_time 1767225600000000)"
    by (simp add: is_active_for_def seeded_manifest_def seed_manifest_def)
  have "manifest_activate ''v2'' ''ops'' sample_now draft_live =
      (Inr (activated_row ?t ''ops'' (now_utc sample_now)), draft_live\<lparr>db_manifests :=
         activation_of ?t ''ops'' (db_store_time draft_live (now_utc sample_now)) (db_manifests draft_live)\<rparr>)"
    using activate_draft [OF wf get t(2) width] width by blast
  moreover have "map pm_status (activation_of ?t ''ops'' x (db_manifests draft_live)) =
      [ManifestSuperseded, ManifestActive]" for x
    by (simp add: rows activation_of_def t id active activated_row_def)
  ultimately show ?thesis by blast
qed

end
