(* ===== verification/Migrations.thy ===== *)
theory Migrations
  imports Prelude
begin

text \<open>
  \<open>migrations/versions/\<close>: the three revisions as lists of schema operations, and what the
  operations do to a schema.  A schema is the list of its tables and of its indexes.  The
  operations are those of \<open>alembic.op\<close> the revisions use; each fails as the database does when
  the object exists already or is missing.  The properties: the revisions apply one after the
  other to an empty database, and each \<open>downgrade\<close> undoes its \<open>upgrade\<close>.
\<close>

section \<open>Schemas\<close>

datatype column_type =
    VarChar nat
  | TextType
  | IntegerType
  | JsonType
  | DateTimeTz
  | EnumType string "string list"

datatype server_default =
    CurrentTimestamp
  | Literal string

record column =
  co_name :: string
  co_type :: column_type
  co_nullable :: bool
  co_default :: "server_default option"

datatype on_delete = Cascade | Restrict

datatype table_constraint =
    PrimaryKey "string list"
  | Unique "string option" "string list"
  | ForeignKey "string list" string "string list" on_delete
  | Check string string

record table =
  tb_name :: string
  tb_columns :: "column list"
  tb_constraints :: "table_constraint list"

record index =
  ix_name :: string
  ix_table :: string
  ix_columns :: "string list"
  ix_unique :: bool
  ix_where :: "string option"

record schema =
  sc_tables :: "table list"
  sc_indexes :: "index list"

definition empty_schema :: schema where
  "empty_schema = \<lparr>sc_tables = [], sc_indexes = []\<rparr>"

section \<open>Schema operations\<close>

datatype schema_op =
    CreateTable table
  | DropTable string
  | CreateIndex index
  | DropIndex string string
  | AddColumn string column
  | DropColumn string string

definition find_table :: "string \<Rightarrow> schema \<Rightarrow> table option" where
  "find_table t s = row_of tb_name t (sc_tables s)"

definition column_names :: "table \<Rightarrow> string list" where
  "column_names t = map co_name (tb_columns t)"

fun constraint_columns :: "table_constraint \<Rightarrow> string list" where
  "constraint_columns (PrimaryKey cs) = cs"
| "constraint_columns (Unique n cs) = cs"
| "constraint_columns (ForeignKey cs t ds d) = cs"
| "constraint_columns (Check n x) = []"

text \<open>A foreign key needs its target; SQLite and PostgreSQL need no more of a new table.\<close>

fun constraint_ok :: "table \<Rightarrow> schema \<Rightarrow> table_constraint \<Rightarrow> bool" where
  "constraint_ok t s (ForeignKey cs r ds d) \<longleftrightarrow>
     set cs \<subseteq> set (column_names t) \<and>
     (case find_table r s of None \<Rightarrow> False | Some u \<Rightarrow> set ds \<subseteq> set (column_names u))"
| "constraint_ok t s c \<longleftrightarrow> set (constraint_columns c) \<subseteq> set (column_names t)"

definition ddl_error :: "string \<Rightarrow> 'a res" where
  "ddl_error m = Inl (OperationalError m)"

fun apply_op :: "schema_op \<Rightarrow> schema \<Rightarrow> schema res" where
  "apply_op (CreateTable t) s =
     (if find_table (tb_name t) s \<noteq> None then ddl_error (tb_name t)
      else if \<not> list_all (constraint_ok t s) (tb_constraints t) then ddl_error (tb_name t)
      else Inr (s\<lparr>sc_tables := sc_tables s @ [t]\<rparr>))"
| "apply_op (DropTable n) s =
     (if find_table n s = None then ddl_error n
      else Inr (s\<lparr>sc_tables := remove_row tb_name n (sc_tables s),
                 sc_indexes := filter (\<lambda>i. ix_table i \<noteq> n) (sc_indexes s)\<rparr>))"
| "apply_op (CreateIndex i) s =
     (if row_of ix_name (ix_name i) (sc_indexes s) \<noteq> None then ddl_error (ix_name i)
      else (case find_table (ix_table i) s of
              None \<Rightarrow> ddl_error (ix_name i)
            | Some t \<Rightarrow>
                if set (ix_columns i) \<subseteq> set (column_names t)
                then Inr (s\<lparr>sc_indexes := sc_indexes s @ [i]\<rparr>) else ddl_error (ix_name i)))"
| "apply_op (DropIndex n t) s =
     (case row_of ix_name n (sc_indexes s) of
        None \<Rightarrow> ddl_error n
      | Some i \<Rightarrow> if ix_table i = t then Inr (s\<lparr>sc_indexes := remove_row ix_name n (sc_indexes s)\<rparr>)
                  else ddl_error n)"
| "apply_op (AddColumn n c) s =
     (case find_table n s of
        None \<Rightarrow> ddl_error n
      | Some t \<Rightarrow>
          if co_name c \<in> set (column_names t) then ddl_error n
          else Inr (s\<lparr>sc_tables := replace_row tb_name (t\<lparr>tb_columns := tb_columns t @ [c]\<rparr>) (sc_tables s)\<rparr>))"
| "apply_op (DropColumn n c) s =
     (case find_table n s of
        None \<Rightarrow> ddl_error n
      | Some t \<Rightarrow>
          if c \<notin> set (column_names t) then ddl_error n
          else Inr (s\<lparr>sc_tables := replace_row tb_name
                 (t\<lparr>tb_columns := remove_row co_name c (tb_columns t)\<rparr>) (sc_tables s)\<rparr>))"

fun apply_ops :: "schema_op list \<Rightarrow> schema \<Rightarrow> schema res" where
  "apply_ops [] s = Inr s"
| "apply_ops (x # xs) s = bind_res (apply_op x s) (apply_ops xs)"

lemma apply_ops_append [simp]: "apply_ops (xs @ ys) s = bind_res (apply_ops xs s) (apply_ops ys)"
  by (induction xs arbitrary: s) (auto simp: bind_res_def split: sum.splits)

section \<open>Revision 20260730_0001\<close>

definition agent_status_type :: column_type where
  "agent_status_type = EnumType ''agent_status'' [''active'', ''suspended'', ''decommissioned'']"

definition tool_status_type :: column_type where
  "tool_status_type = EnumType ''tool_status'' [''active'', ''disabled'']"

definition manifest_status_type :: column_type where
  "manifest_status_type = EnumType ''manifest_status'' [''draft'', ''active'', ''superseded'', ''revoked'']"

definition session_status_type :: column_type where
  "session_status_type = EnumType ''session_status'' [''active'', ''expired'', ''revoked'']"

definition audit_decision_type :: column_type where
  "audit_decision_type = EnumType ''audit_decision'' [''allow'', ''block'', ''error'']"

definition audit_execution_status_type :: column_type where
  "audit_execution_status_type = EnumType ''audit_execution_status''
     [''not_forwarded'', ''authorized'', ''executed'', ''tool_failed'', ''timed_out'']"

definition required_column :: "string \<Rightarrow> column_type \<Rightarrow> column" where
  "required_column n t = \<lparr>co_name = n, co_type = t, co_nullable = False, co_default = None\<rparr>"

definition optional_column :: "string \<Rightarrow> column_type \<Rightarrow> column" where
  "optional_column n t = \<lparr>co_name = n, co_type = t, co_nullable = True, co_default = None\<rparr>"

definition stamped_column :: "string \<Rightarrow> column" where
  "stamped_column n =
     \<lparr>co_name = n, co_type = DateTimeTz, co_nullable = False, co_default = Some CurrentTimestamp\<rparr>"

definition plain_index :: "string \<Rightarrow> string \<Rightarrow> index" where
  "plain_index t c =
     \<lparr>ix_name = ''ix_'' @ t @ ''_'' @ c, ix_table = t, ix_columns = [c], ix_unique = False, ix_where = None\<rparr>"

definition initial_agents :: table where
  "initial_agents =
     \<lparr>tb_name = ''agents'',
      tb_columns =
        [required_column ''agent_id'' (VarChar 64), required_column ''oidc_subject'' (VarChar 255),
         required_column ''name'' (VarChar 200), required_column ''owning_team'' (VarChar 200),
         required_column ''status'' agent_status_type, stamped_column ''created_at'', stamped_column ''updated_at''],
      tb_constraints = [PrimaryKey [''agent_id''], Unique None [''oidc_subject'']]\<rparr>"

definition initial_tool_definitions :: table where
  "initial_tool_definitions =
     \<lparr>tb_name = ''tool_definitions'',
      tb_columns =
        [required_column ''tool_id'' (VarChar 64), required_column ''name'' (VarChar 100),
         required_column ''adapter_type'' (VarChar 100), required_column ''private_base_url'' (VarChar 500),
         required_column ''allowed_operations'' JsonType, required_column ''request_schema'' JsonType,
         required_column ''response_schema'' JsonType, required_column ''status'' tool_status_type,
         stamped_column ''created_at'', stamped_column ''updated_at''],
      tb_constraints = [PrimaryKey [''tool_id''], Unique None [''name'']]\<rparr>"

definition initial_permission_manifests :: table where
  "initial_permission_manifests =
     \<lparr>tb_name = ''permission_manifests'',
      tb_columns =
        [required_column ''manifest_id'' (VarChar 100), required_column ''agent_id'' (VarChar 64),
         required_column ''version'' IntegerType, required_column ''status'' manifest_status_type,
         required_column ''document'' JsonType, required_column ''checksum'' (VarChar 64),
         required_column ''effective_from'' DateTimeTz, optional_column ''expires_at'' DateTimeTz,
         required_column ''created_by'' (VarChar 255), optional_column ''approved_by'' (VarChar 255),
         required_column ''change_reason'' TextType, stamped_column ''created_at'',
         optional_column ''activated_at'' DateTimeTz],
      tb_constraints =
        [Check ''ck_manifest_valid_window'' ''expires_at IS NULL OR expires_at > effective_from'',
         ForeignKey [''agent_id''] ''agents'' [''agent_id''] Cascade, PrimaryKey [''manifest_id''],
         Unique (Some ''uq_manifest_agent_version'') [''agent_id'', ''version'']]\<rparr>"

definition initial_agent_sessions :: table where
  "initial_agent_sessions =
     \<lparr>tb_name = ''agent_sessions'',
      tb_columns =
        [required_column ''session_id'' (VarChar 64), required_column ''token_jti'' (VarChar 128),
         required_column ''agent_id'' (VarChar 64), required_column ''user_id'' (VarChar 128),
         required_column ''customer_id'' (VarChar 64), required_column ''status'' session_status_type,
         stamped_column ''created_at'', required_column ''expires_at'' DateTimeTz,
         optional_column ''revoked_at'' DateTimeTz],
      tb_constraints =
        [Check ''ck_session_valid_window'' ''expires_at > created_at'',
         ForeignKey [''agent_id''] ''agents'' [''agent_id''] Restrict, PrimaryKey [''session_id''],
         Unique None [''token_jti'']]\<rparr>"

definition initial_audit_events :: table where
  "initial_audit_events =
     \<lparr>tb_name = ''tool_call_audit_events'',
      tb_columns =
        [required_column ''event_id'' (VarChar 64), required_column ''request_id'' (VarChar 64),
         required_column ''sequence'' IntegerType, stamped_column ''timestamp'',
         required_column ''agent_id'' (VarChar 64), optional_column ''session_id'' (VarChar 64),
         optional_column ''user_id'' (VarChar 128), required_column ''tool'' (VarChar 100),
         required_column ''operation'' (VarChar 100), required_column ''sanitized_parameters'' JsonType,
         required_column ''decision'' audit_decision_type, required_column ''reason_code'' (VarChar 100),
         optional_column ''matched_manifest_id'' (VarChar 100), optional_column ''policy_checksum'' (VarChar 64),
         required_column ''execution_status'' audit_execution_status_type,
         optional_column ''upstream_status_code'' IntegerType, optional_column ''decision_latency_ms'' IntegerType,
         optional_column ''total_latency_ms'' IntegerType, optional_column ''trace_id'' (VarChar 64),
         optional_column ''previous_record_hash'' (VarChar 64), required_column ''record_hash'' (VarChar 64)],
      tb_constraints =
        [ForeignKey [''agent_id''] ''agents'' [''agent_id''] Restrict,
         ForeignKey [''matched_manifest_id''] ''permission_manifests'' [''manifest_id''] Restrict,
         ForeignKey [''session_id''] ''agent_sessions'' [''session_id''] Restrict, PrimaryKey [''event_id''],
         Unique (Some ''uq_audit_request_sequence'') [''request_id'', ''sequence'']]\<rparr>"

definition initial_customers :: table where
  "initial_customers =
     \<lparr>tb_name = ''crm_customers'',
      tb_columns =
        [required_column ''customer_id'' (VarChar 64), required_column ''name'' (VarChar 200),
         required_column ''email'' (VarChar 320), required_column ''support_tier'' (VarChar 50),
         required_column ''address'' TextType, stamped_column ''created_at'', stamped_column ''updated_at''],
      tb_constraints = [PrimaryKey [''customer_id'']]\<rparr>"

text \<open>The SQL text \<open>status = 'active'\<close>.\<close>

definition active_predicate :: string where
  "active_predicate = ''status = '' @ [CHR 0x27] @ ''active'' @ [CHR 0x27]"

definition active_agent_index :: index where
  "active_agent_index =
     \<lparr>ix_name = ''uq_permission_manifests_active_agent'', ix_table = ''permission_manifests'',
      ix_columns = [''agent_id''], ix_unique = True, ix_where = Some active_predicate\<rparr>"

definition audit_index_columns :: "string list" where
  "audit_index_columns =
     [''agent_id'', ''decision'', ''execution_status'', ''operation'', ''reason_code'', ''request_id'',
      ''session_id'', ''timestamp'', ''tool'', ''trace_id'', ''user_id'']"

definition initial_schema_upgrade :: "schema_op list" where
  "initial_schema_upgrade =
     [CreateTable initial_agents, CreateIndex (plain_index ''agents'' ''status''),
      CreateTable initial_tool_definitions, CreateIndex (plain_index ''tool_definitions'' ''status''),
      CreateTable initial_permission_manifests,
      CreateIndex (plain_index ''permission_manifests'' ''agent_id''),
      CreateIndex (plain_index ''permission_manifests'' ''status''), CreateIndex active_agent_index,
      CreateTable initial_agent_sessions, CreateIndex (plain_index ''agent_sessions'' ''agent_id''),
      CreateIndex (plain_index ''agent_sessions'' ''customer_id''),
      CreateIndex (plain_index ''agent_sessions'' ''status''),
      CreateIndex (plain_index ''agent_sessions'' ''user_id''), CreateTable initial_audit_events] @
     map (\<lambda>c. CreateIndex (plain_index ''tool_call_audit_events'' c)) audit_index_columns @
     [CreateTable initial_customers]"

definition initial_schema_downgrade :: "schema_op list" where
  "initial_schema_downgrade =
     [DropTable ''crm_customers''] @
     map (\<lambda>c. DropIndex (''ix_tool_call_audit_events_'' @ c) ''tool_call_audit_events'')
       [''user_id'', ''trace_id'', ''tool'', ''timestamp'', ''session_id'', ''request_id'', ''reason_code'',
        ''operation'', ''execution_status'', ''decision'', ''agent_id''] @
     [DropTable ''tool_call_audit_events'',
      DropIndex ''ix_agent_sessions_user_id'' ''agent_sessions'',
      DropIndex ''ix_agent_sessions_status'' ''agent_sessions'',
      DropIndex ''ix_agent_sessions_customer_id'' ''agent_sessions'',
      DropIndex ''ix_agent_sessions_agent_id'' ''agent_sessions'', DropTable ''agent_sessions'',
      DropIndex ''uq_permission_manifests_active_agent'' ''permission_manifests'',
      DropIndex ''ix_permission_manifests_status'' ''permission_manifests'',
      DropIndex ''ix_permission_manifests_agent_id'' ''permission_manifests'',
      DropTable ''permission_manifests'', DropIndex ''ix_tool_definitions_status'' ''tool_definitions'',
      DropTable ''tool_definitions'', DropIndex ''ix_agents_status'' ''agents'', DropTable ''agents'']"

section \<open>Revisions 20260730_0002 and 20260730_0003\<close>

definition unknown_default :: server_default where
  "unknown_default = Literal ''migration:unknown''"

definition created_by_subject_column :: column where
  "created_by_subject_column =
     \<lparr>co_name = ''created_by_subject'', co_type = VarChar 255, co_nullable = False,
      co_default = Some unknown_default\<rparr>"

definition session_creator_upgrade :: "schema_op list" where
  "session_creator_upgrade = [AddColumn ''agent_sessions'' created_by_subject_column]"

definition session_creator_downgrade :: "schema_op list" where
  "session_creator_downgrade = [DropColumn ''agent_sessions'' ''created_by_subject'']"

definition idempotency_key_column :: column where
  "idempotency_key_column =
     \<lparr>co_name = ''idempotency_key'', co_type = VarChar 128, co_nullable = False,
      co_default = Some unknown_default\<rparr>"

definition audit_idempotency_upgrade :: "schema_op list" where
  "audit_idempotency_upgrade =
     [AddColumn ''tool_call_audit_events'' idempotency_key_column,
      CreateIndex (plain_index ''tool_call_audit_events'' ''idempotency_key'')]"

definition audit_idempotency_downgrade :: "schema_op list" where
  "audit_idempotency_downgrade =
     [DropIndex ''ix_tool_call_audit_events_idempotency_key'' ''tool_call_audit_events'',
      DropColumn ''tool_call_audit_events'' ''idempotency_key'']"

section \<open>The chain of revisions\<close>

record revision =
  rv_id :: string
  rv_down :: "string option"
  rv_upgrade :: "schema_op list"
  rv_downgrade :: "schema_op list"

definition initial_schema_revision :: revision where
  "initial_schema_revision =
     \<lparr>rv_id = ''20260730_0001'', rv_down = None, rv_upgrade = initial_schema_upgrade,
      rv_downgrade = initial_schema_downgrade\<rparr>"

definition session_creator_revision :: revision where
  "session_creator_revision =
     \<lparr>rv_id = ''20260730_0002'', rv_down = Some ''20260730_0001'', rv_upgrade = session_creator_upgrade,
      rv_downgrade = session_creator_downgrade\<rparr>"

definition audit_idempotency_revision :: revision where
  "audit_idempotency_revision =
     \<lparr>rv_id = ''20260730_0003'', rv_down = Some ''20260730_0002'', rv_upgrade = audit_idempotency_upgrade,
      rv_downgrade = audit_idempotency_downgrade\<rparr>"

definition revisions :: "revision list" where
  "revisions = [initial_schema_revision, session_creator_revision, audit_idempotency_revision]"

text \<open>A database at a revision; \<open>None\<close> before the first.\<close>

record migrated =
  mg_current :: "string option"
  mg_schema :: schema

definition upgrade_one :: "revision \<Rightarrow> migrated \<Rightarrow> migrated res" where
  "upgrade_one v m =
     (if mg_current m \<noteq> rv_down v then ddl_error (rv_id v)
      else bind_res (apply_ops (rv_upgrade v) (mg_schema m)) (\<lambda>s.
        Inr \<lparr>mg_current = Some (rv_id v), mg_schema = s\<rparr>))"

definition downgrade_one :: "revision \<Rightarrow> migrated \<Rightarrow> migrated res" where
  "downgrade_one v m =
     (if mg_current m \<noteq> Some (rv_id v) then ddl_error (rv_id v)
      else bind_res (apply_ops (rv_downgrade v) (mg_schema m)) (\<lambda>s.
        Inr \<lparr>mg_current = rv_down v, mg_schema = s\<rparr>))"

fun upgrade_all :: "revision list \<Rightarrow> migrated \<Rightarrow> migrated res" where
  "upgrade_all [] m = Inr m"
| "upgrade_all (v # vs) m = bind_res (upgrade_one v m) (upgrade_all vs)"

fun downgrade_all :: "revision list \<Rightarrow> migrated \<Rightarrow> migrated res" where
  "downgrade_all [] m = Inr m"
| "downgrade_all (v # vs) m = bind_res (downgrade_one v m) (downgrade_all vs)"

definition unmigrated :: migrated where
  "unmigrated = \<lparr>mg_current = None, mg_schema = empty_schema\<rparr>"

section \<open>The schema at head\<close>

definition head_audit_events :: table where
  "head_audit_events = initial_audit_events\<lparr>tb_columns := tb_columns initial_audit_events @ [idempotency_key_column]\<rparr>"

definition head_agent_sessions :: table where
  "head_agent_sessions =
     initial_agent_sessions\<lparr>tb_columns := tb_columns initial_agent_sessions @ [created_by_subject_column]\<rparr>"

definition initial_indexes :: "index list" where
  "initial_indexes =
     [plain_index ''agents'' ''status'', plain_index ''tool_definitions'' ''status'',
      plain_index ''permission_manifests'' ''agent_id'', plain_index ''permission_manifests'' ''status'',
      active_agent_index, plain_index ''agent_sessions'' ''agent_id'', plain_index ''agent_sessions'' ''customer_id'',
      plain_index ''agent_sessions'' ''status'', plain_index ''agent_sessions'' ''user_id''] @
     map (plain_index ''tool_call_audit_events'') audit_index_columns"

definition initial_schema :: schema where
  "initial_schema =
     \<lparr>sc_tables = [initial_agents, initial_tool_definitions, initial_permission_manifests, initial_agent_sessions,
        initial_audit_events, initial_customers], sc_indexes = initial_indexes\<rparr>"

definition session_creator_schema :: schema where
  "session_creator_schema =
     \<lparr>sc_tables = [initial_agents, initial_tool_definitions, initial_permission_manifests, head_agent_sessions,
        initial_audit_events, initial_customers], sc_indexes = initial_indexes\<rparr>"

definition head_schema :: schema where
  "head_schema =
     \<lparr>sc_tables = [initial_agents, initial_tool_definitions, initial_permission_manifests, head_agent_sessions,
        head_audit_events, initial_customers],
      sc_indexes = initial_indexes @ [plain_index ''tool_call_audit_events'' ''idempotency_key'']\<rparr>"

section \<open>Upgrading and downgrading\<close>

lemma upgrade_initial:
  "upgrade_one initial_schema_revision unmigrated = Inr \<lparr>mg_current = Some ''20260730_0001'', mg_schema = initial_schema\<rparr>"
  by code_simp

lemma upgrade_session_creator:
  "upgrade_one session_creator_revision \<lparr>mg_current = Some ''20260730_0001'', mg_schema = initial_schema\<rparr> =
     Inr \<lparr>mg_current = Some ''20260730_0002'', mg_schema = session_creator_schema\<rparr>"
  by code_simp

lemma upgrade_audit_idempotency:
  "upgrade_one audit_idempotency_revision \<lparr>mg_current = Some ''20260730_0002'', mg_schema = session_creator_schema\<rparr> =
     Inr \<lparr>mg_current = Some ''20260730_0003'', mg_schema = head_schema\<rparr>"
  by code_simp

lemma downgrade_audit_idempotency:
  "downgrade_one audit_idempotency_revision \<lparr>mg_current = Some ''20260730_0003'', mg_schema = head_schema\<rparr> =
     Inr \<lparr>mg_current = Some ''20260730_0002'', mg_schema = session_creator_schema\<rparr>"
  by code_simp

lemma downgrade_session_creator:
  "downgrade_one session_creator_revision \<lparr>mg_current = Some ''20260730_0002'', mg_schema = session_creator_schema\<rparr> =
     Inr \<lparr>mg_current = Some ''20260730_0001'', mg_schema = initial_schema\<rparr>"
  by code_simp

lemma downgrade_initial:
  "downgrade_one initial_schema_revision \<lparr>mg_current = Some ''20260730_0001'', mg_schema = initial_schema\<rparr> =
     Inr unmigrated"
  by code_simp

lemmas migrate_steps = upgrade_initial upgrade_session_creator upgrade_audit_idempotency
  downgrade_audit_idempotency downgrade_session_creator downgrade_initial

lemma revision_ids:
  "rv_id initial_schema_revision = ''20260730_0001''" "rv_id session_creator_revision = ''20260730_0002''"
  "rv_id audit_idempotency_revision = ''20260730_0003''" "mg_current unmigrated = None"
  by (simp_all add: initial_schema_revision_def session_creator_revision_def audit_idempotency_revision_def
      unmigrated_def)

lemma upgraded_head: "upgrade_all revisions unmigrated = Inr \<lparr>mg_current = Some ''20260730_0003'', mg_schema = head_schema\<rparr>"
  by (simp add: revisions_def migrate_steps)

text \<open>(C32) The migrations round-trip: from an empty database every prefix of the chain of revisions applies
  without an error, in the order of the links between the revisions, and downgrading the same revisions
  in the opposite order leaves the empty database again, with no table or index behind.\<close>

theorem migrations_roundtrip:
  "\<exists>m. upgrade_all (take k revisions) unmigrated = Inr m \<and>
     mg_current m = (if k = 0 then None else Some (rv_id (revisions ! (min k 3 - 1)))) \<and>
     downgrade_all (rev (take k revisions)) m = Inr unmigrated"
proof -
  have "k = 0 \<or> k = 1 \<or> k = 2 \<or> 3 \<le> k" by linarith
  then consider "k = 0" | "k = 1" | "k = 2" | "take k revisions = revisions" "min k 3 = 3" "k \<noteq> 0"
    by (auto simp: revisions_def)
  then show ?thesis
    by cases (simp_all add: revisions_def migrate_steps revision_ids numeral_2_eq_2)
qed

end
