(* ===== verification/Orm.thy ===== *)
theory Orm
  imports Migrations
begin

text \<open>
  The declarative classes of \<open>domain/models.py\<close> and \<open>sample_crm/domain/models.py\<close>, attribute
  by attribute, and the tables SQLAlchemy derives from them: a primary key is never null,
  \<open>unique=True\<close> and a \<open>ForeignKey\<close> become constraints of the table, \<open>index=True\<close> an index named
  \<open>ix_<table>_<column>\<close>, and a foreign key without a type has the type of its target.  The
  property: the migrated schema is the one the classes declare.
\<close>

section \<open>Mapped classes\<close>

record mapped_column =
  mc_name :: string
  mc_type :: "column_type option"
  mc_primary_key :: bool
  mc_nullable :: bool
  mc_unique :: bool
  mc_index :: bool
  mc_server_default :: "server_default option"
  mc_foreign_key :: "(string \<times> string \<times> on_delete) option"

record mapped_class =
  ma_tablename :: string
  ma_columns :: "mapped_column list"
  ma_constraints :: "table_constraint list"
  ma_indexes :: "index list"

text \<open>\<open>mapped_column(t, nullable=False)\<close>; the other attributes are set on top of it.\<close>

definition mapped :: "string \<Rightarrow> column_type \<Rightarrow> mapped_column" where
  "mapped n t =
     \<lparr>mc_name = n, mc_type = Some t, mc_primary_key = False, mc_nullable = False, mc_unique = False,
      mc_index = False, mc_server_default = None, mc_foreign_key = None\<rparr>"

definition mapped_key :: "string \<Rightarrow> column_type \<Rightarrow> mapped_column" where
  "mapped_key n t = (mapped n t)\<lparr>mc_primary_key := True\<rparr>"

definition indexed :: "mapped_column \<Rightarrow> mapped_column" where
  "indexed c = c\<lparr>mc_index := True\<rparr>"

definition nullable :: "mapped_column \<Rightarrow> mapped_column" where
  "nullable c = c\<lparr>mc_nullable := True\<rparr>"

definition mapped_now :: "string \<Rightarrow> mapped_column" where
  "mapped_now n = (mapped n DateTimeTz)\<lparr>mc_server_default := Some CurrentTimestamp\<rparr>"

definition mapped_reference :: "string \<Rightarrow> string \<Rightarrow> string \<Rightarrow> on_delete \<Rightarrow> mapped_column" where
  "mapped_reference n t c d =
     \<lparr>mc_name = n, mc_type = None, mc_primary_key = False, mc_nullable = False, mc_unique = False,
      mc_index = False, mc_server_default = None, mc_foreign_key = Some (t, c, d)\<rparr>"

definition timestamp_mixin :: "mapped_column list" where
  "timestamp_mixin = [mapped_now ''created_at'', mapped_now ''updated_at'']"

definition agent_class :: mapped_class where
  "agent_class =
     \<lparr>ma_tablename = ''agents'',
      ma_columns =
        [mapped_key ''agent_id'' (VarChar 64), (mapped ''oidc_subject'' (VarChar 255))\<lparr>mc_unique := True\<rparr>,
         mapped ''name'' (VarChar 200), mapped ''owning_team'' (VarChar 200),
         indexed (mapped ''status'' agent_status_type)] @ timestamp_mixin,
      ma_constraints = [], ma_indexes = []\<rparr>"

definition tool_definition_class :: mapped_class where
  "tool_definition_class =
     \<lparr>ma_tablename = ''tool_definitions'',
      ma_columns =
        [mapped_key ''tool_id'' (VarChar 64), (mapped ''name'' (VarChar 100))\<lparr>mc_unique := True\<rparr>,
         mapped ''adapter_type'' (VarChar 100), mapped ''private_base_url'' (VarChar 500),
         mapped ''allowed_operations'' JsonType, mapped ''request_schema'' JsonType,
         mapped ''response_schema'' JsonType, indexed (mapped ''status'' tool_status_type)] @ timestamp_mixin,
      ma_constraints = [], ma_indexes = []\<rparr>"

definition permission_manifest_class :: mapped_class where
  "permission_manifest_class =
     \<lparr>ma_tablename = ''permission_manifests'',
      ma_columns =
        [mapped_key ''manifest_id'' (VarChar 100), indexed (mapped_reference ''agent_id'' ''agents'' ''agent_id'' Cascade),
         mapped ''version'' IntegerType, indexed (mapped ''status'' manifest_status_type),
         mapped ''document'' JsonType, mapped ''checksum'' (VarChar 64), mapped ''effective_from'' DateTimeTz,
         nullable (mapped ''expires_at'' DateTimeTz), mapped ''created_by'' (VarChar 255),
         nullable (mapped ''approved_by'' (VarChar 255)), mapped ''change_reason'' TextType,
         mapped_now ''created_at'', nullable (mapped ''activated_at'' DateTimeTz)],
      ma_constraints =
        [Unique (Some ''uq_manifest_agent_version'') [''agent_id'', ''version''],
         Check ''ck_manifest_valid_window'' ''expires_at IS NULL OR expires_at > effective_from''],
      ma_indexes =
        [\<lparr>ix_name = ''uq_permission_manifests_active_agent'', ix_table = ''permission_manifests'',
          ix_columns = [''agent_id''], ix_unique = True, ix_where = Some active_predicate\<rparr>]\<rparr>"

definition agent_session_class :: mapped_class where
  "agent_session_class =
     \<lparr>ma_tablename = ''agent_sessions'',
      ma_columns =
        [mapped_key ''session_id'' (VarChar 64), (mapped ''token_jti'' (VarChar 128))\<lparr>mc_unique := True\<rparr>,
         indexed (mapped_reference ''agent_id'' ''agents'' ''agent_id'' Restrict),
         indexed (mapped ''user_id'' (VarChar 128)), indexed (mapped ''customer_id'' (VarChar 64)),
         (mapped ''created_by_subject'' (VarChar 255))\<lparr>mc_server_default := Some (Literal ''migration:unknown'')\<rparr>,
         indexed (mapped ''status'' session_status_type), mapped_now ''created_at'',
         mapped ''expires_at'' DateTimeTz, nullable (mapped ''revoked_at'' DateTimeTz)],
      ma_constraints = [Check ''ck_session_valid_window'' ''expires_at > created_at''], ma_indexes = []\<rparr>"

definition audit_event_class :: mapped_class where
  "audit_event_class =
     \<lparr>ma_tablename = ''tool_call_audit_events'',
      ma_columns =
        [mapped_key ''event_id'' (VarChar 64), indexed (mapped ''request_id'' (VarChar 64)),
         indexed (mapped ''idempotency_key'' (VarChar 128)), mapped ''sequence'' IntegerType,
         indexed (mapped_now ''timestamp''),
         indexed (mapped_reference ''agent_id'' ''agents'' ''agent_id'' Restrict),
         nullable (indexed (mapped_reference ''session_id'' ''agent_sessions'' ''session_id'' Restrict)),
         nullable (indexed (mapped ''user_id'' (VarChar 128))), indexed (mapped ''tool'' (VarChar 100)),
         indexed (mapped ''operation'' (VarChar 100)), mapped ''sanitized_parameters'' JsonType,
         indexed (mapped ''decision'' audit_decision_type), indexed (mapped ''reason_code'' (VarChar 100)),
         nullable (mapped_reference ''matched_manifest_id'' ''permission_manifests'' ''manifest_id'' Restrict),
         nullable (mapped ''policy_checksum'' (VarChar 64)),
         indexed (mapped ''execution_status'' audit_execution_status_type),
         nullable (mapped ''upstream_status_code'' IntegerType), nullable (mapped ''decision_latency_ms'' IntegerType),
         nullable (mapped ''total_latency_ms'' IntegerType), nullable (indexed (mapped ''trace_id'' (VarChar 64))),
         nullable (mapped ''previous_record_hash'' (VarChar 64)), mapped ''record_hash'' (VarChar 64)],
      ma_constraints = [Unique (Some ''uq_audit_request_sequence'') [''request_id'', ''sequence'']],
      ma_indexes = []\<rparr>"

definition crm_customer_class :: mapped_class where
  "crm_customer_class =
     \<lparr>ma_tablename = ''crm_customers'',
      ma_columns =
        [mapped_key ''customer_id'' (VarChar 64), mapped ''name'' (VarChar 200), mapped ''email'' (VarChar 320),
         mapped ''support_tier'' (VarChar 50), mapped ''address'' TextType, mapped_now ''created_at'',
         mapped_now ''updated_at''],
      ma_constraints = [], ma_indexes = []\<rparr>"

definition mapped_classes :: "mapped_class list" where
  "mapped_classes =
     [agent_class, tool_definition_class, permission_manifest_class, agent_session_class, audit_event_class,
      crm_customer_class]"

section \<open>The metadata of the classes\<close>

definition target_type :: "mapped_class list \<Rightarrow> string \<Rightarrow> string \<Rightarrow> column_type option" where
  "target_type cs t c =
     Option.bind (row_of ma_tablename t cs) (\<lambda>k. Option.bind (row_of mc_name c (ma_columns k)) mc_type)"

definition metadata_column :: "mapped_class list \<Rightarrow> mapped_column \<Rightarrow> column" where
  "metadata_column cs c =
     \<lparr>co_name = mc_name c,
      co_type =
        (case mc_type c of
           Some t \<Rightarrow> t
         | None \<Rightarrow>
             (case mc_foreign_key c of
                None \<Rightarrow> TextType
              | Some (t, k, d) \<Rightarrow> (case target_type cs t k of None \<Rightarrow> TextType | Some u \<Rightarrow> u))),
      co_nullable = (mc_nullable c \<and> \<not> mc_primary_key c), co_default = mc_server_default c\<rparr>"

definition column_constraints :: "mapped_column \<Rightarrow> table_constraint list" where
  "column_constraints c =
     (if mc_unique c then [Unique None [mc_name c]] else []) @
     (case mc_foreign_key c of None \<Rightarrow> [] | Some (t, k, d) \<Rightarrow> [ForeignKey [mc_name c] t [k] d])"

definition metadata_table :: "mapped_class list \<Rightarrow> mapped_class \<Rightarrow> table" where
  "metadata_table cs k =
     \<lparr>tb_name = ma_tablename k, tb_columns = map (metadata_column cs) (ma_columns k),
      tb_constraints =
        PrimaryKey (map mc_name (filter mc_primary_key (ma_columns k))) # ma_constraints k @
        concat (map column_constraints (ma_columns k))\<rparr>"

definition metadata_indexes :: "mapped_class \<Rightarrow> index list" where
  "metadata_indexes k =
     map (\<lambda>c. plain_index (ma_tablename k) (mc_name c)) (filter mc_index (ma_columns k)) @ ma_indexes k"

definition metadata :: "mapped_class list \<Rightarrow> schema" where
  "metadata cs =
     \<lparr>sc_tables = map (metadata_table cs) cs, sc_indexes = concat (map metadata_indexes cs)\<rparr>"

section \<open>Agreement of the migrations with the classes\<close>

text \<open>Equal up to the order of tables, columns, constraints and indexes.\<close>

definition same_table :: "table \<Rightarrow> table \<Rightarrow> bool" where
  "same_table t u \<longleftrightarrow>
     tb_name t = tb_name u \<and> length (tb_columns t) = length (tb_columns u) \<and>
     set (tb_columns t) = set (tb_columns u) \<and> set (tb_constraints t) = set (tb_constraints u)"

definition same_schema :: "schema \<Rightarrow> schema \<Rightarrow> bool" where
  "same_schema s s' \<longleftrightarrow>
     length (sc_tables s) = length (sc_tables s') \<and> length (sc_indexes s) = length (sc_indexes s') \<and>
     list_all (\<lambda>t. list_ex (same_table t) (sc_tables s')) (sc_tables s) \<and>
     list_all (\<lambda>t. list_ex (same_table t) (sc_tables s)) (sc_tables s') \<and>
     set (sc_indexes s) = set (sc_indexes s')"

definition drop_default :: "string \<Rightarrow> string \<Rightarrow> schema \<Rightarrow> schema" where
  "drop_default t c s =
     s\<lparr>sc_tables := map (\<lambda>u. if tb_name u = t
        then u\<lparr>tb_columns := map (\<lambda>k. if co_name k = c then k\<lparr>co_default := None\<rparr> else k) (tb_columns u)\<rparr>
        else u) (sc_tables s)\<rparr>"

text \<open>(C33) The migrations build the schema the code declares: the schema at the last revision has exactly
  the tables, columns, types, nullability, keys, foreign keys, checks, uniqueness constraints and indexes
  of the mapped classes.  The one difference is a server default: the revision that adds
  \<open>idempotency_key\<close> has to give one to old rows, the class has none.\<close>

theorem head_matches_classes:
  "\<exists>m. upgrade_all revisions unmigrated = Inr m \<and>
     same_schema (drop_default ''tool_call_audit_events'' ''idempotency_key'' (mg_schema m)) (metadata mapped_classes) \<and>
     \<not> same_schema (mg_schema m) (metadata mapped_classes)"
proof -
  have "same_schema (drop_default ''tool_call_audit_events'' ''idempotency_key'' head_schema) (metadata mapped_classes)"
    by code_simp
  moreover have "\<not> same_schema head_schema (metadata mapped_classes)" by code_simp
  ultimately show ?thesis using upgraded_head by auto
qed

end
