(* ===== verification/Checked.thy ===== *)
theory Checked
  imports System
begin

text \<open>
  The rows of a reachable database fit their columns and pass the CHECK constraints of their tables.
  The insertions and flushes of \<open>Store\<close> test this where the database does; \<open>db_checked\<close> is the
  invariant they establish, \<open>checked_step\<close> says that an operation keeps it.
\<close>

section \<open>The invariant\<close>

definition manifest_checked :: "database \<Rightarrow> permission_manifest \<Rightarrow> bool" where
  "manifest_checked db m \<longleftrightarrow> widths_ok db (manifest_widths m) \<and> manifest_window_ok m"

definition session_checked :: "database \<Rightarrow> agent_session \<Rightarrow> bool" where
  "session_checked db s \<longleftrightarrow> widths_ok db (session_widths s) \<and> session_window_ok s"

definition db_checked :: "database \<Rightarrow> bool" where
  "db_checked db \<longleftrightarrow>
     (\<forall>a \<in> set (db_agents db). widths_ok db (agent_widths a)) \<and>
     (\<forall>t \<in> set (db_tools db). widths_ok db (tool_widths t)) \<and>
     (\<forall>m \<in> set (db_manifests db). manifest_checked db m) \<and>
     (\<forall>s \<in> set (db_sessions db). session_checked db s) \<and>
     (\<forall>e \<in> set (db_events db). widths_ok db (event_widths e)) \<and>
     (\<forall>c \<in> set (db_customers db). widths_ok db (customer_widths c))"

definition checked_step :: "database \<Rightarrow> database \<Rightarrow> bool" where
  "checked_step db db' \<longleftrightarrow>
     db_checks_width db' = db_checks_width db \<and> (db_checked db \<longrightarrow> db_checked db')"

lemma checked_refl [simp]: "checked_step db db"
  by (simp add: checked_step_def)

lemma checked_trans: "checked_step a b \<Longrightarrow> checked_step b c \<Longrightarrow> checked_step a c"
  by (simp add: checked_step_def)

lemma checked_empty: "db_checked (empty_database st w)"
  by (simp add: db_checked_def empty_database_def)

lemma widths_ok_update [simp]:
  "widths_ok (db\<lparr>db_agents := as\<rparr>) = widths_ok db" "widths_ok (db\<lparr>db_tools := ts\<rparr>) = widths_ok db"
  "widths_ok (db\<lparr>db_manifests := ms\<rparr>) = widths_ok db" "widths_ok (db\<lparr>db_sessions := ss\<rparr>) = widths_ok db"
  "widths_ok (db\<lparr>db_events := es\<rparr>) = widths_ok db" "widths_ok (db\<lparr>db_customers := cs\<rparr>) = widths_ok db"
  by (simp_all add: fun_eq_iff widths_ok_def)

lemma row_checked_update [simp]:
  "manifest_checked (db\<lparr>db_agents := as\<rparr>) = manifest_checked db" "manifest_checked (db\<lparr>db_tools := ts\<rparr>) = manifest_checked db"
  "manifest_checked (db\<lparr>db_manifests := ms\<rparr>) = manifest_checked db" "manifest_checked (db\<lparr>db_sessions := ss\<rparr>) = manifest_checked db"
  "manifest_checked (db\<lparr>db_events := es\<rparr>) = manifest_checked db" "manifest_checked (db\<lparr>db_customers := cs\<rparr>) = manifest_checked db"
  "session_checked (db\<lparr>db_agents := as\<rparr>) = session_checked db" "session_checked (db\<lparr>db_tools := ts\<rparr>) = session_checked db"
  "session_checked (db\<lparr>db_manifests := ms\<rparr>) = session_checked db" "session_checked (db\<lparr>db_sessions := ss\<rparr>) = session_checked db"
  "session_checked (db\<lparr>db_events := es\<rparr>) = session_checked db" "session_checked (db\<lparr>db_customers := cs\<rparr>) = session_checked db"
  by (simp_all add: fun_eq_iff manifest_checked_def session_checked_def)

lemma stored_widths [simp]:
  "manifest_widths (stored_manifest db m) = manifest_widths m" "session_widths (stored_session db s) = session_widths s"
  "event_widths (stored_event db e) = event_widths e"
  by (simp_all add: width_defs stored_manifest_def stored_session_def stored_event_def)

section \<open>Row operations\<close>

lemma agent_add_checked: "agent_add a db = (Inr x, db') \<Longrightarrow> checked_step db db'"
  by (auto simp: agent_add_def insert_row_Inr checked_step_def db_checked_def)

lemma tool_add_checked: "tool_add t db = (Inr x, db') \<Longrightarrow> checked_step db db'"
  by (auto simp: tool_add_def insert_row_Inr checked_step_def db_checked_def)

lemma manifest_add_checked: "manifest_add m db = (Inr x, db') \<Longrightarrow> checked_step db db'"
  by (auto simp: manifest_add_def insert_row_Inr checked_step_def db_checked_def manifest_checked_def)

lemma session_add_checked: "session_add s db = (Inr x, db') \<Longrightarrow> checked_step db db'"
  by (auto simp: session_add_def insert_row_Inr checked_step_def db_checked_def session_checked_def)

lemma event_add_checked: "event_add e db = (Inr x, db') \<Longrightarrow> checked_step db db'"
  by (auto simp: event_add_def insert_row_Inr checked_step_def db_checked_def)

lemma customer_add_checked: "customer_add c db = (Inr x, db') \<Longrightarrow> checked_step db db'"
  by (auto simp: customer_add_def insert_row_Inr checked_step_def db_checked_def)

text \<open>A flushed row passes what the old row passed in the columns it leaves alone.\<close>

lemma replaced_checked:
  assumes "\<forall>r \<in> set rows. P r" "P new"
  shows "\<forall>r \<in> set (replace_row key new rows). P r"
proof
  fix r assume "r \<in> set (replace_row key new rows)"
  then show "P r" using set_replace_row [of r key new rows] assms by blast
qed

definition unchanged_columns :: "permission_manifest \<Rightarrow> permission_manifest \<Rightarrow> bool" where
  "unchanged_columns m0 m \<longleftrightarrow>
     pm_id m = pm_id m0 \<and> pm_agent_id m = pm_agent_id m0 \<and> pm_checksum m = pm_checksum m0 \<and>
     pm_created_by m = pm_created_by m0 \<and> pm_effective_from m = pm_effective_from m0 \<and>
     pm_expires_at m = pm_expires_at m0"

lemma manifest_flush_checked:
  assumes flush: "manifest_flush m db = (Inr x, db')" and same: "unchanged_columns m0 m"
    and old: "db_checked db \<Longrightarrow> manifest_checked db m0"
  shows "checked_step db db'"
proof -
  have db': "db' = db\<lparr>db_manifests := replace_row pm_id m (db_manifests db)\<rparr>"
    and approved: "widths_ok db (opt_col 255 (pm_approved_by m))"
    using flush by (auto simp: manifest_flush_def insert_row_Inr)
  have "db_checked db'" if "db_checked db"
  proof -
    have "widths_ok db (manifest_widths m)"
      using old [OF that] same approved
      by (auto simp: unchanged_columns_def manifest_checked_def manifest_widths_def widths_ok_def)
    moreover have "manifest_window_ok m"
      using old [OF that] same
      by (simp add: unchanged_columns_def manifest_checked_def manifest_window_ok_def split: option.splits)
    ultimately have "manifest_checked db m" by (simp add: manifest_checked_def)
    then have "\<forall>r \<in> set (replace_row pm_id m (db_manifests db)). manifest_checked db r"
      using that by (intro replaced_checked) (simp_all add: db_checked_def)
    then show ?thesis using that by (simp add: db_checked_def db')
  qed
  then show ?thesis by (simp add: checked_step_def db')
qed

lemma session_flush_checked:
  assumes "session_get k db = Some s0" "session_widths s = session_widths s0"
    and "se_created_at s = se_created_at s0" "se_expires_at s = se_expires_at s0"
  shows "checked_step db (session_flush s db)"
proof -
  have s0: "s0 \<in> set (db_sessions db)" using session_getD [OF assms(1)] ..
  have "db_checked (session_flush s db)" if "db_checked db"
  proof -
    have "session_checked db s"
      using that s0 assms(2-4) by (simp add: db_checked_def session_checked_def session_window_ok_def)
    then have "\<forall>r \<in> set (replace_row se_id s (db_sessions db)). session_checked db r"
      using that by (intro replaced_checked) (simp_all add: db_checked_def)
    then show ?thesis using that by (simp add: db_checked_def session_flush_def)
  qed
  then show ?thesis by (simp add: checked_step_def session_flush_def)
qed

section \<open>Operations\<close>

lemma create_session_checked:
  "create_session L s agent user customer by ttl u1 u2 now db = (x, db') \<Longrightarrow> checked_step db db'"
  by (cases x) (auto simp: create_session_Inr dest: create_session_Inl session_add_checked)

lemma revoke_session_checked:
  assumes "revoke_session k now db = (x, db')"
  shows "checked_step db db'"
proof (cases x)
  case (Inl e)
  with assms have "db' = db" using revoke_session_Inl [of k now db e db'] by simp
  then show ?thesis by simp
next
  case (Inr row')
  show ?thesis
    using assms [unfolded Inr]
  proof (cases rule: revoke_session_cases)
    case (1 row)
    show ?thesis
      unfolding 1(4) by (rule session_flush_checked [OF 1(1)]) (simp_all add: 1(3) session_widths_def)
  qed simp
qed

lemma record_event_checked: "record_event d uuid now db = (x, db') \<Longrightarrow> checked_step db db'"
  by (cases x) (auto simp: record_event_Inr dest: record_event_Inl event_add_checked)

lemma record_call_checked: "record_call out call n st p l t uuid now db = (x, db') \<Longrightarrow> checked_step db db'"
  by (cases x) (auto dest!: record_call_Inl record_call_Inr intro: record_event_checked)

lemma supersede_checked:
  assumes "supersede current t db = (Inr u, db')" "current = manifest_get_active a db"
  shows "checked_step db db'"
proof (cases "\<exists>c. current = Some c \<and> pm_id c \<noteq> pm_id t")
  case True
  then obtain c x where c: "current = Some c" "manifest_flush (c\<lparr>pm_status := ManifestSuperseded\<rparr>) db = (Inr x, db')"
    using assms(1) by (auto simp: supersede_def split: prod.splits sum.splits)
  then have "c \<in> set (db_manifests db)" using assms(2) get_active_SomeD by metis
  with c(2) show ?thesis
    by (intro manifest_flush_checked [OF c(2), of c]) (simp_all add: unchanged_columns_def db_checked_def)
next
  case False
  with assms(1) show ?thesis by (auto simp: supersede_def split: option.splits)
qed

lemma activate_checked:
  assumes "manifest_activate mid by now db = (Inr m, db')"
  shows "checked_step db db'"
  using assms
proof (cases rule: activate_cases)
  case (2 t db1 x)
  have sup: "checked_step db db1" by (rule supersede_checked [OF 2(3) refl])
  have t: "t \<in> set (db_manifests db)" using 2(1) manifest_getD by blast
  have "db_checks_width db1 = db_checks_width db" using sup by (simp add: checked_step_def)
  then have w: "widths_ok db1 cs = widths_ok db cs" for cs by (simp add: widths_ok_def)
  have "checked_step db1 db'" if "db_checked db"
    using that t
    by (intro manifest_flush_checked [OF 2(4), where ?m0.0 = t])
      (auto simp: unchanged_columns_def activated_row_def db_checked_def manifest_checked_def w)
  moreover have "db_checks_width db' = db_checks_width db1"
    using 2(4) by (simp add: manifest_flush_def insert_row_Inr)
  ultimately show ?thesis using sup by (auto simp: checked_step_def)
qed simp

lemma activation_checked: "in_session (manifest_activate mid by now) db = (x, db') \<Longrightarrow> checked_step db db'"
  by (cases x) (auto simp: in_session_Inr dest: activation_Inl activate_checked)

lemma ensure_checked:
  "ensure_agent db = (Inr u, db') \<Longrightarrow> checked_step db db'"
  "ensure_tool db = (Inr u, db') \<Longrightarrow> checked_step db db'"
  "ensure_manifest db = (Inr m, db') \<Longrightarrow> checked_step db db'"
  "ensure_customer c db = (Inr u, db') \<Longrightarrow> checked_step db db'"
  by (auto simp: ensure_agent_def ensure_tool_def ensure_manifest_def ensure_customer_def and_then_Inr assert_equal_Inr
      split: option.splits intro: agent_add_checked tool_add_checked manifest_add_checked customer_add_checked)

lemma ensure_customers_checked: "ensure_customers cs db = (Inr u, db') \<Longrightarrow> checked_step db db'"
  by (induction cs arbitrary: db) (auto simp: and_then_Inr intro: checked_trans dest: ensure_checked(4))

lemma activate_if_draft_checked: "activate_if_draft m now db = (Inr m', db') \<Longrightarrow> checked_step db db'"
  by (auto simp: activate_if_draft_def split: if_splits intro: activate_checked)

lemma seed_checked: "seed_phase_1 now db = (x, db') \<Longrightarrow> checked_step db db'"
proof (cases x)
  case (Inl e)
  assume "seed_phase_1 now db = (x, db')"
  with Inl have "db' = db" by (auto simp: seed_phase_1_def in_session_def split: prod.splits sum.splits)
  then show ?thesis by simp
next
  case (Inr s)
  assume "seed_phase_1 now db = (x, db')"
  with Inr obtain d1 d2 d3 d4 m m' where "ensure_agent db = (Inr (), d1)" "ensure_tool d1 = (Inr (), d2)"
    "ensure_manifest d2 = (Inr m, d3)" "ensure_customers seed_customers d3 = (Inr (), d4)"
    "activate_if_draft m now d4 = (Inr m', db')"
    by (auto simp: seed_phase_1_def in_session_Inr and_then_Inr)
  then show ?thesis
    by (meson checked_trans ensure_checked ensure_customers_checked activate_if_draft_checked)
qed

lemma answer_after_checked:
  "answer_after (record_call out call n st p l t uuid now db) x = (y, db') \<Longrightarrow> checked_step db db'"
  by (metis answer_after_db prod.collapse record_call_checked)

lemma begin_call_checked: "begin_call P call env db = (x, db') \<Longrightarrow> checked_step db db'"
  by (auto simp: begin_call_def Let_def split: if_splits sum.splits dest: answer_after_checked)

lemma finish_call_checked: "finish_call call env policy latency x db = (out, db') \<Longrightarrow> checked_step db db'"
  by (auto simp: finish_call_def Let_def split: sum.splits py_exn.splits dest: answer_after_checked)

lemma post_session_checked: "post_session ae cr r u1 u2 now db = (x, db') \<Longrightarrow> checked_step db db'"
  using post_session_cases create_session_checked by (metis checked_refl)

lemma post_revoke_checked: "post_revoke ae cr k now db = (x, db') \<Longrightarrow> checked_step db db'"
  using post_revoke_cases revoke_session_checked by (metis checked_refl)

lemma db_step_checked: "db_step db db' \<Longrightarrow> checked_step db db'"
  by (erule db_stepE)
    (blast dest: post_session_checked post_revoke_checked activation_checked seed_checked begin_call_checked
      finish_call_checked)+

interpretation checked_runs: invariant_runs db_step "\<lambda>db. db_checked db \<and> db_checks_width db = w"
  by unfold_locales (auto simp: checked_step_def dest!: db_step_checked)

lemma reachable_checked:
  assumes "db_step\<^sup>*\<^sup>* (empty_database st w) db"
  shows "db_checked db \<and> db_checks_width db = w"
proof (rule checked_runs.run_inv [OF assms])
  show "db_checked (empty_database st w) \<and> db_checks_width (empty_database st w) = w"
    using checked_empty by (simp add: empty_database_def)
qed

end
