(* ===== verification/SchemaRows.thy ===== *)
theory SchemaRows
  imports Orm Checked
begin

text \<open>
  What it means for the contents of a database to satisfy a schema, and that the databases of the
  model satisfy the migrated one: the records of \<open>Domain\<close> are written out as rows of cells,
  columns by name, and every column with its type, nullability and width, every key, foreign key,
  CHECK constraint and unique index of the schema is interpreted on them.  Widths count on a backend
  that enforces them (\<open>w\<close>).
\<close>

section \<open>Rows\<close>

datatype cell =
    CNull
  | CStr string
  | CInt int
  | CTime datetime
  | CJson json

type_synonym row = "(string \<times> cell) list"

type_synonym contents = "(string \<times> row list) list"

fun opt_cell :: "('a \<Rightarrow> cell) \<Rightarrow> 'a option \<Rightarrow> cell" where
  "opt_cell f None = CNull"
| "opt_cell f (Some x) = f x"

fun tool_status_value :: "tool_status \<Rightarrow> string" where
  "tool_status_value ToolActive = ''active''"
| "tool_status_value ToolDisabled = ''disabled''"

definition agent_row :: "agent \<Rightarrow> row" where
  "agent_row a =
     [(''agent_id'', CStr (ag_id a)), (''oidc_subject'', CStr (ag_oidc_subject a)), (''name'', CStr (ag_name a)),
      (''owning_team'', CStr (ag_owning_team a)), (''status'', CStr (agent_status_value (ag_status a)))]"

definition tool_row :: "tool_definition \<Rightarrow> row" where
  "tool_row t =
     [(''tool_id'', CStr (td_id t)), (''name'', CStr (td_name t)), (''adapter_type'', CStr (td_adapter_type t)),
      (''private_base_url'', CStr (td_private_base_url t)),
      (''allowed_operations'', CJson (JArr (map JStr (td_allowed_operations t)))),
      (''request_schema'', CJson (td_request_schema t)), (''response_schema'', CJson (td_response_schema t)),
      (''status'', CStr (tool_status_value (td_status t)))]"

definition manifest_row :: "permission_manifest \<Rightarrow> row" where
  "manifest_row m =
     [(''manifest_id'', CStr (pm_id m)), (''agent_id'', CStr (pm_agent_id m)), (''version'', CInt (pm_version m)),
      (''status'', CStr (manifest_status_value (pm_status m))), (''document'', CJson (pm_document m)),
      (''checksum'', CStr (pm_checksum m)), (''effective_from'', CTime (pm_effective_from m)),
      (''expires_at'', opt_cell CTime (pm_expires_at m)), (''created_by'', CStr (pm_created_by m)),
      (''approved_by'', opt_cell CStr (pm_approved_by m)), (''change_reason'', CStr (pm_change_reason m)),
      (''activated_at'', opt_cell CTime (pm_activated_at m))]"

definition session_row :: "agent_session \<Rightarrow> row" where
  "session_row s =
     [(''session_id'', CStr (se_id s)), (''token_jti'', CStr (se_token_jti s)), (''agent_id'', CStr (se_agent_id s)),
      (''user_id'', CStr (se_user_id s)), (''customer_id'', CStr (se_customer_id s)),
      (''created_by_subject'', CStr (se_created_by_subject s)),
      (''status'', CStr (session_status_value (se_status s))), (''created_at'', CTime (se_created_at s)),
      (''expires_at'', CTime (se_expires_at s)), (''revoked_at'', opt_cell CTime (se_revoked_at s))]"

definition event_row :: "audit_event \<Rightarrow> row" where
  "event_row e =
     [(''event_id'', CStr (ev_id e)), (''request_id'', CStr (ev_request_id e)),
      (''idempotency_key'', CStr (ev_idempotency_key e)), (''sequence'', CInt (ev_sequence e)),
      (''timestamp'', CTime (ev_timestamp e)), (''agent_id'', CStr (ev_agent_id e)),
      (''session_id'', opt_cell CStr (ev_session_id e)), (''user_id'', opt_cell CStr (ev_user_id e)),
      (''tool'', CStr (ev_tool e)), (''operation'', CStr (ev_operation e)),
      (''sanitized_parameters'', CJson (ev_sanitized_parameters e)),
      (''decision'', CStr (audit_decision_value (ev_decision e))), (''reason_code'', CStr (ev_reason_code e)),
      (''matched_manifest_id'', opt_cell CStr (ev_matched_manifest_id e)),
      (''policy_checksum'', opt_cell CStr (ev_policy_checksum e)),
      (''execution_status'', CStr (execution_status_value (ev_execution_status e))),
      (''upstream_status_code'', opt_cell CInt (ev_upstream_status_code e)),
      (''decision_latency_ms'', opt_cell CInt (ev_decision_latency_ms e)),
      (''total_latency_ms'', opt_cell CInt (ev_total_latency_ms e)), (''trace_id'', opt_cell CStr (ev_trace_id e)),
      (''previous_record_hash'', opt_cell CStr (ev_previous_record_hash e)),
      (''record_hash'', CStr (ev_record_hash e))]"

definition customer_row :: "crm_customer \<Rightarrow> row" where
  "customer_row c =
     [(''customer_id'', CStr (cu_id c)), (''name'', CStr (cu_name c)), (''email'', CStr (cu_email c)),
      (''support_tier'', CStr (cu_support_tier c)), (''address'', CStr (cu_address c))]"

lemmas row_defs = agent_row_def tool_row_def manifest_row_def session_row_def event_row_def customer_row_def

definition contents_of :: "database \<Rightarrow> contents" where
  "contents_of db =
     [(''agents'', map agent_row (db_agents db)), (''tool_definitions'', map tool_row (db_tools db)),
      (''permission_manifests'', map manifest_row (db_manifests db)),
      (''agent_sessions'', map session_row (db_sessions db)),
      (''tool_call_audit_events'', map event_row (db_events db)),
      (''crm_customers'', map customer_row (db_customers db))]"

section \<open>Satisfaction\<close>

fun cell_fits :: "bool \<Rightarrow> column_type \<Rightarrow> cell \<Rightarrow> bool" where
  "cell_fits w (VarChar n) (CStr s) = (w \<longrightarrow> length s \<le> n)"
| "cell_fits w TextType (CStr s) = True"
| "cell_fits w (EnumType n vs) (CStr s) = (s \<in> set vs)"
| "cell_fits w IntegerType (CInt i) = True"
| "cell_fits w JsonType (CJson j) = True"
| "cell_fits w DateTimeTz (CTime t) = True"
| "cell_fits w _ _ = False"

text \<open>A column no insertion writes has the server's default.\<close>

fun column_accepts :: "bool \<Rightarrow> column \<Rightarrow> cell \<Rightarrow> bool" where
  "column_accepts w c CNull = co_nullable c"
| "column_accepts w c v = cell_fits w (co_type c) v"

definition column_ok :: "bool \<Rightarrow> row \<Rightarrow> column \<Rightarrow> bool" where
  "column_ok w r c =
     (case map_of r (co_name c) of None \<Rightarrow> co_default c \<noteq> None | Some v \<Rightarrow> column_accepts w c v)"

definition cell_of :: "row \<Rightarrow> string \<Rightarrow> cell" where
  "cell_of r c = (case map_of r c of None \<Rightarrow> CNull | Some v \<Rightarrow> v)"

definition cells :: "string list \<Rightarrow> row \<Rightarrow> cell list" where
  "cells cs r = map (cell_of r) cs"

definition rows_in :: "contents \<Rightarrow> string \<Rightarrow> row list" where
  "rows_in T t = (case map_of T t of None \<Rightarrow> [] | Some rs \<Rightarrow> rs)"

text \<open>
  The conditions of the CHECK constraints by their SQL text; a comparison with \<open>NULL\<close> is unknown,
  which passes a check.  A text without a meaning here holds of no row.
\<close>

fun later :: "cell \<Rightarrow> cell \<Rightarrow> bool" where
  "later (CTime t) (CTime u) = (instant u < instant t)"
| "later x y = (x = CNull \<or> y = CNull)"

definition check_conditions :: "(string \<times> (row \<Rightarrow> bool)) list" where
  "check_conditions =
     [(''expires_at > created_at'', \<lambda>r. later (cell_of r ''expires_at'') (cell_of r ''created_at'')),
      (''expires_at IS NULL OR expires_at > effective_from'',
         \<lambda>r. cell_of r ''expires_at'' = CNull \<or> later (cell_of r ''expires_at'') (cell_of r ''effective_from''))]"

fun constraint_holds :: "contents \<Rightarrow> row list \<Rightarrow> table_constraint \<Rightarrow> bool" where
  "constraint_holds T rs (PrimaryKey cs) = distinct (map (cells cs) rs)"
| "constraint_holds T rs (Unique n cs) = distinct (map (cells cs) rs)"
| "constraint_holds T rs (ForeignKey cs u ds d) =
     list_all (\<lambda>r. CNull \<in> set (cells cs r) \<or> cells cs r \<in> cells ds ` set (rows_in T u)) rs"
| "constraint_holds T rs (Check n x) =
     (case map_of check_conditions x of None \<Rightarrow> rs = [] | Some p \<Rightarrow> list_all p rs)"

definition selected :: "string option \<Rightarrow> row \<Rightarrow> bool" where
  "selected w r =
     (case w of
        None \<Rightarrow> True
      | Some p \<Rightarrow> p = active_predicate \<and> cell_of r ''status'' = CStr ''active'')"

definition index_holds :: "contents \<Rightarrow> index \<Rightarrow> bool" where
  "index_holds T i \<longleftrightarrow>
     \<not> ix_unique i \<or> distinct (map (cells (ix_columns i)) (filter (selected (ix_where i)) (rows_in T (ix_table i))))"

definition table_holds :: "bool \<Rightarrow> contents \<Rightarrow> table \<Rightarrow> bool" where
  "table_holds w T t \<longleftrightarrow>
     list_all (\<lambda>r. list_all (column_ok w r) (tb_columns t)) (rows_in T (tb_name t)) \<and>
     list_all (constraint_holds T (rows_in T (tb_name t))) (tb_constraints t)"

definition satisfies :: "bool \<Rightarrow> contents \<Rightarrow> schema \<Rightarrow> bool" where
  "satisfies w T s \<longleftrightarrow> list_all (table_holds w T) (sc_tables s) \<and> list_all (index_holds T) (sc_indexes s)"

section \<open>The databases of the model satisfy the migrated schema\<close>

lemma rows_in_contents [simp]:
  "rows_in (contents_of db) ''agents'' = map agent_row (db_agents db)"
  "rows_in (contents_of db) ''tool_definitions'' = map tool_row (db_tools db)"
  "rows_in (contents_of db) ''permission_manifests'' = map manifest_row (db_manifests db)"
  "rows_in (contents_of db) ''agent_sessions'' = map session_row (db_sessions db)"
  "rows_in (contents_of db) ''tool_call_audit_events'' = map event_row (db_events db)"
  "rows_in (contents_of db) ''crm_customers'' = map customer_row (db_customers db)"
  by (simp_all add: rows_in_def contents_of_def)

lemma distinct_cells: "distinct (map f xs) \<Longrightarrow> (\<And>x y. g x = g y \<Longrightarrow> f x = f y) \<Longrightarrow> distinct (map g xs)"
  unfolding distinct_map inj_on_def by metis

lemma status_values:
  "agent_status_value a \<in> set [''active'', ''suspended'', ''decommissioned'']"
  "tool_status_value t \<in> set [''active'', ''disabled'']"
  "manifest_status_value m \<in> set [''draft'', ''active'', ''superseded'', ''revoked'']"
  "session_status_value s \<in> set [''active'', ''expired'', ''revoked'']"
  "audit_decision_value d \<in> set [''allow'', ''block'', ''error'']"
  "execution_status_value e \<in> set [''not_forwarded'', ''authorized'', ''executed'', ''tool_failed'', ''timed_out'']"
  by ((cases a; simp), (cases t; simp), (cases m; simp), (cases s; simp), (cases d; simp), (cases e; simp))

lemmas column_defs = required_column_def optional_column_def stamped_column_def created_by_subject_column_def
  idempotency_key_column_def unknown_default_def agent_status_type_def tool_status_type_def manifest_status_type_def
  session_status_type_def audit_decision_type_def audit_execution_status_type_def

lemma column_ok_simps:
  "column_ok w ((k, v) # r) c = (if k = co_name c then column_accepts w c v else column_ok w r c)"
  "column_ok w [] c \<longleftrightarrow> co_default c \<noteq> None"
  by (simp_all add: column_ok_def)

definition fits :: "bool \<Rightarrow> (nat \<times> string) list \<Rightarrow> bool" where
  "fits w cols \<longleftrightarrow> (w \<longrightarrow> list_all (\<lambda>(n, s). length s \<le> n) cols)"

lemma fits_simps [simp]:
  "fits w []" "fits w ((n, s) # cols) \<longleftrightarrow> (w \<longrightarrow> length s \<le> n) \<and> fits w cols"
  "fits w (xs @ ys) \<longleftrightarrow> fits w xs \<and> fits w ys"
  by (auto simp: fits_def)

lemma widths_fit: "widths_ok db cols \<longleftrightarrow> fits (db_checks_width db) cols"
  by (auto simp: widths_ok_def fits_def)

lemma optional_accepts:
  "co_nullable c \<Longrightarrow> co_type c = VarChar n \<Longrightarrow> column_accepts w c (opt_cell CStr x) = fits w (opt_col n x)"
  "co_nullable c \<Longrightarrow> co_type c = IntegerType \<Longrightarrow> column_accepts w c (opt_cell CInt y)"
  "co_nullable c \<Longrightarrow> co_type c = DateTimeTz \<Longrightarrow> column_accepts w c (opt_cell CTime z)"
  by ((cases x; simp), (cases y; simp), (cases z; simp))

text \<open>The widths \<open>Store\<close> tests are those of the migrated columns.\<close>

lemma columns_hold:
  "fits w (agent_widths a) \<Longrightarrow> list_all (column_ok w (agent_row a)) (tb_columns initial_agents)"
  "fits w (tool_widths t) \<Longrightarrow> list_all (column_ok w (tool_row t)) (tb_columns initial_tool_definitions)"
  "fits w (manifest_widths m) \<Longrightarrow> list_all (column_ok w (manifest_row m)) (tb_columns initial_permission_manifests)"
  "fits w (session_widths s) \<Longrightarrow> list_all (column_ok w (session_row s)) (tb_columns head_agent_sessions)"
  "fits w (event_widths e) \<Longrightarrow> list_all (column_ok w (event_row e)) (tb_columns head_audit_events)"
  "fits w (customer_widths c) \<Longrightarrow> list_all (column_ok w (customer_row c)) (tb_columns initial_customers)"
  using status_values
  by (simp_all add: initial_agents_def initial_tool_definitions_def initial_permission_manifests_def
      head_agent_sessions_def initial_agent_sessions_def head_audit_events_def initial_audit_events_def
      initial_customers_def column_defs row_defs column_ok_simps optional_accepts width_defs)

lemma rows_fit:
  assumes "db_checked db"
  shows "\<forall>a \<in> set (db_agents db). list_all (column_ok (db_checks_width db) (agent_row a)) (tb_columns initial_agents)"
    "\<forall>t \<in> set (db_tools db). list_all (column_ok (db_checks_width db) (tool_row t)) (tb_columns initial_tool_definitions)"
    "\<forall>m \<in> set (db_manifests db). list_all (column_ok (db_checks_width db) (manifest_row m)) (tb_columns initial_permission_manifests)"
    "\<forall>s \<in> set (db_sessions db). list_all (column_ok (db_checks_width db) (session_row s)) (tb_columns head_agent_sessions)"
    "\<forall>e \<in> set (db_events db). list_all (column_ok (db_checks_width db) (event_row e)) (tb_columns head_audit_events)"
    "\<forall>c \<in> set (db_customers db). list_all (column_ok (db_checks_width db) (customer_row c)) (tb_columns initial_customers)"
  using assms columns_hold
  by (simp_all add: db_checked_def manifest_checked_def session_checked_def widths_fit)

lemma cells_simps [simp]: "cells [] r = []" "cells (c # cs) r = cell_of r c # cells cs r"
  by (simp_all add: cells_def)

lemma cell_of_Cons: "cell_of ((k, v) # r) c = (if k = c then v else cell_of r c)"
  by (simp add: cell_of_def)

lemma opt_cell_null: "CNull = opt_cell CStr x \<longleftrightarrow> x = None" "opt_cell CStr x = CStr k \<longleftrightarrow> x = Some k"
  by (cases x; simp)+

lemma window_checks:
  "manifest_window_ok m \<Longrightarrow> later (opt_cell CTime (pm_expires_at m)) (CTime (pm_effective_from m))"
  "session_window_ok s \<Longrightarrow> instant (se_created_at s) < instant (se_expires_at s)"
  by (cases "pm_expires_at m") (simp_all add: manifest_window_ok_def session_window_ok_def)

lemma manifests_check:
  "db_checked db \<Longrightarrow> m \<in> set (db_manifests db) \<Longrightarrow>
     later (opt_cell CTime (pm_expires_at m)) (CTime (pm_effective_from m))"
  by (simp add: db_checked_def manifest_checked_def window_checks)

lemma sessions_check:
  "db_checked db \<Longrightarrow> s \<in> set (db_sessions db) \<Longrightarrow> instant (se_created_at s) < instant (se_expires_at s)"
  by (simp add: db_checked_def session_checked_def window_checks)

lemma agents_hold: "db_wf db \<Longrightarrow> db_checked db \<Longrightarrow> table_holds (db_checks_width db) (contents_of db) initial_agents"
  using rows_fit(1) [of db]
  by (auto simp: table_holds_def db_wf_def wf_defs initial_agents_def list_all_iff agent_row_def cell_of_Cons comp_def
      elim: distinct_cells)

lemma tools_hold: "db_wf db \<Longrightarrow> db_checked db \<Longrightarrow> table_holds (db_checks_width db) (contents_of db) initial_tool_definitions"
  using rows_fit(2) [of db]
  by (auto simp: table_holds_def db_wf_def wf_defs initial_tool_definitions_def list_all_iff tool_row_def cell_of_Cons
      comp_def elim: distinct_cells)

lemma customers_hold: "db_wf db \<Longrightarrow> db_checked db \<Longrightarrow> table_holds (db_checks_width db) (contents_of db) initial_customers"
  using rows_fit(6) [of db]
  by (auto simp: table_holds_def db_wf_def wf_defs initial_customers_def list_all_iff customer_row_def cell_of_Cons
      comp_def elim: distinct_cells)

lemma agent_reference:
  "agent_get k db \<noteq> None \<Longrightarrow> [CStr k] \<in> cells [''agent_id''] ` set (rows_in (contents_of db) ''agents'')"
  by (auto simp: agent_get_def agent_row_def cell_of_Cons image_iff row_of_None_iff)

lemma session_reference:
  "session_get k db \<noteq> None \<Longrightarrow>
     [CStr k] \<in> cells [''session_id''] ` set (rows_in (contents_of db) ''agent_sessions'')"
  by (auto simp: session_get_def session_row_def cell_of_Cons image_iff row_of_None_iff)

lemma manifest_reference:
  "manifest_get k db \<noteq> None \<Longrightarrow>
     [CStr k] \<in> cells [''manifest_id''] ` set (rows_in (contents_of db) ''permission_manifests'')"
  by (auto simp: manifest_get_def manifest_row_def cell_of_Cons image_iff row_of_None_iff)

lemma manifests_hold: "db_wf db \<Longrightarrow> db_checked db \<Longrightarrow> table_holds (db_checks_width db) (contents_of db) initial_permission_manifests"
  using rows_fit(3) [of db] manifests_check agent_reference
  by (auto simp: table_holds_def db_wf_def wf_defs check_conditions_def initial_permission_manifests_def list_all_iff manifest_row_def
      cell_of_Cons comp_def simp del: rows_in_contents(1) elim: distinct_cells)

lemma sessions_hold: "db_wf db \<Longrightarrow> db_checked db \<Longrightarrow> table_holds (db_checks_width db) (contents_of db) head_agent_sessions"
  using rows_fit(4) [of db] sessions_check agent_reference
  by (auto simp: table_holds_def db_wf_def wf_defs check_conditions_def head_agent_sessions_def initial_agent_sessions_def list_all_iff
      session_row_def cell_of_Cons comp_def simp del: rows_in_contents(1) elim: distinct_cells)

lemma event_cells:
  "cells [''event_id''] (event_row e) = [CStr (ev_id e)]"
  "cells [''request_id'', ''sequence''] (event_row e) = [CStr (ev_request_id e), CInt (ev_sequence e)]"
  "cells [''agent_id''] (event_row e) = [CStr (ev_agent_id e)]"
  "cells [''session_id''] (event_row e) = [opt_cell CStr (ev_session_id e)]"
  "cells [''matched_manifest_id''] (event_row e) = [opt_cell CStr (ev_matched_manifest_id e)]"
  by (simp_all add: event_row_def cell_of_Cons)

lemma events_hold:
  assumes "db_wf db" "db_checked db"
  shows "table_holds (db_checks_width db) (contents_of db) head_audit_events"
proof -
  have wf: "distinct (map ev_id (db_events db))" "distinct (map (\<lambda>e. (ev_request_id e, ev_sequence e)) (db_events db))"
    and refs: "\<And>e. e \<in> set (db_events db) \<Longrightarrow> agent_get (ev_agent_id e) db \<noteq> None"
      "\<And>e k. e \<in> set (db_events db) \<Longrightarrow> ev_session_id e = Some k \<Longrightarrow> session_get k db \<noteq> None"
      "\<And>e k. e \<in> set (db_events db) \<Longrightarrow> ev_matched_manifest_id e = Some k \<Longrightarrow> manifest_get k db \<noteq> None"
    using assms(1) by (auto simp: db_wf_def events_wf_def)
  have "distinct (map (\<lambda>e. cells [''event_id''] (event_row e)) (db_events db))"
    using wf(1) by (rule distinct_cells) (simp add: event_cells del: cells_simps)
  moreover have "distinct (map (\<lambda>e. cells [''request_id'', ''sequence''] (event_row e)) (db_events db))"
    using wf(2) by (rule distinct_cells) (simp add: event_cells del: cells_simps)
  moreover have "CNull \<in> set (cells [''session_id''] (event_row e)) \<or> cells [''session_id''] (event_row e) \<in>
      cells [''session_id''] ` set (rows_in (contents_of db) ''agent_sessions'')" if "e \<in> set (db_events db)" for e
    unfolding event_cells using refs(2) [OF that] session_reference by (cases "ev_session_id e") auto
  moreover have "CNull \<in> set (cells [''matched_manifest_id''] (event_row e)) \<or>
      cells [''matched_manifest_id''] (event_row e) \<in>
      cells [''manifest_id''] ` set (rows_in (contents_of db) ''permission_manifests'')"
    if "e \<in> set (db_events db)" for e
    unfolding event_cells using refs(3) [OF that] manifest_reference by (cases "ev_matched_manifest_id e") auto
  moreover have "cells [''agent_id''] (event_row e) \<in>
      cells [''agent_id''] ` set (rows_in (contents_of db) ''agents'')" if "e \<in> set (db_events db)" for e
    unfolding event_cells using refs(1) [OF that] agent_reference by blast
  moreover have "tb_name head_audit_events = ''tool_call_audit_events''"
    and "tb_constraints head_audit_events = tb_constraints initial_audit_events"
    by (simp_all add: head_audit_events_def initial_audit_events_def)
  ultimately show ?thesis
    using rows_fit(5) [OF assms(2)]
    by (simp add: table_holds_def list_all_iff comp_def initial_audit_events_def del: cells_simps rows_in_contents(1,3,4))
qed

lemma manifest_status_active: "manifest_status_value x = ''active'' \<longleftrightarrow> x = ManifestActive"
  by (cases x) simp_all

lemma distinct_filter_map:
  assumes "distinct xs" "\<And>x y. x \<in> set xs \<Longrightarrow> y \<in> set xs \<Longrightarrow> P x \<Longrightarrow> P y \<Longrightarrow> f x = f y \<Longrightarrow> x = y"
  shows "distinct (map f (filter P xs))"
proof -
  have "inj_on f (set (filter P xs))"
  proof (rule inj_onI)
    fix x y assume "x \<in> set (filter P xs)" "y \<in> set (filter P xs)" "f x = f y"
    then show "x = y" using assms(2) [of x y] by simp
  qed
  with assms(1) show ?thesis by (simp add: distinct_map)
qed

lemma selected_active: "selected (Some active_predicate) (manifest_row m) \<longleftrightarrow> pm_status m = ManifestActive"
  by (simp add: selected_def manifest_row_def cell_of_Cons manifest_status_active)

lemma active_index_holds:
  assumes "db_wf db"
  shows "index_holds (contents_of db) active_agent_index"
proof -
  have "distinct (db_manifests db)" using wf_manifest_key [OF assms] by (simp add: distinct_map)
  then have "distinct (map pm_agent_id (filter (\<lambda>m. pm_status m = ManifestActive) (db_manifests db)))"
    by (rule distinct_filter_map) (rule active_unique [OF assms], auto simp: is_active_for_def)
  then have "distinct (map (\<lambda>m. cells [''agent_id''] (manifest_row m))
      (filter (\<lambda>m. pm_status m = ManifestActive) (db_manifests db)))"
    by (rule distinct_cells) (simp add: manifest_row_def cell_of_Cons)
  then show ?thesis
    by (simp add: index_holds_def active_agent_index_def filter_map comp_def selected_active)
qed

lemma plain_index_holds [simp]: "index_holds T (plain_index t c)"
  by (simp add: index_holds_def plain_index_def)

lemma head_schema_satisfied:
  "db_wf db \<Longrightarrow> db_checked db \<Longrightarrow> satisfies (db_checks_width db) (contents_of db) head_schema"
  using agents_hold tools_hold manifests_hold sessions_hold events_hold customers_hold active_index_holds
  by (simp add: satisfies_def head_schema_def initial_indexes_def list_all_iff)

text \<open>(C34) Refinement: whatever operations the service performs from an empty database, overlapping or not,
  the contents of the model's database, written out as rows, satisfy the schema the migrations build: every
  column is there, has a value of its type, is null only where it may be and, on a backend that
  enforces widths, is no longer than its column; and every primary key, uniqueness constraint,
  foreign key, CHECK constraint and unique index holds.\<close>

theorem reachable_satisfies_migrations:
  assumes "db_step\<^sup>*\<^sup>* (empty_database st w) db"
  shows "\<exists>m. upgrade_all revisions unmigrated = Inr m \<and> satisfies w (contents_of db) (mg_schema m)"
  using head_schema_satisfied [OF reachable_wf [OF assms]] reachable_checked [OF assms] upgraded_head by auto

end
