(* ===== verification/Scripts.thy ===== *)
theory Scripts
  imports Api Seed Orm
begin

text \<open>
  The command-line tools of \<open>scripts/\<close>: minting development tokens, seeding, inspecting, and the two
  verification scripts.  Alembic's \<open>check\<close> is a parameter that compares the schema of the database
  with the metadata of the mapped classes.  The properties: which endpoints a minted token opens, and
  that the verification scripts pass, i.e. that their checks hold of the code they exercise.
\<close>

section \<open>mint_dev_token.py\<close>

record mint_args =
  ma_token_type :: string
  ma_subject :: "string option"
  ma_scopes :: "string list option"
  ma_ttl_seconds :: int

definition token_defaults :: "(string \<times> string \<times> string list) list" where
  "token_defaults =
     [(''agent'', ''dev:agent_support_001'', [''tool:invoke'']),
      (''host'', ''dev:trusted-host'', [''session:create'', ''session:revoke'']),
      (''admin'', ''dev:administrator'', [''session:create'', ''session:revoke'', ''manifest:admin'', ''audit:read'']),
      (''auditor'', ''dev:auditor'', [''audit:read''])]"

text \<open>\<open>x or default\<close>: an empty subject or list of scopes counts as absent.\<close>

definition given :: "'a list option \<Rightarrow> 'a list \<Rightarrow> 'a list" where
  "given x fallback = (case x of None \<Rightarrow> fallback | Some xs \<Rightarrow> if xs = [] then fallback else xs)"

definition mint_token :: "jwt_lib \<Rightarrow> proxy_settings res \<Rightarrow> mint_args \<Rightarrow> int \<Rightarrow> string res" where
  "mint_token L settings args now =
     (if ma_ttl_seconds args < 60 \<or> 3600 < ma_ttl_seconds args
      then Inl (ValueError ''--ttl-seconds must be between 60 and 3600'')
      else
        (case map_of token_defaults (ma_token_type args) of
           None \<Rightarrow> Inl (KeyError (ma_token_type args))
         | Some (subject, scopes) \<Rightarrow>
             bind_res settings (\<lambda>s.
               issue_development_token L s (given (ma_subject args) subject) (ma_token_type args)
                 (set (given (ma_scopes args) scopes)) (ma_ttl_seconds args) now)))"

section \<open>seed_phase_1.py and inspect_phase_1.py\<close>

definition summary_json :: "seed_summary \<Rightarrow> json" where
  "summary_json s =
     JObj [(''agents'', JInt (int (ss_agents s))), (''tools'', JInt (int (ss_tools s))),
       (''manifests'', JInt (int (ss_manifests s))), (''customers'', JInt (int (ss_customers s))),
       (''active_manifest_id'', JStr (ss_active_manifest_id s))]"

text \<open>The object that the script prints.\<close>

definition seed_script :: "int \<Rightarrow> database \<Rightarrow> json res \<times> database" where
  "seed_script now db =
     (case seed_phase_1 now db of
        (Inl e, db') \<Rightarrow> (Inl e, db')
      | (Inr s, db') \<Rightarrow> (Inr (summary_json s), db'))"

definition inspect_report :: "bool \<Rightarrow> database \<Rightarrow> json" where
  "inspect_report ready db =
     JObj [(''agents'', JInt (int (agent_count db))), (''tools'', JInt (int (tool_count db))),
       (''manifests'', JInt (int (manifest_count db))), (''sessions'', JInt (int (session_count db))),
       (''audit_events'', JInt (int (event_count db))), (''customers'', JInt (int (customer_count db))),
       (''active_manifest_id'',
          case manifest_get_active seed_agent_id db of None \<Rightarrow> JNull | Some m \<Rightarrow> JStr (pm_id m)),
       (''database_ready'', JBool ready)]"

section \<open>verify_phase_1.py\<close>

type_synonym alembic_check = "schema \<Rightarrow> schema \<Rightarrow> bool"

definition upgrade :: "alembic_check \<Rightarrow> migrated res" where
  "upgrade check =
     bind_res (upgrade_all revisions unmigrated) (\<lambda>m.
       if check (mg_schema m) (metadata mapped_classes) then Inr m
       else Inl (RuntimeError ''New upgrade operations detected''))"

definition table_names :: "migrated \<Rightarrow> string set" where
  "table_names m = insert ''alembic_version'' (tb_name ` set (sc_tables (mg_schema m)))"

definition expected_tables :: "string set" where
  "expected_tables =
     {''agents'', ''agent_sessions'', ''alembic_version'', ''crm_customers'', ''permission_manifests'',
      ''tool_call_audit_events'', ''tool_definitions''}"

definition check_seeded :: "database \<Rightarrow> unit res" where
  "check_seeded db =
     (if agent_get seed_agent_id db = None
      then Inl (RuntimeError ''Seed agent did not survive database restart'')
      else if agent_count db \<noteq> 1 \<or> tool_count db \<noteq> 1
      then Inl (RuntimeError ''Unexpected Phase 1 control-plane seed counts'')
      else if manifest_count db \<noteq> 1 \<or> customer_count db \<noteq> 3
      then Inl (RuntimeError ''Unexpected manifest or CRM seed counts'')
      else if manifest_get_active seed_agent_id db = None
      then Inl (RuntimeError ''No active manifest found after database restart'')
      else Inr ())"

text \<open>\<open>db\<close> is the database that the migrations leave in the new file.\<close>

definition verify_phase_1 :: "alembic_check \<Rightarrow> int \<Rightarrow> int \<Rightarrow> database \<Rightarrow> unit res \<times> database" where
  "verify_phase_1 check now1 now2 db =
     (case upgrade check of
        Inl e \<Rightarrow> (Inl e, db)
      | Inr m \<Rightarrow>
          and_then (seed_phase_1 now1 db) (\<lambda>first db1.
          and_then (seed_phase_1 now2 db1) (\<lambda>second db2.
            if first \<noteq> second then (Inl (RuntimeError ''Seed data is not idempotent''), db2)
            else if table_names m \<noteq> expected_tables
            then (Inl (RuntimeError ''Unexpected migrated tables''), db2)
            else (check_seeded db2, db2))))"

section \<open>What a minted token opens\<close>

lemma minted:
  assumes "mint_token L settings args issued = Inr token"
  obtains s subject scopes where "settings = Inr s" "map_of token_defaults (ma_token_type args) = Some (subject, scopes)"
    "issue_development_token L s (given (ma_subject args) subject) (ma_token_type args)
       (set (given (ma_scopes args) scopes)) (ma_ttl_seconds args) issued = Inr token"
  using assms by (auto simp: mint_token_def bind_res_eq_Inr split: if_splits option.splits)

lemma default_scopes:
  assumes "map_of token_defaults t = Some (subject, scopes)"
  shows "subject \<noteq> []" "\<forall>w \<in> set scopes. scope_name w" "t \<in> {''agent'', ''host'', ''admin'', ''auditor''}"
    "''audit:read'' \<in> set scopes \<longleftrightarrow> t \<in> {''admin'', ''auditor''}"
    "''session:create'' \<in> set scopes \<longleftrightarrow> t \<in> {''host'', ''admin''}"
    "''tool:invoke'' \<in> set scopes \<longleftrightarrow> t = ''agent''"
  using assms by (auto simp: token_defaults_def scope_name_def is_space_def Let_def split: if_splits)

definition bearer_of :: "string \<Rightarrow> bearer option" where
  "bearer_of token = Some \<lparr>br_scheme = ''Bearer'', br_credentials = token\<rparr>"

lemma lower_bearer [simp]: "lower ''Bearer'' = ''bearer''"
  by code_simp

lemma bearer_of_principal [simp]:
  "authenticated_principal ae (bearer_of token) = Inr p \<longleftrightarrow> decode_principal ae token = Inr p"
  by (simp add: authenticated_principal_Inr bearer_of_def)

lemma bearer_of_audit [simp]:
  "audit_principal ae (bearer_of token) = Inr p \<longleftrightarrow>
     decode_principal ae token = Inr p \<and> pr_token_use p \<in> {''auditor'', ''admin''} \<and> ''audit:read'' \<in> pr_scopes p"
  by (simp add: audit_principal_Inr bearer_of_def)

lemma post_session_principal:
  "post_session ae cr r u1 u2 now db = (Inr c, db') \<Longrightarrow> \<exists>p. authenticated_principal ae cr = Inr p \<and>
     pr_token_use p \<in> {''host'', ''admin''} \<and> ''session:create'' \<in> pr_scopes p"
  by (auto simp: post_session_def bind_res_eq_Inr require_host_Inr require_scopes_Inr
      split: sum.splits if_splits prod.splits)

lemma post_revoke_principal:
  "post_revoke ae cr k now db = (Inr c, db') \<Longrightarrow> \<exists>p. authenticated_principal ae cr = Inr p \<and>
     pr_token_use p \<in> {''host'', ''admin''} \<and> ''session:revoke'' \<in> pr_scopes p"
  by (auto simp: post_revoke_def bind_res_eq_Inr require_host_Inr require_scopes_Inr
      split: sum.splits if_splits prod.splits)

text \<open>The token is used within its lifetime by the proxy that runs with the settings it was minted with.\<close>

definition minted_for :: "mint_args \<Rightarrow> int \<Rightarrow> string \<Rightarrow> auth_env \<Rightarrow> bool" where
  "minted_for args issued token ae \<longleftrightarrow>
     mint_token (ae_jwt ae) (Inr (ae_settings ae)) args issued = Inr token \<and> issued \<le> ae_token_now ae \<and>
     ae_token_now ae < (issued + ma_ttl_seconds args * 1000000) div 1000000 * 1000000"

lemma minted_use:
  assumes "jwt_roundtrip (ae_jwt ae)" "minted_for args issued token ae" "decode_principal ae token = Inr p"
  shows "pr_token_use p = ma_token_type args"
  using assms minted [of "ae_jwt ae" "Inr (ae_settings ae)" args issued token]
    issued_token_use [of "ae_jwt ae" "ae_settings ae" _ "ma_token_type args" _ "ma_ttl_seconds args" issued token
      "ae_token_now ae" "ae_provider ae" p]
  unfolding minted_for_def decode_principal_def by blast

lemma minted_default_principal:
  assumes L: "jwt_roundtrip (ae_jwt ae)" and m: "minted_for args issued token ae"
    and plain: "ma_subject args = None" "ma_scopes args = None"
  obtains p subject scopes where "decode_principal ae token = Inr p" "pr_token_use p = ma_token_type args"
    "pr_scopes p = set scopes" "pr_subject p = subject"
    "map_of token_defaults (ma_token_type args) = Some (subject, scopes)"
proof -
  from m have mint: "mint_token (ae_jwt ae) (Inr (ae_settings ae)) args issued = Inr token"
    by (simp add: minted_for_def)
  from mint obtain subject scopes where d: "map_of token_defaults (ma_token_type args) = Some (subject, scopes)"
    and i: "issue_development_token (ae_jwt ae) (ae_settings ae) subject (ma_token_type args) (set scopes)
      (ma_ttl_seconds args) issued = Inr token"
    by (auto elim!: minted simp: given_def plain)
  have ws: "\<forall>w \<in> set scopes. scope_name w" and sub: "subject \<noteq> []" using default_scopes(1,2) [OF d] by auto
  show thesis
    using issued_token_principal [OF L i _ ws sub, of "ae_token_now ae" "ae_provider ae"] m d that
    by (auto simp: minted_for_def decode_principal_def)
qed

text \<open>Separation of duties among development tokens.  Whatever subject, scopes and lifetime it was
  minted with, a token opens the audit trail only if it is an auditor's or an administrator's, creates
  and revokes sessions only if it is a host's or an administrator's, and calls tools only if it is an
  agent's; and with the default subject and scopes it does pass the checks of its own kind.\<close>

lemma minted_token_authority:
  assumes "jwt_roundtrip (ae_jwt ae)" "minted_for args issued token ae"
  shows
    "(\<forall>p. audit_principal ae (bearer_of token) = Inr p \<longrightarrow> ma_token_type args \<in> {''admin'', ''auditor''}) \<and>
     (\<forall>c db'. post_session ae (bearer_of token) r u1 u2 now db = (Inr c, db') \<longrightarrow>
        ma_token_type args \<in> {''host'', ''admin''}) \<and>
     (\<forall>row db'. post_revoke ae (bearer_of token) k now db = (Inr row, db') \<longrightarrow>
        ma_token_type args \<in> {''host'', ''admin''}) \<and>
     (\<forall>ac. authorize_call ae token st db = Inr ac \<longrightarrow> ma_token_type args = ''agent'') \<and>
     (ma_subject args = None \<and> ma_scopes args = None \<longrightarrow>
        (\<exists>p. authenticated_principal ae (bearer_of token) = Inr p \<and>
           (audit_principal ae (bearer_of token) = Inr p \<longleftrightarrow> ma_token_type args \<in> {''admin'', ''auditor''}) \<and>
           (require_host p = Inr () \<and> require_scopes p [''session:create''] = Inr () \<longleftrightarrow>
              ma_token_type args \<in> {''host'', ''admin''}) \<and>
           (require_scopes p [''tool:invoke''] = Inr () \<longleftrightarrow> ma_token_type args = ''agent'')))"
proof (intro conjI allI impI)
  show "ma_token_type args \<in> {''admin'', ''auditor''}" if "audit_principal ae (bearer_of token) = Inr p" for p
    using minted_use [OF assms] that by auto
  show "ma_token_type args \<in> {''host'', ''admin''}"
    if "post_session ae (bearer_of token) r u1 u2 now db = (Inr c, db')" for c db'
    using minted_use [OF assms] post_session_principal [OF that] by auto
  show "ma_token_type args \<in> {''host'', ''admin''}"
    if "post_revoke ae (bearer_of token) k now db = (Inr row, db')" for row db'
    using minted_use [OF assms] post_revoke_principal [OF that] by auto
  show "ma_token_type args = ''agent''" if "authorize_call ae token st db = Inr ac" for ac
  proof -
    obtain a c where "ac = (a, c)" by (cases ac)
    then show ?thesis
      using that minted_use [OF assms] by (auto simp: authorize_call_Inr resolve_active_agent_Inr)
  qed
next
  assume "ma_subject args = None \<and> ma_scopes args = None"
  then obtain p subject scopes where p: "decode_principal ae token = Inr p" "pr_token_use p = ma_token_type args"
    "pr_scopes p = set scopes" "map_of token_defaults (ma_token_type args) = Some (subject, scopes)"
    using minted_default_principal [OF assms] by metis
  then show "\<exists>p. authenticated_principal ae (bearer_of token) = Inr p \<and>
     (audit_principal ae (bearer_of token) = Inr p \<longleftrightarrow> ma_token_type args \<in> {''admin'', ''auditor''}) \<and>
     (require_host p = Inr () \<and> require_scopes p [''session:create''] = Inr () \<longleftrightarrow>
        ma_token_type args \<in> {''host'', ''admin''}) \<and>
     (require_scopes p [''tool:invoke''] = Inr () \<longleftrightarrow> ma_token_type args = ''agent'')"
    using default_scopes(4-6) [OF p(4)] by (intro exI [of _ p]) (auto simp: require_host_Inr require_scopes_Inr)
qed

section \<open>The first verification script passes\<close>

text \<open>What Alembic documents of its comparison as \<open>env.py\<close> configures it: it does not look at server
  defaults, and finds nothing to do between schemas that are otherwise the same.\<close>

definition without_defaults :: "schema \<Rightarrow> schema" where
  "without_defaults s =
     s\<lparr>sc_tables := map (\<lambda>t. t\<lparr>tb_columns := map (\<lambda>c. c\<lparr>co_default := None\<rparr>) (tb_columns t)\<rparr>) (sc_tables s)\<rparr>"

definition compares_up_to_defaults :: "alembic_check \<Rightarrow> bool" where
  "compares_up_to_defaults check \<longleftrightarrow>
     (\<forall>s s'. same_schema (without_defaults s) (without_defaults s') \<longrightarrow> check s s')"

lemma head_matches_up_to_defaults:
  "same_schema (without_defaults head_schema) (without_defaults (metadata mapped_classes))"
  by code_simp

lemma upgrade_passes:
  "compares_up_to_defaults check \<Longrightarrow>
   upgrade check = Inr \<lparr>mg_current = Some ''20260730_0003'', mg_schema = head_schema\<rparr>"
  using head_matches_up_to_defaults by (simp add: upgrade_def upgraded_head compares_up_to_defaults_def)

lemma head_tables: "table_names \<lparr>mg_current = k, mg_schema = head_schema\<rparr> = expected_tables"
proof -
  have "map tb_name (sc_tables head_schema) =
      [''agents'', ''tool_definitions'', ''permission_manifests'', ''agent_sessions'', ''tool_call_audit_events'',
       ''crm_customers'']" by code_simp
  from arg_cong [OF this, where f = set]
  have "table_names \<lparr>mg_current = k, mg_schema = head_schema\<rparr> = insert ''alembic_version''
      (set [''agents'', ''tool_definitions'', ''permission_manifests'', ''agent_sessions'',
        ''tool_call_audit_events'', ''crm_customers''])"
    by (simp only: table_names_def list.set_map migrated.simps)
  also have "\<dots> = expected_tables" by code_simp
  finally show ?thesis .
qed

lemma seed_twice:
  "seed_phase_1 later (fresh_seed st w now) =
     (Inr \<lparr>ss_agents = 1, ss_tools = 1, ss_manifests = 1, ss_customers = 3,
           ss_active_manifest_id = seed_manifest_id\<rparr>, fresh_seed st w now)"
proof -
  obtain m where m: "manifest_get seed_manifest_id (fresh_seed st w now) = Some m"
    "seed_phase_1 later (fresh_seed st w now) = (Inr (summary_of m (fresh_seed st w now)), fresh_seed st w now)"
    using seed_again [OF seed_seeds [OF seed_fresh_database]] by metis
  then have "pm_id m = seed_manifest_id" using manifest_getD by blast
  with m(2) show ?thesis
    by (simp add: summary_of_def fresh_seed_def agent_count_def tool_count_def manifest_count_def
        customer_count_def seed_customers_def)
qed

lemma fresh_checks: "check_seeded (fresh_seed st w now) = Inr ()"
  by (simp add: check_seeded_def fresh_active)
    (simp add: fresh_seed_def agent_get_def agent_count_def tool_count_def manifest_count_def customer_count_def
      seed_customers_def seed_agent_def)

text \<open>The first verification script passes on a new database of either backend, with any Alembic whose
  comparison finds nothing to do between schemas that differ in server defaults only: the migrations
  build the expected tables and agree with the classes, seeding twice reports the same counts, and the
  agent, its active manifest and the customers are there.\<close>

lemma verify_phase_1_passes:
  assumes "compares_up_to_defaults check"
  shows "verify_phase_1 check now1 now2 (empty_database st w) = (Inr (), fresh_seed st w now1)"
  by (simp add: verify_phase_1_def upgrade_passes [OF assms] seed_fresh_database seed_twice and_then_def
      head_tables fresh_checks)

theorem verify_phase_1_passes_witness:
  "verify_phase_1 (\<lambda>s s'. same_schema (without_defaults s) (without_defaults s')) 0 1
     (empty_database sqlite_time False) = (Inr (), fresh_seed sqlite_time False 0)"
  by (rule verify_phase_1_passes) (simp add: compares_up_to_defaults_def)

theorem minted_token_authority_witness:
  "let args = \<lparr>ma_token_type = ''auditor'', ma_subject = None, ma_scopes = None, ma_ttl_seconds = 900\<rparr>;
       ae = \<lparr>ae_jwt = plain_jwt, ae_settings = local_proxy_settings, ae_provider = None,
             ae_token_now = 1700000001000000, ae_session_jwt_now = 1700000001000000,
             ae_session_now = 1700000001000000\<rparr>
   in \<exists>token p. mint_token plain_jwt (Inr local_proxy_settings) args 1700000000000000 = Inr token \<and>
     audit_principal ae (bearer_of token) = Inr p"
proof -
  let ?args = "\<lparr>ma_token_type = ''auditor'', ma_subject = None, ma_scopes = None, ma_ttl_seconds = 900\<rparr>"
  let ?ae = "\<lparr>ae_jwt = plain_jwt, ae_settings = local_proxy_settings, ae_provider = None,
             ae_token_now = 1700000001000000, ae_session_jwt_now = 1700000001000000,
             ae_session_now = 1700000001000000\<rparr>"
  obtain token where token: "mint_token plain_jwt (Inr local_proxy_settings) ?args 1700000000000000 = Inr token"
    by (simp add: mint_token_def token_defaults_def issue_development_token_def local_proxy_settings_def token_uses_def)
  then have "minted_for ?args 1700000000000000 token ?ae" by (simp add: minted_for_def)
  note opens = minted_token_authority [OF _ this, THEN conjunct2, THEN conjunct2, THEN conjunct2, THEN conjunct2]
  have "\<exists>p. audit_principal ?ae (bearer_of token) = Inr p"
    using opens plain_jwt_roundtrip by (simp del: bearer_of_audit bearer_of_principal) blast
  with token show ?thesis by (simp only: Let_def) blast
qed

end
