(* ===== verification/Acceptance.thy ===== *)
theory Acceptance
  imports Scripts
begin

text \<open>
  \<open>scripts/verify_phase_2.py\<close>: the acceptance flow over the HTTP interface with an in-process client.
  The readings of the clock are a sequence, one for each time the flow reads it.  The
  property: the flow passes on a freshly seeded database, i.e. an agent is recognised, a session is
  created, validated and revoked by its host, and the token of the revoked session is refused.
\<close>

section \<open>The client\<close>

text \<open>What the client receives: status and body.  An exception no handler of the application
  answers is raised in the client (\<open>ASGITransport\<close>).\<close>

fun handled :: "py_exn \<Rightarrow> bool" where
  "handled (HTTPException n c m) = True"
| "handled (ValidationError m) = True"
| "handled e = False"

definition received :: "nat \<Rightarrow> 'a res \<Rightarrow> (nat \<times> 'a option) res" where
  "received status r =
     (case r of
        Inr x \<Rightarrow> Inr (status, Some x)
      | Inl e \<Rightarrow> if handled e then Inr (error_status e, None) else Inl e)"

definition server_env :: "jwt_lib \<Rightarrow> proxy_settings \<Rightarrow> (nat \<Rightarrow> int) \<Rightarrow> nat \<Rightarrow> auth_env" where
  "server_env L s clock i =
     \<lparr>ae_jwt = L, ae_settings = s, ae_provider = None, ae_token_now = clock i,
      ae_session_jwt_now = clock (i + 1), ae_session_now = clock (i + 2)\<rparr>"

section \<open>verify_phase_2.py\<close>

definition flow_request :: create_session_request where
  "flow_request =
     \<lparr>cq_agent_id = seed_agent_id, cq_user_id = ''verification_user'', cq_customer_id = ''customer_1001'',
      cq_ttl_seconds = Some 300\<rparr>"

definition failed :: "string \<Rightarrow> database \<Rightarrow> 'a res \<times> database" where
  "failed message db = (Inl (RuntimeError message), db)"

definition check_identity :: "nat \<times> identity_response option \<Rightarrow> database \<Rightarrow> unit res \<times> database" where
  "check_identity answer db =
     (if fst answer \<noteq> 200 \<or> Option.bind (snd answer) id_agent_id \<noteq> Some seed_agent_id
      then failed ''Agent identity verification failed'' db else (Inr (), db))"

definition check_created :: "nat \<times> created_trusted_session option \<Rightarrow> database
    \<Rightarrow> created_trusted_session res \<times> database" where
  "check_created answer db =
     (if fst answer \<noteq> 201 then failed ''Session creation failed'' db
      else (case snd answer of None \<Rightarrow> (Inl (KeyError ''session_token''), db) | Some c \<Rightarrow> (Inr c, db)))"

definition check_validated :: "nat \<times> trusted_session_claims option \<Rightarrow> database \<Rightarrow> unit res \<times> database" where
  "check_validated answer db =
     (if fst answer \<noteq> 200 then failed ''Session validation failed'' db
      else if map_option tc_customer_id (snd answer) \<noteq> Some ''customer_1001''
      then failed ''Trusted customer context was not preserved'' db else (Inr (), db))"

definition check_revoked :: "nat \<times> agent_session option \<Rightarrow> database \<Rightarrow> unit res \<times> database" where
  "check_revoked answer db =
     (if fst answer \<noteq> 200 \<or> map_option se_status (snd answer) \<noteq> Some SessionRevoked
      then failed ''Session revocation failed'' db else (Inr (), db))"

definition check_rejected :: "nat \<times> trusted_session_claims option \<Rightarrow> database \<Rightarrow> unit res \<times> database" where
  "check_rejected answer db =
     (if fst answer \<noteq> 401 then failed ''Revoked session token was accepted'' db else (Inr (), db))"

definition receive :: "nat \<Rightarrow> 'a res \<times> database \<Rightarrow> (nat \<times> 'a option) res \<times> database" where
  "receive status r = (received status (fst r), snd r)"

definition verify_api_flow :: "jwt_lib \<Rightarrow> proxy_settings \<Rightarrow> (nat \<Rightarrow> int) \<Rightarrow> string \<Rightarrow> string \<Rightarrow> database
    \<Rightarrow> unit res \<times> database" where
  "verify_api_flow L s clock uuid1 uuid2 db =
     and_then (issue_development_token L s ''dev:trusted-host'' ''host'' {''session:create'', ''session:revoke''}
        900 (clock 0), db) (\<lambda>host_token db.
     and_then (issue_development_token L s ''dev:agent_support_001'' ''agent'' {''tool:invoke''} 900 (clock 1), db)
       (\<lambda>agent_token db.
     let host = bearer_of host_token; agent = bearer_of agent_token in
     and_then (receive 200 (identity_me (server_env L s clock 2) agent db, db)) (\<lambda>identity db.
     and_then (check_identity identity db) (\<lambda>_ db.
     and_then (receive 201 (post_session (server_env L s clock 3) host flow_request uuid1 uuid2 (clock 4) db))
       (\<lambda>response db.
     and_then (check_created response db) (\<lambda>created db.
     and_then (receive 200 (post_validate (server_env L s clock 5) agent (cts_session_token created) db, db))
       (\<lambda>validated db.
     and_then (check_validated validated db) (\<lambda>_ db.
     and_then (receive 200 (post_revoke (server_env L s clock 8) host (cts_session_id created) (clock 9) db))
       (\<lambda>revoked db.
     and_then (check_revoked revoked db) (\<lambda>_ db.
     and_then (receive 200 (post_validate (server_env L s clock 10) agent (cts_session_token created) db, db))
       (\<lambda>rejected db. check_rejected rejected db)))))))))))"

text \<open>The settings the script starts the application with: the defaults of the class in a test environment.\<close>

definition phase_2_settings :: proxy_settings where
  "phase_2_settings = local_proxy_settings\<lparr>px_app_env := EnvTest\<rparr>"

definition verify_phase_2 :: "alembic_check \<Rightarrow> jwt_lib \<Rightarrow> (nat \<Rightarrow> int) \<Rightarrow> string \<Rightarrow> string \<Rightarrow> int \<Rightarrow> database
    \<Rightarrow> unit res \<times> database" where
  "verify_phase_2 check L clock uuid1 uuid2 seed_time db =
     and_then (upgrade check, db) (\<lambda>_ db.
     and_then (seed_phase_1 seed_time db) (\<lambda>_ db.
     and_then (validate_proxy_settings phase_2_settings, db) (\<lambda>s db.
       verify_api_flow L s clock uuid1 uuid2 db)))"

section \<open>The endpoints on requests that are in order\<close>

lemma received_Inr [simp]: "received n (Inr x) = Inr (n, Some x)"
  by (simp add: received_def)

lemma and_then_ok [simp]: "and_then (Inr x, db) f = f x db"
  by (simp add: and_then_def)

lemma receive_ok [simp]: "receive n (Inr x, db) = (Inr (n, Some x), db)"
  by (simp add: receive_def)

lemma post_session_ok:
  assumes "authenticated_principal ae cr = Inr p" "pr_token_use p \<in> {''host'', ''admin''}"
    and "''session:create'' \<in> pr_scopes p" "valid_create_request r"
    and "create_session (ae_jwt ae) (ae_settings ae) (cq_agent_id r) (cq_user_id r) (cq_customer_id r)
      (pr_subject p) (cq_ttl_seconds r) u1 u2 now db = (Inr c, db')"
  shows "post_session ae cr r u1 u2 now db = (Inr c, db')"
proof -
  have "bind_res (require_host p) (\<lambda>_. require_scopes p [''session:create'']) = Inr ()"
    using assms(2,3) by (simp add: bind_res_eq_Inr require_host_Inr require_scopes_Inr)
  then show ?thesis using assms(1,4,5) by (simp add: post_session_def catching_def)
qed

lemma post_validate_agent:
  assumes "authenticated_principal ae cr = Inr p" "''tool:invoke'' \<in> pr_scopes p"
    and "resolve_active_agent p db = Inr a" "in_length 32 8192 token"
  shows "post_validate ae cr token db = catching (validate_session (ae_jwt ae) (ae_settings ae) (ag_id a)
    (ae_session_jwt_now ae) (ae_session_now ae) token db)"
proof -
  have "require_scopes p [''tool:invoke''] = Inr ()" using assms(2) by (simp add: require_scopes_Inr)
  then show ?thesis using assms by (simp add: post_validate_def)
qed

lemma post_revoke_ok:
  assumes "authenticated_principal ae cr = Inr p" "pr_token_use p \<in> {''host'', ''admin''}"
    and "''session:revoke'' \<in> pr_scopes p" "revoke_session k now db = (Inr row, db')"
  shows "post_revoke ae cr k now db = (Inr row, db')"
proof -
  have "bind_res (require_host p) (\<lambda>_. require_scopes p [''session:revoke'']) = Inr ()"
    using assms(2,3) by (simp add: bind_res_eq_Inr require_host_Inr require_scopes_Inr)
  then show ?thesis using assms(1,4) by (simp add: post_revoke_def catching_def)
qed

lemma server_env_fields [simp]:
  "ae_jwt (server_env L s clock i) = L" "ae_settings (server_env L s clock i) = s"
  "ae_session_jwt_now (server_env L s clock i) = clock (i + 1)" "ae_session_now (server_env L s clock i) = clock (i + 2)"
  by (simp_all add: server_env_def)

lemma server_principal:
  assumes "jwt_roundtrip L" "issue_development_token L s subject use scopes ttl issued = Inr token"
    and "finite scopes" "\<forall>w \<in> scopes. scope_name w" "subject \<noteq> []"
    and "issued \<le> clock i" "clock i < (issued + ttl * 1000000) div 1000000 * 1000000"
  shows "\<exists>p. authenticated_principal (server_env L s clock i) (bearer_of token) = Inr p \<and>
    pr_subject p = subject \<and> pr_token_use p = use \<and> pr_scopes p = scopes"
  using issued_token_principal [OF assms] by (auto simp: decode_principal_def server_env_def)

lemma floor_seconds: "t < u - 1000000 \<Longrightarrow> t < u div 1000000 * (1000000 :: int)"
  using pos_mod_bound [of 1000000 u] minus_mod_eq_div_mult [of u 1000000] by linarith

section \<open>A session from creation to revocation\<close>

lemma revoked_status:
  assumes "session_get k db = Some row" "revoke_session k now db = (Inr row', db')"
  shows "se_status row' = SessionRevoked \<and> (\<exists>r. session_get k db' = Some r \<and> se_status r = SessionRevoked \<and>
    se_token_jti r = se_token_jti row) \<and> db_agents db' = db_agents db"
  using assms(2)
proof (cases rule: revoke_session_cases)
  case (1 r)
  have id: "se_id r = k" and row: "row = r" using 1(1) assms(1) session_getD by auto
  have "session_get k db' = Some (row'\<lparr>se_revoked_at := Some (db_store_time db (now_utc now))\<rparr>)"
    using 1 id session_flush_get [of "row'\<lparr>se_revoked_at := Some (db_store_time db (now_utc now))\<rparr>" db r] by simp
  with 1 row show ?thesis by (simp add: session_flush_def)
qed (use assms(1) in auto)

lemma refused_after_revocation:
  assumes "decode_session_token L s jwt_now token = Inr c" "tc_agent_id c = agent"
    and "session_get (tc_session_id c) db = Some row" "se_token_jti row = tc_token_jti c" "se_status row = SessionRevoked"
  shows "validate_session L s agent jwt_now now token db =
    Inl (TrustedSessionError ''SESSION_NOT_ACTIVE'' ''Session is not active'')"
  using assms by (simp add: validate_session_def check_persisted_def)

lemma revoke_existing:
  "session_get k db = Some row \<Longrightarrow> \<exists>row' db'. revoke_session k now db = (Inr row', db')"
  by (auto simp: revoke_session_def in_session_def Let_def)

definition flow_row :: "(nat \<Rightarrow> int) \<Rightarrow> string \<Rightarrow> string \<Rightarrow> agent_session" where
  "flow_row clock uuid1 uuid2 =
     new_session_row seed_agent_id ''verification_user'' ''customer_1001'' ''dev:trusted-host'' 300 uuid1 uuid2 (clock 4)"

lemma flow_create:
  assumes "px_session_token_ttl_seconds s = 1800"
  shows "create_session L s seed_agent_id ''verification_user'' ''customer_1001'' ''dev:trusted-host'' (Some 300)
      uuid1 uuid2 (clock 4) (fresh_seed sqlite_time False t) =
    (Inr (created_session L s (flow_row clock uuid1 uuid2)),
     (fresh_seed sqlite_time False t)\<lparr>db_sessions :=
        [stored_session (fresh_seed sqlite_time False t) (flow_row clock uuid1 uuid2)]\<rparr>)"
  using assms
  by (simp add: create_session_Inr session_ttl_def session_add_def insert_row_Inr flow_row_def new_session_row_def
      fresh_seed_def empty_database_def seed_agent_def agent_get_def session_get_def session_get_by_jti_def
      widths_ok_def width_defs session_window_ok_def stored_session_def now_utc_def)

lemma phase_2_settings_valid: "validate_proxy_settings phase_2_settings = Inr phase_2_settings"
  by (simp add: validate_proxy_settings_def require_strong_hmac_secret_def prohibit_development_auth_in_production_def
      proxy_fields_ok_def phase_2_settings_def local_proxy_settings_def default_crm_key_def default_session_secret_def)

lemma phase_2_fields [simp]:
  "px_dev_auth_enabled phase_2_settings" "px_session_token_ttl_seconds phase_2_settings = 1800"
  by (simp_all add: phase_2_settings_def local_proxy_settings_def)

lemma dev_token_issued:
  "px_dev_auth_enabled s \<Longrightarrow> use \<in> set token_uses \<Longrightarrow>
   issue_development_token L s subject use scopes ttl now =
     Inr (jwt_encode L (development_claims s subject use scopes ttl now) (px_dev_jwt_secret s) ''HS256'')"
  by (simp add: issue_development_token_def)

lemma flow_request_valid: "valid_create_request flow_request"
  by (simp add: valid_create_request_def flow_request_def in_length_def seed_agent_id_def)

text \<open>The flow needs less than a minute, the clock never steps back, and the tokens of the JWT library
  have a length the endpoint admits.\<close>

definition flow_in_time :: "(nat \<Rightarrow> int) \<Rightarrow> bool" where
  "flow_in_time clock \<longleftrightarrow>
     mono clock \<and> clock 12 < clock 0 + 60 * 1000000 \<and> clock_reading (clock 0) \<and>
     clock_reading (clock 12 + 300 * 1000000)"

lemma flow_tokens:
  assumes "flow_in_time clock" "i \<le> j" "j \<le> 12"
  shows "clock i \<le> clock j" "clock j < (clock i + 900 * 1000000) div 1000000 * 1000000"
    "clock j < (clock i + 300 * 1000000) div 1000000 * 1000000"
proof -
  have m: "clock i \<le> clock j" "clock j \<le> clock 12" "clock 0 \<le> clock i"
    using assms by (auto simp: flow_in_time_def dest: monoD)
  then show "clock i \<le> clock j" by simp
  have "clock 12 < clock 0 + 60 * 1000000" using assms(1) by (simp add: flow_in_time_def)
  then have "clock j < clock i + 900 * 1000000 - 1000000" "clock j < clock i + 300 * 1000000 - 1000000"
    using m by linarith+
  then show "clock j < (clock i + 900 * 1000000) div 1000000 * 1000000"
    "clock j < (clock i + 300 * 1000000) div 1000000 * 1000000" using floor_seconds by blast+
qed

lemma flow_decodes:
  assumes "jwt_roundtrip L" "flow_in_time clock" "uuid2 \<noteq> []" "4 \<le> j" "j \<le> 12"
  shows "decode_session_token L s (clock j) (issue_session_token L s (flow_row clock uuid1 uuid2)) =
    Inr (claims_of (flow_row clock uuid1 uuid2))"
proof -
  have m: "clock 0 \<le> clock 4" "clock 4 \<le> clock 12"
    using flow_tokens(1) [OF assms(2), of 0 4] flow_tokens(1) [OF assms(2), of 4 12] by simp_all
  then have "clock_reading (clock 4)" "clock_reading (clock 4 + 300 * 1000000)"
    using assms(2) by (auto simp: flow_in_time_def clock_reading_def)
  then show ?thesis
    unfolding flow_row_def using assms(3) flow_tokens(1,3) [OF assms(2,4,5)]
    by (intro new_row_decodes [OF assms(1)]) (simp_all add: seed_agent_id_def)
qed

lemma claims_of_fields [simp]:
  "tc_session_id (claims_of r) = se_id r" "tc_token_jti (claims_of r) = se_token_jti r"
  "tc_agent_id (claims_of r) = se_agent_id r" "tc_customer_id (claims_of r) = se_customer_id r"
  "tc_user_id (claims_of r) = se_user_id r"
  by (simp_all add: claims_of_def)

lemma flow_row_fields [simp]:
  "se_id (flow_row clock uuid1 uuid2) = ''sess_'' @ uuid1" "se_token_jti (flow_row clock uuid1 uuid2) = uuid2"
  "se_agent_id (flow_row clock uuid1 uuid2) = seed_agent_id" "se_customer_id (flow_row clock uuid1 uuid2) = ''customer_1001''"
  "se_user_id (flow_row clock uuid1 uuid2) = ''verification_user''"
  by (simp_all add: flow_row_def new_session_row_def)

lemma stored_session_fields [simp]:
  "se_id (stored_session db r) = se_id r" "se_token_jti (stored_session db r) = se_token_jti r"
  by (simp_all add: stored_session_def)

text \<open>The state after the creation, and the answers of the four requests that follow it.\<close>

lemma flow_validates:
  assumes "jwt_roundtrip L" "flow_in_time clock" "uuid2 \<noteq> []"
    and create: "create_session L s seed_agent_id ''verification_user'' ''customer_1001'' ''dev:trusted-host''
      (Some 300) uuid1 uuid2 (clock 4) db = (Inr c, db')"
    and "faithful_time db"
  shows "validate_session L s seed_agent_id (clock 6) (clock 7) (cts_session_token c) db' =
    Inr (claims_of (flow_row clock uuid1 uuid2))"
proof -
  have "clock 7 < clock 4 + 300 * 1000000"
    using assms(2) flow_tokens(1) [OF assms(2), of 7 12] flow_tokens(1) [OF assms(2), of 0 4]
    by (simp add: flow_in_time_def)
  then have "check_persisted (claims_of (flow_row clock uuid1 uuid2)) (clock 7) db' = Inr ()"
    using created_persisted [OF create assms(5)] by (simp add: flow_row_def session_ttl_def)
  moreover have "c = created_session L s (flow_row clock uuid1 uuid2)"
    using create by (simp add: create_session_Inr flow_row_def session_ttl_def)
  ultimately show ?thesis
    using flow_decodes [OF assms(1-3), of 6] by (simp add: validate_session_Inr created_session_def)
qed

lemma fresh_sqlite_faithful: "faithful_time (fresh_seed sqlite_time w t)"
  by (simp add: faithful_time_def fresh_seed_def empty_database_def)

text \<open>What the tokens of the flow are worth at its later requests.\<close>

definition flow_host_token :: "jwt_lib \<Rightarrow> (nat \<Rightarrow> int) \<Rightarrow> string \<Rightarrow> bool" where
  "flow_host_token L clock token \<longleftrightarrow>
     issue_development_token L phase_2_settings ''dev:trusted-host'' ''host''
       {''session:create'', ''session:revoke''} 900 (clock 0) = Inr token"

definition flow_agent_token :: "jwt_lib \<Rightarrow> (nat \<Rightarrow> int) \<Rightarrow> string \<Rightarrow> bool" where
  "flow_agent_token L clock token \<longleftrightarrow>
     issue_development_token L phase_2_settings ''dev:agent_support_001'' ''agent'' {''tool:invoke''} 900 (clock 1) = Inr token"

lemma flow_tokens_issued: "\<exists>h. flow_host_token L clock h" "\<exists>a. flow_agent_token L clock a"
  by (simp_all add: flow_host_token_def flow_agent_token_def dev_token_issued token_uses_def)

lemma flow_host:
  assumes "jwt_roundtrip L" "flow_in_time clock" "flow_host_token L clock token" "i \<le> 12"
  obtains p where "authenticated_principal (server_env L phase_2_settings clock i) (bearer_of token) = Inr p"
    "pr_subject p = ''dev:trusted-host''" "pr_token_use p = ''host''" "pr_scopes p = {''session:create'', ''session:revoke''}"
proof -
  have "\<exists>p. authenticated_principal (server_env L phase_2_settings clock i) (bearer_of token) = Inr p \<and>
      pr_subject p = ''dev:trusted-host'' \<and> pr_token_use p = ''host'' \<and>
      pr_scopes p = {''session:create'', ''session:revoke''}"
    by (rule server_principal [OF assms(1) assms(3) [unfolded flow_host_token_def]])
      (use flow_tokens [OF assms(2), of 0 i] assms(4) in \<open>simp_all add: scope_name_def is_space_def Let_def\<close>)
  then show thesis using that by blast
qed

lemma flow_agent:
  assumes "jwt_roundtrip L" "flow_in_time clock" "flow_agent_token L clock token" "1 \<le> i" "i \<le> 12"
  obtains p where "authenticated_principal (server_env L phase_2_settings clock i) (bearer_of token) = Inr p"
    "''tool:invoke'' \<in> pr_scopes p" "pr_token_use p = ''agent''"
    "\<And>db. db_agents db = [seed_agent] \<Longrightarrow> resolve_active_agent p db = Inr seed_agent"
proof -
  have "\<exists>p. authenticated_principal (server_env L phase_2_settings clock i) (bearer_of token) = Inr p \<and>
      pr_subject p = ''dev:agent_support_001'' \<and> pr_token_use p = ''agent'' \<and> pr_scopes p = {''tool:invoke''}"
    by (rule server_principal [OF assms(1) assms(3) [unfolded flow_agent_token_def]])
      (use flow_tokens [OF assms(2), of 1 i] assms(4,5) in \<open>simp_all add: scope_name_def is_space_def Let_def\<close>)
  then obtain p where p: "authenticated_principal (server_env L phase_2_settings clock i) (bearer_of token) = Inr p"
    "pr_subject p = ''dev:agent_support_001''" "pr_token_use p = ''agent''" "pr_scopes p = {''tool:invoke''}" by blast
  have "resolve_active_agent p db = Inr seed_agent" if "db_agents db = [seed_agent]" for db
    using that p(2,3) by (simp add: resolve_active_agent_Inr agent_get_by_oidc_subject_def seed_agent_def)
  then show thesis by (intro that [OF p(1) _ p(3)]) (simp_all add: p(4))
qed

lemma flow_identity:
  assumes "jwt_roundtrip L" "flow_in_time clock" "flow_agent_token L clock token" "db_agents db = [seed_agent]"
  shows "\<exists>r. identity_me (server_env L phase_2_settings clock 2) (bearer_of token) db = Inr r \<and>
    id_agent_id r = Some seed_agent_id"
proof -
  obtain p where "authenticated_principal (server_env L phase_2_settings clock 2) (bearer_of token) = Inr p"
    "pr_token_use p = ''agent''" "resolve_active_agent p db = Inr seed_agent"
    using flow_agent [OF assms(1-3), of 2] assms(4) by auto
  then show ?thesis by (simp add: identity_me_def catching_def seed_agent_def del: bearer_of_principal)
qed

lemma flow_created:
  assumes "jwt_roundtrip L" "flow_in_time clock" "flow_host_token L clock token"
    and "create_session L phase_2_settings seed_agent_id ''verification_user'' ''customer_1001'' ''dev:trusted-host''
      (Some 300) uuid1 uuid2 (clock 4) db = (Inr c, db')"
  shows "post_session (server_env L phase_2_settings clock 3) (bearer_of token) flow_request uuid1 uuid2 (clock 4) db =
    (Inr c, db')"
proof -
  obtain p where p: "authenticated_principal (server_env L phase_2_settings clock 3) (bearer_of token) = Inr p"
    "pr_subject p = ''dev:trusted-host''" "pr_token_use p = ''host''" "pr_scopes p = {''session:create'', ''session:revoke''}"
    using flow_host [OF assms(1-3), of 3] by auto
  show ?thesis
    by (rule post_session_ok [OF p(1) _ _ flow_request_valid]) (use p assms(4) in \<open>simp_all add: flow_request_def\<close>)
qed

lemma flow_answers:
  assumes "jwt_roundtrip L" "flow_in_time clock" "flow_agent_token L clock token" "1 \<le> i" "i \<le> 12"
    and "in_length 32 8192 session_token" "db_agents db = [seed_agent]"
  shows "post_validate (server_env L phase_2_settings clock i) (bearer_of token) session_token db =
    catching (validate_session L phase_2_settings seed_agent_id (clock (i + 1)) (clock (i + 2)) session_token db)"
proof -
  obtain p where p: "authenticated_principal (server_env L phase_2_settings clock i) (bearer_of token) = Inr p"
    "''tool:invoke'' \<in> pr_scopes p" "resolve_active_agent p db = Inr seed_agent"
    using flow_agent [OF assms(1-5)] assms(7) by metis
  from post_validate_agent [OF p assms(6)] show ?thesis by (simp add: seed_agent_def)
qed

lemma flow_revoked:
  assumes "jwt_roundtrip L" "flow_in_time clock" "flow_host_token L clock token"
    and "revoke_session k (clock 9) db = (Inr row, db')"
  shows "post_revoke (server_env L phase_2_settings clock 8) (bearer_of token) k (clock 9) db = (Inr row, db')"
proof -
  obtain p where p: "authenticated_principal (server_env L phase_2_settings clock 8) (bearer_of token) = Inr p"
    "pr_token_use p = ''host''" "pr_scopes p = {''session:create'', ''session:revoke''}"
    using flow_host [OF assms(1-3), of 8] by auto
  show ?thesis by (rule post_revoke_ok [OF p(1)]) (use p assms(4) in simp_all)
qed

text \<open>The states the flow passes through, and the refusal at its end.\<close>

lemma flow_states:
  assumes "jwt_roundtrip L" "flow_in_time clock" "uuid2 \<noteq> []"
    and create: "create_session L phase_2_settings seed_agent_id ''verification_user'' ''customer_1001'' ''dev:trusted-host''
      (Some 300) uuid1 uuid2 (clock 4) db = (Inr c, d1)" and "db_agents db = [seed_agent]"
    and c: "c = created_session L phase_2_settings (flow_row clock uuid1 uuid2)"
  obtains row d2 where "db_agents d1 = [seed_agent]" "revoke_session (cts_session_id c) (clock 9) d1 = (Inr row, d2)"
    "se_status row = SessionRevoked" "db_agents d2 = [seed_agent]"
    "validate_session L phase_2_settings seed_agent_id (clock 11) (clock 12) (cts_session_token c) d2 =
      Inl (TrustedSessionError ''SESSION_NOT_ACTIVE'' ''Session is not active'')"
proof -
  have d1: "db_agents d1 = [seed_agent]" using created_row(2) [OF create] assms(5) by simp
  obtain r1 where r1: "session_get (''sess_'' @ uuid1) d1 = Some r1" "se_token_jti r1 = uuid2"
    using created_row(1) [OF create] by (simp add: new_session_row_def)
  obtain row d2 where revoke: "revoke_session (''sess_'' @ uuid1) (clock 9) d1 = (Inr row, d2)"
    using revoke_existing [OF r1(1)] by metis
  obtain r2 where r2: "se_status row = SessionRevoked" "session_get (''sess_'' @ uuid1) d2 = Some r2"
    "se_status r2 = SessionRevoked" "se_token_jti r2 = uuid2" "db_agents d2 = [seed_agent]"
    using revoked_status [OF r1(1) revoke] r1(2) d1 by auto
  have "cts_session_token c = issue_session_token L phase_2_settings (flow_row clock uuid1 uuid2)"
    "cts_session_id c = ''sess_'' @ uuid1" by (simp_all add: c created_session_def)
  moreover from this have "validate_session L phase_2_settings seed_agent_id (clock 11) (clock 12) (cts_session_token c) d2 =
      Inl (TrustedSessionError ''SESSION_NOT_ACTIVE'' ''Session is not active'')"
    using refused_after_revocation [OF flow_decodes [OF assms(1-3)], where row = r2] r2 by simp
  ultimately show thesis using that d1 revoke r2(1,5) by simp
qed

text \<open>(C40) The second verification script passes on a new SQLite database, with every JWT library that
  gives back what it encoded and tokens of an admissible length, when the whole flow takes less than a minute: the
  registered agent is recognised by its token, the host creates a session for it, the session
  validates with the customer it was created for, the host revokes it, and from then on its token is
  refused with status 401.\<close>

theorem verify_phase_2_passes:
  assumes "compares_up_to_defaults check" and L: "jwt_roundtrip L" and time: "flow_in_time clock"
    and uuid: "uuid2 \<noteq> []"
    and size: "in_length 32 8192 (issue_session_token L phase_2_settings (flow_row clock uuid1 uuid2))"
  shows "fst (verify_phase_2 check L clock uuid1 uuid2 seed_time (empty_database sqlite_time False)) = Inr ()"
proof -
  let ?d0 = "fresh_seed sqlite_time False seed_time"
  let ?c = "created_session L phase_2_settings (flow_row clock uuid1 uuid2)"
  obtain host agent where host: "flow_host_token L clock host" and agent: "flow_agent_token L clock agent"
    using flow_tokens_issued by blast
  have d0: "db_agents ?d0 = [seed_agent]" by (simp add: fresh_seed_def)
  have token: "in_length 32 8192 (cts_session_token ?c)" using size by (simp add: created_session_def)
  obtain d1 where create: "create_session L phase_2_settings seed_agent_id ''verification_user'' ''customer_1001''
      ''dev:trusted-host'' (Some 300) uuid1 uuid2 (clock 4) ?d0 = (Inr ?c, d1)"
    using flow_create [of phase_2_settings] by simp
  obtain row d2 where d1: "db_agents d1 = [seed_agent]" and revoke: "revoke_session (cts_session_id ?c) (clock 9) d1 = (Inr row, d2)"
    "se_status row = SessionRevoked" "db_agents d2 = [seed_agent]"
    and refused: "validate_session L phase_2_settings seed_agent_id (clock 11) (clock 12) (cts_session_token ?c) d2 =
      Inl (TrustedSessionError ''SESSION_NOT_ACTIVE'' ''Session is not active'')"
    by (rule flow_states [OF L time uuid create d0 refl])
  have valid: "post_validate (server_env L phase_2_settings clock 5) (bearer_of agent) (cts_session_token ?c) d1 =
      Inr (claims_of (flow_row clock uuid1 uuid2))"
    using flow_answers [OF L time agent _ _ token d1, of 5] flow_validates [OF L time uuid create fresh_sqlite_faithful]
    by (simp add: catching_def)
  have rejected: "post_validate (server_env L phase_2_settings clock 10) (bearer_of agent) (cts_session_token ?c) d2 =
      Inl (HTTPException 401 ''SESSION_NOT_ACTIVE'' ''Session is not active'')"
    using flow_answers [OF L time agent _ _ token revoke(3), of 10] refused
    by (simp add: catching_def session_exception_def)
  show ?thesis
    using flow_identity [OF L time agent d0]
    by (auto simp: verify_phase_2_def upgrade_passes [OF assms(1)] seed_fresh_database phase_2_settings_valid
      verify_api_flow_def host [unfolded flow_host_token_def] agent [unfolded flow_agent_token_def One_nat_def] Let_def
      check_identity_def flow_created [OF L time host create] check_created_def valid check_validated_def
      flow_revoked [OF L time host revoke(1)] revoke(2) check_revoked_def rejected check_rejected_def receive_def received_def)
qed

lemma length_put_str: "length (put_str s) = 2 * length s + 1"
  by (induction s) (simp_all add: put_str_def)

theorem verify_phase_2_passes_witness:
  "fst (verify_phase_2 (\<lambda>s s'. same_schema (without_defaults s) (without_defaults s')) plain_jwt
     (\<lambda>i. 1700000000000000 + int i) ''11'' ''22'' 1767225600000000 (empty_database sqlite_time False)) = Inr ()"
proof (rule verify_phase_2_passes [OF _ plain_jwt_roundtrip])
  show "flow_in_time (\<lambda>i. 1700000000000000 + int i)"
    by (simp add: flow_in_time_def mono_def clock_reading_def)
  show "in_length 32 8192 (issue_session_token plain_jwt phase_2_settings
      (flow_row (\<lambda>i. 1700000000000000 + int i) ''11'' ''22''))"
    by (simp add: in_length_def issue_session_token_def plain_jwt_def plain_encode_def session_claims_def put_claim_def
        length_put_str put_int_def show_nat.simps flow_row_def new_session_row_def now_utc_def whole_seconds_def
        phase_2_settings_def local_proxy_settings_def default_session_secret_def seed_agent_id_def)
qed (simp_all add: compares_up_to_defaults_def)

end
