(* ===== verification/Demonstration.thy ===== *)
theory Demonstration
  imports Progress Acceptance
begin

text \<open>
  \<open>scripts/run_local_demo.py\<close>: the acceptance scenarios over the HTTP interface of the proxy with the
  sample CRM behind it.  \<open>demo_world\<close> holds what the code reads from its surroundings: PyJWT,
  the settings, the successive readings of the clock and of the performance counter, and the
  successive values of \<open>uuid4().hex\<close>.  The property: on a seeded database the demonstration
  completes, i.e. every scenario has the status and the reason it expects and the audit trail
  verifies at the end.
\<close>

section \<open>The script\<close>

record demo_world =
  dw_jwt :: jwt_lib
  dw_settings :: proxy_settings
  dw_clock :: "nat \<Rightarrow> int"
  dw_timer :: "nat \<Rightarrow> int"
  dw_uuid :: "nat \<Rightarrow> string"

text \<open>Status and body of a response; an unhandled exception is status 500 on the network.\<close>

definition over_http :: "nat \<Rightarrow> 'a res \<Rightarrow> nat \<times> 'a option" where
  "over_http status r = (case r of Inr x \<Rightarrow> (status, Some x) | Inl e \<Rightarrow> (error_status e, None))"

definition demo_auth :: "demo_world \<Rightarrow> nat \<Rightarrow> auth_env" where
  "demo_auth U i = server_env (dw_jwt U) (dw_settings U) (dw_clock U) i"

text \<open>The \<open>i\<close>-th tool call: six readings of the clock, three identifiers, five of the counter.\<close>

definition demo_call_env :: "demo_world \<Rightarrow> nat \<Rightarrow> call_env" where
  "demo_call_env U i =
     \<lparr>ce_request_uuid = dw_uuid U (3 * i + 2), ce_started = dw_timer U (5 * i),
      ce_policy_started = dw_timer U (5 * i + 1), ce_evaluated_at = dw_clock U (6 * i + 8),
      ce_policy_done = dw_timer U (5 * i + 2), ce_first_done = dw_timer U (5 * i + 3),
      ce_first_uuid = dw_uuid U (3 * i + 3), ce_first_at = dw_clock U (6 * i + 9),
      ce_second_done = dw_timer U (5 * i + 4), ce_second_uuid = dw_uuid U (3 * i + 4),
      ce_second_at = dw_clock U (6 * i + 10)\<rparr>"

record scenario =
  sn_label :: string
  sn_suffix :: string
  sn_status :: nat
  sn_reason :: string
  sn_operation :: string
  sn_parameters :: params

definition customer_parameter :: "string \<Rightarrow> params" where
  "customer_parameter k = [(''customer_id'', JStr k)]"

definition read_scenario :: scenario where
  "read_scenario =
     \<lparr>sn_label = ''Allowed read for session customer'', sn_suffix = ''read'', sn_status = 200,
      sn_reason = ''ALLOWED'', sn_operation = ''read_customer'', sn_parameters = customer_parameter ''customer_1001''\<rparr>"

definition write_scenario :: scenario where
  "write_scenario =
     \<lparr>sn_label = ''Blocked write'', sn_suffix = ''write'', sn_status = 403,
      sn_reason = ''OPERATION_NOT_ALLOWED'', sn_operation = ''write_customer'',
      sn_parameters = customer_parameter ''customer_1001'' @
        [(''changes'', JObj [(''address'', JStr ''This must never reach CRM'')])]\<rparr>"

definition cross_scenario :: scenario where
  "cross_scenario =
     \<lparr>sn_label = ''Blocked cross-customer read'', sn_suffix = ''cross'', sn_status = 403,
      sn_reason = ''DATA_SCOPE_VIOLATION'', sn_operation = ''read_customer'',
      sn_parameters = customer_parameter ''customer_1002''\<rparr>"

definition delete_scenario :: scenario where
  "delete_scenario =
     \<lparr>sn_label = ''Blocked delete'', sn_suffix = ''delete'', sn_status = 403,
      sn_reason = ''OPERATION_NOT_ALLOWED'', sn_operation = ''delete_customer'',
      sn_parameters = customer_parameter ''customer_1001''\<rparr>"

definition scenarios :: "scenario list" where
  "scenarios = [read_scenario, write_scenario, cross_scenario, delete_scenario]"

definition demo_request :: "string \<Rightarrow> string \<Rightarrow> scenario \<Rightarrow> tool_call_request" where
  "demo_request run_id session_token sc =
     \<lparr>tq_tool = ''crm'', tq_operation = sn_operation sc, tq_parameters = sn_parameters sc,
      tq_session_token = session_token, tq_idempotency_key = run_id @ ''-'' @ sn_suffix sc, tq_trace_id = None\<rparr>"

definition demo_call :: "demo_world \<Rightarrow> pydantic \<Rightarrow> 'w adapter \<Rightarrow> string \<Rightarrow> tool_call_request \<Rightarrow> nat
    \<Rightarrow> database \<times> 'w \<Rightarrow> (nat \<times> tool_call_response option) \<times> database \<times> 'w" where
  "demo_call U P adapter agent_token request i st =
     (case execute_tool_call (demo_auth U (6 * i + 5)) P adapter (bearer_of agent_token) request (demo_call_env U i) st of
        (r, st') \<Rightarrow> ((case over_http 200 r of (n, body) \<Rightarrow>
           (case body of None \<Rightarrow> n | Some resp \<Rightarrow> tr_status resp, body)), st'))"

definition as_expected :: "nat \<Rightarrow> string \<Rightarrow> nat \<times> tool_call_response option \<Rightarrow> bool" where
  "as_expected status reason answer \<longleftrightarrow>
     fst answer = status \<and> map_option tr_reason_code (snd answer) = Some reason"

fun run_scenarios :: "demo_world \<Rightarrow> pydantic \<Rightarrow> 'w adapter \<Rightarrow> string \<Rightarrow> string \<Rightarrow> string \<Rightarrow> nat \<Rightarrow> scenario list
    \<Rightarrow> database \<times> 'w \<Rightarrow> unit res \<times> database \<times> 'w" where
  "run_scenarios U P adapter agent_token session_token run_id i [] st = (Inr (), st)"
| "run_scenarios U P adapter agent_token session_token run_id i (sc # scs) st =
     (case demo_call U P adapter agent_token (demo_request run_id session_token sc) i st of
        (answer, st') \<Rightarrow>
          if as_expected (sn_status sc) (sn_reason sc) answer
          then run_scenarios U P adapter agent_token session_token run_id (i + 1) scs st'
          else (Inl (RuntimeError (''Acceptance scenario failed: '' @ sn_label sc)), st'))"

definition check_duplicate :: "demo_world \<Rightarrow> pydantic \<Rightarrow> 'w adapter \<Rightarrow> string \<Rightarrow> string \<Rightarrow> string
    \<Rightarrow> database \<times> 'w \<Rightarrow> unit res \<times> database \<times> 'w" where
  "check_duplicate U P adapter agent_token session_token run_id st =
     (case find (\<lambda>sc. sn_suffix sc = ''read'') scenarios of
        None \<Rightarrow> (Inl (RuntimeError ''Read scenario was not configured''), st)
      | Some sc \<Rightarrow>
          (case demo_call U P adapter agent_token (demo_request run_id session_token sc) (length scenarios) st of
             (answer, st') \<Rightarrow>
               if as_expected 409 ''DUPLICATE_REQUEST'' answer then (Inr (), st')
               else (Inl (RuntimeError ''Duplicate-request acceptance scenario failed''), st')))"

definition check_integrity :: "demo_world \<Rightarrow> string \<Rightarrow> database \<Rightarrow> unit res" where
  "check_integrity U auditor_token db =
     (case over_http 200 (get_integrity (demo_auth U 36) (bearer_of auditor_token) db) of
        (n, body) \<Rightarrow>
          if n \<noteq> 200 \<or> map_option ir_valid body \<noteq> Some True
          then Inl (RuntimeError ''Audit-chain integrity verification failed'') else Inr ())"

definition demo_session_request :: create_session_request where
  "demo_session_request =
     \<lparr>cq_agent_id = seed_agent_id, cq_user_id = ''user_local_demo'', cq_customer_id = ''customer_1001'',
      cq_ttl_seconds = Some 600\<rparr>"

text \<open>\<open>raise_for_status()\<close> on the response of the creation, then \<open>session["session_token"]\<close>.\<close>

definition session_of_response :: "nat \<times> created_trusted_session option \<Rightarrow> created_trusted_session res" where
  "session_of_response answer =
     (if fst answer < 200 \<or> 300 \<le> fst answer then Inl (HttpClientError ''HTTPStatusError'')
      else (case snd answer of None \<Rightarrow> Inl (KeyError ''session_token'') | Some c \<Rightarrow> Inr c))"

definition demo_tokens :: "demo_world \<Rightarrow> (string \<times> string \<times> string) res" where
  "demo_tokens U =
     bind_res (issue_development_token (dw_jwt U) (dw_settings U) ''dev:trusted-host'' ''host'' {''session:create''}
        900 (dw_clock U 0)) (\<lambda>host.
     bind_res (issue_development_token (dw_jwt U) (dw_settings U) ''dev:agent_support_001'' ''agent'' {''tool:invoke''}
        900 (dw_clock U 1)) (\<lambda>agent.
     bind_res (issue_development_token (dw_jwt U) (dw_settings U) ''dev:auditor'' ''auditor'' {''audit:read''}
        900 (dw_clock U 2)) (\<lambda>auditor. Inr (host, agent, auditor))))"

definition run_local_demo :: "demo_world \<Rightarrow> pydantic \<Rightarrow> 'w adapter \<Rightarrow> string \<Rightarrow> database \<times> 'w
    \<Rightarrow> unit res \<times> database \<times> 'w" where
  "run_local_demo U P adapter run_id st =
     (case demo_tokens U of
        Inl e \<Rightarrow> (Inl e, st)
      | Inr (host, agent, auditor) \<Rightarrow>
          (case post_session (demo_auth U 3) (bearer_of host) demo_session_request (dw_uuid U 0) (dw_uuid U 1)
                  (dw_clock U 4) (fst st) of
             (r, db1) \<Rightarrow>
               (case session_of_response (over_http 201 r) of
                  Inl e \<Rightarrow> (Inl e, db1, snd st)
                | Inr created \<Rightarrow>
                    (case run_scenarios U P adapter agent (cts_session_token created) run_id 0 scenarios (db1, snd st) of
                       (Inl e, st2) \<Rightarrow> (Inl e, st2)
                     | (Inr _, st2) \<Rightarrow>
                         (case check_duplicate U P adapter agent (cts_session_token created) run_id st2 of
                            (Inl e, st3) \<Rightarrow> (Inl e, st3)
                          | (Inr _, st3) \<Rightarrow> (check_integrity U auditor (fst st3), st3))))))"

section \<open>A run in order\<close>

text \<open>The run takes less than a minute after the effective date of the seed manifest, no two readings of the clock are equal,
  and the seventeen identifiers are different and have 32 characters.\<close>

definition demo_in_order :: "demo_world \<Rightarrow> string \<Rightarrow> bool" where
  "demo_in_order U run_id \<longleftrightarrow>
     strict_mono (dw_clock U) \<and> dw_clock U 40 < dw_clock U 0 + 60 * 1000000 \<and>
     seed_effective_from \<le> dw_clock U 0 \<and> clock_reading (dw_clock U 40 + 600 * 1000000) \<and>
     inj_on (dw_uuid U) {..<17} \<and> (\<forall>i < 17. length (dw_uuid U i) = 32) \<and> length run_id = 12"

lemma demo_clock:
  assumes "demo_in_order U run_id" "i < j" "j \<le> 40"
  shows "dw_clock U i < dw_clock U j" "dw_clock U j < (dw_clock U i + 900 * 1000000) div 1000000 * 1000000"
    "dw_clock U j < (dw_clock U i + 600 * 1000000) div 1000000 * 1000000"
    "dw_clock U j < dw_clock U i + 600 * 1000000"
proof -
  have m: "strict_mono (dw_clock U)" "dw_clock U 40 < dw_clock U 0 + 60 * 1000000"
    using assms(1) by (simp_all add: demo_in_order_def)
  have le: "dw_clock U j \<le> dw_clock U 40" "dw_clock U 0 \<le> dw_clock U i"
    using strict_mono_mono [OF m(1)] assms(3) by (auto dest: monoD)
  show "dw_clock U i < dw_clock U j" using m(1) assms(2) by (simp add: strict_mono_def)
  have "dw_clock U j < dw_clock U i + 900 * 1000000 - 1000000" "dw_clock U j < dw_clock U i + 600 * 1000000 - 1000000"
    using le m(2) by linarith+
  then show "dw_clock U j < (dw_clock U i + 900 * 1000000) div 1000000 * 1000000"
    "dw_clock U j < (dw_clock U i + 600 * 1000000) div 1000000 * 1000000" using floor_seconds by blast+
  show "dw_clock U j < dw_clock U i + 600 * 1000000" using le m(2) by linarith
qed

lemma demo_readings:
  assumes "demo_in_order U run_id"
  shows "clock_reading (dw_clock U 4)" "clock_reading (dw_clock U 4 + 600 * 1000000)" "0 \<le> dw_clock U 0"
  using assms demo_clock(1) [OF assms, of 0 4] demo_clock(1) [OF assms, of 4 40]
  by (auto simp: demo_in_order_def clock_reading_def seed_effective_from_def)

definition demo_row :: "demo_world \<Rightarrow> agent_session" where
  "demo_row U = new_session_row seed_agent_id ''user_local_demo'' ''customer_1001'' ''dev:trusted-host'' 600
     (dw_uuid U 0) (dw_uuid U 1) (dw_clock U 4)"

definition demo_claims :: "demo_world \<Rightarrow> trusted_session_claims" where
  "demo_claims U = claims_of (demo_row U)"

definition demo_token :: "demo_world \<Rightarrow> string" where
  "demo_token U = issue_session_token (dw_jwt U) (dw_settings U) (demo_row U)"

lemma demo_row_fields [simp]:
  "se_id (demo_row U) = ''sess_'' @ dw_uuid U 0" "se_token_jti (demo_row U) = dw_uuid U 1"
  "se_agent_id (demo_row U) = seed_agent_id" "se_customer_id (demo_row U) = ''customer_1001''"
  "se_user_id (demo_row U) = ''user_local_demo''"
  by (simp_all add: demo_row_def new_session_row_def)

lemma demo_claims_fields [simp]:
  "tc_session_id (demo_claims U) = ''sess_'' @ dw_uuid U 0" "tc_token_jti (demo_claims U) = dw_uuid U 1"
  "tc_agent_id (demo_claims U) = seed_agent_id" "tc_customer_id (demo_claims U) = ''customer_1001''"
  "tc_user_id (demo_claims U) = ''user_local_demo''"
  by (simp_all add: demo_claims_def)

text \<open>The seeded database with the session of the run.\<close>

definition demo_live :: "demo_world \<Rightarrow> (datetime \<Rightarrow> datetime) \<Rightarrow> bool \<Rightarrow> int \<Rightarrow> database" where
  "demo_live U st w t = (fresh_seed st w t)\<lparr>db_sessions := [stored_session (fresh_seed st w t) (demo_row U)]\<rparr>"

lemma demo_create:
  assumes "demo_in_order U run_id" "600 \<le> px_session_token_ttl_seconds (dw_settings U)"
    and "\<And>x. instant (st (Aware 0 x)) = x"
  shows "create_session (dw_jwt U) (dw_settings U) seed_agent_id ''user_local_demo'' ''customer_1001''
      ''dev:trusted-host'' (Some 600) (dw_uuid U 0) (dw_uuid U 1) (dw_clock U 4) (fresh_seed st w t) =
    (Inr (created_session (dw_jwt U) (dw_settings U) (demo_row U)), demo_live U st w t)"
proof -
  have "length (dw_uuid U 0) = 32" "length (dw_uuid U 1) = 32" using assms(1) by (simp_all add: demo_in_order_def)
  then show ?thesis
    using assms(2,3)
    by (simp add: create_session_Inr session_ttl_def session_add_def insert_row_Inr demo_row_def new_session_row_def
        fresh_seed_def empty_database_def seed_agent_def agent_get_def session_get_def session_get_by_jti_def
        widths_ok_def width_defs session_window_ok_def stored_session_def now_utc_def demo_live_def seed_agent_id_def)
qed

lemma demo_live_fields:
  "db_agents (demo_live U st w t) = [seed_agent]" "db_tools (demo_live U st w t) = [seed_tool]"
  "db_manifests (demo_live U st w t) = [seeded_manifest st t]" "db_events (demo_live U st w t) = []"
  "db_store_time (demo_live U st w t) = st" "db_checks_width (demo_live U st w t) = w"
  by (simp_all add: demo_live_def fresh_seed_def empty_database_def)

section \<open>The caller and the decisions\<close>

lemma demo_authorize:
  assumes ok: "demo_in_order U run_id" and L: "jwt_roundtrip (dw_jwt U)"
    and tok: "issue_development_token (dw_jwt U) (dw_settings U) ''dev:agent_support_001'' ''agent'' {''tool:invoke''}
      900 (dw_clock U 1) = Inr tok"
    and st: "\<And>x. instant (st (Aware 0 x)) = x"
    and db: "db_agents db = [seed_agent]" "db_sessions db = db_sessions (demo_live U st w t)"
    and k: "5 \<le> k" "k \<le> 38"
  shows "authorize_call (demo_auth U k) tok (demo_token U) db = Inr (seed_agent, demo_claims U)"
proof -
  have before: "dw_clock U 1 < dw_clock U k" "dw_clock U k < (dw_clock U 1 + 900 * 1000000) div 1000000 * 1000000"
    using demo_clock [OF ok, of 1 k] k by simp_all
  obtain p where p: "decode_principal (demo_auth U k) tok = Inr p" "pr_subject p = ''dev:agent_support_001''"
    "pr_token_use p = ''agent''" "pr_scopes p = {''tool:invoke''}"
    using server_principal [OF L tok, of "dw_clock U" k] before
    by (auto simp: demo_auth_def scope_name_def is_space_def Let_def)
  have agent: "resolve_active_agent p db = Inr seed_agent"
    using p(2,3) db(1) by (simp add: resolve_active_agent_Inr agent_get_by_oidc_subject_def seed_agent_def)
  have ids: "dw_uuid U 1 \<noteq> []" using ok by (auto simp: demo_in_order_def dest: spec [where x = 1])
  have "decode_session_token (dw_jwt U) (dw_settings U) (dw_clock U (k + 1)) (demo_token U) = Inr (demo_claims U)"
    unfolding demo_token_def demo_claims_def demo_row_def
    using demo_clock [OF ok, of 4 "k + 1"] demo_readings [OF ok] k ids
    by (intro new_row_decodes [OF L]) (simp_all add: seed_agent_id_def)
  moreover have "dw_clock U (k + 2) < dw_clock U 4 + 600 * 1000000" using demo_clock(4) [OF ok, of 4 "k + 2"] k by simp
  then have "check_persisted (demo_claims U) (dw_clock U (k + 2)) db = Inr ()"
    unfolding check_persisted_Inr using db st
    by (simp add: session_get_def demo_live_def agent_get_def seed_agent_def stored_session_def fresh_seed_def
        empty_database_def demo_row_def new_session_row_def now_utc_def)
  ultimately show ?thesis
    using p(1,4) agent by (simp add: authorize_call_Inr validate_session_Inr demo_auth_def seed_agent_def)
qed

lemma seeded_evaluate:
  assumes "db_manifests db = [seeded_manifest st t]" "\<And>x. instant (st (Aware 0 x)) = x" "seed_effective_from \<le> now"
  shows "evaluate P seed_agent_id c tool operation ps now db =
    evaluate_document (seeded_manifest st t) seed_document c tool operation ps db"
proof -
  have "manifest_get_active seed_agent_id db = Some (seeded_manifest st t)"
    using assms(1) by (simp add: manifest_get_active_def seeded_manifest_def seed_manifest_def is_active_for_def)
  then show ?thesis
    using assms(2,3)
    by (simp add: evaluate_def outside_window_iff seeded_manifest_fields parse_read_only seed_document_def)
qed

lemma seeded_decisions:
  assumes "db_manifests db = [seeded_manifest st t]" "db_tools db = [seed_tool]"
    and "\<And>x. instant (st (Aware 0 x)) = x" "seed_effective_from \<le> now"
  shows "evaluate P seed_agent_id c ''crm'' ''read_customer'' (customer_parameter k) now db =
      Inr (if k = tc_customer_id c then allow (seeded_manifest st t)
           else deny ''DATA_SCOPE_VIOLATION'' (md_deny_message seed_document) (Some (seeded_manifest st t)))"
    and "operation \<in> {''write_customer'', ''delete_customer''} \<Longrightarrow>
      evaluate P seed_agent_id c ''crm'' operation ps now db =
      Inr (deny ''OPERATION_NOT_ALLOWED'' (md_deny_message seed_document) (Some (seeded_manifest st t)))"
proof -
  note e = seeded_evaluate [OF assms(1,3,4), of P c "''crm''"]
  have tool: "tool_get_by_name ''crm'' db = Some seed_tool" using assms(2) by (simp add: tool_get_by_name_def seed_tool_def)
  have policy: "map_of (md_tools seed_document) ''crm'' = Some seed_permission" by (simp add: seed_document_def)
  have rule: "tp_allowed_operations seed_permission = [''read_customer'']"
    "map_of (tp_operation_rules seed_permission) ''read_customer'' = Some seed_rule"
    by (simp_all add: seed_permission_def)
  have "validate_parameters (or_parameter_schema seed_rule) (customer_parameter k)"
    by (simp add: validate_parameters_iff seed_rule_def customer_parameter_def)
  then show "evaluate P seed_agent_id c ''crm'' ''read_customer'' (customer_parameter k) now db =
      Inr (if k = tc_customer_id c then allow (seeded_manifest st t)
           else deny ''DATA_SCOPE_VIOLATION'' (md_deny_message seed_document) (Some (seeded_manifest st t)))"
    by (simp add: e evaluate_document_def tool policy rule seed_tool_fields evaluate_rule_def)
      (simp add: seed_rule_def session_values_def customer_parameter_def)
  show "evaluate P seed_agent_id c ''crm'' operation ps now db =
      Inr (deny ''OPERATION_NOT_ALLOWED'' (md_deny_message seed_document) (Some (seeded_manifest st t)))"
    if "operation \<in> {''write_customer'', ''delete_customer''}"
    using that by (auto simp: e evaluate_document_def tool policy rule seed_tool_fields)
qed

section \<open>The state between the calls\<close>

text \<open>The seeded database with the session and a verified trail: its events are older than \<open>T\<close>, carry
  identifiers among the first \<open>n\<close> and the idempotency keys \<open>ks\<close>.\<close>

definition at_trail :: "demo_world \<Rightarrow> (datetime \<Rightarrow> datetime) \<Rightarrow> bool \<Rightarrow> int \<Rightarrow> nat \<Rightarrow> int \<Rightarrow> string set \<Rightarrow> database
    \<Rightarrow> bool" where
  "at_trail U st w t n T ks db \<longleftrightarrow>
     (\<exists>es. db = (demo_live U st w t)\<lparr>db_events := es\<rparr>) \<and> trail_ok db T \<and>
     ev_idempotency_key ` set (db_events db) = ks \<and>
     (\<forall>e \<in> set (db_events db). ev_agent_id e = seed_agent_id \<and>
        ev_id e \<in> (\<lambda>j. ''evt_'' @ dw_uuid U j) ` {..<n} \<and>
        ev_request_id e \<in> (\<lambda>j. ''req_'' @ dw_uuid U j) ` {..<n})"

lemma at_trail_start: "at_trail U st w t n T {} (demo_live U st w t)"
proof -
  have "\<exists>es. demo_live U st w t = (demo_live U st w t)\<lparr>db_events := es\<rparr>"
    by (rule exI [of _ "[]"]) (simp add: demo_live_def fresh_seed_def empty_database_def)
  then show ?thesis
    by (simp add: at_trail_def demo_live_fields trail_ok_def hashes_ok_def verify_chained all_chain_events_def)
qed

lemma at_trail_event:
  assumes "at_trail U st w t n T ks db" "n \<le> n'" "trail_ok (with_event e db) T'" "ev_agent_id e = seed_agent_id"
    and "ev_id e \<in> (\<lambda>j. ''evt_'' @ dw_uuid U j) ` {..<n'}" "ev_request_id e \<in> (\<lambda>j. ''req_'' @ dw_uuid U j) ` {..<n'}"
  shows "at_trail U st w t n' T' (insert (ev_idempotency_key e) ks) (with_event e db)"
proof -
  have "(\<lambda>j. f (dw_uuid U j)) ` {..<n} \<subseteq> (\<lambda>j. f (dw_uuid U j)) ` {..<n'}" for f :: "string \<Rightarrow> string"
    using assms(2) by auto
  then show ?thesis
    using assms(1,3-) unfolding at_trail_def
    by (fastforce simp: with_event_def)
qed

lemma at_trail_rows:
  assumes "at_trail U st w t n T ks db"
  shows "db_agents db = [seed_agent]" "db_sessions db = db_sessions (demo_live U st w t)"
    "db_manifests db = [seeded_manifest st t]" "db_tools db = [seed_tool]" "db_store_time db = st"
    "agent_get seed_agent_id db = Some seed_agent" "session_get (''sess_'' @ dw_uuid U 0) db \<noteq> None"
    "manifest_get seed_manifest_id db = Some (seeded_manifest st t)"
  using assms
  by (auto simp: at_trail_def demo_live_fields agent_get_def seed_agent_def session_get_def manifest_get_def
      seeded_manifest_fields) (auto simp: demo_live_def stored_session_def)

lemma demo_env_fields [simp]:
  "ce_first_uuid (demo_call_env U i) = dw_uuid U (3 * i + 3)" "ce_second_uuid (demo_call_env U i) = dw_uuid U (3 * i + 4)"
  "ce_request_uuid (demo_call_env U i) = dw_uuid U (3 * i + 2)" "ce_evaluated_at (demo_call_env U i) = dw_clock U (6 * i + 8)"
  "ce_first_at (demo_call_env U i) = dw_clock U (6 * i + 9)" "ce_second_at (demo_call_env U i) = dw_clock U (6 * i + 10)"
  "request_name (demo_call_env U i) = ''req_'' @ dw_uuid U (3 * i + 2)"
  by (simp_all add: demo_call_env_def request_name_def)

definition demo_tool_call :: "demo_world \<Rightarrow> tool_call_request \<Rightarrow> tool_call" where
  "demo_tool_call U r = requested_call r seed_agent (demo_claims U)"

definition demo_fits :: "tool_call_request \<Rightarrow> bool" where
  "demo_fits r \<longleftrightarrow> tq_tool r = ''crm'' \<and> in_length 1 100 (tq_operation r) \<and> tq_session_token r \<noteq> [] \<and>
     in_length 8 128 (tq_idempotency_key r) \<and> tq_trace_id r = None"

lemma demo_call_ready:
  assumes ok: "demo_in_order U run_id" and st: "\<And>x. instant (st (Aware 0 x)) = x"
    and at: "at_trail U st w t (3 * i + 2) (dw_clock U (6 * i + 8)) ks db" and "i \<le> 4" and r: "demo_fits r"
  shows "call_ready (demo_tool_call U r) (demo_call_env U i) db"
proof -
  have uuids: "inj_on (dw_uuid U) {..<17}" "\<And>j. j < 17 \<Longrightarrow> length (dw_uuid U j) = 32"
    using ok by (simp_all add: demo_in_order_def)
  have other: "dw_uuid U j \<noteq> dw_uuid U k" if "j < k" "k \<le> 3 * i + 4" for j k
    using inj_onD [OF uuids(1), of j k] that assms(4) by auto
  note rows = at_trail_rows [OF at]
  have time: "dw_clock U (6 * i + 8) < dw_clock U (6 * i + 9)" "dw_clock U (6 * i + 9) < dw_clock U (6 * i + 10)"
    using demo_clock(1) [OF ok] assms(4) by simp_all
  have fresh: "ev_request_id e \<noteq> ''req_'' @ dw_uuid U (3 * i + 2) \<and>
      ev_id e \<notin> {''evt_'' @ dw_uuid U (3 * i + 3), ''evt_'' @ dw_uuid U (3 * i + 4)}" if "e \<in> set (db_events db)" for e
    using at that other by (fastforce simp: at_trail_def)
  have active: "manifest_get_active seed_agent_id db = Some (seeded_manifest st t)"
    using rows(3) by (simp add: manifest_get_active_def seeded_manifest_def seed_manifest_def is_active_for_def)
  have "dw_uuid U (3 * i + 3) \<noteq> dw_uuid U (3 * i + 4)" using other [of "3 * i + 3" "3 * i + 4"] by simp
  moreover have "trail_ok db (dw_clock U (6 * i + 9))" using at time(1) trail_ok_later by (fastforce simp: at_trail_def)
  moreover have "call_fits (demo_tool_call U r) (demo_call_env U i)"
    using r uuids(2) assms(4) by (simp add: call_fits_def demo_tool_call_def demo_fits_def in_length_def requested_call_def
        seed_agent_def seed_agent_id_def)
  ultimately show ?thesis
    using rows time fresh active st
    by (simp add: call_ready_def demo_tool_call_def faithful_time_def seed_agent_def seeded_manifest_fields
        manifest_checksum_def) (simp add: seed_manifest_id_def)
qed

lemma demo_tool_call_fields [simp]:
  "cl_agent_id (demo_tool_call U r) = seed_agent_id" "cl_session (demo_tool_call U r) = demo_claims U"
  "cl_tool (demo_tool_call U r) = tq_tool r" "cl_operation (demo_tool_call U r) = tq_operation r"
  "cl_parameters (demo_tool_call U r) = tq_parameters r" "cl_idempotency_key (demo_tool_call U r) = tq_idempotency_key r"
  by (simp_all add: demo_tool_call_def seed_agent_def)

lemma at_trail_recorded:
  assumes ok: "demo_in_order U run_id" and "i \<le> 4" and at: "at_trail U st w t n T ks db" "n \<le> 3 * i + 5"
    and e: "recorded (demo_tool_call U r) (demo_call_env U i) k dec code status db e"
  shows "at_trail U st w t (3 * (i + 1) + 2) (dw_clock U (6 * (i + 1) + 8)) (insert (tq_idempotency_key r) ks)
    (with_event e db)"
proof -
  have time: "dw_clock U (6 * i + 9) < dw_clock U (6 * (i + 1) + 8)" "dw_clock U (6 * i + 10) < dw_clock U (6 * (i + 1) + 8)"
    using demo_clock(1) [OF ok] assms(2) by simp_all
  have "ev_idempotency_key e = tq_idempotency_key r" "ev_agent_id e = seed_agent_id"
    "ev_request_id e = ''req_'' @ dw_uuid U (3 * i + 2)"
    using e by (simp_all add: recorded_def call_event_def)
  moreover have "ev_id e \<in> (\<lambda>j. ''evt_'' @ dw_uuid U j) ` {..<3 * (i + 1) + 2}"
    using e by (auto simp: recorded_def)
  moreover have "trail_ok (with_event e db) (dw_clock U (6 * (i + 1) + 8))"
    using e time by (simp add: recorded_def split: if_splits)
  ultimately show ?thesis using at_trail_event [OF at(1), of "3 * (i + 1) + 2" e] at(2) by auto
qed

lemma at_trail_key:
  assumes "at_trail U st w t n T ks db"
  shows "has_idempotency_key seed_agent_id key db \<longleftrightarrow> key \<in> ks"
  using assms by (auto simp: at_trail_def has_idempotency_key_iff has_key_def)

definition answer_of :: "tool_call_outcome res \<Rightarrow> nat \<times> tool_call_response option" where
  "answer_of x = (case bind_res x call_response of Inr resp \<Rightarrow> (tr_status resp, Some resp) | Inl e \<Rightarrow> (error_status e, None))"

text \<open>What the calls of the run have in common.\<close>

definition demo_run :: "demo_world \<Rightarrow> string \<Rightarrow> (datetime \<Rightarrow> datetime) \<Rightarrow> string \<Rightarrow> bool" where
  "demo_run U run_id st tok \<longleftrightarrow>
     demo_in_order U run_id \<and> jwt_roundtrip (dw_jwt U) \<and> (\<forall>x. instant (st (Aware 0 x)) = x) \<and>
     issue_development_token (dw_jwt U) (dw_settings U) ''dev:agent_support_001'' ''agent'' {''tool:invoke''}
       900 (dw_clock U 1) = Inr tok"

lemma demo_runD:
  assumes "demo_run U run_id st tok"
  shows "demo_in_order U run_id" "jwt_roundtrip (dw_jwt U)" "instant (st (Aware 0 x)) = x"
    "issue_development_token (dw_jwt U) (dw_settings U) ''dev:agent_support_001'' ''agent'' {''tool:invoke''}
       900 (dw_clock U 1) = Inr tok"
  using assms by (simp_all add: demo_run_def)

lemma call_executes:
  assumes run: "demo_run U run_id st tok" and at: "at_trail U st w t n T ks db" and "i \<le> 4" and r: "demo_fits r" "tq_session_token r = demo_token U"
  shows "demo_call U P adapter tok r i (db, v) =
    (case execute_call P adapter (demo_tool_call U r) (demo_call_env U i) (db, v) of (x, s) \<Rightarrow> (answer_of x, s))"
proof -
  note order = demo_runD(1) [OF run] and time = demo_runD(3) [OF run]
  have "authorize_call (demo_auth U (6 * i + 5)) tok (demo_token U) db = Inr (seed_agent, demo_claims U)"
    using demo_authorize [OF order demo_runD(2,4) [OF run] time at_trail_rows(1,2) [OF at]] assms(3) by simp
  moreover have "valid_tool_request r"
    using r(1) by (simp add: valid_tool_request_def demo_fits_def in_length_def)
  ultimately show ?thesis
    using r(2)
    by (simp add: demo_call_def execute_tool_call_def bearer_token_def bearer_of_def over_http_def answer_of_def
        demo_tool_call_def split: prod.splits sum.splits)
qed

lemma call_blocked:
  assumes run: "demo_run U run_id st tok" and at: "at_trail U st w t (3 * i + 2) (dw_clock U (6 * i + 8)) ks db" and i: "i \<le> 4"
    and r: "demo_fits r" "tq_session_token r = demo_token U" and new: "tq_idempotency_key r \<notin> ks"
    and d: "evaluate P seed_agent_id (demo_claims U) (tq_tool r) (tq_operation r) (tq_parameters r)
      (dw_clock U (6 * i + 8)) db = Inr d" "\<not> pd_allowed d" "pd_reason_code d \<noteq> ''DUPLICATE_REQUEST''"
  shows "\<exists>answer db'. demo_call U P adapter tok r i (db, v) = (answer, db', v) \<and>
    as_expected 403 (pd_reason_code d) answer \<and> event_count db' = event_count db + 1 \<and>
    at_trail U st w t (3 * (i + 1) + 2) (dw_clock U (6 * (i + 1) + 8)) (insert (tq_idempotency_key r) ks) db'"
proof -
  note order = demo_runD(1) [OF run] and time = demo_runD(3) [OF run]
  let ?out = "outcome (''req_'' @ dw_uuid U (3 * i + 2)) ''block'' (pd_reason_code d) (pd_message d)"
  have "\<not> has_idempotency_key seed_agent_id (tq_idempotency_key r) db" using at_trail_key [OF at] new by simp
  then obtain e where e: "begin_call P (demo_tool_call U r) (demo_call_env U i) db = (Inr (Answered ?out), with_event e db)"
    "recorded (demo_tool_call U r) (demo_call_env U i) 0 DecisionBlock (pd_reason_code d) ExecNotForwarded db e"
    using begin_call_ready [OF demo_call_ready [OF order time at i r(1)], of P] d(1,2) by auto
  have "execute_call P adapter (demo_tool_call U r) (demo_call_env U i) (db, v) = (Inr ?out, with_event e db, v)"
    by (simp only: execute_call_def e(1) Let_def prod.case sum.case call_step.case)
  then have "demo_call U P adapter tok r i (db, v) = (answer_of (Inr ?out), with_event e db, v)"
    by (simp only: call_executes [OF run at i r] prod.case)
  moreover have "as_expected 403 (pd_reason_code d) (answer_of (Inr ?out))"
    using d(3) by (simp add: as_expected_def answer_of_def call_response_def response_status_def outcome_def)
  ultimately show ?thesis
    using at_trail_recorded [OF order i at _ e(2)] by (auto simp: event_count_def)
qed

lemma call_duplicate:
  assumes run: "demo_run U run_id st tok" and at: "at_trail U st w t (3 * i + 2) (dw_clock U (6 * i + 8)) ks db" and i: "i \<le> 4"
    and r: "demo_fits r" "tq_session_token r = demo_token U" and used: "tq_idempotency_key r \<in> ks"
  shows "\<exists>answer db'. demo_call U P adapter tok r i (db, v) = (answer, db', v) \<and>
    as_expected 409 ''DUPLICATE_REQUEST'' answer \<and> event_count db' = event_count db + 1 \<and>
    at_trail U st w t (3 * (i + 1) + 2) (dw_clock U (6 * (i + 1) + 8)) (insert (tq_idempotency_key r) ks) db'"
proof -
  note order = demo_runD(1) [OF run] and time = demo_runD(3) [OF run]
  let ?out = "outcome (''req_'' @ dw_uuid U (3 * i + 2)) ''block'' ''DUPLICATE_REQUEST''
      ''This idempotency key has already been used''"
  have "has_idempotency_key seed_agent_id (tq_idempotency_key r) db" using at_trail_key [OF at] used by simp
  then obtain e where e: "begin_call P (demo_tool_call U r) (demo_call_env U i) db = (Inr (Answered ?out), with_event e db)"
    "recorded (demo_tool_call U r) (demo_call_env U i) 0 DecisionBlock ''DUPLICATE_REQUEST'' ExecNotForwarded db e"
    using begin_call_ready [OF demo_call_ready [OF order time at i r(1)], of P] by auto
  have "execute_call P adapter (demo_tool_call U r) (demo_call_env U i) (db, v) = (Inr ?out, with_event e db, v)"
    by (simp only: execute_call_def e(1) Let_def prod.case sum.case call_step.case)
  then have "demo_call U P adapter tok r i (db, v) = (answer_of (Inr ?out), with_event e db, v)"
    by (simp only: call_executes [OF run at i r] prod.case)
  moreover have "as_expected 409 ''DUPLICATE_REQUEST'' (answer_of (Inr ?out))"
    by (simp add: as_expected_def answer_of_def call_response_def response_status_def outcome_def)
  ultimately show ?thesis
    using at_trail_recorded [OF order i at _ e(2)] by (auto simp: event_count_def)
qed

lemma call_allowed:
  assumes run: "demo_run U run_id st tok" and at: "at_trail U st w t (3 * i + 2) (dw_clock U (6 * i + 8)) ks db" and i: "i \<le> 4"
    and r: "demo_fits r" "tq_session_token r = demo_token U" and new: "tq_idempotency_key r \<notin> ks"
    and d: "evaluate P seed_agent_id (demo_claims U) (tq_tool r) (tq_operation r) (tq_parameters r)
      (dw_clock U (6 * i + 8)) db = Inr d" "pd_allowed d"
    and x: "adapter (tq_tool r) (tq_operation r) (tq_parameters r) v =
      (Inr \<lparr>tx_result = Some (JObj kvs), tx_upstream_status_code = 200\<rparr>, v')"
  shows "\<exists>answer db'. demo_call U P adapter tok r i (db, v) = (answer, db', v') \<and>
    as_expected 200 ''ALLOWED'' answer \<and> event_count db' = event_count db + 2 \<and>
    at_trail U st w t (3 * (i + 1) + 2) (dw_clock U (6 * (i + 1) + 8)) (insert (tq_idempotency_key r) ks) db'"
proof -
  note order = demo_runD(1) [OF run] and time = demo_runD(3) [OF run]
  let ?x = "Inr \<lparr>tx_result = Some (JObj kvs), tx_upstream_status_code = 200\<rparr> :: tool_execution_result res"
  let ?l = "elapsed_ms (ce_policy_started (demo_call_env U i)) (ce_policy_done (demo_call_env U i))"
  note ready = demo_call_ready [OF order time at i r(1)]
  have "\<not> has_idempotency_key seed_agent_id (tq_idempotency_key r) db" using at_trail_key [OF at] new by simp
  then obtain e where e: "begin_call P (demo_tool_call U r) (demo_call_env U i) db = (Inr (Forward d ?l), with_event e db)"
    "recorded (demo_tool_call U r) (demo_call_env U i) 0 DecisionAllow ''ALLOWED'' ExecAuthorized db e"
    using begin_call_ready [OF ready, of P] d by auto
  have about: "decision_about (manifest_get_active (cl_agent_id (demo_tool_call U r)) db) d"
    using evaluate_about [OF d(1)] by simp
  have "adapter_reports ?x" by (simp add: adapter_reports_def)
  from finish_call_ready [OF ready e(2) about this, of ?l]
  obtain e' dec where f: "finish_call (demo_tool_call U r) (demo_call_env U i) d ?l ?x (with_event e db) =
      (Inr (execution_outcome (demo_call_env U i) ?x), with_event e' (with_event e db))"
    "recorded (demo_tool_call U r) (demo_call_env U i) 1 dec (tco_reason_code (execution_outcome (demo_call_env U i) ?x))
      (finished_status ?x) (with_event e db) e'" by blast
  have "execute_call P adapter (demo_tool_call U r) (demo_call_env U i) (db, v) =
      (Inr (execution_outcome (demo_call_env U i) ?x), with_event e' (with_event e db), v')"
    by (simp only: execute_call_def e(1) f(1) x demo_tool_call_fields Let_def prod.case sum.case call_step.case)
  then have "demo_call U P adapter tok r i (db, v) =
      (answer_of (Inr (execution_outcome (demo_call_env U i) ?x)), with_event e' (with_event e db), v')"
    by (simp only: call_executes [OF run at i r] prod.case)
  moreover have "as_expected 200 ''ALLOWED'' (answer_of (Inr (execution_outcome (demo_call_env U i) ?x)))"
    by (simp add: as_expected_def answer_of_def call_response_def response_status_def outcome_def execution_outcome_def)
  moreover have "at_trail U st w t (3 * (i + 1) + 2) (dw_clock U (6 * (i + 1) + 8)) (insert (tq_idempotency_key r) ks)
      (with_event e db)" using at_trail_recorded [OF order i at _ e(2)] by simp
  then have "at_trail U st w t (3 * (i + 1) + 2) (dw_clock U (6 * (i + 1) + 8)) (insert (tq_idempotency_key r) ks)
      (with_event e' (with_event e db))"
    using at_trail_recorded [OF order i _ _ f(2)] by fastforce
  ultimately show ?thesis by (auto simp: event_count_def)
qed

section \<open>The scenarios\<close>

lemmas scenario_defs = read_scenario_def write_scenario_def cross_scenario_def delete_scenario_def

lemma demo_request_fields [simp]:
  "tq_tool (demo_request run_id token sc) = ''crm''" "tq_operation (demo_request run_id token sc) = sn_operation sc"
  "tq_parameters (demo_request run_id token sc) = sn_parameters sc"
  "tq_session_token (demo_request run_id token sc) = token"
  "tq_idempotency_key (demo_request run_id token sc) = run_id @ ''-'' @ sn_suffix sc"
  by (simp_all add: demo_request_def)

lemma demo_request_fits:
  assumes "sc \<in> set scenarios" "length run_id = 12" "token \<noteq> []"
  shows "demo_fits (demo_request run_id token sc)"
  using assms by (auto simp: scenarios_def scenario_defs demo_fits_def demo_request_def in_length_def)

text \<open>A scenario the policy refuses.\<close>

lemma scenario_blocked:
  assumes run: "demo_run U run_id st tok" and token: "demo_token U \<noteq> []"
    and at: "at_trail U st w t (3 * i + 2) (dw_clock U (6 * i + 8)) ks db" and i: "i \<le> 4"
    and sc: "sc \<in> {write_scenario, cross_scenario, delete_scenario}" and new: "run_id @ ''-'' @ sn_suffix sc \<notin> ks"
  shows "\<exists>answer db'. demo_call U P adapter tok (demo_request run_id (demo_token U) sc) i (db, v) = (answer, db', v) \<and>
    as_expected (sn_status sc) (sn_reason sc) answer \<and> event_count db' = event_count db + 1 \<and>
    at_trail U st w t (3 * (i + 1) + 2) (dw_clock U (6 * (i + 1) + 8)) (insert (run_id @ ''-'' @ sn_suffix sc) ks) db'"
proof -
  let ?r = "demo_request run_id (demo_token U) sc"
  note order = demo_runD(1) [OF run] and time = demo_runD(3) [OF run]
  have fits: "demo_fits ?r"
    using demo_request_fits [of sc run_id] sc order token by (auto simp: scenarios_def demo_in_order_def)
  have effective: "seed_effective_from \<le> dw_clock U (6 * i + 8)"
    using order demo_clock(1) [OF order, of 0 "6 * i + 8"] i by (simp add: demo_in_order_def)
  note decide = seeded_decisions [OF at_trail_rows(3,4) [OF at] time effective]
  obtain d where d: "evaluate P seed_agent_id (demo_claims U) ''crm'' (sn_operation sc) (sn_parameters sc)
      (dw_clock U (6 * i + 8)) db = Inr d" "\<not> pd_allowed d" "pd_reason_code d = sn_reason sc"
    "sn_status sc = 403" "sn_reason sc \<noteq> ''DUPLICATE_REQUEST''"
    using sc decide(1) [of P "demo_claims U" "''customer_1002''"] decide(2) [of "sn_operation sc" P "demo_claims U"]
    by (auto simp: scenario_defs)
  show ?thesis
    using call_blocked [OF run at i fits, of P d adapter v] new d by simp
qed

text \<open>The permitted read, answered by the CRM.\<close>

lemma read_answered:
  assumes run: "demo_run U run_id st tok" and token: "demo_token U \<noteq> []"
    and at: "at_trail U st w t 2 (dw_clock U 8) {} db"
    and key: "shared_key (dw_settings U) cs" "direct_target E (dw_settings U)" and c: "customer_get ''customer_1001'' crm = Some c"
  shows "\<exists>answer db'. demo_call U P (proxied E (dw_settings U) cs) tok (demo_request run_id (demo_token U) read_scenario) 0
      (db, crm) = (answer, db', crm) \<and>
    as_expected 200 ''ALLOWED'' answer \<and> event_count db' = event_count db + 2 \<and>
    at_trail U st w t 5 (dw_clock U 14) {run_id @ ''-read''} db'"
proof -
  let ?r = "demo_request run_id (demo_token U) read_scenario"
  note order = demo_runD(1) [OF run] and time = demo_runD(3) [OF run]
  have fits: "demo_fits ?r"
    using demo_request_fits [of read_scenario run_id] order token by (auto simp: scenarios_def demo_in_order_def)
  have effective: "seed_effective_from \<le> dw_clock U 8"
    using order demo_clock(1) [OF order, of 0 8] by (simp add: demo_in_order_def)
  have d: "evaluate P seed_agent_id (demo_claims U) (tq_tool ?r) (tq_operation ?r) (tq_parameters ?r)
      (dw_clock U (6 * 0 + 8)) db = Inr (allow (seeded_manifest st t))"
    using seeded_decisions(1) [OF at_trail_rows(3,4) [OF at] time effective, of P "demo_claims U" "''customer_1001''"]
    by (simp add: read_scenario_def)
  have "plain_id ''customer_1001''" by code_simp
  from proxied_read_result [OF key this, of crm] c
  have x: "proxied E (dw_settings U) cs (tq_tool ?r) (tq_operation ?r) (tq_parameters ?r) crm =
      (Inr \<lparr>tx_result = Some (customer_json c), tx_upstream_status_code = 200\<rparr>, crm)"
    using proxied_read_keeps [of E "dw_settings U" cs "''customer_1001''" crm]
    by (simp add: read_scenario_def customer_parameter_def prod_eq_iff)
  obtain kvs where kvs: "customer_json c = JObj kvs" by (simp add: customer_json_def)
  have at': "at_trail U st w t (3 * 0 + 2) (dw_clock U (6 * 0 + 8)) {} db" using at by (simp add: numeral_2_eq_2)
  show ?thesis
    using call_allowed [where i = 0 and r = "?r" and adapter = "proxied E (dw_settings U) cs" and v = crm and v' = crm
        and kvs = kvs and ks = "{}" and db = db and P = P, OF run at' _ fits _ _ d allow_fields(1) x [unfolded kvs]]
    by (simp add: read_scenario_def)
qed

lemma scenario_step:
  assumes "demo_call U P adapter tok (demo_request run_id token sc) i s = (answer, s')"
    and "as_expected (sn_status sc) (sn_reason sc) answer" "j = i + 1"
  shows "run_scenarios U P adapter tok token run_id i (sc # scs) s =
    run_scenarios U P adapter tok token run_id j scs s'"
  using assms by simp

lemma demo_scenarios:
  assumes run: "demo_run U run_id st tok" and token: "demo_token U \<noteq> []"
    and key: "shared_key (dw_settings U) cs" "direct_target E (dw_settings U)" and c: "customer_get ''customer_1001'' crm = Some c"
  shows "\<exists>db'. run_scenarios U P (proxied E (dw_settings U) cs) tok (demo_token U) run_id 0 scenarios
      (demo_live U st w t, crm) = (Inr (), db', crm) \<and>
    event_count db' = 5 \<and> (\<exists>ks. run_id @ ''-read'' \<in> ks \<and> at_trail U st w t 14 (dw_clock U 32) ks db')"
proof -
  let ?A = "proxied E (dw_settings U) cs" and ?r = "demo_request run_id (demo_token U)"
  obtain a1 db1 where s1: "demo_call U P ?A tok (?r read_scenario) 0 (demo_live U st w t, crm) = (a1, db1, crm)"
    "as_expected 200 ''ALLOWED'' a1" "event_count db1 = 2" "at_trail U st w t 5 (dw_clock U 14) {run_id @ ''-read''} db1"
    using read_answered [OF run token at_trail_start key c, where P = P and w = w and t = t]
    by (auto simp: event_count_def demo_live_fields)
  obtain a2 db2 where s2: "demo_call U P ?A tok (?r write_scenario) 1 (db1, crm) = (a2, db2, crm)"
    "as_expected (sn_status write_scenario) (sn_reason write_scenario) a2" "event_count db2 = 3"
    "at_trail U st w t 8 (dw_clock U 20) {run_id @ ''-write'', run_id @ ''-read''} db2"
    using scenario_blocked [OF run token, of w t 1 "{run_id @ ''-read''}" db1 write_scenario P ?A crm] s1(3,4)
    by (auto simp: write_scenario_def)
  obtain a3 db3 where s3: "demo_call U P ?A tok (?r cross_scenario) 2 (db2, crm) = (a3, db3, crm)"
    "as_expected (sn_status cross_scenario) (sn_reason cross_scenario) a3" "event_count db3 = 4"
    "at_trail U st w t 11 (dw_clock U 26) {run_id @ ''-cross'', run_id @ ''-write'', run_id @ ''-read''} db3"
    using scenario_blocked [OF run token, of w t 2 "{run_id @ ''-write'', run_id @ ''-read''}" db2 cross_scenario P ?A crm] s2(3,4)
    by (auto simp: cross_scenario_def)
  obtain a4 db4 where s4: "demo_call U P ?A tok (?r delete_scenario) 3 (db3, crm) = (a4, db4, crm)"
    "as_expected (sn_status delete_scenario) (sn_reason delete_scenario) a4" "event_count db4 = 5"
    "at_trail U st w t 14 (dw_clock U 32) {run_id @ ''-delete'', run_id @ ''-cross'', run_id @ ''-write'', run_id @ ''-read''} db4"
    using scenario_blocked [OF run token, of w t 3 "{run_id @ ''-cross'', run_id @ ''-write'', run_id @ ''-read''}" db3
        delete_scenario P ?A crm] s3(3,4)
    by (auto simp: delete_scenario_def)
  have read: "as_expected (sn_status read_scenario) (sn_reason read_scenario) a1"
    using s1(2) by (simp add: read_scenario_def)
  let ?run = "run_scenarios U P ?A tok (demo_token U) run_id"
  have "?run 0 scenarios (demo_live U st w t, crm) = ?run 1 [write_scenario, cross_scenario, delete_scenario] (db1, crm)"
    unfolding scenarios_def by (rule scenario_step [OF s1(1) read]) simp
  also have "\<dots> = ?run 2 [cross_scenario, delete_scenario] (db2, crm)"
    by (rule scenario_step [OF s2(1,2)]) simp
  also have "\<dots> = ?run 3 [delete_scenario] (db3, crm)"
    by (rule scenario_step [OF s3(1,2)]) simp
  also have "\<dots> = ?run 4 [] (db4, crm)"
    by (rule scenario_step [OF s4(1,2)]) simp
  also have "\<dots> = (Inr (), db4, crm)" by (rule run_scenarios.simps(1))
  finally have "?run 0 scenarios (demo_live U st w t, crm) = (Inr (), db4, crm)" .
  moreover have "run_id @ ''-read'' \<in> {run_id @ ''-delete'', run_id @ ''-cross'', run_id @ ''-write'', run_id @ ''-read''}"
    by simp
  then have "\<exists>ks. run_id @ ''-read'' \<in> ks \<and> at_trail U st w t 14 (dw_clock U 32) ks db4"
    by (intro exI conjI) (assumption, rule s4(4))
  ultimately show ?thesis using s4(3) by (intro exI [of _ db4] conjI)
qed

text \<open>The other requests of the demonstration: the session, the repeated call and the integrity check.\<close>

lemma demo_created:
  assumes "jwt_roundtrip (dw_jwt U)" "demo_in_order U run_id" "600 \<le> px_session_token_ttl_seconds (dw_settings U)"
    and st: "\<And>x. instant (st (Aware 0 x)) = x"
    and host: "issue_development_token (dw_jwt U) (dw_settings U) ''dev:trusted-host'' ''host'' {''session:create''} 900
      (dw_clock U 0) = Inr host"
  shows "post_session (demo_auth U 3) (bearer_of host) demo_session_request (dw_uuid U 0) (dw_uuid U 1)
    (dw_clock U 4) (fresh_seed st w t) =
    (Inr (created_session (dw_jwt U) (dw_settings U) (demo_row U)), demo_live U st w t)"
proof -
  obtain p where p: "authenticated_principal (demo_auth U 3) (bearer_of host) = Inr p"
    "pr_subject p = ''dev:trusted-host''" "pr_token_use p = ''host''" "pr_scopes p = {''session:create''}"
    using server_principal [OF assms(1) host, of "dw_clock U" 3] demo_clock(1,2) [OF assms(2), of 0 3]
    by (auto simp: demo_auth_def scope_name_def is_space_def Let_def)
  have "valid_create_request demo_session_request"
    by (simp add: valid_create_request_def demo_session_request_def in_length_def seed_agent_id_def)
  from post_session_ok [OF p(1) _ _ this] show ?thesis
    using p demo_create [OF assms(2,3) st] by (simp add: demo_session_request_def demo_auth_def)
qed

lemma demo_duplicate:
  assumes run: "demo_run U run_id st tok" and token: "demo_token U \<noteq> []"
    and trail: "run_id @ ''-read'' \<in> ks" "at_trail U st w t 14 (dw_clock U 32) ks db"
  shows "\<exists>db'. check_duplicate U P adapter tok (demo_token U) run_id (db, v) = (Inr (), db', v) \<and>
    event_count db' = event_count db + 1 \<and> ir_valid (verify_integrity db')"
proof -
  have at: "at_trail U st w t (3 * 4 + 2) (dw_clock U (6 * 4 + 8)) ks db" using trail(2) by simp
  have fits: "demo_fits (demo_request run_id (demo_token U) read_scenario)"
    using demo_request_fits [of read_scenario run_id] demo_runD(1) [OF run] token
    by (simp add: scenarios_def demo_in_order_def)
  have used: "tq_idempotency_key (demo_request run_id (demo_token U) read_scenario) \<in> ks"
    using trail(1) by (simp add: read_scenario_def)
  have pick: "find (\<lambda>sc. sn_suffix sc = ''read'') scenarios = Some read_scenario" "length scenarios = 4"
    by (simp_all add: scenarios_def read_scenario_def)
  show ?thesis
    using call_duplicate [OF run at _ fits _ used, of P adapter v]
    by (auto simp: check_duplicate_def pick trail_ok_def at_trail_def)
qed

lemma demo_integrity:
  assumes "jwt_roundtrip (dw_jwt U)" "demo_in_order U run_id"
    and auditor: "issue_development_token (dw_jwt U) (dw_settings U) ''dev:auditor'' ''auditor'' {''audit:read''}
      900 (dw_clock U 2) = Inr auditor"
    and "ir_valid (verify_integrity db)"
  shows "check_integrity U auditor db = Inr ()"
proof -
  obtain p where "decode_principal (demo_auth U 36) auditor = Inr p"
    "pr_token_use p = ''auditor''" "pr_scopes p = {''audit:read''}"
    using server_principal [OF assms(1) auditor, of "dw_clock U" 36] demo_clock(1,2) [OF assms(2), of 2 36]
    by (auto simp: demo_auth_def scope_name_def is_space_def Let_def)
  then have "audit_principal (demo_auth U 36) (bearer_of auditor) = Inr p" by simp
  then show ?thesis
    using assms(4) by (simp add: check_integrity_def get_integrity_def over_http_def del: bearer_of_audit)
qed

text \<open>(C37) The demonstration completes on a seeded database of either backend, with the CRM behind the proxy:
  the read of the session's customer is answered with 200, the write, the read of another customer
  and the delete are refused with 403 and the reason of each, the repeated request with 409,
  and the audit trail of six events verifies; the customer table is unchanged.\<close>

theorem local_demo_passes:
  assumes "jwt_roundtrip (dw_jwt U)" "demo_in_order U run_id"
    and settings: "px_dev_auth_enabled (dw_settings U)" "600 \<le> px_session_token_ttl_seconds (dw_settings U)"
    and "shared_key (dw_settings U) cs" "customer_get ''customer_1001'' crm = Some c"
    and "direct_target E (dw_settings U)"
    and "\<And>x. instant (st (Aware 0 x)) = x" "demo_token U \<noteq> []"
  shows "\<exists>db'. run_local_demo U P (proxied E (dw_settings U) cs) run_id (fresh_seed st w t, crm) = (Inr (), db', crm) \<and>
    event_count db' = 6"
proof -
  obtain host agent auditor where host: "issue_development_token (dw_jwt U) (dw_settings U) ''dev:trusted-host'' ''host''
      {''session:create''} 900 (dw_clock U 0) = Inr host"
    and agent: "issue_development_token (dw_jwt U) (dw_settings U) ''dev:agent_support_001'' ''agent'' {''tool:invoke''}
      900 (dw_clock U 1) = Inr agent"
    and auditor: "issue_development_token (dw_jwt U) (dw_settings U) ''dev:auditor'' ''auditor'' {''audit:read''}
      900 (dw_clock U 2) = Inr auditor"
    by (simp add: dev_token_issued token_uses_def settings)
  have tokens: "demo_tokens U = Inr (host, agent, auditor)"
    unfolding demo_tokens_def host agent auditor by simp
  have run: "demo_run U run_id st agent" using assms(1,2,8) agent by (simp add: demo_run_def)
  obtain db1 ks where scs: "run_scenarios U P (proxied E (dw_settings U) cs) agent (demo_token U) run_id 0 scenarios
      (demo_live U st w t, crm) = (Inr (), db1, crm)" "event_count db1 = 5" "run_id @ ''-read'' \<in> ks"
    "at_trail U st w t 14 (dw_clock U 32) ks db1"
    using demo_scenarios [OF run assms(9,5,7,6)] by metis
  obtain db2 where dup: "check_duplicate U P (proxied E (dw_settings U) cs) agent (demo_token U) run_id (db1, crm) =
      (Inr (), db2, crm)" "event_count db2 = 6" "ir_valid (verify_integrity db2)"
    using demo_duplicate [OF run assms(9) scs(3,4)] scs(2) by fastforce
  show ?thesis
    unfolding run_local_demo_def tokens
    using demo_created [OF assms(1,2) settings(2) assms(8) host] scs(1) dup(1,2) demo_integrity [OF assms(1,2) auditor dup(3)]
    by (auto simp: over_http_def session_of_response_def created_session_def demo_token_def)
qed

end
