(* ===== verification/TrailSamples.thy ===== *)
theory TrailSamples
  imports Samples SchemaRows Demonstration
begin

text \<open>
  The second half of the concrete run of \<open>Samples\<close>: the audit trail of the permitted call, the
  requests the adapter sends for it, and the sample CRM that answers them.
\<close>

section \<open>A trail of two events\<close>

definition second_input :: audit_event_input where
  "second_input =
     audit_input (outcome sample_request ''allow'' ''ALLOWED'' ''Tool call executed'') sample_call 1
       ExecExecuted (Some sample_policy) (Some 2) 9 DecisionAllow"

definition second_event :: "int \<Rightarrow> audit_event" where
  "second_event now = new_event second_input ''e2'' now (last_chain_event sample_between)"

definition sample_pair :: "int \<Rightarrow> database" where
  "sample_pair now = sample_between\<lparr>db_events :=
     [stored_event sample_live sample_authorized, stored_event sample_between (second_event now)]\<rparr>"

lemma row_id: "se_id sample_row = ''sess_11''"
  by (simp add: sample_row_def new_session_row_def)

lemma sample_second_record: "record_event second_input ''e2'' now sample_between = (Inr (second_event now), sample_pair now)"
proof -
  have "ai_manifest_id second_input = Some seed_manifest_id"
    by (simp add: second_input_def audit_input_def sample_policy_fields)
  moreover have "ai_session_id second_input = Some ''sess_11''"
    by (simp add: second_input_def sample_call_fields row_id)
  ultimately show ?thesis
    using record_event_fits [of sample_between "''e2''" second_input now]
    by (simp add: second_input_def between_fields sample_call_fields authorized_fields second_event_def sample_pair_def)
qed

lemma between_faithful: "faithful_time sample_between"
  using live_faithful by (simp add: faithful_time_def sample_between_def)

lemma between_wf: "db_wf sample_between"
  by (rule record_event_wf [OF live_wf sample_record_authorized])

lemma pair_wf: "db_wf (sample_pair now)"
  by (rule record_event_wf [OF between_wf sample_second_record])

lemma authorized_key: "chain_key (stored_event sample_live sample_authorized) = (sample_now + 1000, ''evt_e1'')"
  using live_faithful
  by (simp add: chain_key_def faithful_time_def authorized_fields stored_event_def now_utc_def)

lemma between_trail: "all_chain_events sample_between = [stored_event sample_live sample_authorized]"
  by (simp add: all_chain_events_def between_fields)

lemma between_valid: "ir_valid (verify_integrity sample_between)"
  using record_chain(2) [OF live_faithful sample_record_authorized]
  by (simp add: verify_chained live_fields all_chain_events_def)

lemma between_last: "last_chain_event sample_between = Some (stored_event sample_live sample_authorized)"
  by (simp add: last_chain_event_def between_trail)

lemma pair_trail:
  assumes "sample_now + 1000 < now"
  shows "all_chain_events (sample_pair now) =
      [stored_event sample_live sample_authorized, stored_event sample_between (second_event now)]"
    and "ir_valid (verify_integrity (sample_pair now))"
proof -
  have later: "\<forall>f \<in> set (db_events sample_between). chain_key f < (now, ''evt_'' @ ''e2'')"
    using assms by (simp add: between_fields authorized_key)
  show "all_chain_events (sample_pair now) =
      [stored_event sample_live sample_authorized, stored_event sample_between (second_event now)]"
    using record_chain(1) [OF between_faithful sample_second_record later] by (simp add: between_trail)
  show "ir_valid (verify_integrity (sample_pair now))"
    using record_chain(2) [OF between_faithful sample_second_record later] between_valid by (simp add: verify_chained)
qed

lemma sample_instants: "valid_instant (sample_now + 1000)" "valid_instant (sample_now + 2000)" "valid_instant sample_now"
  by (rule clock_reading_valid; simp add: clock_reading_def sample_now_def)+

lemma authorized_ok: "event_ok (stored_event sample_live sample_authorized)"
  unfolding sample_authorized_def by (rule recorded_event_ok [OF live_faithful sample_instants(1)])

lemma second_ok: "valid_instant now \<Longrightarrow> event_ok (stored_event sample_between (second_event now))"
  unfolding second_event_def by (rule recorded_event_ok [OF between_faithful])

section \<open>The properties of the trail, applied\<close>

theorem record_keeps_integrity_witness:
  "ir_valid (verify_integrity (sample_pair (sample_now + 2000)))"
proof -
  have "\<forall>f \<in> set (db_events sample_between). chain_key f < (sample_now + 2000, ''evt_'' @ ''e2'')"
    by (simp add: between_fields authorized_key)
  from record_keeps_integrity [OF between_valid between_faithful sample_second_record this] show ?thesis by blast
qed

text \<open>A copy of the SQLite table on a backend that keeps the offset of a timestamp.\<close>

definition copied_between :: database where
  "copied_between = sample_between\<lparr>db_events := [sample_authorized]\<rparr>"

theorem same_head_same_history_witness:
  "db_events copied_between \<noteq> db_events sample_between \<and>
   (list_all2 same_record (all_chain_events sample_between) (all_chain_events copied_between) \<or>
    (\<exists>e \<in> set (db_events sample_between). \<exists>f \<in> set (db_events copied_between). event_collision e f))"
proof -
  have trail: "all_chain_events copied_between = [sample_authorized]"
    by (simp add: all_chain_events_def copied_between_def)
  have ts: "ev_timestamp (stored_event sample_live sample_authorized) \<noteq> ev_timestamp sample_authorized"
    by (simp add: stored_event_def authorized_fields now_utc_def sample_live_def seeded_fields)
  have "event_text sample_authorized = event_text (stored_event sample_live sample_authorized)"
    using event_text_stored [OF live_faithful] by (simp add: sample_authorized_def)
  then have valid: "ir_valid (verify_integrity copied_between)"
    using between_valid by (simp add: verify_chained trail between_trail)
  have ok: "event_ok sample_authorized"
    using sanitize_parameters_wf sample_instants
    by (simp add: event_ok_def authorized_fields now_utc_def sample_authorized_def)
  have "event_count sample_between = event_count copied_between"
    "map_option ev_record_hash (last_chain_event sample_between) = map_option ev_record_hash (last_chain_event copied_between)"
    by (simp_all add: event_count_def copied_between_def between_fields last_chain_event_def between_trail
        trail [unfolded copied_between_def])
  from same_head_same_history [OF this(1) between_valid valid _ this(2)]
  show ?thesis using ok authorized_ok ts by (auto simp: copied_between_def between_fields)
qed

theorem out_of_order_record_breaks_integrity_witness:
  "(\<exists>k. ir_first_invalid_event_id (verify_integrity (sample_pair sample_now)) = Some k) \<or>
   (\<exists>x \<in> set (db_events (sample_pair sample_now)). \<exists>y \<in> set (db_events (sample_pair sample_now)). event_collision x y)"
proof -
  have early: "(sample_now, ''evt_'' @ ''e2'') < chain_key (stored_event sample_live sample_authorized)"
    by (simp add: authorized_key)
  have ok: "\<forall>x \<in> set (db_events (sample_pair sample_now)). event_ok x"
    using authorized_ok second_ok [OF sample_instants(3)] by (simp add: sample_pair_def)
  show ?thesis
    using out_of_order_record_breaks_integrity
      [OF between_wf between_faithful between_last sample_second_record early ok] verify_names_event by blast
qed

theorem removal_detected_witness:
  "let db = sample_pair (sample_now + 2000) in
   (\<exists>k. ir_first_invalid_event_id
      (verify_integrity (db\<lparr>db_events := remove_row ev_id ''evt_e1'' (db_events db)\<rparr>)) = Some k) \<or>
   (\<exists>x \<in> set (db_events db). event_collision x (stored_event sample_live sample_authorized))"
proof -
  let ?db = "sample_pair (sample_now + 2000)"
  have rows: "db_events ?db =
      [stored_event sample_live sample_authorized, stored_event sample_between (second_event (sample_now + 2000))]"
    by (simp add: sample_pair_def)
  have id: "ev_id (stored_event sample_live sample_authorized) = ''evt_e1''" by (simp add: authorized_fields)
  have "ev_id (stored_event sample_between (second_event (sample_now + 2000))) \<noteq>
      ev_id (stored_event sample_live sample_authorized)"
    by (simp add: id second_event_def del: stored_event_fields(3)) (simp add: stored_event_def second_event_def)
  then have ne: "stored_event sample_between (second_event (sample_now + 2000)) \<noteq> stored_event sample_live sample_authorized"
    by (rule contrapos_nn) simp
  have "last_chain_event ?db \<noteq> Some (stored_event sample_live sample_authorized)"
    using ne pair_trail(1) [of "sample_now + 2000"] by (simp add: last_chain_event_def)
  moreover have "ir_valid (verify_integrity ?db)" by (rule pair_trail(2)) simp
  moreover have "\<forall>x \<in> set (db_events ?db). event_ok x"
    using authorized_ok second_ok [OF sample_instants(2)] unfolding rows by simp
  moreover have "stored_event sample_live sample_authorized \<in> set (db_events ?db)" unfolding rows by simp
  ultimately show ?thesis
    using removal_detected [OF pair_wf, of "sample_now + 2000" "stored_event sample_live sample_authorized"]
      verify_names_event
    unfolding id Let_def by blast
qed

theorem truncation_verifies_witness:
  "ir_valid (verify_integrity ((sample_pair (sample_now + 2000))
     \<lparr>db_events := [stored_event sample_live sample_authorized]\<rparr>))"
  using truncation_verifies [OF pair_trail(2), of "sample_now + 2000" 1] pair_trail(1) [of "sample_now + 2000"]
  by simp

theorem sanitized_parameters_reveal_only_witness:
  "\<forall>d uuid now. record_event (d\<lparr>ai_parameters := [(''customer_id'', JStr ''c1''),
       (''changes'', JObj [(''email'', JStr ''old@x.org''), (''name'', JStr ''A'')]), (''note'', JInt 1)]\<rparr>) uuid now sample_live =
   record_event (d\<lparr>ai_parameters := [(''note'', JNull),
       (''changes'', JObj [(''name'', JNull), (''email'', JStr ''new@x.org'')]), (''customer_id'', JStr ''c1'')]\<rparr>) uuid now sample_live"
  by (intro allI sanitized_parameters_reveal_only) (auto simp: same_visible_def add_mset_commute)

section \<open>The adapter and the CRM, applied\<close>

theorem crm_execute_uncaught_witness:
  "fst (crm_execute (new_crm_adapter local_proxy_settings) counting_client ''crm'' ''read_customer'' [] 0) =
     Inl (KeyError ''customer_id'') \<and> (\<forall>q. hp_json (projr (fst (counting_client q 0))) \<noteq> None)"
proof -
  have run: "fst (crm_execute (new_crm_adapter local_proxy_settings) counting_client ''crm'' ''read_customer'' [] 0) =
      Inl (KeyError ''customer_id'')"
    by (simp add: crm_execute_def crm_request_def)
  from crm_execute_uncaught [OF this] show ?thesis by (simp add: run counting_client_def)
qed

definition keyless_request :: http_request where
  "keyless_request =
     \<lparr>hq_base_url = ''http://crm'', hq_timeout = 5, hq_method = ''DELETE'', hq_path = ''/customers/customer_1001'',
      hq_headers = [(''X-Internal-API-Key'', ''guess'')], hq_body = None\<rparr>"

theorem crm_requires_credential_witness:
  "\<exists>p. crm_app sample_crm_lib sample_crm_settings keyless_request sample_seeded = (Inr p, sample_seeded) \<and>
     hp_status_code p \<in> {401, 500}"
proof -
  let ?app = "crm_app sample_crm_lib sample_crm_settings keyless_request sample_seeded"
  have key: "header ''X-Internal-API-Key'' keyless_request \<noteq> Some (cs_internal_api_key sample_crm_settings)"
    by (simp add: header_def keyless_request_def sample_crm_settings_def default_crm_key_def)
  have "cr_target sample_crm_lib (hq_base_url keyless_request) (hq_path keyless_request) =
      Inr (''/customers/'' @ ''customer_1001'')"
    by (simp add: sample_crm_lib_def keyless_request_def)
  moreover have "customer_of_path (''/customers/'' @ ''customer_1001'') = Some ''customer_1001''"
    by (rule customer_of_plain) (simp add: plain_id_def plain_char_def)
  moreover have "hq_method keyless_request \<in> {''GET'', ''PATCH'', ''DELETE''}" by (simp add: keyless_request_def)
  ultimately obtain n body where "fst ?app = Inr \<lparr>hp_status_code = n, hp_json = body\<rparr>" "n \<in> {401, 500}" "snd ?app = sample_seeded"
    using crm_requires_credential [OF key, of sample_crm_lib sample_seeded] by blast
  then show ?thesis by (intro exI [of _ "\<lparr>hp_status_code = n, hp_json = body\<rparr>"]) (simp add: prod_eq_iff)
qed

lemma first_customer: "customer_get ''customer_1001'' sample_seeded = Some (hd seed_customers)"
  by (simp add: customer_get_def seeded_fields seed_customers_def)

theorem patch_outcome_witness:
  "\<exists>c. customer_get ''customer_1001'' (snd (update_customer ''customer_1001'' [(''name'', Some ''Asha R'')] sample_seeded))
      = Some c \<and> cu_name c = ''Asha R'' \<and> cu_email c = ''asha.rao@example.invalid''"
proof -
  let ?p = "[(''name'', Some ''Asha R'')]"
  have parse: "parse_patch sample_crm_lib (Some (JObj [(''name'', JStr ''Asha R'')])) = Some ?p"
    by (simp add: parse_patch_def patch_field_def patch_text_def in_length_def only_keys_def)
  obtain r db' where run: "update_customer ''customer_1001'' ?p sample_seeded = (Inr r, db')"
    using first_customer seeded_fields(5)
    by (simp add: update_customer_def in_session_def customer_flush_def insert_row_def widths_ok_def)
  obtain c' where "customer_get ''customer_1001'' db' = Some c'"
    and "\<forall>j \<in> set patch_keys. field_of j c' =
      (case map_of ?p j of Some (Some v) \<Rightarrow> v | _ \<Rightarrow> field_of j (hd seed_customers))"
    using patch_outcome [OF parse run] first_customer by auto
  then show ?thesis using run by (auto simp: patch_keys_def seed_customers_def)
qed

theorem null_patch_is_server_error_witness:
  "\<exists>e. update_customer ''customer_1001'' [(''email'', None)] sample_seeded = (Inl e, sample_seeded) \<and>
     hp_status_code (render_response sample_crm_lib (Inl e)) = 500"
proof -
  have "parse_patch sample_crm_lib (Some (JObj [(''email'', JNull)])) = Some [(''email'', None)]"
    by (simp add: parse_patch_def patch_field_def only_keys_def)
  from null_patch_is_server_error [OF this _ first_customer] show ?thesis by auto
qed

theorem reachable_satisfies_migrations_witness:
  "\<exists>m. upgrade_all revisions unmigrated = Inr m \<and>
     satisfies True (contents_of (fresh_seed sqlite_time True 1767225600000000)) (mg_schema m)"
  by (intro reachable_satisfies_migrations [where st = sqlite_time] r_into_rtranclp
      db_step.database_seeded [OF seed_fresh_database])

section \<open>Progress and the demonstration, applied\<close>

lemma sample_call_ready: "call_ready sample_call sample_env sample_live"
proof -
  have "manifest_get_active seed_agent_id sample_live = Some (seeded_manifest sqlite_time 1767225600000000)"
    using fresh_active [of sqlite_time False 1767225600000000] live_fields(2)
    by (simp add: manifest_get_active_def sample_seeded_def)
  then show ?thesis
    using live_faithful live_fields
    by (simp add: call_ready_def sample_call_fields sample_env_def trail_ok_def hashes_ok_def verify_chained
        all_chain_events_def seeded_manifest_fields manifest_checksum_def seed_manifest_id_def row_id)
qed

theorem ready_call_answered_witness:
  "\<exists>out db' w'. execute_call strict_pydantic counting_adapter sample_call sample_env (sample_live, 0) = (Inr out, db', w') \<and>
     ir_valid (verify_integrity db')"
proof -
  have "adapter_reports (fst (counting_adapter (cl_tool sample_call) (cl_operation sample_call)
      (cl_parameters sample_call) 0))"
    by (simp add: sample_call_fields counting_read adapter_reports_def)
  from ready_call_answered [OF sample_call_ready, of counting_adapter 0 strict_pydantic, OF this]
  show ?thesis by blast
qed

definition sample_uuid :: "nat \<Rightarrow> string" where
  "sample_uuid i = replicate i CHR ''1'' @ replicate (32 - i) CHR ''0''"

lemma sample_uuid_ok: "inj_on sample_uuid {..<17}" "i < 17 \<Longrightarrow> length (sample_uuid i) = 32"
proof -
  have "length (filter (\<lambda>c. c = CHR ''1'') (sample_uuid i)) = i" for i by (simp add: sample_uuid_def)
  then show "inj_on sample_uuid {..<17}" by (metis inj_onI)
qed (simp add: sample_uuid_def)

definition sample_world :: demo_world where
  "sample_world =
     \<lparr>dw_jwt = plain_jwt, dw_settings = local_proxy_settings, dw_clock = (\<lambda>i. sample_now + int i),
      dw_timer = (\<lambda>i. 1000000 * int i), dw_uuid = sample_uuid\<rparr>"

theorem local_demo_passes_witness:
  "\<exists>db'. run_local_demo sample_world strict_pydantic (proxied sample_crm_lib local_proxy_settings sample_crm_settings)
     ''0123456789ab'' (fresh_seed sqlite_time False 1767225600000000, sample_seeded) = (Inr (), db', sample_seeded) \<and>
     event_count db' = 6"
proof -
  have order: "demo_in_order sample_world ''0123456789ab''"
    using sample_uuid_ok
    by (simp add: demo_in_order_def sample_world_def strict_mono_def clock_reading_def sample_now_def seed_effective_from_def)
  have fields: "dw_settings sample_world = local_proxy_settings" "dw_jwt sample_world = plain_jwt"
    by (simp_all add: sample_world_def)
  have settings: "px_dev_auth_enabled local_proxy_settings" "600 \<le> px_session_token_ttl_seconds local_proxy_settings"
    by (simp_all add: local_proxy_settings_def)
  obtain c where c: "customer_get ''customer_1001'' sample_seeded = Some c"
    by (simp add: customer_get_def seeded_fields seed_customers_def)
  have "demo_token sample_world \<noteq> []"
    by (simp add: demo_token_def fields issue_session_token_def plain_jwt_def plain_encode_def put_str_def)
  from local_demo_passes [where U = sample_world and cs = sample_crm_settings and P = strict_pydantic, unfolded fields,
      OF plain_jwt_roundtrip order settings sample_shared_key c sample_direct _ this]
  show ?thesis using sqlite_time_faithful by blast
qed

end
