(* ===== verification/Services.thy ===== *)
theory Services
  imports Settings Clock
begin

text \<open>
  The shells around the routers: the application factories and their health endpoints
  (\<open>permission_proxy/main.py\<close>, \<open>sample_crm/main.py\<close>, \<open>reference_agent/main.py\<close>), the models
  of \<open>common/models.py\<close>, and the engine of \<open>common/database.py\<close> with its \<open>ping\<close> and
  \<open>dispose\<close>.  The settings are the model's records; the outcome of a connection attempt and the
  clock are arguments.  The properties: the readiness answer is the state of the database, the
  database a factory was given is never disposed by it, and foreign keys are enforced on both
  backends, which the tables of the model rely on.
\<close>

section \<open>Models of the service endpoints\<close>

record service_info =
  sv_name :: string
  sv_version :: string
  sv_environment :: string
  sv_docs_url :: string

record health_response =
  hl_service :: string
  hl_status :: string
  hl_version :: string
  hl_environment :: string
  hl_checks :: "(string \<times> string) list"
  hl_generated_at :: datetime

text \<open>The default factories of \<open>checks\<close> and \<open>generated_at\<close>.\<close>

definition new_health_response :: "string \<Rightarrow> string \<Rightarrow> string \<Rightarrow> string \<Rightarrow> int \<Rightarrow> health_response" where
  "new_health_response service status version env now =
     \<lparr>hl_service = service, hl_status = status, hl_version = version, hl_environment = env,
      hl_checks = [], hl_generated_at = now_utc now\<rparr>"

section \<open>The engine\<close>

definition contains :: "string \<Rightarrow> string \<Rightarrow> bool" where
  "contains p s \<longleftrightarrow> (\<exists>i \<in> set [0..<length s + 1]. starts_with p (drop i s))"

record engine =
  en_url :: string
  en_pool_pre_ping :: bool
  en_check_same_thread :: "bool option"
  en_static_pool :: bool
  en_on_connect :: "string list"

definition enable_sqlite_foreign_keys :: string where
  "enable_sqlite_foreign_keys = ''PRAGMA foreign_keys=ON''"

definition create_database_engine :: "string \<Rightarrow> engine" where
  "create_database_engine url =
     (let sqlite = starts_with ''sqlite'' url
      in \<lparr>en_url = url, en_pool_pre_ping = True,
          en_check_same_thread = (if sqlite then Some False else None),
          en_static_pool = (sqlite \<and> contains '':memory:'' url),
          en_on_connect = (if sqlite then [enable_sqlite_foreign_keys] else [])\<rparr>)"

text \<open>\<open>attempt\<close> is the outcome of connecting and executing \<open>SELECT 1\<close>.\<close>

definition ping :: "unit res \<Rightarrow> bool" where
  "ping attempt = (case attempt of Inl e \<Rightarrow> False | Inr _ \<Rightarrow> True)"

text \<open>A SQLite connection enforces foreign keys when the pragma was executed on it; PostgreSQL always does.\<close>

definition enforces_foreign_keys :: "engine \<Rightarrow> bool" where
  "enforces_foreign_keys e \<longleftrightarrow>
     \<not> starts_with ''sqlite'' (en_url e) \<or> enable_sqlite_foreign_keys \<in> set (en_on_connect e)"

lemma engine_enforces_foreign_keys: "enforces_foreign_keys (create_database_engine url)"
  by (simp add: enforces_foreign_keys_def create_database_engine_def Let_def)

section \<open>The factories\<close>

text \<open>
  What a factory keeps: the settings, the engine of its database (\<open>None\<close> for the agent) and
  whether it created it.  The life cycle of the application is what the two halves of
  \<open>lifespan\<close> do.
\<close>

record 's application =
  ap_settings :: 's
  ap_engine :: "engine option"
  ap_owns_database :: bool

datatype lifecycle_action =
    ConfigureLogging log_level
  | LogInfo string "(string \<times> string) list"
  | DisposeEngine

definition create_proxy_app :: "proxy_settings \<Rightarrow> engine option \<Rightarrow> proxy_settings application" where
  "create_proxy_app s database =
     \<lparr>ap_settings = s,
      ap_engine = Some (case database of Some e \<Rightarrow> e | None \<Rightarrow> create_database_engine (px_database_url s)),
      ap_owns_database = (database = None)\<rparr>"

definition create_crm_app :: "crm_settings \<Rightarrow> engine option \<Rightarrow> crm_settings application" where
  "create_crm_app s database =
     \<lparr>ap_settings = s,
      ap_engine = Some (case database of Some e \<Rightarrow> e | None \<Rightarrow> create_database_engine (cs_database_url s)),
      ap_owns_database = (database = None)\<rparr>"

definition create_agent_app :: "agent_settings \<Rightarrow> agent_settings application" where
  "create_agent_app s = \<lparr>ap_settings = s, ap_engine = None, ap_owns_database = False\<rparr>"

definition proxy_startup :: "proxy_settings application \<Rightarrow> lifecycle_action list" where
  "proxy_startup a =
     [ConfigureLogging (px_log_level (ap_settings a)),
      LogInfo ''service_started''
        [(''service'', px_service_name (ap_settings a)), (''version'', px_service_version (ap_settings a)),
         (''environment'', environment_value (px_app_env (ap_settings a)))]]"

definition proxy_shutdown :: "proxy_settings application \<Rightarrow> lifecycle_action list" where
  "proxy_shutdown a =
     LogInfo ''service_stopped'' [(''service'', px_service_name (ap_settings a))]
     # (if ap_owns_database a then [DisposeEngine] else [])"

definition crm_startup :: "crm_settings application \<Rightarrow> lifecycle_action list" where
  "crm_startup a =
     [ConfigureLogging (cs_log_level (ap_settings a)),
      LogInfo ''service_started''
        [(''service'', cs_service_name (ap_settings a)), (''version'', cs_service_version (ap_settings a)),
         (''environment'', environment_value (cs_app_env (ap_settings a)))]]"

definition crm_shutdown :: "crm_settings application \<Rightarrow> lifecycle_action list" where
  "crm_shutdown a =
     LogInfo ''service_stopped'' [(''service'', cs_service_name (ap_settings a))]
     # (if ap_owns_database a then [DisposeEngine] else [])"

definition agent_startup :: "agent_settings application \<Rightarrow> lifecycle_action list" where
  "agent_startup a =
     [ConfigureLogging (as_log_level (ap_settings a)),
      LogInfo ''service_started''
        [(''service'', as_service_name (ap_settings a)), (''version'', as_service_version (ap_settings a)),
         (''environment'', environment_value (as_app_env (ap_settings a))),
         (''llm_provider'', as_llm_provider (ap_settings a))]]"

definition agent_shutdown :: "agent_settings application \<Rightarrow> lifecycle_action list" where
  "agent_shutdown a = [LogInfo ''service_stopped'' [(''service'', as_service_name (ap_settings a))]]"

lemma shutdown_disposes_own_engine:
  "DisposeEngine \<in> set (proxy_shutdown (create_proxy_app s database)) \<longleftrightarrow> database = None"
  "DisposeEngine \<in> set (crm_shutdown (create_crm_app c database)) \<longleftrightarrow> database = None"
  "DisposeEngine \<notin> set (agent_shutdown (create_agent_app t))"
  by (simp_all add: proxy_shutdown_def create_proxy_app_def crm_shutdown_def create_crm_app_def agent_shutdown_def)

section \<open>The endpoints of the shells\<close>

definition proxy_service_info :: "proxy_settings \<Rightarrow> service_info" where
  "proxy_service_info s =
     \<lparr>sv_name = px_service_name s, sv_version = px_service_version s,
      sv_environment = environment_value (px_app_env s), sv_docs_url = ''/docs''\<rparr>"

definition proxy_liveness :: "proxy_settings \<Rightarrow> int \<Rightarrow> health_response" where
  "proxy_liveness s now =
     new_health_response (px_service_name s) ''alive'' (px_service_version s) (environment_value (px_app_env s)) now"

definition proxy_readiness :: "proxy_settings \<Rightarrow> unit res \<Rightarrow> int \<Rightarrow> nat \<times> health_response" where
  "proxy_readiness s attempt now =
     (let database_ready = ping attempt
      in (if database_ready then 200 else 503,
          (new_health_response (px_service_name s) (if database_ready then ''ready'' else ''not_ready'')
             (px_service_version s) (environment_value (px_app_env s)) now)
          \<lparr>hl_checks := [(''configuration'', ''ok''), (''database'', if database_ready then ''ok'' else ''unavailable'')]\<rparr>))"

definition crm_service_info :: "crm_settings \<Rightarrow> service_info" where
  "crm_service_info s =
     \<lparr>sv_name = cs_service_name s, sv_version = cs_service_version s,
      sv_environment = environment_value (cs_app_env s), sv_docs_url = ''/docs''\<rparr>"

definition crm_liveness :: "crm_settings \<Rightarrow> int \<Rightarrow> health_response" where
  "crm_liveness s now =
     new_health_response (cs_service_name s) ''alive'' (cs_service_version s) (environment_value (cs_app_env s)) now"

definition crm_readiness :: "crm_settings \<Rightarrow> unit res \<Rightarrow> int \<Rightarrow> nat \<times> health_response" where
  "crm_readiness s attempt now =
     (let database_ready = ping attempt
      in (if database_ready then 200 else 503,
          (new_health_response (cs_service_name s) (if database_ready then ''ready'' else ''not_ready'')
             (cs_service_version s) (environment_value (cs_app_env s)) now)
          \<lparr>hl_checks := [(''configuration'', ''ok''), (''database'', if database_ready then ''ok'' else ''unavailable'')]\<rparr>))"

definition agent_service_info :: "agent_settings \<Rightarrow> service_info" where
  "agent_service_info s =
     \<lparr>sv_name = as_service_name s, sv_version = as_service_version s,
      sv_environment = environment_value (as_app_env s), sv_docs_url = ''/docs''\<rparr>"

definition agent_liveness :: "agent_settings \<Rightarrow> int \<Rightarrow> health_response" where
  "agent_liveness s now =
     new_health_response (as_service_name s) ''alive'' (as_service_version s) (environment_value (as_app_env s)) now"

definition agent_readiness :: "agent_settings \<Rightarrow> int \<Rightarrow> health_response" where
  "agent_readiness s now =
     (new_health_response (as_service_name s) ''ready'' (as_service_version s) (environment_value (as_app_env s)) now)
     \<lparr>hl_checks := [(''configuration'', ''ok''),
        (''llm_provider'', if as_llm_provider s = ''disabled'' then ''disabled'' else ''configured'')]\<rparr>"

lemma readiness_reports_database:
  "fst (proxy_readiness s attempt now) = 200 \<longleftrightarrow> succeeds attempt"
  "hl_status (snd (proxy_readiness s attempt now)) = ''ready'' \<longleftrightarrow> succeeds attempt"
  "map_of (hl_checks (snd (proxy_readiness s attempt now))) ''database'' = Some ''ok'' \<longleftrightarrow> succeeds attempt"
  "fst (crm_readiness c attempt now) = 200 \<longleftrightarrow> succeeds attempt"
  "hl_status (snd (crm_readiness c attempt now)) = ''ready'' \<longleftrightarrow> succeeds attempt"
  "map_of (hl_checks (snd (crm_readiness c attempt now))) ''database'' = Some ''ok'' \<longleftrightarrow> succeeds attempt"
  by (cases attempt; simp add: proxy_readiness_def crm_readiness_def ping_def new_health_response_def)+

end
