(* ===== verification/ProxyApp.thy ===== *)
theory ProxyApp
  imports System Services
begin

text \<open>
  The proxy as one HTTP application: \<open>create_app\<close> of \<open>permission_proxy/main.py\<close> with the routers
  it includes.  A request is a method, a decoded path, query, headers and body; the application
  routes it, reads the request models from the JSON body, the headers and the query, runs the
  handler of \<open>Api\<close> or \<open>Services\<close> and renders the response model or the exception.  FastAPI's own
  answers (paths without a route, the body of a failed validation, the JSON text of a
  \<open>datetime\<close>) are the parameters in \<open>proxy_lib\<close>.  The properties: which token opens which
  route, that only the tool-call route reaches the outside world, and that serving requests
  runs the steps of \<open>System\<close>.
\<close>

record proxy_lib =
  pl_invalid_body :: json
  pl_datetime :: "datetime \<Rightarrow> string"

text \<open>\<open>BadJson\<close>: \<open>request.json()\<close> raises \<open>JSONDecodeError\<close>.\<close>

datatype request_body = NoBody | BadJson | JsonBody json

record web_request =
  wr_method :: string
  wr_path :: string
  wr_query :: "(string \<times> string) list"
  wr_headers :: "(string \<times> string) list"
  wr_credentials :: "bearer option"
  wr_body :: request_body

text \<open>What the application reads while it serves one request.\<close>

record request_env =
  re_auth :: auth_env
  re_call :: call_env
  re_uuids :: "string \<times> string"
  re_now :: int
  re_attempt :: "unit res"

section \<open>Routes\<close>

datatype route =
    ServiceInfoRoute | LivenessRoute | ReadinessRoute
  | IdentityRoute | CreateSessionRoute | ValidateSessionRoute | RevokeSessionRoute string
  | ToolCallRoute
  | EventsRoute | RequestEventsRoute string | IntegrityRoute

fun split_path :: "string \<Rightarrow> string list" where
  "split_path [] = [[]]"
| "split_path (c # s) =
     (if c = CHR ''/'' then [] # split_path s
      else (case split_path s of [] \<Rightarrow> [[c]] | t # ts \<Rightarrow> (c # t) # ts))"

definition get_route :: "string list \<Rightarrow> route option" where
  "get_route path =
     (if path = [[], []] then Some ServiceInfoRoute
      else if path = [[], ''health'', ''live''] then Some LivenessRoute
      else if path = [[], ''health'', ''ready''] then Some ReadinessRoute
      else if path = [[], ''v1'', ''identity'', ''me''] then Some IdentityRoute
      else if path = [[], ''v1'', ''audit'', ''events''] then Some EventsRoute
      else if path = [[], ''v1'', ''audit'', ''integrity''] then Some IntegrityRoute
      else if length path = 5 \<and> take 4 path = [[], ''v1'', ''audit'', ''events''] \<and> path ! 4 \<noteq> []
      then Some (RequestEventsRoute (path ! 4)) else None)"

definition post_route :: "string list \<Rightarrow> route option" where
  "post_route path =
     (if path = [[], ''v1'', ''sessions''] then Some CreateSessionRoute
      else if path = [[], ''v1'', ''sessions'', ''validate''] then Some ValidateSessionRoute
      else if path = [[], ''v1'', ''tool-calls''] then Some ToolCallRoute
      else if length path = 5 \<and> take 3 path = [[], ''v1'', ''sessions''] \<and> path ! 3 \<noteq> [] \<and> path ! 4 = ''revoke''
      then Some (RevokeSessionRoute (path ! 3)) else None)"

definition route_of :: "web_request \<Rightarrow> route option" where
  "route_of q =
     (if wr_method q = ''GET'' then get_route (split_path (wr_path q))
      else if wr_method q = ''POST'' then post_route (split_path (wr_path q))
      else None)"

fun takes_body :: "route \<Rightarrow> bool" where
  "takes_body CreateSessionRoute = True"
| "takes_body ValidateSessionRoute = True"
| "takes_body ToolCallRoute = True"
| "takes_body _ = False"

section \<open>Reading the request\<close>

text \<open>Header names are compared in lower case; of a repeated header the first value counts, of a
  repeated query parameter the last.\<close>

definition header_value :: "string \<Rightarrow> web_request \<Rightarrow> string option" where
  "header_value k q = map_of (map (\<lambda>(n, v). (lower n, v)) (wr_headers q)) k"

definition query_value :: "string \<Rightarrow> web_request \<Rightarrow> string option" where
  "query_value k q = map_of (rev (wr_query q)) k"

definition json_body :: "web_request \<Rightarrow> (string \<times> json) list option" where
  "json_body q = (case wr_body q of JsonBody j \<Rightarrow> as_dict j | _ \<Rightarrow> None)"

definition text_field :: "string \<Rightarrow> (string \<times> json) list \<Rightarrow> string option" where
  "text_field k kvs = Option.bind (map_of kvs k) as_str"

definition parse_ttl :: "pydantic \<Rightarrow> (string \<times> json) list \<Rightarrow> int option option" where
  "parse_ttl P kvs =
     (case map_of kvs ''ttl_seconds'' of
        None \<Rightarrow> Some None
      | Some JNull \<Rightarrow> Some None
      | Some j \<Rightarrow> map_option Some (lax_int P j))"

definition parse_create_request :: "pydantic \<Rightarrow> web_request \<Rightarrow> create_session_request option" where
  "parse_create_request P q =
     Option.bind (json_body q) (\<lambda>kvs.
     Option.bind (text_field ''agent_id'' kvs) (\<lambda>agent.
     Option.bind (text_field ''user_id'' kvs) (\<lambda>user.
     Option.bind (text_field ''customer_id'' kvs) (\<lambda>customer.
     map_option (\<lambda>ttl. \<lparr>cq_agent_id = agent, cq_user_id = user, cq_customer_id = customer, cq_ttl_seconds = ttl\<rparr>)
       (parse_ttl P kvs)))))"

definition parse_validate_request :: "web_request \<Rightarrow> string option" where
  "parse_validate_request q = Option.bind (json_body q) (text_field ''session_token'')"

definition parse_tool_request :: "web_request \<Rightarrow> tool_call_request option" where
  "parse_tool_request q =
     Option.bind (json_body q) (\<lambda>kvs.
     if \<not> only_keys [''tool'', ''operation'', ''parameters''] kvs then None else
     Option.bind (text_field ''tool'' kvs) (\<lambda>tool.
     Option.bind (text_field ''operation'' kvs) (\<lambda>operation.
     Option.bind (Option.bind (map_of kvs ''parameters'') as_dict) (\<lambda>parameters.
     Option.bind (header_value ''x-session-token'' q) (\<lambda>session_token.
     map_option (\<lambda>key. \<lparr>tq_tool = tool, tq_operation = operation, tq_parameters = parameters,
         tq_session_token = session_token, tq_idempotency_key = key, tq_trace_id = header_value ''traceparent'' q\<rparr>)
       (header_value ''idempotency-key'' q))))))"

definition parse_filter :: "web_request \<Rightarrow> event_filter" where
  "parse_filter q =
     \<lparr>flt_agent_id = query_value ''agent_id'' q, flt_session_id = query_value ''session_id'' q,
      flt_tool = query_value ''tool'' q, flt_operation = query_value ''operation'' q,
      flt_decision = query_value ''decision'' q, flt_reason_code = query_value ''reason_code'' q\<rparr>"

text \<open>An \<open>int\<close> of the query with its default.\<close>

definition parse_number :: "pydantic \<Rightarrow> int \<Rightarrow> string \<Rightarrow> web_request \<Rightarrow> int option" where
  "parse_number P missing k q = (case query_value k q of None \<Rightarrow> Some missing | Some s \<Rightarrow> lax_int P (JStr s))"

section \<open>Writing the response\<close>

definition error_body :: "proxy_lib \<Rightarrow> py_exn \<Rightarrow> json option" where
  "error_body B e =
     (case e of
        HTTPException n code message \<Rightarrow>
          Some (JObj [(''detail'', JObj ((''code'', JStr code) #
            (if message = [] then [] else [(''message'', JStr message)])))])
      | ValidationError m \<Rightarrow> Some (pl_invalid_body B)
      | _ \<Rightarrow> None)"

definition respond :: "proxy_lib \<Rightarrow> nat \<Rightarrow> json res \<Rightarrow> http_response" where
  "respond B status r =
     (case r of
        Inr j \<Rightarrow> \<lparr>hp_status_code = int status, hp_json = Some j\<rparr>
      | Inl e \<Rightarrow> \<lparr>hp_status_code = int (error_status e), hp_json = error_body B e\<rparr>)"

definition map_res :: "('a \<Rightarrow> 'b) \<Rightarrow> 'a res \<Rightarrow> 'b res" where
  "map_res f r = bind_res r (\<lambda>x. Inr (f x))"

definition datetime_json :: "proxy_lib \<Rightarrow> datetime \<Rightarrow> json" where
  "datetime_json B t = JStr (pl_datetime B t)"

definition opt_json :: "('a \<Rightarrow> json) \<Rightarrow> 'a option \<Rightarrow> json" where
  "opt_json f x = (case x of None \<Rightarrow> JNull | Some y \<Rightarrow> f y)"

definition service_info_json :: "service_info \<Rightarrow> json" where
  "service_info_json i =
     JObj [(''name'', JStr (sv_name i)), (''version'', JStr (sv_version i)),
           (''environment'', JStr (sv_environment i)), (''docs_url'', JStr (sv_docs_url i))]"

definition health_json :: "proxy_lib \<Rightarrow> health_response \<Rightarrow> json" where
  "health_json B h =
     JObj [(''service'', JStr (hl_service h)), (''status'', JStr (hl_status h)), (''version'', JStr (hl_version h)),
           (''environment'', JStr (hl_environment h)), (''checks'', JObj (map (\<lambda>(k, v). (k, JStr v)) (hl_checks h))),
           (''generated_at'', datetime_json B (hl_generated_at h))]"

definition identity_json :: "identity_response \<Rightarrow> json" where
  "identity_json r =
     JObj [(''subject'', JStr (id_subject r)), (''token_use'', JStr (id_token_use r)),
           (''scopes'', JArr (map JStr (id_scopes r))), (''agent_id'', opt_json JStr (id_agent_id r)),
           (''agent_status'', opt_json JStr (id_agent_status r))]"

definition created_json :: "proxy_lib \<Rightarrow> created_trusted_session \<Rightarrow> json" where
  "created_json B c =
     JObj [(''session_id'', JStr (cts_session_id c)), (''session_token'', JStr (cts_session_token c)),
           (''agent_id'', JStr (cts_agent_id c)), (''user_id'', JStr (cts_user_id c)),
           (''customer_id'', JStr (cts_customer_id c)), (''expires_at'', datetime_json B (cts_expires_at c))]"

definition validated_json :: "proxy_lib \<Rightarrow> trusted_session_claims \<Rightarrow> json" where
  "validated_json B c =
     JObj [(''valid'', JBool True), (''session_id'', JStr (tc_session_id c)), (''agent_id'', JStr (tc_agent_id c)),
           (''user_id'', JStr (tc_user_id c)), (''customer_id'', JStr (tc_customer_id c)),
           (''issued_at'', datetime_json B (tc_issued_at c)), (''expires_at'', datetime_json B (tc_expires_at c))]"

definition revoked_json :: "proxy_lib \<Rightarrow> agent_session \<Rightarrow> json" where
  "revoked_json B r =
     JObj [(''session_id'', JStr (se_id r)), (''status'', JStr (session_status_value (se_status r))),
           (''revoked_at'', opt_json (datetime_json B) (se_revoked_at r))]"

definition call_json :: "tool_call_response \<Rightarrow> json" where
  "call_json r =
     JObj [(''request_id'', JStr (tr_request_id r)), (''decision'', JStr (tr_decision r)),
           (''reason_code'', JStr (tr_reason_code r)), (''message'', JStr (tr_message r)),
           (''result'', opt_json (\<lambda>j. j) (tr_result r))]"

definition event_json :: "proxy_lib \<Rightarrow> audit_event \<Rightarrow> json" where
  "event_json B e =
     JObj [(''event_id'', JStr (ev_id e)), (''request_id'', JStr (ev_request_id e)),
           (''idempotency_key'', JStr (ev_idempotency_key e)), (''sequence'', JInt (ev_sequence e)),
           (''timestamp'', datetime_json B (ev_timestamp e)), (''agent_id'', JStr (ev_agent_id e)),
           (''session_id'', opt_json JStr (ev_session_id e)), (''user_id'', opt_json JStr (ev_user_id e)),
           (''tool'', JStr (ev_tool e)), (''operation'', JStr (ev_operation e)),
           (''sanitized_parameters'', ev_sanitized_parameters e),
           (''decision'', JStr (audit_decision_value (ev_decision e))), (''reason_code'', JStr (ev_reason_code e)),
           (''matched_manifest_id'', opt_json JStr (ev_matched_manifest_id e)),
           (''policy_checksum'', opt_json JStr (ev_policy_checksum e)),
           (''execution_status'', JStr (execution_status_value (ev_execution_status e))),
           (''upstream_status_code'', opt_json JInt (ev_upstream_status_code e)),
           (''decision_latency_ms'', opt_json JInt (ev_decision_latency_ms e)),
           (''total_latency_ms'', opt_json JInt (ev_total_latency_ms e)), (''trace_id'', opt_json JStr (ev_trace_id e)),
           (''previous_record_hash'', opt_json JStr (ev_previous_record_hash e)),
           (''record_hash'', JStr (ev_record_hash e))]"

text \<open>\<open>AuditEventResponse.model_validate\<close> demands a \<open>dict\<close> of parameters.\<close>

definition event_response :: "proxy_lib \<Rightarrow> audit_event \<Rightarrow> json res" where
  "event_response B e =
     (if as_dict (ev_sanitized_parameters e) = None then Inl (ValueError ''AuditEventResponse'')
      else Inr (event_json B e))"

fun event_responses :: "proxy_lib \<Rightarrow> audit_event list \<Rightarrow> json list res" where
  "event_responses B [] = Inr []"
| "event_responses B (e # es) =
     bind_res (event_response B e) (\<lambda>j. bind_res (event_responses B es) (\<lambda>js. Inr (j # js)))"

definition event_list_json :: "int \<Rightarrow> int \<Rightarrow> json list \<Rightarrow> json" where
  "event_list_json limit offset events =
     JObj [(''events'', JArr events), (''limit'', JInt limit), (''offset'', JInt offset)]"

definition integrity_json :: "integrity_result \<Rightarrow> json" where
  "integrity_json r =
     JObj [(''valid'', JBool (ir_valid r)), (''events_checked'', JInt (int (ir_events_checked r))),
           (''first_invalid_event_id'', opt_json JStr (ir_first_invalid_event_id r))]"

section \<open>The application\<close>

text \<open>
  A handler with a dependency raises its exception before a failed validation of the body is
  reported; the tool-call route has no such dependency and reports the validation first.
\<close>

definition validation_after :: "principal res \<Rightarrow> string \<Rightarrow> 'a res" where
  "validation_after p model = bind_res p (\<lambda>_. Inl (ValidationError model))"

definition serve_create :: "proxy_lib \<Rightarrow> pydantic \<Rightarrow> request_env \<Rightarrow> web_request \<Rightarrow> database
    \<Rightarrow> http_response \<times> database" where
  "serve_create B P env q db =
     (case parse_create_request P q of
        None \<Rightarrow> (respond B 201 (validation_after (authenticated_principal (re_auth env) (wr_credentials q))
                   ''CreateSessionRequest''), db)
      | Some r \<Rightarrow>
          (case post_session (re_auth env) (wr_credentials q) r (fst (re_uuids env)) (snd (re_uuids env)) (re_now env) db of
             (x, db') \<Rightarrow> (respond B 201 (map_res (created_json B) x), db')))"

definition serve_validate :: "proxy_lib \<Rightarrow> request_env \<Rightarrow> web_request \<Rightarrow> database \<Rightarrow> http_response" where
  "serve_validate B env q db =
     respond B 200
       (case parse_validate_request q of
          None \<Rightarrow> validation_after (authenticated_principal (re_auth env) (wr_credentials q)) ''ValidateSessionRequest''
        | Some token \<Rightarrow> map_res (validated_json B) (post_validate (re_auth env) (wr_credentials q) token db))"

definition serve_revoke :: "proxy_lib \<Rightarrow> request_env \<Rightarrow> web_request \<Rightarrow> string \<Rightarrow> database \<Rightarrow> http_response \<times> database" where
  "serve_revoke B env q k db =
     (case post_revoke (re_auth env) (wr_credentials q) k (re_now env) db of
        (x, db') \<Rightarrow> (respond B 200 (map_res (revoked_json B) x), db'))"

definition serve_call :: "proxy_lib \<Rightarrow> pydantic \<Rightarrow> 'w adapter \<Rightarrow> request_env \<Rightarrow> web_request \<Rightarrow> database \<times> 'w
    \<Rightarrow> http_response \<times> database \<times> 'w" where
  "serve_call B P adapter env q st =
     (case parse_tool_request q of
        None \<Rightarrow> (respond B 200 (Inl (ValidationError ''ToolCallRequest'')), st)
      | Some r \<Rightarrow>
          (case execute_tool_call (re_auth env) P adapter (wr_credentials q) r (re_call env) st of
             (x, st') \<Rightarrow> (respond B (case x of Inr resp \<Rightarrow> tr_status resp | Inl e \<Rightarrow> 200) (map_res call_json x), st')))"

definition serve_events :: "proxy_lib \<Rightarrow> pydantic \<Rightarrow> request_env \<Rightarrow> web_request \<Rightarrow> database \<Rightarrow> http_response" where
  "serve_events B P env q db =
     respond B 200
       (case (parse_number P 100 ''limit'' q, parse_number P 0 ''offset'' q) of
          (Some limit, Some offset) \<Rightarrow>
            bind_res (get_events (re_auth env) (wr_credentials q) (parse_filter q) limit offset db) (\<lambda>es.
              map_res (event_list_json limit offset) (event_responses B es))
        | _ \<Rightarrow> validation_after (audit_principal (re_auth env) (wr_credentials q)) ''query'')"

definition serve_request_events :: "proxy_lib \<Rightarrow> request_env \<Rightarrow> web_request \<Rightarrow> string \<Rightarrow> database \<Rightarrow> http_response" where
  "serve_request_events B env q k db =
     respond B 200
       (bind_res (get_events_for_request (re_auth env) (wr_credentials q) k db) (\<lambda>es.
          map_res JArr (event_responses B es)))"

definition handle :: "proxy_lib \<Rightarrow> pydantic \<Rightarrow> 'w adapter \<Rightarrow> request_env \<Rightarrow> web_request \<Rightarrow> route \<Rightarrow> database \<times> 'w
    \<Rightarrow> http_response \<times> database \<times> 'w" where
  "handle B P adapter env q r st =
     (let s = ae_settings (re_auth env); now = re_now env; db = fst st; w = snd st in
      case r of
        ServiceInfoRoute \<Rightarrow> (respond B 200 (Inr (service_info_json (proxy_service_info s))), st)
      | LivenessRoute \<Rightarrow> (respond B 200 (Inr (health_json B (proxy_liveness s now))), st)
      | ReadinessRoute \<Rightarrow>
          (case proxy_readiness s (re_attempt env) now of (n, h) \<Rightarrow> (respond B n (Inr (health_json B h)), st))
      | IdentityRoute \<Rightarrow>
          (respond B 200 (map_res identity_json (identity_me (re_auth env) (wr_credentials q) db)), st)
      | CreateSessionRoute \<Rightarrow> (case serve_create B P env q db of (a, db') \<Rightarrow> (a, db', w))
      | ValidateSessionRoute \<Rightarrow> (serve_validate B env q db, st)
      | RevokeSessionRoute k \<Rightarrow> (case serve_revoke B env q k db of (a, db') \<Rightarrow> (a, db', w))
      | ToolCallRoute \<Rightarrow> serve_call B P adapter env q st
      | EventsRoute \<Rightarrow> (serve_events B P env q db, st)
      | RequestEventsRoute k \<Rightarrow> (serve_request_events B env q k db, st)
      | IntegrityRoute \<Rightarrow>
          (respond B 200 (map_res integrity_json (get_integrity (re_auth env) (wr_credentials q) db)), st))"

text \<open>\<open>other q\<close> is FastAPI's answer where no route matches: 404, 405 or its documentation pages.\<close>

definition proxy_app :: "proxy_lib \<Rightarrow> (web_request \<Rightarrow> http_response) \<Rightarrow> pydantic \<Rightarrow> 'w adapter \<Rightarrow> request_env
    \<Rightarrow> web_request \<Rightarrow> database \<times> 'w \<Rightarrow> http_response \<times> database \<times> 'w" where
  "proxy_app B other P adapter env q st =
     (case route_of q of
        None \<Rightarrow> (other q, st)
      | Some r \<Rightarrow>
          if takes_body r \<and> wr_body q = BadJson
          then (respond B 200 (Inl (ValidationError ''json_invalid'')), st)
          else handle B P adapter env q r st)"

fun serve :: "proxy_lib \<Rightarrow> (web_request \<Rightarrow> http_response) \<Rightarrow> pydantic \<Rightarrow> 'w adapter \<Rightarrow> (request_env \<times> web_request) list
    \<Rightarrow> database \<times> 'w \<Rightarrow> http_response list \<times> database \<times> 'w" where
  "serve B other P adapter [] st = ([], st)"
| "serve B other P adapter ((env, q) # qs) st =
     (case proxy_app B other P adapter env q st of
        (a, st') \<Rightarrow> (case serve B other P adapter qs st' of (as, st'') \<Rightarrow> (a # as, st'')))"

section \<open>The routes change what their handlers change\<close>

lemma respond_status:
  "hp_status_code (respond B n r) < 400 \<Longrightarrow> n < 400 \<or> \<not> succeeds r \<Longrightarrow> (\<forall>e. r = Inl e \<longrightarrow> error_status e \<ge> 400) \<Longrightarrow> succeeds r"
  by (cases r) (auto simp: respond_def)

lemma map_res_simps [simp]: "map_res f (Inl e) = Inl e" "map_res f (Inr x) = Inr (f x)"
  by (simp_all add: map_res_def)

lemma succeeds_map_res [simp]: "succeeds (map_res f r) = succeeds r"
  by (cases r) simp_all

lemma execute_call_steps:
  assumes "execute_call P adapter call env (db, w) = (r, db', w')"
  shows "db_step\<^sup>*\<^sup>* db db'"
  using assms
proof (cases rule: execute_call_cases)
  case (answered out)
  then show ?thesis by (blast intro: call_begun)
next
  case (forwarded policy latency db1 x)
  have "db_step db db1" "db_step db1 db'" using call_begun [OF forwarded(1)] call_finished [OF forwarded(3)] .
  then show ?thesis by (meson converse_rtranclp_into_rtranclp r_into_rtranclp)
qed simp

lemma execute_tool_call_steps:
  assumes "execute_tool_call ae P adapter cr r env (db, w) = (x, db', w')"
  shows "db_step\<^sup>*\<^sup>* db db'"
  using assms by (cases rule: execute_tool_call_cases) (auto intro: execute_call_steps)

lemma handle_steps:
  assumes "handle B P adapter env q r (db, w) = (a, db', w')"
  shows "db_step\<^sup>*\<^sup>* db db'"
proof (cases r)
  case CreateSessionRoute
  with assms show ?thesis
    by (auto simp: handle_def serve_create_def split: option.splits prod.splits intro: session_created)
next
  case (RevokeSessionRoute k)
  with assms show ?thesis by (auto simp: handle_def serve_revoke_def split: prod.splits intro: session_revoked)
next
  case ToolCallRoute
  with assms show ?thesis
    by (auto simp: handle_def serve_call_def split: option.splits prod.splits intro: execute_tool_call_steps)
qed (use assms in \<open>auto simp: handle_def split: prod.splits\<close>)

lemma proxy_app_steps:
  "proxy_app B other P adapter env q (db, w) = (a, db', w') \<Longrightarrow> db_step\<^sup>*\<^sup>* db db'"
  by (auto simp: proxy_app_def split: option.splits if_splits intro: handle_steps)

text \<open>Serving any sequence of requests is a run of the steps of the system, so what holds along every run
  holds of the application.\<close>

lemma serve_steps:
  "serve B other P adapter qs (db, w) = (as, db', w') \<Longrightarrow> db_step\<^sup>*\<^sup>* db db'"
proof (induction qs arbitrary: db w as)
  case (Cons x qs)
  obtain env q where x: "x = (env, q)" by (cases x)
  obtain a db1 w1 where one: "proxy_app B other P adapter env q (db, w) = (a, db1, w1)"
    by (cases "proxy_app B other P adapter env q (db, w)") auto
  with Cons.prems x obtain as' where "serve B other P adapter qs (db1, w1) = (as', db', w')"
    by (auto split: prod.splits)
  from Cons.IH [OF this] proxy_app_steps [OF one] show ?case by simp
qed simp

end
