(* ===== verification/Access.thy ===== *)
theory Access
  imports ProxyApp
begin

text \<open>
  Who may use which route of the proxy, and what reaches the protected tool, for the application
  as a whole (\<open>ProxyApp\<close>): the access matrix of the routes, and complete mediation at the level of
  HTTP requests.  The sample CRM's application with its own health routes is the last part; its
  routes outside \<open>/customers\<close> need no credential and touch no customer.
\<close>

section \<open>The access matrix\<close>

fun public_route :: "route \<Rightarrow> bool" where
  "public_route ServiceInfoRoute = True"
| "public_route LivenessRoute = True"
| "public_route ReadinessRoute = True"
| "public_route _ = False"

definition has_authority :: "string set \<Rightarrow> string \<Rightarrow> principal \<Rightarrow> bool" where
  "has_authority uses scope p \<longleftrightarrow> pr_token_use p \<in> uses \<and> scope \<in> pr_scopes p"

fun grants :: "route \<Rightarrow> principal \<Rightarrow> bool" where
  "grants CreateSessionRoute p = has_authority {''host'', ''admin''} ''session:create'' p"
| "grants (RevokeSessionRoute k) p = has_authority {''host'', ''admin''} ''session:revoke'' p"
| "grants ValidateSessionRoute p = has_authority {''agent''} ''tool:invoke'' p"
| "grants ToolCallRoute p = has_authority {''agent''} ''tool:invoke'' p"
| "grants EventsRoute p = has_authority {''auditor'', ''admin''} ''audit:read'' p"
| "grants (RequestEventsRoute k) p = has_authority {''auditor'', ''admin''} ''audit:read'' p"
| "grants IntegrityRoute p = has_authority {''auditor'', ''admin''} ''audit:read'' p"
| "grants r p = True"

definition presents :: "auth_env \<Rightarrow> bearer option \<Rightarrow> principal \<Rightarrow> bool" where
  "presents ae cr p \<longleftrightarrow>
     (\<exists>b. cr = Some b \<and> lower (br_scheme b) = ''bearer'' \<and> decode_principal ae (br_credentials b) = Inr p)"

definition rejected :: "proxy_lib \<Rightarrow> http_response \<Rightarrow> bool" where
  "rejected B a \<longleftrightarrow> (\<exists>e. a = respond B 200 (Inl e))"

lemma rejected_respond: "rejected B (respond B n r)" if "\<not> succeeds r"
  using that by (cases r) (auto simp: rejected_def respond_def)

lemma rejected_Inl [simp]: "rejected B (respond B n (Inl e))"
  by (rule rejected_respond) simp

lemma presents_authenticated: "authenticated_principal ae cr = Inr p \<longleftrightarrow> presents ae cr p"
  by (simp add: presents_def authenticated_principal_Inr)

lemma presents_auditor:
  "audit_principal ae cr = Inr p \<Longrightarrow> presents ae cr p \<and> has_authority {''auditor'', ''admin''} ''audit:read'' p"
  by (auto simp: presents_def audit_principal_Inr has_authority_def)

lemma validation_after_rejected [simp]: "\<not> succeeds (validation_after p m)"
  by (cases p) (simp_all add: validation_after_def)

lemma resolved_agent: "resolve_active_agent p db = Inr a \<Longrightarrow> pr_token_use p = ''agent''"
  by (simp add: resolve_active_agent_Inr)

text \<open>Each handler: without the authority it answers with an exception and changes nothing.\<close>

lemma identity_access:
  "succeeds (identity_me ae cr db) \<Longrightarrow> \<exists>p. presents ae cr p"
  by (auto simp: identity_me_def succeeds_iff bind_res_eq_Inr presents_authenticated)

lemma create_access:
  assumes "serve_create B P env q db = (a, db')"
  shows "rejected B a \<and> db' = db \<or>
    (\<exists>p. presents (re_auth env) (wr_credentials q) p \<and> has_authority {''host'', ''admin''} ''session:create'' p)"
proof (cases "parse_create_request P q")
  case None
  with assms show ?thesis by (auto simp: serve_create_def intro: rejected_respond)
next
  case (Some r)
  obtain x where x: "post_session (re_auth env) (wr_credentials q) r (fst (re_uuids env)) (snd (re_uuids env)) (re_now env) db =
      (x, db')" "a = respond B 201 (map_res (created_json B) x)"
    using assms Some by (auto simp: serve_create_def split: prod.splits)
  show ?thesis
  proof (cases "\<exists>p. authenticated_principal (re_auth env) (wr_credentials q) = Inr p \<and> require_host p = Inr () \<and>
      require_scopes p [''session:create''] = Inr ()")
    case True
    then show ?thesis by (auto simp: presents_authenticated has_authority_def require_host_Inr require_scopes_Inr)
  next
    case False
    then have "\<not> succeeds x \<and> db' = db"
      using x(1) by (auto simp: post_session_def bind_res_eq_Inr bind_res_eq_Inl split: sum.splits if_splits)
    then show ?thesis using x(2) by (auto intro: rejected_respond)
  qed
qed

lemma revoke_access:
  assumes "serve_revoke B env q k db = (a, db')"
  shows "rejected B a \<and> db' = db \<or>
    (\<exists>p. presents (re_auth env) (wr_credentials q) p \<and> has_authority {''host'', ''admin''} ''session:revoke'' p)"
proof -
  obtain x where x: "post_revoke (re_auth env) (wr_credentials q) k (re_now env) db = (x, db')"
    "a = respond B 200 (map_res (revoked_json B) x)"
    using assms by (auto simp: serve_revoke_def split: prod.splits)
  show ?thesis
  proof (cases "\<exists>p. authenticated_principal (re_auth env) (wr_credentials q) = Inr p \<and> require_host p = Inr () \<and>
      require_scopes p [''session:revoke''] = Inr ()")
    case True
    then show ?thesis by (auto simp: presents_authenticated has_authority_def require_host_Inr require_scopes_Inr)
  next
    case False
    then have "\<not> succeeds x \<and> db' = db"
      using x(1) by (auto simp: post_revoke_def bind_res_eq_Inr bind_res_eq_Inl split: sum.splits)
    then show ?thesis using x(2) by (auto intro: rejected_respond)
  qed
qed

lemma validate_access:
  assumes "\<not> rejected B (serve_validate B env q db)"
  shows "\<exists>p. presents (re_auth env) (wr_credentials q) p \<and> has_authority {''agent''} ''tool:invoke'' p"
proof (cases "parse_validate_request q")
  case None
  with assms show ?thesis by (simp add: serve_validate_def rejected_respond)
next
  case (Some token)
  with assms have "\<not> rejected B (respond B 200 (map_res (validated_json B)
      (post_validate (re_auth env) (wr_credentials q) token db)))" by (simp add: serve_validate_def)
  then have "succeeds (post_validate (re_auth env) (wr_credentials q) token db)"
    using rejected_respond succeeds_map_res by blast
  then show ?thesis
    by (auto simp: post_validate_def succeeds_iff bind_res_eq_Inr catching_Inr require_scopes_Inr presents_authenticated
        has_authority_def split: if_splits dest: resolved_agent)
qed

lemma call_access:
  assumes "serve_call B P adapter env q (db, w) = (a, st')"
  shows "rejected B a \<and> st' = (db, w) \<or>
    (\<exists>p. presents (re_auth env) (wr_credentials q) p \<and> has_authority {''agent''} ''tool:invoke'' p)"
proof (cases "parse_tool_request q")
  case None
  with assms show ?thesis by (auto simp: serve_call_def)
next
  case (Some r)
  obtain x db' w' where x: "execute_tool_call (re_auth env) P adapter (wr_credentials q) r (re_call env) (db, w) = (x, db', w')"
    by (cases "execute_tool_call (re_auth env) P adapter (wr_credentials q) r (re_call env) (db, w)") auto
  with assms Some have a: "a = respond B (case x of Inr resp \<Rightarrow> tr_status resp | Inl e \<Rightarrow> 200) (map_res call_json x)"
    "st' = (db', w')" by (simp_all add: serve_call_def)
  from x show ?thesis
  proof (cases rule: execute_tool_call_cases)
    case (refused e)
    then show ?thesis using a by simp
  next
    case (executed b ag c y)
    from executed(4) obtain p where "decode_principal (re_auth env) (br_credentials b) = Inr p"
      "''tool:invoke'' \<in> pr_scopes p" "resolve_active_agent p db = Inr ag"
      by (auto simp: authorize_call_Inr)
    then show ?thesis
      using executed(2,3) by (auto simp: presents_def has_authority_def dest: resolved_agent)
  qed
qed

lemma audit_access:
  "\<not> rejected B (serve_events B P env q db) \<Longrightarrow> \<exists>p. audit_principal (re_auth env) (wr_credentials q) = Inr p"
  "\<not> rejected B (serve_request_events B env q k db) \<Longrightarrow> \<exists>p. audit_principal (re_auth env) (wr_credentials q) = Inr p"
  "succeeds (get_integrity (re_auth env) (wr_credentials q) db) \<Longrightarrow>
     \<exists>p. audit_principal (re_auth env) (wr_credentials q) = Inr p"
proof -
  show "succeeds (get_integrity (re_auth env) (wr_credentials q) db) \<Longrightarrow>
     \<exists>p. audit_principal (re_auth env) (wr_credentials q) = Inr p"
    by (auto simp: get_integrity_def succeeds_iff bind_res_eq_Inr)
  show "\<exists>p. audit_principal (re_auth env) (wr_credentials q) = Inr p" if "\<not> rejected B (serve_events B P env q db)"
    using that
    by (cases "audit_principal (re_auth env) (wr_credentials q)")
      (auto simp: serve_events_def validation_after_def get_events_def split: option.splits)
  show "\<exists>p. audit_principal (re_auth env) (wr_credentials q) = Inr p" if "\<not> rejected B (serve_request_events B env q k db)"
    using that
    by (cases "audit_principal (re_auth env) (wr_credentials q)")
      (auto simp: serve_request_events_def get_events_for_request_def)
qed

text \<open>(C2) The access matrix of the proxy: outside the service information and the health checks, every route
  answers a request with an exception and changes nothing, unless its bearer token verifies and
  has the use and the scope the route asks for.\<close>

theorem access_matrix:
  assumes "proxy_app B other P adapter env q (db, w) = (a, st')" "route_of q = Some r" "\<not> public_route r"
  shows "rejected B a \<and> st' = (db, w) \<or> (\<exists>p. presents (re_auth env) (wr_credentials q) p \<and> grants r p)"
proof (cases "takes_body r \<and> wr_body q = BadJson")
  case True
  with assms show ?thesis by (auto simp: proxy_app_def)
next
  case False
  with assms have h: "handle B P adapter env q r (db, w) = (a, st')" by (auto simp: proxy_app_def)
  show ?thesis
  proof (cases r)
    case IdentityRoute
    then show ?thesis
      using h identity_access [of "re_auth env" "wr_credentials q" db] rejected_respond by (fastforce simp: handle_def)
  next
    case CreateSessionRoute
    then show ?thesis using h create_access [of B P env q db] by (auto simp: handle_def split: prod.splits)
  next
    case (RevokeSessionRoute k)
    then show ?thesis using h revoke_access [of B env q k db] by (auto simp: handle_def split: prod.splits)
  next
    case ValidateSessionRoute
    then show ?thesis using h validate_access [of B env q db] by (auto simp: handle_def)
  next
    case ToolCallRoute
    then show ?thesis using h call_access [of B P adapter env q db w] by (auto simp: handle_def)
  next
    case EventsRoute
    then show ?thesis using h audit_access(1) [of B P env q db] presents_auditor by (fastforce simp: handle_def)
  next
    case (RequestEventsRoute k)
    then show ?thesis using h audit_access(2) [of B env q k db] presents_auditor by (fastforce simp: handle_def)
  next
    case IntegrityRoute
    then show ?thesis
      using h audit_access(3) [of env q db] presents_auditor rejected_respond by (fastforce simp: handle_def)
  qed (use assms(3) in simp_all)
qed

section \<open>Complete mediation\<close>

text \<open>(C1) The whole enforcement point, request by request: whatever is sent to the proxy, the outside world
  changes only through the tool-call route, for a bearer token that verifies and carries the scope
  \<open>tool:invoke\<close> for the subject of a registered, active agent, with a session token that stands for
  a stored session of that agent that is active and unexpired, a new idempotency key and a call
  the policy allows; and then the authorisation is on record.\<close>

theorem complete_mediation:
  assumes "proxy_app B other P adapter env q (db, w) = (a, db', w')" "w' \<noteq> w"
  shows "route_of q = Some ToolCallRoute \<and> (\<exists>r ag c policy e rest.
    parse_tool_request q = Some r \<and>
    caller_entitled (re_auth env) (wr_credentials q) (tq_session_token r) db ag c \<and>
    (\<forall>e \<in> set (db_events db). \<not> has_key (ag_id ag) (tq_idempotency_key r) e) \<and>
    evaluate P (ag_id ag) c (tq_tool r) (tq_operation r) (tq_parameters r) (ce_evaluated_at (re_call env)) db = Inr policy \<and>
    pd_allowed policy \<and> db_events db' = db_events db @ e # rest \<and> ev_decision e = DecisionAllow \<and>
    ev_execution_status e = ExecAuthorized \<and> has_key (ag_id ag) (tq_idempotency_key r) e)"
proof -
  obtain r where r: "route_of q = Some r" "handle B P adapter env q r (db, w) = (a, db', w')"
    using assms by (auto simp: proxy_app_def split: option.splits if_splits)
  then have tool: "r = ToolCallRoute"
    using assms(2) by (cases r) (auto simp: handle_def split: prod.splits)
  obtain t x where t: "parse_tool_request q = Some t"
    "execute_tool_call (re_auth env) P adapter (wr_credentials q) t (re_call env) (db, w) = (x, db', w')"
    using r(2) tool assms(2) by (auto simp: handle_def serve_call_def split: option.splits prod.splits)
  from tool_call_mediated [OF t(2) assms(2)] show ?thesis
    using r(1) tool t(1) by (elim exE conjE) (intro conjI exI; assumption?; simp)
qed

section \<open>The service routes of the CRM\<close>

text \<open>The application of the CRM with its service routes, on a request that arrived with the path \<open>p\<close>.\<close>

definition crm_service :: "proxy_lib \<Rightarrow> crm_lib \<Rightarrow> crm_settings \<Rightarrow> unit res \<Rightarrow> int \<Rightarrow> string \<Rightarrow> http_request \<Rightarrow> database
    \<Rightarrow> http_response \<times> database" where
  "crm_service B E s attempt now p q db =
     (let answer = (\<lambda>n j. (\<lparr>hp_status_code = int n, hp_json = Some j\<rparr>, db))
      in if hq_method q = ''GET'' \<and> p = ''/'' then answer 200 (service_info_json (crm_service_info s))
         else if hq_method q = ''GET'' \<and> p = ''/health/live'' then answer 200 (health_json B (crm_liveness s now))
         else if hq_method q = ''GET'' \<and> p = ''/health/ready''
         then (case crm_readiness s attempt now of (n, h) \<Rightarrow> answer n (health_json B h))
         else crm_routes E s p q db)"

lemma crm_service_customers: "customer_of_path p = Some k \<Longrightarrow> crm_service B E s attempt now p q db = crm_routes E s p q db"
  by (auto simp: crm_service_def customer_of_path_iff Let_def)

lemma crm_service_effect:
  "crm_service B E s attempt now p q db = (r, db') \<Longrightarrow> db' \<noteq> db \<Longrightarrow> crm_routes E s p q db = (r, db')"
  by (auto simp: crm_service_def Let_def split: if_splits prod.splits)

end
