(* ===== verification/Accountability.thy ===== *)
theory Accountability
  imports Access
begin

text \<open>
  Who is behind a change of the database, for any sequence of served requests: every event of the
  audit trail goes back to a tool call an authenticated agent sent, every session to a creation and
  every revocation to a revocation that a host or an administrator with the scope sent.
  \<open>accounted Q db db'\<close> says so of the change from \<open>db\<close> to \<open>db'\<close> and the requests \<open>Q\<close>.
\<close>

type_synonym served_request = "request_env \<times> web_request"

definition authorized_by :: "served_request \<Rightarrow> route \<Rightarrow> principal \<Rightarrow> bool" where
  "authorized_by x r p \<longleftrightarrow>
     route_of (snd x) = Some r \<and> presents (re_auth (fst x)) (wr_credentials (snd x)) p \<and> grants r p"

definition sent_call :: "agent list \<Rightarrow> served_request \<Rightarrow> audit_event \<Rightarrow> bool" where
  "sent_call agents x e \<longleftrightarrow>
     (\<exists>p r a. authorized_by x ToolCallRoute p \<and> parse_tool_request (snd x) = Some r \<and>
        a \<in> set agents \<and> ag_status a = AgentActive \<and> ag_oidc_subject a = pr_subject p \<and>
        ev_agent_id e = ag_id a \<and> ev_idempotency_key e = tq_idempotency_key r \<and> ev_tool e = tq_tool r \<and>
        ev_operation e = tq_operation r \<and> ev_sanitized_parameters e = sanitize_parameters (tq_parameters r))"

definition sent_creation :: "pydantic \<Rightarrow> served_request \<Rightarrow> agent_session \<Rightarrow> bool" where
  "sent_creation P x s \<longleftrightarrow>
     (\<exists>p r. authorized_by x CreateSessionRoute p \<and> parse_create_request P (snd x) = Some r \<and>
        se_created_by_subject s = pr_subject p \<and> se_agent_id s = cq_agent_id r \<and>
        se_user_id s = cq_user_id r \<and> se_customer_id s = cq_customer_id r)"

definition sent_revocation :: "served_request \<Rightarrow> string \<Rightarrow> bool" where
  "sent_revocation x k \<longleftrightarrow> (\<exists>p. authorized_by x (RevokeSessionRoute k) p)"

definition same_session :: "agent_session \<Rightarrow> agent_session \<Rightarrow> bool" where
  "same_session s s' \<longleftrightarrow>
     se_created_by_subject s' = se_created_by_subject s \<and> se_agent_id s' = se_agent_id s \<and>
     se_user_id s' = se_user_id s \<and> se_customer_id s' = se_customer_id s"

definition accounted :: "pydantic \<Rightarrow> served_request set \<Rightarrow> database \<Rightarrow> database \<Rightarrow> bool" where
  "accounted P Q db db' \<longleftrightarrow>
     db_agents db' = db_agents db \<and> db_tools db' = db_tools db \<and> db_manifests db' = db_manifests db \<and>
     db_customers db' = db_customers db \<and>
     (\<exists>new. db_events db' = db_events db @ new \<and> (\<forall>e \<in> set new. \<exists>x \<in> Q. sent_call (db_agents db) x e)) \<and>
     (\<forall>k s. session_get k db = Some s \<longrightarrow> (\<exists>s'. session_get k db' = Some s' \<and> same_session s s')) \<and>
     (\<forall>k s. session_get k db' = Some s \<and> session_get k db = None \<longrightarrow> (\<exists>x \<in> Q. sent_creation P x s)) \<and>
     (\<forall>k. session_revoked k db' \<and> \<not> session_revoked k db \<longrightarrow> (\<exists>x \<in> Q. sent_revocation x k))"

section \<open>One change after another\<close>

lemma same_session_refl [simp]: "same_session s s"
  by (simp add: same_session_def)



lemma accounted_refl [simp]: "accounted P Q db db"
  by (auto simp: accounted_def)





section \<open>The requests that write\<close>
















section \<open>Any sequence of requests\<close>



end
