(* ===== verification/Dict.thy ===== *)
theory Dict
  imports Json
begin

text \<open>
  Python dictionaries with JSON values as the list of their items in insertion order:
  assignment to a key and \<open>dict.update\<close>, used by the log formatter and by the JSON parser.
\<close>

text \<open>Assignment to a key of a \<open>dict\<close> and \<open>dict.update\<close>: a key that is present keeps its place.\<close>

fun dict_set :: "string \<Rightarrow> json \<Rightarrow> (string \<times> json) list \<Rightarrow> (string \<times> json) list" where
  "dict_set k v [] = [(k, v)]"
| "dict_set k v ((k', v') # kvs) = (if k' = k then (k, v) # kvs else (k', v') # dict_set k v kvs)"

definition dict_update :: "(string \<times> json) list \<Rightarrow> (string \<times> json) list \<Rightarrow> (string \<times> json) list" where
  "dict_update kvs new = foldl (\<lambda>d (k, v). dict_set k v d) kvs new"

lemma map_of_dict_set: "map_of (dict_set k v kvs) = (map_of kvs)(k \<mapsto> v)"
  by (induction kvs) auto

lemma keys_dict_set: "fst ` set (dict_set k v kvs) = insert k (fst ` set kvs)"
  by (simp only: dom_map_of_conv_image_fst [symmetric] map_of_dict_set) simp

lemma distinct_dict_set: "distinct (map fst kvs) \<Longrightarrow> distinct (map fst (dict_set k v kvs))"
proof (induction kvs)
  case (Cons x kvs)
  have "fst ` set (dict_set k v kvs) = insert k (fst ` set kvs)" by (rule keys_dict_set)
  with Cons show ?case by (cases x) auto
qed simp

lemma wf_dict_set: "list_all (\<lambda>(k, v). wf_json v) kvs \<Longrightarrow> wf_json v \<Longrightarrow> list_all (\<lambda>(k, v). wf_json v) (dict_set k v kvs)"
  by (induction kvs) auto

lemma dict_update_simps [simp]:
  "dict_update kvs [] = kvs" "dict_update kvs ((k, v) # new) = dict_update (dict_set k v kvs) new"
  by (simp_all add: dict_update_def)

lemma distinct_dict_update: "distinct (map fst kvs) \<Longrightarrow> distinct (map fst (dict_update kvs new))"
  by (induction new arbitrary: kvs) (auto simp: distinct_dict_set)

lemma wf_dict_update:
  "list_all (\<lambda>(k, v). wf_json v) kvs \<Longrightarrow> list_all (\<lambda>(k, v). wf_json v) new \<Longrightarrow>
   list_all (\<lambda>(k, v). wf_json v) (dict_update kvs new)"
  by (induction new arbitrary: kvs) (auto simp: wf_dict_set)

lemma map_of_dict_update:
  "distinct (map fst new) \<Longrightarrow> map_of (dict_update kvs new) = map_of kvs ++ map_of new"
proof (induction new arbitrary: kvs)
  case (Cons x new)
  obtain k v where x: "x = (k, v)" by (cases x)
  have "map_of new k = None" using Cons.prems x by (simp add: map_of_eq_None_iff)
  then show ?case using Cons x by (auto simp: map_of_dict_set map_add_def fun_eq_iff split: option.splits)
qed simp

lemma map_of_dict_update_other:
  "distinct (map fst new) \<Longrightarrow> k \<notin> fst ` set new \<Longrightarrow> map_of (dict_update kvs new) k = map_of kvs k"
  by (simp add: map_of_dict_update map_add_def map_of_eq_None_iff [THEN iffD2])

end
