(* ===== verification/Logging.thy ===== *)
theory Logging
  imports Services Dict
begin

text \<open>
  The log formatter of \<open>common/logging.py\<close>.  A log record is its \<open>__dict__\<close> together with what
  \<open>getMessage\<close> and \<open>formatException\<close> make of it; values that \<open>json\<close> does not know are taken
  after \<open>default=str\<close>.  The property: whatever a record carries, its line is printable ASCII
  without a line break, and the line determines the payload, so no logged value can forge
  another line.
\<close>

record log_record =
  lr_name :: string
  lr_levelname :: string
  lr_message :: string
  lr_dict :: "(string \<times> json) list"
  lr_exception :: "string option"

text \<open>The attributes of \<open>logging.makeLogRecord({})\<close> in Python 3.12.\<close>

definition reserved_keys :: "string list" where
  "reserved_keys =
     [''name'', ''msg'', ''args'', ''levelname'', ''levelno'', ''pathname'', ''filename'', ''module'', ''exc_info'',
      ''exc_text'', ''stack_info'', ''lineno'', ''funcName'', ''created'', ''msecs'', ''relativeCreated'', ''thread'',
      ''threadName'', ''processName'', ''process'', ''taskName'']"

definition extra_fields :: "log_record \<Rightarrow> (string \<times> json) list" where
  "extra_fields r = filter (\<lambda>(k, v). k \<notin> set reserved_keys \<and> k \<notin> {''message'', ''asctime''}) (lr_dict r)"

definition log_payload :: "log_record \<Rightarrow> int \<Rightarrow> (string \<times> json) list" where
  "log_payload r now =
     (let payload = dict_update
            [(''timestamp'', JStr (isoformat_utc now)), (''level'', JStr (lr_levelname r)),
             (''logger'', JStr (lr_name r)), (''message'', JStr (lr_message r))] (extra_fields r)
      in case lr_exception r of None \<Rightarrow> payload | Some t \<Rightarrow> dict_set ''exception'' (JStr t) payload)"

definition format_record :: "log_record \<Rightarrow> int \<Rightarrow> string" where
  "format_record r now = render (JObj (log_payload r now))"

text \<open>\<open>configure_logging\<close> leaves the root logger with one handler and the given level.\<close>

record root_logger =
  rl_handlers :: "string list"
  rl_level :: string

definition configure_logging :: "string \<Rightarrow> root_logger \<Rightarrow> root_logger" where
  "configure_logging level lg = lg\<lparr>rl_handlers := [''JsonFormatter''], rl_level := level\<rparr>"

lemma configure_logging_once: "configure_logging l (configure_logging l' lg) = configure_logging l lg"
  by (simp add: configure_logging_def)

section \<open>Printable text\<close>

definition printable :: "char \<Rightarrow> bool" where
  "printable c \<longleftrightarrow> 32 \<le> (of_char c :: nat) \<and> (of_char c :: nat) \<le> 126"

lemma printable_punctuation:
  "printable (CHR ''['')" "printable (CHR '']'')" "printable (CHR ''{'')" "printable (CHR ''}'')"
  "printable (CHR '','')" "printable (CHR '':'')" "printable (CHR 0x22)"
  by (simp_all add: printable_def)

lemma printable_digits: "is_digit c \<Longrightarrow> printable c"
  by (auto simp: is_digit_def printable_def)

lemma printable_hex: "d < 16 \<Longrightarrow> printable (hex_char d)"
  by (auto simp: hex_char_def printable_def)

lemma printable_escape: "list_all printable (escape_char c)"
proof -
  have "of_char c div 16 < (16::nat)" using nat_of_char_less_256 [of c] by linarith
  then show ?thesis
    by (auto simp: escape_char_def Let_def printable_hex) (simp_all add: printable_def)
qed

lemma printable_quote: "list_all printable (quote s)"
  by (induction s) (auto simp: quote_def printable_escape, simp_all add: printable_def)

lemma printable_join: "list_all printable sep \<Longrightarrow> list_all (list_all printable) xs \<Longrightarrow> list_all printable (join_with sep xs)"
  by (induction sep xs rule: join_with.induct) auto

lemma printable_float: "float_text s \<Longrightarrow> list_all printable s"
  unfolding float_text_def number_char_def
  by (auto simp: list_all_iff printable_def is_digit_def)

lemma printable_render: "wf_json j \<Longrightarrow> list_all printable (render j)"
proof (induction j)
  case (JInt i)
  then show ?case
    using show_nat_digits printable_digits
    by (auto simp: show_int_def list_all_iff printable_def [of "CHR ''-''"])
next
  case (JArr xs)
  have "list_all printable (join_with '','' (map render xs))"
    using JArr by (intro printable_join) (auto simp: list_all_iff printable_punctuation)
  then show ?case by (simp add: printable_punctuation)
next
  case (JObj kvs)
  have "list_all printable (join_with '','' (map (\<lambda>(k, v). quote k @ '':'' @ render v) kvs))"
    using JObj printable_quote
    by (intro printable_join) (fastforce simp: list_all_iff printable_punctuation snds.simps)+
  then show ?case by (simp add: printable_punctuation)
qed (simp_all add: printable_quote printable_float, simp_all add: printable_def)

section \<open>One record, one line\<close>

text \<open>The values of a record have float texts only where Python prints them.\<close>

definition log_values_ok :: "log_record \<Rightarrow> bool" where
  "log_values_ok r \<longleftrightarrow> list_all (\<lambda>(k, v). wf_json v) (lr_dict r)"

lemma payload_wf: "log_values_ok r \<Longrightarrow> wf_json (JObj (log_payload r now))"
proof -
  assume ok: "log_values_ok r"
  let ?base = "[(''timestamp'', JStr (isoformat_utc now)), (''level'', JStr (lr_levelname r)),
      (''logger'', JStr (lr_name r)), (''message'', JStr (lr_message r))]"
  have "list_all (\<lambda>(k, v). wf_json v) (extra_fields r)"
    using ok by (auto simp: log_values_ok_def extra_fields_def list_all_iff)
  then have "list_all (\<lambda>(k, v). wf_json v) (dict_update ?base (extra_fields r))"
    by (intro wf_dict_update) simp_all
  moreover have "distinct (map fst (dict_update ?base (extra_fields r)))"
    by (intro distinct_dict_update) simp
  ultimately show ?thesis
    by (simp add: log_payload_def Let_def wf_dict_set distinct_dict_set split: option.splits)
qed

text \<open>Two records with the same line have the same payload, and no line contains a line break
  or any other control character, whatever the logged values are.\<close>

theorem log_lines_cannot_be_forged:
  assumes "log_values_ok r" "log_values_ok r'"
  shows "list_all printable (format_record r now)"
    and "format_record r now = format_record r' now' \<Longrightarrow> log_payload r now = log_payload r' now'"
proof -
  show "list_all printable (format_record r now)"
    unfolding format_record_def by (rule printable_render [OF payload_wf [OF assms(1)]])
  assume "format_record r now = format_record r' now'"
  then have "render (JObj (log_payload r now)) @ [] = render (JObj (log_payload r' now')) @ []"
    by (simp add: format_record_def)
  from render_unique [OF payload_wf [OF assms(1)] payload_wf [OF assms(2)] this] show
    "log_payload r now = log_payload r' now'" by simp
qed

text \<open>The four standard fields are shown as they are unless an extra field takes their name.\<close>

lemma log_standard_fields:
  assumes "distinct (map fst (lr_dict r))" "k \<notin> fst ` set (extra_fields r)" "k \<noteq> ''exception''"
  shows "map_of (log_payload r now) k =
    map_of [(''timestamp'', JStr (isoformat_utc now)), (''level'', JStr (lr_levelname r)),
      (''logger'', JStr (lr_name r)), (''message'', JStr (lr_message r))] k"
proof -
  have d: "distinct (map fst (extra_fields r))"
    unfolding extra_fields_def by (rule distinct_map_filter [OF assms(1)])
  show ?thesis
    unfolding log_payload_def Let_def using assms(3)
    by (cases "lr_exception r")
      (simp_all only: option.case map_of_dict_set fun_upd_apply if_False map_of_dict_update_other [OF d assms(2)])
qed

end
