(* ===== verification/JsonParse.thy ===== *)
theory JsonParse
  imports Dict
begin

text \<open>
  \<open>json.loads\<close> of Python on a \<open>str\<close>, for the reply of the language model in \<open>reference_agent/llm.py\<close>.
  A scan gives the value and the rest of the text, or fails where Python raises.  Strings of the
  model hold code points below 256; a text that escapes a larger one is \<open>Outside\<close> the model.
  \<open>float_repr\<close> is the text \<open>repr(float(t))\<close> of a number text.  The interpreter's limits on
  nesting and on the digits of an integer are left out.  The property: what \<open>json.dumps\<close> prints,
  \<open>json.loads\<close> reads back.
\<close>

datatype 'a scan = Scanned 'a string | Malformed | Outside

fun bind_scan :: "'a scan \<Rightarrow> ('a \<Rightarrow> string \<Rightarrow> 'b scan) \<Rightarrow> 'b scan" where
  "bind_scan (Scanned x r) f = f x r"
| "bind_scan Malformed f = Malformed"
| "bind_scan Outside f = Outside"

lemma bind_scan_cong [fundef_cong]:
  "a = b \<Longrightarrow> (\<And>x r. b = Scanned x r \<Longrightarrow> f x r = g x r) \<Longrightarrow> bind_scan a f = bind_scan b g"
  by (cases b) auto

lemma bind_scan_Scanned: "bind_scan a f = Scanned y t \<longleftrightarrow> (\<exists>x r. a = Scanned x r \<and> f x r = Scanned y t)"
  by (cases a) auto

lemma map_scan_Scanned: "map_scan f a = Scanned y t \<longleftrightarrow> (\<exists>x. a = Scanned x t \<and> y = f x)"
  by (cases a) auto

section \<open>White space and strings\<close>

definition is_ws :: "char \<Rightarrow> bool" where
  "is_ws c \<longleftrightarrow> c \<in> {CHR '' '', CHR 0x09, CHR 0x0A, CHR 0x0D}"

definition skip_ws :: "string \<Rightarrow> string" where
  "skip_ws s = dropWhile is_ws s"

lemma length_skip_ws: "length (skip_ws s) \<le> length s"
  by (simp add: skip_ws_def length_dropWhile_le)

definition hex_digit :: "char \<Rightarrow> nat option" where
  "hex_digit c =
     (let n = of_char c :: nat in
      if 48 \<le> n \<and> n \<le> 57 then Some (n - 48)
      else if 65 \<le> n \<and> n \<le> 70 then Some (n - 55)
      else if 97 \<le> n \<and> n \<le> 102 then Some (n - 87) else None)"

fun scan_hex :: "string \<Rightarrow> nat scan" where
  "scan_hex (a # b # c # d # r) =
     (case (hex_digit a, hex_digit b, hex_digit c, hex_digit d) of
        (Some w, Some x, Some y, Some z) \<Rightarrow> Scanned (((w * 16 + x) * 16 + y) * 16 + z) r
      | _ \<Rightarrow> Malformed)"
| "scan_hex s = Malformed"

definition simple_escapes :: "(char \<times> char) list" where
  "simple_escapes =
     [(CHR 0x22, CHR 0x22), (CHR 0x5C, CHR 0x5C), (CHR ''/'', CHR ''/''), (CHR ''b'', CHR 0x08),
      (CHR ''f'', CHR 0x0C), (CHR ''n'', CHR 0x0A), (CHR ''r'', CHR 0x0D), (CHR ''t'', CHR 0x09)]"

fun scan_escape :: "string \<Rightarrow> char scan" where
  "scan_escape [] = Malformed"
| "scan_escape (e # r) =
     (if e = CHR ''u''
      then bind_scan (scan_hex r) (\<lambda>n r'. if n < 256 then Scanned (char_of n) r' else Outside)
      else (case map_of simple_escapes e of None \<Rightarrow> Malformed | Some c \<Rightarrow> Scanned c r))"

lemma scan_hex_length: "scan_hex s = Scanned n r \<Longrightarrow> length r < length s"
  by (induction s rule: scan_hex.induct) (auto split: option.splits)

lemma scan_escape_length: "scan_escape s = Scanned c r \<Longrightarrow> length r < length s"
  by (cases s) (auto simp: bind_scan_Scanned split: if_splits option.splits dest: scan_hex_length)

text \<open>The characters after the opening quote, up to the closing one.\<close>

function scan_chars :: "string \<Rightarrow> string scan" where
  "scan_chars [] = Malformed"
| "scan_chars (c # r) =
     (if c = CHR 0x22 then Scanned [] r
      else if c = CHR 0x5C
      then bind_scan (scan_escape r) (\<lambda>d r'. map_scan ((#) d) (scan_chars r'))
      else if (of_char c :: nat) < 32 then Malformed
      else map_scan ((#) c) (scan_chars r))"
  by pat_completeness auto
termination
  by (relation "measure length") (auto dest: scan_escape_length)

lemma scan_chars_length: "scan_chars s = Scanned t r \<Longrightarrow> length r < length s"
proof (induction s arbitrary: t r rule: scan_chars.induct)
  case (2 c s)
  then show ?case
    by (fastforce simp: map_scan_Scanned bind_scan_Scanned split: if_splits dest: scan_escape_length)
qed simp

section \<open>Numbers\<close>

definition digits_of :: "string \<Rightarrow> string" where
  "digits_of s = takeWhile is_digit s"

text \<open>The longest prefix that matches \<open>(-?(0|[1-9][0-9]*))(\.[0-9]+)?([eE][-+]?[0-9]+)?\<close>, in its three groups.\<close>

definition integer_part :: "string \<Rightarrow> string" where
  "integer_part s =
     (let sign = (if starts_with ''-'' s then ''-'' else []); ds = digits_of (drop (length sign) s)
      in if ds = [] then [] else if hd ds = CHR ''0'' then sign @ ''0'' else sign @ ds)"

definition fraction_part :: "string \<Rightarrow> string" where
  "fraction_part s =
     (if starts_with ''.'' s \<and> digits_of (tl s) \<noteq> [] then ''.'' @ digits_of (tl s) else [])"

definition exponent_part :: "string \<Rightarrow> string" where
  "exponent_part s =
     (case s of [] \<Rightarrow> []
      | e # r \<Rightarrow>
          let sign = (if starts_with ''-'' r \<or> starts_with ''+'' r then take 1 r else []);
              ds = digits_of (drop (length sign) r)
          in if (e = CHR ''e'' \<or> e = CHR ''E'') \<and> ds \<noteq> [] then e # sign @ ds else [])"

definition int_of_text :: "string \<Rightarrow> int" where
  "int_of_text s = (if starts_with ''-'' s then - int (read_nat (tl s)) else int (read_nat s))"

definition scan_number :: "(string \<Rightarrow> string) \<Rightarrow> string \<Rightarrow> json scan" where
  "scan_number float_repr s =
     (let i = integer_part s; r1 = drop (length i) s;
          f = fraction_part r1; r2 = drop (length f) r1;
          e = exponent_part r2; r3 = drop (length e) r2
      in if i = [] then Malformed
         else if f = [] \<and> e = [] then Scanned (JInt (int_of_text i)) r3
         else Scanned (JFloat (float_repr (i @ f @ e))) r3)"

lemma length_tail_less: "x \<noteq> [] \<Longrightarrow> s \<noteq> [] \<Longrightarrow> length (drop (length x) s) < length s"
  by (cases x; cases s) auto

lemma integer_part_empty: "integer_part [] = []"
  by (simp add: integer_part_def digits_of_def starts_with_def)

lemma scan_number_length: "scan_number F s = Scanned j r \<Longrightarrow> length r < length s"
proof -
  assume scan: "scan_number F s = Scanned j r"
  define r1 where "r1 = drop (length (integer_part s)) s"
  have i: "integer_part s \<noteq> []" using scan by (auto simp: scan_number_def Let_def)
  then have "s \<noteq> []" using integer_part_empty by auto
  with i have "length r1 < length s" unfolding r1_def by (rule length_tail_less)
  moreover have "length r \<le> length r1"
    using scan i by (auto simp: scan_number_def Let_def r1_def split: if_splits)
  ultimately show ?thesis by simp
qed

section \<open>Values\<close>

text \<open>The constants, with what they stand for.\<close>

definition constants :: "(string \<times> json) list" where
  "constants =
     [(''null'', JNull), (''true'', JBool True), (''false'', JBool False), (''NaN'', JFloat ''NaN''),
      (''Infinity'', JFloat ''Infinity''), (''-Infinity'', JFloat ''-Infinity'')]"

definition scan_atom :: "(string \<Rightarrow> string) \<Rightarrow> string \<Rightarrow> json scan" where
  "scan_atom float_repr s =
     (case find (\<lambda>(t, j). starts_with t s) constants of
        Some (t, j) \<Rightarrow> Scanned j (drop (length t) s)
      | None \<Rightarrow> scan_number float_repr s)"

lemma scan_atom_length:
  assumes "scan_atom F s = Scanned j r"
  shows "length r < length s"
proof (cases "find (\<lambda>(t, j). starts_with t s) constants")
  case None
  with assms show ?thesis by (simp add: scan_atom_def scan_number_length)
next
  case (Some p)
  then obtain t j' where p: "p = (t, j')" "(t, j') \<in> set constants" "starts_with t s"
    by (cases p) (metis (mono_tags, lifting) case_prod_conv find_Some_iff nth_mem)
  then have "t \<noteq> []" "s \<noteq> []" by (auto simp: constants_def starts_with_def)
  with assms Some p(1) show ?thesis using length_tail_less [of t s] by (auto simp: scan_atom_def)
qed

text \<open>
  \<open>scan_value\<close> reads one value, \<open>scan_items\<close> the items of an array from the first one to its
  bracket, \<open>scan_members\<close> the members of an object from the quote of the first key to its brace.
\<close>

definition next_char :: "string \<Rightarrow> char scan" where
  "next_char s = (case skip_ws s of [] \<Rightarrow> Malformed | c # r \<Rightarrow> Scanned c r)"

lemma next_char_length: "next_char s = Scanned c r \<Longrightarrow> length r < length s"
  using length_skip_ws [of s] by (auto simp: next_char_def split: list.splits)

function scan_value :: "(string \<Rightarrow> string) \<Rightarrow> string \<Rightarrow> json scan"
  and scan_items :: "(string \<Rightarrow> string) \<Rightarrow> string \<Rightarrow> json list scan"
  and scan_members :: "(string \<Rightarrow> string) \<Rightarrow> string \<Rightarrow> (string \<times> json) list scan" where
  "scan_value F s =
     (case s of
        [] \<Rightarrow> Malformed
      | c # r \<Rightarrow>
          if c = CHR 0x22 then map_scan JStr (scan_chars r)
          else if c = CHR ''['' then
            bind_scan (next_char r) (\<lambda>d r'.
              if d = CHR '']'' then Scanned (JArr []) r' else map_scan JArr (scan_items F (d # r')))
          else if c = CHR ''{'' then
            bind_scan (next_char r) (\<lambda>d r'.
              if d = CHR ''}'' then Scanned (JObj []) r'
              else map_scan (\<lambda>kvs. JObj (dict_update [] kvs)) (scan_members F (d # r')))
          else scan_atom F s)"
| "scan_items F s =
     bind_scan (scan_value F s) (\<lambda>x r.
     bind_scan (next_char r) (\<lambda>d r'.
       if d = CHR '']'' then Scanned [x] r'
       else if d = CHR '','' then map_scan ((#) x) (scan_items F (skip_ws r'))
       else Malformed))"
| "scan_members F s =
     (case s of
        [] \<Rightarrow> Malformed
      | c # r \<Rightarrow>
          if c \<noteq> CHR 0x22 then Malformed
          else
            bind_scan (scan_chars r) (\<lambda>k r1.
            bind_scan (next_char r1) (\<lambda>d r2.
              if d \<noteq> CHR '':'' then Malformed
              else
                bind_scan (scan_value F (skip_ws r2)) (\<lambda>v r3.
                bind_scan (next_char r3) (\<lambda>e r4.
                  if e = CHR ''}'' then Scanned [(k, v)] r4
                  else if e = CHR '','' then map_scan ((#) (k, v)) (scan_members F (skip_ws r4))
                  else Malformed)))))"
  by pat_completeness auto

text \<open>Each scan consumes at least one character; with that the recursion terminates.\<close>

lemma scan_progress:
  "scan_value_scan_items_scan_members_dom (Inl (F, s)) \<Longrightarrow> scan_value F s = Scanned v r \<Longrightarrow> length r < length s"
  "scan_value_scan_items_scan_members_dom (Inr (Inl (F, s))) \<Longrightarrow> scan_items F s = Scanned vs r \<Longrightarrow> length r < length s"
  "scan_value_scan_items_scan_members_dom (Inr (Inr (F, s))) \<Longrightarrow> scan_members F s = Scanned kvs r \<Longrightarrow> length r < length s"
proof (induction arbitrary: v r and vs r and kvs r rule: scan_value_scan_items_scan_members.pinduct)
  case (1 F s)
  show ?case
  proof (cases s)
    case Nil
    with 1(1,4) show ?thesis by (simp add: scan_value.psimps)
  next
    case (Cons c t)
    note step = 1(4) [unfolded scan_value.psimps [OF 1(1)], unfolded Cons list.case]
    have inner: "length r \<le> length t" if "next_char t = Scanned d t'"
      and "c = CHR ''['' \<and> d \<noteq> CHR '']'' \<and> (\<exists>xs. scan_items F (d # t') = Scanned xs r) \<or>
        c = CHR ''{'' \<and> d \<noteq> CHR ''}'' \<and> (\<exists>kvs. scan_members F (d # t') = Scanned kvs r)" for d t'
      using that(2) 1(2) [OF Cons _ _ that(1)] 1(3) [OF Cons _ _ _ that(1)] next_char_length [OF that(1)] by fastforce
    have "length r \<le> length t"
      using step inner
      by (auto simp: bind_scan_Scanned map_scan_Scanned split: if_splits
          dest: next_char_length scan_chars_length scan_atom_length)
    then show ?thesis using Cons by simp
  qed
next
  case (2 F s)
  obtain x t d t' where t: "scan_value F s = Scanned x t" "next_char t = Scanned d t'"
    and rest: "d = CHR '']'' \<and> r = t' \<or> d = CHR '','' \<and> (\<exists>xs. scan_items F (skip_ws t') = Scanned xs r)"
    using 2(4) unfolding scan_items.psimps [OF 2(1)]
    by (auto simp: bind_scan_Scanned map_scan_Scanned split: if_splits)
  have "length r \<le> length t'"
    using rest 2(3) [OF t] length_skip_ws [of t'] by fastforce
  with 2(2) [OF t(1)] next_char_length [OF t(2)] show ?case by simp
next
  case (3 F s)
  obtain k t1 d t2 v t3 e t4 where t: "s = CHR 0x22 # tl s" "scan_chars (tl s) = Scanned k t1"
      "next_char t1 = Scanned d t2" "\<not> d \<noteq> CHR '':''" "scan_value F (skip_ws t2) = Scanned v t3"
      "next_char t3 = Scanned e t4"
    and rest: "e = CHR ''}'' \<and> r = t4 \<or> e = CHR '','' \<and> (\<exists>xs. scan_members F (skip_ws t4) = Scanned xs r)"
    using 3(4) unfolding scan_members.psimps [OF 3(1)]
    by (auto simp: bind_scan_Scanned map_scan_Scanned split: list.splits if_splits)
  have "length t3 < length (skip_ws t2)" using 3(2) [OF t(1) _ t(2,3,4,5)] by simp
  moreover have "length r \<le> length t4"
    using rest 3(3) [OF t(1) _ t(2-6)] length_skip_ws [of t4] by fastforce
  moreover have "length (tl s) < length s" using t(1) by (metis length_Cons lessI)
  ultimately show ?case
    using scan_chars_length [OF t(2)] next_char_length [OF t(3)] next_char_length [OF t(6)] length_skip_ws [of t2]
    by linarith
qed

lemma scan_progress_ws:
  "scan_value_scan_items_scan_members_dom (Inl (F, skip_ws s)) \<Longrightarrow> scan_value F (skip_ws s) = Scanned v r \<Longrightarrow>
   length r < length s"
  using scan_progress(1) length_skip_ws [of s] by fastforce

lemma skip_ws_measure:
  "2 * length r < n \<Longrightarrow> 2 * length (skip_ws r) < n" "length r < n \<Longrightarrow> length (skip_ws r) < n"
  using length_skip_ws [of r] by linarith+

termination scan_value
proof (relation "measure (\<lambda>x. case x of Inl (F, s) \<Rightarrow> 2 * length s | Inr (Inl (F, s)) \<Rightarrow> 2 * length s + 1
    | Inr (Inr (F, s)) \<Rightarrow> 2 * length s + 1)", goal_cases)
  case 7
  then show ?case
    by (auto dest!: next_char_length scan_chars_length scan_progress_ws intro!: skip_ws_measure)
qed (auto dest!: next_char_length scan_chars_length scan_progress intro!: skip_ws_measure)

declare scan_value.simps [simp del] scan_items.simps [simp del] scan_members.simps [simp del]

text \<open>\<open>json.loads\<close>: one value between white space.\<close>

definition json_loads :: "(string \<Rightarrow> string) \<Rightarrow> string \<Rightarrow> json scan" where
  "json_loads F s =
     bind_scan (scan_value F (skip_ws s)) (\<lambda>j r. if skip_ws r = [] then Scanned j [] else Malformed)"

section \<open>Reading back what was printed\<close>

lemma hex_digit_char: "d < 16 \<Longrightarrow> hex_digit (hex_char d) = Some d"
  by (auto simp: hex_digit_def hex_char_def Let_def)

lemma hex_digit_zero: "hex_digit CHR ''0'' = Some 0"
  by (simp add: hex_digit_def)

lemma control_codes:
  "(of_char c :: nat) = 8 \<longleftrightarrow> c = CHR 0x08" "(of_char c :: nat) = 9 \<longleftrightarrow> c = CHR 0x09"
  "(of_char c :: nat) = 10 \<longleftrightarrow> c = CHR 0x0A" "(of_char c :: nat) = 12 \<longleftrightarrow> c = CHR 0x0C"
  "(of_char c :: nat) = 13 \<longleftrightarrow> c = CHR 0x0D"
  using of_char_eq_iff [where 'a = nat, of c "CHR 0x08"] of_char_eq_iff [where 'a = nat, of c "CHR 0x09"]
    of_char_eq_iff [where 'a = nat, of c "CHR 0x0A"] of_char_eq_iff [where 'a = nat, of c "CHR 0x0C"]
    of_char_eq_iff [where 'a = nat, of c "CHR 0x0D"] by simp_all

lemma scan_chars_escape:
  "scan_chars (escape_char c @ r) = map_scan ((#) c) (scan_chars r)"
proof -
  have n: "of_char c div 16 < (16::nat)" using nat_of_char_less_256 [of c] by linarith
  have hex: "scan_hex (CHR ''0'' # CHR ''0'' # hex_char (of_char c div 16) # hex_char (of_char c mod 16) # r) =
      Scanned (of_char c) r"
    using n by (simp add: hex_digit_char hex_digit_zero)
  show ?thesis
    using nat_of_char_less_256 [of c]
    by (auto simp: escape_char_def Let_def simple_escapes_def code_quote code_backslash control_codes hex simp del: scan_hex.simps)
qed

lemma scan_chars_quote: "scan_chars (concat (map escape_char s) @ CHR 0x22 # r) = Scanned s r"
  by (induction s) (simp_all add: scan_chars_escape)

text \<open>Number texts: the three groups of what was printed, before a delimiter.\<close>

definition number_end :: "string \<Rightarrow> bool" where
  "number_end r \<longleftrightarrow> (case r of [] \<Rightarrow> True | c # _ \<Rightarrow> \<not> number_char c)"

lemma delim_number_end: "delim r \<Longrightarrow> number_end r"
  by (cases r) (auto simp: number_end_def dest: number_char_not_delim)

definition digits_end :: "string \<Rightarrow> bool" where
  "digits_end r \<longleftrightarrow> (case r of [] \<Rightarrow> True | c # _ \<Rightarrow> \<not> is_digit c)"

lemma number_end_digits: "number_end r \<Longrightarrow> digits_end r"
  by (cases r) (auto simp: number_end_def digits_end_def number_char_def)

lemma digits_of_append: "list_all is_digit ds \<Longrightarrow> digits_end r \<Longrightarrow> digits_of (ds @ r) = ds"
  by (induction ds) (cases r; simp add: digits_of_def digits_end_def; fail)+

lemma show_nat_first: "show_nat n \<noteq> ''0'' \<Longrightarrow> hd (show_nat n) \<noteq> CHR ''0''"
proof (induction n rule: show_nat.induct)
  case (1 n)
  show ?case
  proof (cases "n < 10")
    case True
    with 1(2) show ?thesis
      by (subst show_nat.simps, subst (asm) show_nat.simps) (auto simp: digit_char_def)
  next
    case False
    then have "0 < n div 10" by simp
    then have "show_nat (n div 10) \<noteq> ''0''" using read_show_nat [of "n div 10"] by (auto simp: read_nat_def digit_value_def)
    with 1(1) False show ?thesis by (subst show_nat.simps) simp
  qed
qed

definition integer_digits :: "string \<Rightarrow> bool" where
  "integer_digits ds \<longleftrightarrow> list_all is_digit ds \<and> ds \<noteq> [] \<and> (hd ds = CHR ''0'' \<longrightarrow> ds = ''0'')"

lemma show_nat_integer: "integer_digits (show_nat n)"
  using show_nat_digits show_nat_first by (auto simp: integer_digits_def)

lemma starts_with_Cons: "starts_with [c] (d # s) \<longleftrightarrow> d = c" "\<not> starts_with [c] []"
  by (auto simp: starts_with_def)

lemma integer_part_append:
  assumes "integer_digits ds" "digits_end r"
  shows "integer_part (ds @ r) = ds" "integer_part (CHR ''-'' # ds @ r) = CHR ''-'' # ds"
proof -
  have d: "digits_of (ds @ r) = ds" using assms by (simp add: digits_of_append integer_digits_def)
  obtain c t where c: "ds = c # t" using assms(1) by (cases ds) (auto simp: integer_digits_def)
  with assms(1) have "c \<noteq> CHR ''-''" by (auto simp: integer_digits_def is_digit_def)
  then show "integer_part (ds @ r) = ds" "integer_part (CHR ''-'' # ds @ r) = CHR ''-'' # ds"
    using d c assms(1) by (auto simp: integer_part_def starts_with_Cons integer_digits_def Let_def)
qed

text \<open>A fraction and an exponent as \<open>repr\<close> prints them.\<close>

definition fraction_text :: "string \<Rightarrow> bool" where
  "fraction_text f \<longleftrightarrow> f = [] \<or> (f = CHR ''.'' # tl f \<and> list_all is_digit (tl f) \<and> tl f \<noteq> [])"

definition exponent_text :: "string \<Rightarrow> bool" where
  "exponent_text e \<longleftrightarrow> e = [] \<or>
     (\<exists>sign ds. e = CHR ''e'' # sign # ds \<and> sign \<in> set ''+-'' \<and> list_all is_digit ds \<and> ds \<noteq> [])"

lemma fraction_part_append: "fraction_text f \<Longrightarrow> digits_end r \<Longrightarrow> f \<noteq> [] \<or> \<not> starts_with ''.'' r \<Longrightarrow> fraction_part (f @ r) = f"
  by (cases f) (auto simp: fraction_text_def fraction_part_def starts_with_Cons digits_of_append)

lemma exponent_part_append:
  assumes "exponent_text e" "number_end r"
  shows "exponent_part (e @ r) = e"
proof (cases "e = []")
  case True
  with assms(2) show ?thesis by (cases r) (auto simp: exponent_part_def number_end_def number_char_def Let_def)
next
  case False
  with assms(1) obtain sign ds where e: "e = CHR ''e'' # sign # ds" "sign \<in> set ''+-''" "list_all is_digit ds" "ds \<noteq> []"
    by (auto simp: exponent_text_def)
  have "digits_of (ds @ r) = ds" using e(3) assms(2) by (simp add: digits_of_append number_end_digits)
  with e show ?thesis by (auto simp: exponent_part_def starts_with_Cons)
qed

lemma exponent_start: "exponent_text e \<Longrightarrow> number_end r \<Longrightarrow> digits_end (e @ r) \<and> \<not> starts_with ''.'' (e @ r)"
  by (cases e; cases r) (auto simp: exponent_text_def digits_end_def number_end_def number_char_def is_digit_def starts_with_Cons)

lemma fraction_start: "fraction_text f \<Longrightarrow> digits_end r \<Longrightarrow> digits_end (f @ r)"
  by (cases f) (auto simp: fraction_text_def digits_end_def is_digit_def)

lemma scan_number_text:
  assumes "integer_digits ds" "fraction_text f" "exponent_text e" "number_end r" "sign = [] \<or> sign = ''-''"
  shows "scan_number F (sign @ ds @ f @ e @ r) =
    (if f = [] \<and> e = [] then Scanned (JInt (int_of_text (sign @ ds))) r
     else Scanned (JFloat (F (sign @ ds @ f @ e))) r)"
proof -
  have e: "digits_end (e @ r)" "\<not> starts_with ''.'' (e @ r)" using exponent_start [OF assms(3,4)] by simp_all
  have i: "integer_part (sign @ ds @ f @ e @ r) = sign @ ds"
    using integer_part_append [OF assms(1) fraction_start [OF assms(2) e(1)]] assms(5) by auto
  have parts: "fraction_part (f @ e @ r) = f" "exponent_part (e @ r) = e" "(sign @ ds = []) = False"
    using fraction_part_append [OF assms(2) e(1)] e(2) exponent_part_append [OF assms(3,4)] assms(1)
    by (simp_all add: integer_digits_def)
  have drops: "drop (length (sign @ ds)) (sign @ ds @ f @ e @ r) = f @ e @ r" "drop (length f) (f @ e @ r) = e @ r"
    "drop (length e) (e @ r) = r" by simp_all
  show ?thesis
    unfolding scan_number_def Let_def i drops(1) parts(1) drops(2) parts(2) drops(3) parts(3) if_False append_assoc ..
qed

text \<open>The JSON values whose floats are as \<open>dumps\<close> prints them and keep their text through \<open>float_repr\<close>.\<close>

definition float_prints :: "(string \<Rightarrow> string) \<Rightarrow> string \<Rightarrow> bool" where
  "float_prints F s \<longleftrightarrow>
     s \<in> {''NaN'', ''Infinity'', ''-Infinity''} \<or>
     (F s = s \<and> (\<exists>sign ds f e. s = sign @ ds @ f @ e \<and> (sign = [] \<or> sign = ''-'') \<and> integer_digits ds \<and>
        fraction_text f \<and> exponent_text e \<and> (f \<noteq> [] \<or> e \<noteq> [])))"

fun floats_print :: "(string \<Rightarrow> string) \<Rightarrow> json \<Rightarrow> bool" where
  "floats_print F (JFloat s) = float_prints F s"
| "floats_print F (JArr xs) = list_all (floats_print F) xs"
| "floats_print F (JObj kvs) = list_all (\<lambda>(k, v). floats_print F v) kvs"
| "floats_print F j = True"

lemma starts_with_append: "starts_with p (p @ r)"
  by (simp add: starts_with_def)

lemma constant_start: "(t, j) \<in> set constants \<Longrightarrow> starts_with t (c # s) \<Longrightarrow> c \<in> set ''ntfNI'' \<or> c = CHR ''-'' \<and> starts_with ''I'' s"
  by (cases s) (auto simp: constants_def starts_with_def)

lemma scan_atom_number:
  assumes "c \<notin> set ''ntfNI''" "c = CHR ''-'' \<Longrightarrow> \<not> starts_with ''I'' s"
  shows "scan_atom F (c # s) = scan_number F (c # s)"
proof -
  have "find (\<lambda>(t, j). starts_with t (c # s)) constants = None"
    using constant_start [of _ _ c s] assms by (auto simp: find_None_iff)
  then show ?thesis by (simp add: scan_atom_def)
qed

lemma scan_atom_number_text:
  assumes "integer_digits ds" "fraction_text f" "exponent_text e" "number_end r" "sign = [] \<or> sign = ''-''"
  shows "scan_atom F (sign @ ds @ f @ e @ r) =
    (if f = [] \<and> e = [] then Scanned (JInt (int_of_text (sign @ ds))) r
     else Scanned (JFloat (F (sign @ ds @ f @ e))) r)"
proof -
  obtain c t where c: "ds = c # t" "is_digit c" using assms(1) by (cases ds) (auto simp: integer_digits_def)
  then have "c \<notin> set ''ntfNI''" "c \<noteq> CHR ''-''" "c \<noteq> CHR ''I''" by (auto simp: is_digit_def)
  then have "scan_atom F (sign @ ds @ f @ e @ r) = scan_number F (sign @ ds @ f @ e @ r)"
    using assms(5) c(1) scan_atom_number [of c "t @ f @ e @ r" F] scan_atom_number [of "CHR ''-''" "ds @ f @ e @ r" F]
    by (auto simp: starts_with_Cons)
  with scan_number_text [OF assms] show ?thesis by simp
qed

lemma int_of_show: "int_of_text (show_int i) = i"
proof -
  have "\<not> starts_with ''-'' (show_nat n)" for n
    using show_nat_no_minus [of n] by (cases "show_nat n") (auto simp: starts_with_def)
  then show ?thesis by (auto simp: int_of_text_def show_int_def read_show_nat starts_with_Cons)
qed

lemma scan_atom_int: "number_end r \<Longrightarrow> scan_atom F (show_int i @ r) = Scanned (JInt i) r"
  using scan_atom_number_text [OF show_nat_integer, of "[]" "[]" r "if i < 0 then ''-'' else []" F "nat \<bar>i\<bar>"] int_of_show [of i]
  by (auto simp: show_int_def fraction_text_def exponent_text_def)

lemma scan_atom_float: "float_prints F s \<Longrightarrow> number_end r \<Longrightarrow> scan_atom F (s @ r) = Scanned (JFloat s) r"
proof -
  assume r: "number_end r" and "float_prints F s"
  then consider "s \<in> {''NaN'', ''Infinity'', ''-Infinity''}"
    | sign ds f e where "F s = s" "s = sign @ ds @ f @ e" "sign = [] \<or> sign = ''-''" "integer_digits ds"
        "fraction_text f" "exponent_text e" "f \<noteq> [] \<or> e \<noteq> []"
    unfolding float_prints_def by blast
  then show ?thesis
  proof cases
    case 1
    then show ?thesis by (auto simp: scan_atom_def constants_def starts_with_def)
  next
    case 2
    from scan_atom_number_text [OF 2(4-6) r 2(3), of F] 2(1,2,7) show ?thesis by auto
  qed
qed

text \<open>White space never starts a printed value.\<close>

lemma skip_ws_keep: "\<not> is_ws c \<Longrightarrow> skip_ws (c # s) = c # s"
  by (simp add: skip_ws_def)

lemma next_char_keep: "\<not> is_ws c \<Longrightarrow> next_char (c # s) = Scanned c s"
  by (simp add: next_char_def skip_ws_keep)

lemma punctuation_not_ws [simp]:
  "\<not> is_ws CHR '',''" "\<not> is_ws CHR '']''" "\<not> is_ws CHR ''}''" "\<not> is_ws CHR '':''" "\<not> is_ws CHR 0x22"
  by (simp_all add: is_ws_def)

lemma render_start:
  assumes "wf_json j"
  obtains c t where "render j = c # t" "\<not> is_ws c" "c \<noteq> CHR '']''"
proof -
  obtain c t where c: "render j = c # t" "\<not> delim_char c" using render_first [OF assms] by blast
  have "\<not> is_ws c"
  proof (cases "is_atom j")
    case True
    then have "atom_start c" using atom_first [OF True assms] c(1) by auto
    then show ?thesis by (auto simp: atom_start_def number_char_def is_digit_def is_ws_def)
  next
    case False
    with c(1) show ?thesis by (cases j) (auto simp: quote_def is_ws_def)
  qed
  with c that show thesis by (auto simp: delim_char_def)
qed

lemma skip_ws_render: "wf_json j \<Longrightarrow> skip_ws (render j @ r) = render j @ r"
  by (erule render_start) (simp add: skip_ws_keep)

lemma scan_value_atom:
  assumes "is_atom j" "wf_json j"
  shows "scan_value F (render j @ r) = scan_atom F (render j @ r)"
proof -
  obtain c t where c: "render j = c # t" "atom_start c" using atom_first [OF assms] by blast
  then have "c \<noteq> CHR 0x22" "c \<noteq> CHR ''[''" "c \<noteq> CHR ''{''" using atom_start_kind [of c] by (auto simp: char_kind_def)
  with c(1) show ?thesis by (simp add: scan_value.simps)
qed

lemma scan_value_atom_render:
  assumes "is_atom j" "wf_json j" "floats_print F j" "delim r"
  shows "scan_value F (render j @ r) = Scanned j r"
  unfolding scan_value_atom [OF assms(1,2)]
  using assms delim_number_end [OF assms(4)] scan_atom_int scan_atom_float
  by (cases j) (auto simp: scan_atom_def constants_def starts_with_def)

definition reads_back :: "(string \<Rightarrow> string) \<Rightarrow> json \<Rightarrow> bool" where
  "reads_back F x \<longleftrightarrow> wf_json x \<and> (\<forall>r. delim r \<longrightarrow> scan_value F (render x @ r) = Scanned x r)"

lemma scan_items_render:
  "xs \<noteq> [] \<Longrightarrow> \<forall>x \<in> set xs. reads_back F x \<Longrightarrow>
   scan_items F (join_with '','' (map render xs) @ CHR '']'' # r) = Scanned xs r"
proof (induction xs)
  case (Cons x xs)
  then have x: "scan_value F (render x @ t) = Scanned x t" if "delim t" for t
    using that by (simp add: reads_back_def)
  show ?case
  proof (cases xs)
    case Nil
    then show ?thesis
      using x [of "CHR '']'' # r"] by (simp add: scan_items.simps delim_char_def next_char_keep)
  next
    case (Cons y ys)
    let ?rest = "join_with '','' (map render xs) @ CHR '']'' # r"
    have "skip_ws ?rest = ?rest"
      using skip_ws_render [of y "join_with '','' [] @ concat (map (\<lambda>z. '','' @ z) (map render ys)) @ CHR '']'' # r"]
        Cons.prems(2) Cons by (simp add: join_with_Cons reads_back_def)
    moreover have "scan_items F ?rest = Scanned xs r" using Cons.IH Cons.prems(2) Cons by simp
    moreover have "join_with '','' (map render (x # xs)) @ CHR '']'' # r = render x @ CHR '','' # ?rest"
      using Cons by simp
    ultimately show ?thesis
      using x [of "CHR '','' # ?rest"] by (simp only: scan_items.simps [of F "render x @ CHR '','' # ?rest"])
        (simp add: delim_char_def next_char_keep)
  qed
qed simp

definition render_member :: "string \<times> json \<Rightarrow> string" where
  "render_member = (\<lambda>(k, v). quote k @ '':'' @ render v)"

lemma scan_members_render:
  "kvs \<noteq> [] \<Longrightarrow> \<forall>(k, v) \<in> set kvs. reads_back F v \<Longrightarrow>
   scan_members F (join_with '','' (map render_member kvs) @ CHR ''}'' # r) = Scanned kvs r"
proof (induction kvs)
  case (Cons m kvs)
  obtain k v where m: "m = (k, v)" by (cases m)
  with Cons.prems have v: "scan_value F (render v @ t) = Scanned v t" "wf_json v" if "delim t" for t
    using that by (auto simp: reads_back_def)
  have chars: "scan_chars (concat (map escape_char k) @ CHR 0x22 # t) = Scanned k t" for t
    by (rule scan_chars_quote)
  have step: "scan_members F (render_member m @ e # t) =
      (if e = CHR ''}'' then Scanned [m] t
       else if e = CHR '','' then map_scan ((#) m) (scan_members F (skip_ws t)) else Malformed)"
    if e: "e = CHR ''}'' \<or> e = CHR '',''" for e t
    using v [of "e # t"] e m skip_ws_render [OF v(2) [of "e # t"], of "e # t"]
    by (auto simp: scan_members.simps render_member_def quote_def chars next_char_keep delim_char_def)
  show ?case
  proof (cases kvs)
    case Nil
    then show ?thesis by (simp add: step)
  next
    case (Cons y ys)
    let ?rest = "join_with '','' (map render_member kvs) @ CHR ''}'' # r"
    obtain k' v' where y: "y = (k', v')" by (cases y)
    have "skip_ws ?rest = ?rest" using Cons y by (simp add: join_with_Cons render_member_def quote_def skip_ws_keep)
    moreover have "scan_members F ?rest = Scanned kvs r" using Cons.IH Cons.prems(2) Cons by simp
    moreover have "join_with '','' (map render_member (m # kvs)) @ CHR ''}'' # r = render_member m @ CHR '','' # ?rest"
      using Cons by simp
    ultimately show ?thesis using step [of "CHR '',''" ?rest] by simp
  qed
qed simp

lemma dict_update_distinct:
  "distinct (map fst kvs @ map fst new) \<Longrightarrow> dict_update kvs new = kvs @ new"
proof (induction new arbitrary: kvs)
  case (Cons x new)
  obtain k v where x: "x = (k, v)" by (cases x)
  have "k \<notin> fst ` set kvs" using Cons.prems x by auto
  then have "dict_set k v kvs = kvs @ [(k, v)]" by (induction kvs) auto
  with Cons.IH [of "kvs @ [(k, v)]"] Cons.prems x show ?case by simp
qed simp

theorem scan_render: "wf_json j \<Longrightarrow> floats_print F j \<Longrightarrow> delim r \<Longrightarrow> scan_value F (render j @ r) = Scanned j r"
proof (induction j arbitrary: r)
  case (JStr s)
  show ?case by (simp add: scan_value.simps quote_def scan_chars_quote)
next
  case (JArr xs)
  show ?case
  proof (cases xs)
    case Nil
    then show ?thesis by (simp add: scan_value.simps next_char_keep)
  next
    case (Cons x ys)
    have reads: "\<forall>x \<in> set xs. reads_back F x" using JArr by (auto simp: reads_back_def list_all_iff)
    obtain c t where c: "render x = c # t" "\<not> is_ws c" "c \<noteq> CHR '']''"
      using render_start [of x] JArr.prems(1) Cons by auto
    obtain u where u: "join_with '','' (map render xs) @ CHR '']'' # r = c # u"
      using c(1) Cons by (simp add: join_with_Cons)
    have "scan_items F (c # u) = Scanned xs r" using scan_items_render [OF _ reads, of r] Cons u by simp
    then show ?thesis using u c by (simp add: scan_value.simps next_char_keep)
  qed
next
  case (JObj kvs)
  show ?case
  proof (cases kvs)
    case Nil
    then show ?thesis by (simp add: scan_value.simps next_char_keep)
  next
    case (Cons m ys)
    have reads: "\<forall>(k, v) \<in> set kvs. reads_back F v"
      using JObj by (fastforce simp: reads_back_def list_all_iff snds.simps)
    obtain u where u: "join_with '','' (map render_member kvs) @ CHR ''}'' # r = CHR 0x22 # u"
      using Cons by (cases m) (simp add: join_with_Cons render_member_def quote_def)
    have "scan_members F (CHR 0x22 # u) = Scanned kvs r" using scan_members_render [OF _ reads, of r] Cons u by simp
    moreover have "dict_update [] kvs = kvs" using dict_update_distinct [of "[]" kvs] JObj.prems(1) by simp
    ultimately show ?thesis
      using u [unfolded render_member_def] by (simp add: scan_value.simps next_char_keep)
  qed
qed (rule scan_value_atom_render; simp)+

lemma floats_print_canonical: "floats_print F j \<Longrightarrow> floats_print F (canonical j)"
  by (induction j) (auto simp: list_all_iff snds.simps)

text \<open>Reading what \<open>json.dumps\<close> printed gives the value, with the keys of every object in order.\<close>

theorem loads_dumps:
  assumes "wf_json j" "floats_print F j"
  shows "json_loads F (json_dumps j) = Scanned (canonical j) []"
proof -
  have "scan_value F (render (canonical j) @ []) = Scanned (canonical j) []"
    by (rule scan_render) (simp_all add: wf_canonical floats_print_canonical assms)
  then show ?thesis
    using skip_ws_render [OF wf_canonical [OF assms(1)], of "[]"]
    by (simp add: json_loads_def json_dumps_render skip_ws_def)
qed

end
