(* ===== verification/ReferenceAgent.thy ===== *)
theory ReferenceAgent
  imports JsonParse ProxyApp
begin

text \<open>
  The reference agent: \<open>tool_registry.py\<close>, \<open>tool_executor.py\<close>, \<open>llm.py\<close>, \<open>api.py\<close>, \<open>schemas.py\<close> and
  \<open>main.py\<close> of \<open>services/reference_agent\<close>.  The language model behind the OpenAI client is the
  parameter \<open>llm\<close>: it answers a chat request with the content of its first choice, which may be
  absent, or raises.  A reply the parser places outside the model's characters has no answer
  here (\<open>None\<close>).  The properties: which replies become tool calls, that no reply makes the agent
  fail, and that the agent calls a tool exactly as the model printed it.
\<close>

section \<open>Tools\<close>

definition customer_schema :: "(string \<times> json) list \<Rightarrow> json" where
  "customer_schema further = JObj ((''customer_id'', JStr ''string'') # further)"

definition tool_entry :: "string \<Rightarrow> string \<Rightarrow> json \<Rightarrow> json" where
  "tool_entry operation description parameters =
     JObj [(''tool'', JStr ''crm''), (''operation'', JStr operation), (''description'', JStr description),
           (''parameters'', parameters)]"

definition TOOLS :: json where
  "TOOLS =
     JArr [tool_entry ''read_customer'' ''Read customer details from CRM.'' (customer_schema []),
           tool_entry ''write_customer'' ''Update customer details.''
             (customer_schema [(''changes'', JObj [(''name'', JStr ''string''), (''email'', JStr ''string''),
                (''support_tier'', JStr ''string''), (''address'', JStr ''string'')])]),
           tool_entry ''delete_customer'' ''Delete a customer.'' (customer_schema [])]"

text \<open>What \<open>execute_tool\<close> returns; it only prints the call and gives it back.\<close>

definition echo_call :: "json \<Rightarrow> json \<Rightarrow> json \<Rightarrow> json" where
  "echo_call tool operation parameters =
     JObj [(''tool'', tool), (''operation'', operation), (''parameters'', parameters)]"

definition execute_tool :: "json \<Rightarrow> json \<Rightarrow> json \<Rightarrow> json" where
  "execute_tool tool operation parameters =
     (if tool \<noteq> JStr ''crm'' then JObj [(''error'', JStr ''Unknown tool.'')]
      else if operation = JStr ''read_customer'' then echo_call tool operation parameters
      else if operation = JStr ''write_customer'' then echo_call tool operation parameters
      else if operation = JStr ''delete_customer'' then echo_call tool operation parameters
      else JObj [(''error'', JStr ''Unknown operation.'')])"

section \<open>The prompt\<close>

text \<open>\<open>json.dumps(j, indent=2)\<close>, with \<open>n\<close> the current depth.\<close>

definition new_line :: "nat \<Rightarrow> string" where
  "new_line n = CHR 0x0A # replicate (2 * n) CHR '' ''"

fun dumps_indented :: "nat \<Rightarrow> json \<Rightarrow> string" where
  "dumps_indented n (JArr xs) =
     (if xs = [] then ''[]''
      else ''['' @ new_line (n + 1) @ join_with ('','' @ new_line (n + 1)) (map (dumps_indented (n + 1)) xs) @
        new_line n @ '']'')"
| "dumps_indented n (JObj kvs) =
     (if kvs = [] then ''{}''
      else ''{'' @ new_line (n + 1) @
        join_with ('','' @ new_line (n + 1)) (map (\<lambda>(k, v). quote k @ '': '' @ dumps_indented (n + 1) v) kvs) @
        new_line n @ ''}'')"
| "dumps_indented n JNull = ''null''"
| "dumps_indented n (JBool b) = (if b then ''true'' else ''false'')"
| "dumps_indented n (JInt i) = show_int i"
| "dumps_indented n (JFloat s) = s"
| "dumps_indented n (JStr s) = quote s"

definition text_lines :: "string list \<Rightarrow> string" where
  "text_lines ls = join_with [CHR 0x0A] ls"

text \<open>A line \<open>"k":"v",\<close> of the examples, indented by \<open>n\<close> blanks, and the call shown for one operation.\<close>

definition example_field :: "nat \<Rightarrow> string \<Rightarrow> string \<Rightarrow> string" where
  "example_field n k v = replicate n CHR '' '' @ quote k @ '':'' @ quote v"

definition example_open :: "nat \<Rightarrow> string \<Rightarrow> string" where
  "example_open n k = replicate n CHR '' '' @ quote k @ '': {''"

definition example_call :: "string \<Rightarrow> string list \<Rightarrow> string list" where
  "example_call operation parameters =
     [''{'', example_field 4 ''tool'' ''crm'' @ '','', example_field 4 ''operation'' operation @ '','',
      example_open 4 ''parameters''] @ parameters @ [''    }'', ''}'']"

definition system_prompt :: string where
  "system_prompt =
     text_lines
       ([[], ''You are an AI CRM Assistant.'', [], ''Available tools:'', [], dumps_indented 0 TOOLS, [], ''Rules:'', [],
         ''1. If the user wants to retrieve a customer, respond ONLY with:'', []] @
        example_call ''read_customer'' [example_field 8 ''customer_id'' ''CUSTOMER_ID''] @
        [[], ''2. If the user wants to update a customer, respond ONLY with:'', []] @
        example_call ''write_customer''
          [example_field 8 ''customer_id'' ''CUSTOMER_ID'' @ '','', example_open 8 ''changes'',
           example_field 12 ''email'' ''new@email.com'', ''        }''] @
        [[], ''3. If the user wants to delete a customer, respond ONLY with:'', []] @
        example_call ''delete_customer'' [example_field 8 ''customer_id'' ''CUSTOMER_ID''] @
        [[], ''If a tool is required,'', ''respond ONLY with JSON.'', [], ''Otherwise answer normally.'', []])"

record llm_request =
  lq_model :: string
  lq_messages :: "(string \<times> string) list"

type_synonym 'w llm = "llm_request \<Rightarrow> 'w \<Rightarrow> string option res \<times> 'w"

definition MODEL :: string where
  "MODEL = ''llama3.2:3b''"

definition chat_completion :: "string \<Rightarrow> llm_request" where
  "chat_completion message =
     \<lparr>lq_model = MODEL, lq_messages = [(''system'', system_prompt), (''user'', message)]\<rparr>"

section \<open>The reply\<close>

text \<open>
  \<open>"tool" in x\<close> and \<open>x[k]\<close> for a parsed value: membership of a key, a substring or an item, and
  \<open>TypeError\<close> where Python raises it.
\<close>

definition mentions_tool :: "json \<Rightarrow> bool res" where
  "mentions_tool j =
     (case j of
        JObj kvs \<Rightarrow> Inr (map_of kvs ''tool'' \<noteq> None)
      | JStr s \<Rightarrow> Inr (contains ''tool'' s)
      | JArr xs \<Rightarrow> Inr (JStr ''tool'' \<in> set xs)
      | _ \<Rightarrow> Inl (TypeError ''argument is not iterable''))"

definition subscript :: "json \<Rightarrow> string \<Rightarrow> json res" where
  "subscript j k =
     (case j of
        JObj kvs \<Rightarrow> (case map_of kvs k of None \<Rightarrow> Inl (KeyError k) | Some v \<Rightarrow> Inr v)
      | _ \<Rightarrow> Inl (TypeError ''indices must be integers''))"

text \<open>The body of the \<open>try\<close>: the result of the tool, or \<open>None\<close> when the value does not mention one.\<close>

definition tool_result :: "json \<Rightarrow> json option res" where
  "tool_result tool_call =
     bind_res (mentions_tool tool_call) (\<lambda>b.
     if \<not> b then Inr None
     else
       bind_res (subscript tool_call ''tool'') (\<lambda>tool.
       bind_res (subscript tool_call ''operation'') (\<lambda>operation.
       bind_res (subscript tool_call ''parameters'') (\<lambda>parameters.
         Inr (Some (execute_tool tool operation parameters))))))"

definition plain_answer :: "string option \<Rightarrow> json" where
  "plain_answer reply = JObj [(''response'', case reply of None \<Rightarrow> JNull | Some s \<Rightarrow> JStr s)]"

text \<open>\<open>json.loads(None)\<close> raises \<open>TypeError\<close>; every exception of the block is passed over.\<close>

definition interpret_reply :: "(string \<Rightarrow> string) \<Rightarrow> string option \<Rightarrow> json option" where
  "interpret_reply F reply =
     (case reply of
        None \<Rightarrow> Some (plain_answer reply)
      | Some text \<Rightarrow>
          (case json_loads F text of
             Outside \<Rightarrow> None
           | Malformed \<Rightarrow> Some (plain_answer reply)
           | Scanned tool_call r \<Rightarrow>
               (case tool_result tool_call of
                  Inr (Some result) \<Rightarrow> Some result
                | _ \<Rightarrow> Some (plain_answer reply))))"

definition ask_gpt :: "(string \<Rightarrow> string) \<Rightarrow> 'w llm \<Rightarrow> string \<Rightarrow> 'w \<Rightarrow> json option res \<times> 'w" where
  "ask_gpt F llm message w =
     (case llm (chat_completion message) w of
        (Inl e, w') \<Rightarrow> (Inl e, w')
      | (Inr reply, w') \<Rightarrow> (Inr (interpret_reply F reply), w'))"

section \<open>The application\<close>

definition parse_chat_request :: "web_request \<Rightarrow> string option" where
  "parse_chat_request q = Option.bind (json_body q) (text_field ''message'')"

definition chat_response :: "json \<Rightarrow> json" where
  "chat_response result = JObj [(''response'', result)]"

text \<open>\<open>None\<close>: the answer is outside the model's characters.\<close>

definition chat :: "(string \<Rightarrow> string) \<Rightarrow> 'w llm \<Rightarrow> proxy_lib \<Rightarrow> web_request \<Rightarrow> 'w \<Rightarrow> http_response option \<times> 'w" where
  "chat F llm B q w =
     (case parse_chat_request q of
        None \<Rightarrow> (Some (respond B 200 (Inl (ValidationError ''ChatRequest''))), w)
      | Some message \<Rightarrow>
          (case ask_gpt F llm message w of
             (Inl e, w') \<Rightarrow> (Some (respond B 200 (Inl e)), w')
           | (Inr result, w') \<Rightarrow> (map_option (\<lambda>r. respond B 200 (Inr (chat_response r))) result, w')))"

definition agent_app :: "(string \<Rightarrow> string) \<Rightarrow> 'w llm \<Rightarrow> proxy_lib \<Rightarrow> (web_request \<Rightarrow> http_response) \<Rightarrow> agent_settings
    \<Rightarrow> int \<Rightarrow> web_request \<Rightarrow> 'w \<Rightarrow> http_response option \<times> 'w" where
  "agent_app F llm B other s now q w =
     (if wr_method q = ''POST'' \<and> wr_path q = ''/chat'' then chat F llm B q w
      else if wr_method q = ''GET'' \<and> wr_path q = ''/''
      then (Some (respond B 200 (Inr (service_info_json (agent_service_info s)))), w)
      else if wr_method q = ''GET'' \<and> wr_path q = ''/health/live''
      then (Some (respond B 200 (Inr (health_json B (agent_liveness s now)))), w)
      else if wr_method q = ''GET'' \<and> wr_path q = ''/health/ready''
      then (Some (respond B 200 (Inr (health_json B (agent_readiness s now)))), w)
      else (Some (other q), w))"

section \<open>Which replies become tool calls\<close>

definition crm_operation :: "json \<Rightarrow> bool" where
  "crm_operation j \<longleftrightarrow> j \<in> {JStr ''read_customer'', JStr ''write_customer'', JStr ''delete_customer''}"

lemma execute_tool_cases:
  "execute_tool tool operation parameters =
     (if tool = JStr ''crm'' \<and> crm_operation operation then echo_call tool operation parameters
      else JObj [(''error'', JStr (if tool = JStr ''crm'' then ''Unknown operation.'' else ''Unknown tool.''))])"
  by (simp add: execute_tool_def crm_operation_def)

lemma tool_result_Some:
  "tool_result j = Inr (Some r) \<longleftrightarrow>
     (\<exists>kvs tool operation parameters. j = JObj kvs \<and> map_of kvs ''tool'' = Some tool \<and>
        map_of kvs ''operation'' = Some operation \<and> map_of kvs ''parameters'' = Some parameters \<and>
        r = execute_tool tool operation parameters)"
  by (cases j) (auto simp: tool_result_def mentions_tool_def subscript_def bind_res_eq_Inr split: if_splits option.splits)

text \<open>An independent reading of a reply: the call it carries, if it is an object with the three keys.\<close>

fun call_of :: "json \<Rightarrow> (json \<times> json \<times> json) option" where
  "call_of (JObj kvs) =
     (case (map_of kvs ''tool'', map_of kvs ''operation'', map_of kvs ''parameters'') of
        (Some tool, Some operation, Some parameters) \<Rightarrow> Some (tool, operation, parameters)
      | _ \<Rightarrow> None)"
| "call_of j = None"

lemma tool_result_call_of:
  "call_of j = Some (tool, operation, parameters) \<Longrightarrow> tool_result j = Inr (Some (execute_tool tool operation parameters))"
  "call_of j = None \<Longrightarrow> tool_result j \<noteq> Inr (Some r)"
proof -
  show "tool_result j = Inr (Some (execute_tool tool operation parameters))" if "call_of j = Some (tool, operation, parameters)"
    using that by (cases j) (auto simp: tool_result_Some split: option.splits)
  show "tool_result j \<noteq> Inr (Some r)" if "call_of j = None"
    using that by (cases j) (auto simp: tool_result_Some)
qed

definition reply_call :: "(string \<Rightarrow> string) \<Rightarrow> string option \<Rightarrow> (json \<times> json \<times> json) option" where
  "reply_call F reply =
     (case reply of None \<Rightarrow> None
      | Some t \<Rightarrow> (case json_loads F t of Scanned j r \<Rightarrow> call_of j | _ \<Rightarrow> None))"

definition representable :: "(string \<Rightarrow> string) \<Rightarrow> string option \<Rightarrow> bool" where
  "representable F reply \<longleftrightarrow> (case reply of None \<Rightarrow> True | Some t \<Rightarrow> json_loads F t \<noteq> Outside)"

text \<open>(C38) The dispatch of a reply: for every reply the agent has an answer, and that is the echo of the call when the
  reply is an object that names the CRM, one of its three operations and parameters, an error
  for any other complete call, and the reply itself in all other cases, a missing reply and
  unreadable text included.\<close>

theorem reply_dispatch:
  assumes "representable F reply"
  shows "interpret_reply F reply = Some
    (case reply_call F reply of
       None \<Rightarrow> plain_answer reply
     | Some (tool, operation, parameters) \<Rightarrow>
         if tool = JStr ''crm'' \<and> crm_operation operation then echo_call tool operation parameters
         else JObj [(''error'', JStr (if tool = JStr ''crm'' then ''Unknown operation.'' else ''Unknown tool.''))])"
proof (cases reply)
  case None
  then show ?thesis by (simp add: interpret_reply_def reply_call_def)
next
  case (Some t)
  show ?thesis
  proof (cases "json_loads F t")
    case (Scanned j r)
    show ?thesis
    proof (cases "call_of j")
      case None
      then have "(case tool_result j of Inr (Some result) \<Rightarrow> Some result | _ \<Rightarrow> Some (plain_answer (Some t))) = Some (plain_answer (Some t))"
        using tool_result_call_of(2) [OF None] by (auto split: sum.splits option.splits)
      with None Some Scanned show ?thesis by (simp add: interpret_reply_def reply_call_def)
    next
      case (Some c)
      obtain tool operation parameters where "c = (tool, operation, parameters)" by (cases c)
      with Some \<open>reply = Some t\<close> Scanned tool_result_call_of(1) [of j tool operation parameters] show ?thesis
        by (simp add: interpret_reply_def reply_call_def execute_tool_cases)
    qed
  qed (use assms Some in \<open>simp_all add: interpret_reply_def reply_call_def representable_def\<close>)
qed

definition call_json_of :: "string \<Rightarrow> json \<Rightarrow> json" where
  "call_json_of operation parameters =
     JObj [(''tool'', JStr ''crm''), (''operation'', JStr operation), (''parameters'', parameters)]"

lemma canonical_call:
  "canonical (call_json_of operation parameters) =
     JObj [(''operation'', JStr operation), (''parameters'', canonical parameters), (''tool'', JStr ''crm'')]"
  by (simp add: call_json_of_def)

text \<open>(C39) A tool call that the model prints as JSON is the tool call the agent makes: for every complete
  call with the three keys, whatever its parameters, the answer is the call that was printed, with
  the keys of its objects in order.\<close>

theorem printed_call_is_made:
  assumes "crm_operation (JStr operation)" "wf_json parameters" "floats_print F parameters"
  shows "interpret_reply F (Some (json_dumps (call_json_of operation parameters))) =
    Some (echo_call (JStr ''crm'') (JStr operation) (canonical parameters))"
proof -
  have "json_loads F (json_dumps (call_json_of operation parameters)) = Scanned (canonical (call_json_of operation parameters)) []"
    by (rule loads_dumps) (use assms(2,3) in \<open>simp_all add: call_json_of_def\<close>)
  moreover have "call_of (canonical (call_json_of operation parameters)) =
      Some (JStr ''crm'', JStr operation, canonical parameters)" by (simp add: canonical_call)
  ultimately show ?thesis
    using assms(1) tool_result_call_of(1) [of "canonical (call_json_of operation parameters)"]
    by (simp add: interpret_reply_def execute_tool_cases)
qed

text \<open>The chat route fails only with the provider: once it answered, the response has status 200.\<close>

lemma chat_answers:
  assumes "parse_chat_request q = Some message" "llm (chat_completion message) w = (Inr reply, w')" "representable F reply"
  shows "\<exists>result. chat F llm B q w = (Some (respond B 200 (Inr (chat_response result))), w')"
proof -
  have "\<exists>result. interpret_reply F reply = Some result"
    using assms(3) by (auto simp: interpret_reply_def representable_def split: option.splits scan.splits sum.splits)
  then show ?thesis using assms(1,2) by (auto simp: chat_def ask_gpt_def)
qed

text \<open>The agent contacts its provider for every chat request, also when the settings disable it.\<close>

lemma disabled_provider_is_contacted:
  assumes "as_llm_provider s = ''disabled''" "wr_method q = ''POST''" "wr_path q = ''/chat''"
    and "parse_chat_request q = Some message"
  shows "map_of (hl_checks (agent_readiness s now)) ''llm_provider'' = Some ''disabled'' \<and>
    snd (agent_app F llm B other s now q w) = snd (llm (chat_completion message) w)"
  using assms by (simp add: agent_readiness_def agent_app_def chat_def ask_gpt_def split: prod.split sum.split)

end
