(* ===== verification/AppSamples.thy ===== *)
theory AppSamples
  imports Samples Accountability Logging ReferenceAgent
begin

text \<open>
  The theorems of \<open>ProxyApp\<close>, \<open>Access\<close>, \<open>Accountability\<close>, \<open>Logging\<close> and \<open>ReferenceAgent\<close> at concrete inputs: the tool call of
  \<open>Samples\<close> sent to the application as an HTTP request with its headers and its JSON body.
\<close>

definition sample_proxy_lib :: proxy_lib where
  "sample_proxy_lib = \<lparr>pl_invalid_body = JObj [(''detail'', JArr [])], pl_datetime = (\<lambda>t. isoformat_utc (instant t))\<rparr>"

definition not_found :: "web_request \<Rightarrow> http_response" where
  "not_found q = \<lparr>hp_status_code = 404, hp_json = Some (JObj [(''detail'', JStr ''Not Found'')])\<rparr>"

definition sample_web :: "bearer option \<Rightarrow> web_request" where
  "sample_web cr =
     \<lparr>wr_method = ''POST'', wr_path = ''/v1/tool-calls'', wr_query = [],
      wr_headers = [(''X-Session-Token'', tq_session_token sample_tool_request), (''Idempotency-Key'', ''key-0001'')],
      wr_credentials = cr,
      wr_body = JsonBody (JObj [(''tool'', JStr ''crm''), (''operation'', JStr ''read_customer''),
        (''parameters'', JObj sample_params)])\<rparr>"

definition sample_request_env :: request_env where
  "sample_request_env =
     \<lparr>re_auth = sample_auth, re_call = sample_env, re_uuids = (''11'', ''22''), re_now = sample_now, re_attempt = Inr ()\<rparr>"

lemma sample_web_route: "route_of (sample_web cr) = Some ToolCallRoute"
  by (simp add: route_of_def sample_web_def post_route_def)

lemma lower_headers:
  "lower ''X-Session-Token'' = ''x-session-token''" "lower ''Idempotency-Key'' = ''idempotency-key''"
  by code_simp+

lemma sample_web_parses: "parse_tool_request (sample_web cr) = Some sample_tool_request"
  by (simp add: parse_tool_request_def sample_web_def json_body_def only_keys_def text_field_def header_value_def
      lower_headers sample_tool_request_def)

lemma sample_served:
  "\<exists>b a db'. proxy_app sample_proxy_lib not_found strict_pydantic counting_adapter sample_request_env
     (sample_web (Some b)) (sample_live, 0) = (a, db', 1) \<and> hp_status_code a = 200"
proof -
  obtain b resp db' where "execute_tool_call sample_auth strict_pydantic counting_adapter (Some b)
      sample_tool_request sample_env (sample_live, 0) = (Inr resp, db', 1)" "tr_status resp = 200"
    using sample_endpoint by blast
  moreover have "wr_credentials (sample_web cr) = cr" "wr_body (sample_web cr) \<noteq> BadJson" for cr
    by (simp_all add: sample_web_def)
  ultimately have "proxy_app sample_proxy_lib not_found strict_pydantic counting_adapter sample_request_env
      (sample_web (Some b)) (sample_live, 0) = (respond sample_proxy_lib 200 (Inr (call_json resp)), db', 1)"
    by (simp add: proxy_app_def sample_web_route handle_def serve_call_def sample_web_parses sample_request_env_def Let_def)
  then show ?thesis by (intro exI conjI) (assumption, simp add: respond_def)
qed

theorem complete_mediation_witness:
  "\<exists>b r ag c. parse_tool_request (sample_web (Some b)) = Some r \<and>
     caller_entitled (re_auth sample_request_env) (Some b) (tq_session_token r) sample_live ag c"
proof -
  obtain b a db' where "proxy_app sample_proxy_lib not_found strict_pydantic counting_adapter sample_request_env
     (sample_web (Some b)) (sample_live, 0) = (a, db', 1)" using sample_served by blast
  from complete_mediation [OF this] have "\<exists>r ag c. parse_tool_request (sample_web (Some b)) = Some r \<and>
     caller_entitled (re_auth sample_request_env) (wr_credentials (sample_web (Some b))) (tq_session_token r) sample_live ag c"
    by force
  then show ?thesis by (auto simp: sample_web_def)
qed

theorem access_matrix_witness:
  "\<exists>b p. presents (re_auth sample_request_env) (Some b) p \<and> grants ToolCallRoute p"
proof -
  obtain b a db' where "proxy_app sample_proxy_lib not_found strict_pydantic counting_adapter sample_request_env
     (sample_web (Some b)) (sample_live, 0) = (a, db', 1)" using sample_served by blast
  from access_matrix [OF this sample_web_route] show ?thesis by (auto simp: sample_web_def)
qed


definition sample_record :: log_record where
  "sample_record =
     \<lparr>lr_name = ''services.permission_proxy.main'', lr_levelname = ''INFO'', lr_message = ''service_started'' @ [CHR 0x0A],
      lr_dict = [(''name'', JStr ''x''), (''service'', JStr ''permission-proxy'')], lr_exception = None\<rparr>"

theorem log_lines_cannot_be_forged_witness: "list_all printable (format_record sample_record 0)"
proof -
  have "log_values_ok sample_record" by (simp add: log_values_ok_def sample_record_def)
  from log_lines_cannot_be_forged(1) [OF this this] show ?thesis .
qed

section \<open>The reference agent\<close>

definition mail_call :: json where
  "mail_call = JObj [(''tool'', JStr ''mail''), (''operation'', JStr ''send''), (''parameters'', JArr [JInt 7, JNull])]"

theorem reply_dispatch_witness:
  "interpret_reply (\<lambda>t. t) (Some (json_dumps mail_call)) = Some (JObj [(''error'', JStr ''Unknown tool.'')])"
proof -
  have "json_loads (\<lambda>t. t) (json_dumps mail_call) = Scanned (canonical mail_call) []"
    by (rule loads_dumps) (simp_all add: mail_call_def)
  moreover have "canonical mail_call =
      JObj [(''operation'', JStr ''send''), (''parameters'', JArr [JInt 7, JNull]), (''tool'', JStr ''mail'')]"
    by (simp add: mail_call_def)
  ultimately show ?thesis
    using reply_dispatch [of "\<lambda>t. t" "Some (json_dumps mail_call)"] by (simp add: representable_def reply_call_def)
qed

theorem printed_call_is_made_witness:
  "interpret_reply (\<lambda>t. t) (Some (json_dumps (call_json_of ''read_customer'' (JObj sample_params)))) =
     Some (echo_call (JStr ''crm'') (JStr ''read_customer'') (JObj sample_params))"
  using printed_call_is_made [of "''read_customer''" "JObj sample_params" "\<lambda>t. t"]
  by (simp add: crm_operation_def sample_params_def)

end
