(* ===== verification/MigrationEnv.thy ===== *)
theory MigrationEnv
  imports Migrations
begin

text \<open>
  \<open>migrations/env.py\<close>: where the URL of the database comes from, the options of the two migration
  contexts, and the transaction around the pending revisions.  Alembic runs the revisions that
  follow the one the database is at; offline it only writes the SQL.  The property: from every
  revision the online run ends at the head, and a failing run leaves the database as it was.
\<close>

text \<open>\<open>getenv(...) or config.get_main_option(...)\<close>: an empty variable counts as missing.\<close>

definition database_url :: "string option \<Rightarrow> string option \<Rightarrow> string option" where
  "database_url env_url main_option =
     (case env_url of None \<Rightarrow> main_option | Some u \<Rightarrow> if u = [] then main_option else Some u)"

record migration_context =
  mc_url :: "string option"
  mc_null_pool :: bool
  mc_literal_binds :: bool
  mc_paramstyle :: "string option"
  mc_compare_type :: bool

definition offline_context :: "string option \<Rightarrow> string option \<Rightarrow> migration_context" where
  "offline_context env_url main_option =
     \<lparr>mc_url = database_url env_url main_option, mc_null_pool = False, mc_literal_binds = True,
      mc_paramstyle = Some ''named'', mc_compare_type = True\<rparr>"

definition online_context :: "string option \<Rightarrow> string option \<Rightarrow> migration_context" where
  "online_context env_url main_option =
     \<lparr>mc_url = database_url env_url main_option, mc_null_pool = True, mc_literal_binds = False,
      mc_paramstyle = None, mc_compare_type = True\<rparr>"

definition pending :: "migrated \<Rightarrow> revision list" where
  "pending m =
     (case mg_current m of
        None \<Rightarrow> revisions
      | Some c \<Rightarrow> tl (dropWhile (\<lambda>v. rv_id v \<noteq> c) revisions))"

text \<open>\<open>context.begin_transaction()\<close> around \<open>context.run_migrations()\<close>.\<close>

definition run_migrations_online :: "migrated \<Rightarrow> unit res \<times> migrated" where
  "run_migrations_online m =
     (case upgrade_all (pending m) m of Inl e \<Rightarrow> (Inl e, m) | Inr m' \<Rightarrow> (Inr (), m'))"

definition at_revision :: "nat \<Rightarrow> migrated \<Rightarrow> bool" where
  "at_revision k m \<longleftrightarrow> upgrade_all (take k revisions) unmigrated = Inr m"

lemma upgrade_all_append: "upgrade_all (vs @ ws) m = bind_res (upgrade_all vs m) (upgrade_all ws)"
  by (induction vs arbitrary: m) (auto simp: bind_res_def split: sum.splits)

lemma pending_rest:
  assumes "at_revision k m"
  shows "pending m = drop k revisions"
proof -
  have "k = 0 \<or> k = 1 \<or> k = 2 \<or> 3 \<le> k" by linarith
  then consider "k = 0" | "k = 1" | "k = 2" | "take k revisions = revisions" "drop k revisions = []"
    by (auto simp: revisions_def)
  then show ?thesis
    using assms
    by cases (auto simp: at_revision_def revisions_def migrate_steps pending_def revision_ids numeral_2_eq_2)
qed

text \<open>From whatever revision the database is at, the run ends at the head; at the head it changes nothing.\<close>

theorem online_run_reaches_head:
  assumes "at_revision k m"
  shows "run_migrations_online m = (Inr (), \<lparr>mg_current = Some ''20260730_0003'', mg_schema = head_schema\<rparr>)"
proof -
  have "upgrade_all (drop k revisions) m = upgrade_all revisions unmigrated"
    using assms upgrade_all_append [of "take k revisions" "drop k revisions" unmigrated] by (simp add: at_revision_def)
  then show ?thesis by (simp add: run_migrations_online_def pending_rest [OF assms] upgraded_head)
qed

lemma failed_run_changes_nothing: "run_migrations_online m = (Inl e, m') \<Longrightarrow> m' = m"
  by (auto simp: run_migrations_online_def split: sum.splits)

lemma contexts_agree: "mc_url (offline_context u fallback) = mc_url (online_context u fallback)" "mc_compare_type (offline_context u fallback)"
  by (simp_all add: offline_context_def online_context_def)

end
