(* ===== verification/Spec2Isabelle.thy ===== *)
theory Spec2Isabelle
  imports TrailSamples AppSamples MigrationEnv
begin

text \<open>
  \<^bold>\<open>Verification of the tool permission enforcer\<close>

  The program is a permission proxy between AI agents and the tools they may use.  An agent
  presents an access token and the token of a trusted session; the proxy
  (\<open>services/permission_proxy\<close>) authenticates the agent, validates the session, evaluates the call
  against the agent's permission manifest, records the authorisation in an append-only,
  hash-chained audit table, and only then forwards the call to the tool, the sample CRM
  (\<open>services/sample_crm\<close>).  The reference agent (\<open>services/reference_agent\<close>) drives a language model
  and calls the proxy.  \<open>services/common\<close> holds settings, logging and the database session,
  \<open>migrations\<close> the schema, \<open>scripts\<close> the command-line tools.  All of \<open>services\<close>, \<open>migrations\<close> and
  \<open>scripts\<close> is modelled; a definition has the name of the Python function where Isabelle allows it.

  \<^bold>\<open>Conventions.\<close>  Code that reads or writes the database is a function from a \<open>database\<close> record to a
  result and a database; a result is \<open>py_exn + 'a\<close>, the exception classes being the constructors of
  \<open>py_exn\<close> (\<open>Prelude\<close>).  A table is a list of rows in insertion order, looked up by key; the
  constraints of the tables are checks of the insertions.  Values the code reads from its
  surroundings (\<open>datetime.now\<close>, \<open>uuid4\<close>, \<open>perf_counter\<close>) are arguments, or sequences of readings in the
  scripts.  Python's integers are \<open>int\<close>, an instant is a number of microseconds, a JSON value is the
  datatype \<open>json\<close> whose objects are lists of items, a \<open>str\<close> is a list of \<open>char\<close>.  SHA-256 works on
  \<open>32 word\<close>.

  \<^bold>\<open>Theories and the code they model\<close>

  Foundations.
  \<^item> \<open>Prelude\<close>: exceptions (\<open>domain/exceptions.py\<close>), results, rows and their lemmas; \<open>Runs\<close>: invariants
    and evolution along the runs of a step relation.
  \<^item> \<open>Json\<close>: \<open>json.dumps\<close> as the code calls it; the text determines the value.  \<open>JsonParse\<close>:
    \<open>json.loads\<close>, which reads back what \<open>json.dumps\<close> prints.  \<open>Dict\<close>: assignment and \<open>update\<close> of
    dictionaries.
  \<^item> \<open>Sha256\<close>: \<open>hashlib.sha256\<close>.  \<open>Clock\<close>: \<open>datetime\<close>, its ISO text and truncation to seconds.

  Data.
  \<^item> \<open>Domain\<close>: \<open>domain/enums.py\<close> and the entities of \<open>domain/models.py\<close> as records, the statuses of a
    manifest as a linear order.  \<open>Store\<close>: \<open>common/database.py\<close> (a session commits or rolls back) and all of
    \<open>persistence/repositories.py\<close>.  \<open>StoreInv\<close>: the schema \<open>db_wf\<close>, that every operation keeps it, and the
    effect of activating a manifest.
  \<^item> \<open>Migrations\<close>: the three revisions of \<open>migrations/versions\<close> as data, with the semantics of the
    operations; \<open>Orm\<close>: the mapped classes, whose tables are those of the migrated schema; \<open>Checked\<close>: stored
    rows fit their columns and pass the CHECK constraints; \<open>SchemaRows\<close>: the records as rows, which
    satisfy the migrated schema; \<open>MigrationEnv\<close>: \<open>migrations/env.py\<close>.
  \<^item> \<open>Seed\<close>: \<open>persistence/seed.py\<close>, transactional and idempotent, and the authority it grants.

  Policy and enforcement.
  \<^item> \<open>Settings\<close>: \<open>common/settings.py\<close>.  \<open>Manifest\<close>: \<open>policy/manifest.py\<close>.  \<open>Evaluator\<close>:
    \<open>policy/evaluator.py\<close>, equal to a declarative specification of the manifest (\<open>document_permits\<close>).
  \<^item> \<open>Auth\<close>: \<open>security/auth.py\<close>; \<open>Sessions\<close>: \<open>security/sessions.py\<close>; \<open>PlainJwt\<close>: one library that
    satisfies what the two assume of PyJWT.
  \<^item> \<open>AuditTrail\<close>: \<open>audit/service.py\<close>, the chain and what its verification detects and does not.
  \<^item> \<open>CrmAdapter\<close>: \<open>tools/crm.py\<close>; \<open>SampleCrm\<close>: \<open>sample_crm/api.py\<close> and its repository; \<open>EndToEnd\<close>: the one
    calling the other.
  \<^item> \<open>ToolCalls\<close>: \<open>tool_calls.py\<close>, in the two atomic halves \<open>begin_call\<close> and \<open>finish_call\<close> around the
    awaited adapter; \<open>Concurrency\<close>: their interleavings in one worker and across processes;
    \<open>Progress\<close>: when a call is answered.

  Applications.
  \<^item> \<open>Api\<close>: the handlers of the three routers in \<open>permission_proxy/api\<close>.  \<open>Services\<close>: the factories,
    life cycle and health routes of the three \<open>main.py\<close>.  \<open>ProxyApp\<close>: the proxy from an HTTP request to
    its response.  \<open>Access\<close>: who may use which route.  \<open>Accountability\<close>: which request is
    behind each change of the database.  \<open>System\<close>: the database over its lifetime,
    \<open>db_step\<close>.  \<open>Logging\<close>: \<open>common/logging.py\<close>.
  \<^item> \<open>ReferenceAgent\<close>: \<open>services/reference_agent\<close>.
  \<^item> \<open>Scripts\<close>: \<open>mint_dev_token\<close>, \<open>seed_phase_1\<close>, \<open>inspect_phase_1\<close>, \<open>verify_phase_1\<close>;
    \<open>Acceptance\<close>: \<open>verify_phase_2\<close>; \<open>Demonstration\<close>: \<open>run_local_demo\<close>.
  \<^item> \<open>Samples\<close>, \<open>TrailSamples\<close>, \<open>AppSamples\<close>: one concrete run on which the properties with hypotheses are
    shown to apply.
\<close>

text \<open>
  \<^bold>\<open>How the parts are composed\<close>

  \<open>handle\<close> (\<open>ProxyApp\<close>) routes a request to a handler of \<open>Api\<close>; the tool-call handler authenticates with
  \<open>Auth\<close>, validates the session with \<open>Sessions\<close> and runs \<open>execute_call\<close> of \<open>ToolCalls\<close>, which asks
  \<open>evaluate\<close>, records through \<open>AuditTrail\<close> and calls an adapter.  The adapter is a function on a type
  \<open>'w\<close> of states of the outside world; \<open>EndToEnd\<close> and \<open>Demonstration\<close> take for it the HTTP adapter of
  \<open>CrmAdapter\<close> whose client is the CRM of \<open>SampleCrm\<close>: \<open>crm_app\<close> is the HTTP client in front of
  \<open>crm_routes\<close>, with the path at which a URL arrives as the parameter \<open>cr_target\<close>.  Every handler is a step of \<open>db_step\<close>, so
  what holds along its runs holds of the served application (\<open>serve_steps\<close>).

  \<^bold>\<open>Interfaces.\<close>  \<open>repository\<close> (\<open>StoreInv\<close>) is the contract of \<open>add\<close> and \<open>get\<close>, provided by the six
  repositories.  \<open>hash_chain\<close> (\<open>AuditTrail\<close>) is what a chain of labels commits to, provided by the
  audit events with SHA-256.  \<open>tool_adapter\<close> (\<open>CrmAdapter\<close>) is what the enforcement relies on in an
  adapter, provided by the CRM adapter.  \<open>invariant_runs\<close> and \<open>evolving_runs\<close> (\<open>Runs\<close>) are provided by
  the steps of one worker and of the database.

  \<^bold>\<open>What is shown\<close>

  \<^item> Mediation: whatever is sent to the proxy, the outside world changes only for an entitled caller
    and after a committed authorisation; each route needs the token use and scope that
    \<open>docs/api.md\<close> lists; a call outside the manifest, with a used idempotency key or with parameters
    of another customer has no effect; interleaved calls of one worker forward each key once.  Each
    event, session and revocation goes back to an authenticated request that names it.  A proxied
    effect stays with the customer in whose path the URL arrives, which is the customer the call names when its
    identifier needs no escaping; the adapter does not escape others.
  \<^item> Policy: the first-failure evaluation is total and equal to its specification, and, while the
    stored checksum is that of the original document, an altered document allows nothing unless SHA-256
    collides.
  \<^item> Audit: recording keeps the chain verified when events arrive in order; equal heads mean equal
    histories and a removed event is detected, up to collisions; an event out of order, and the removal
    of the most recent events, are the two gaps.  No value of the
    changes and of the unlisted parameters influences what is stored.
  \<^item> Sessions and tokens: a session validates exactly under the stated conditions, for its lifetime, and never
    again once revoked.
  \<^item> Data: every reachable database satisfies the schema and the migrated tables, with the widths on a
    backend that enforces them and the CHECK constraints; its audit trail only
    grows; migrations undo each other; the classes and the migrations declare the same schema.
  \<^item> Progress: a call on a ready database is answered; both acceptance scripts and the demonstration
    complete on a seeded database; every reply of the language model that the model of strings can express
    is answered by the agent.
  \<^item> Errors: what is left behind when an adapter raises, and what happens on malformed patches,
    credentials and claims.

  \<^bold>\<open>Recursion.\<close>  Recursion is structural or has a termination proof.  \<open>split_years\<close> (\<open>Clock\<close>)
  decreases the days that remain.  The readers of \<open>JsonParse\<close> decrease the length of the text that
  remains, since each value consumes at least one character.  \<open>take_claims\<close> (\<open>PlainJwt\<close>) is given the
  length of the text as its bound, which is enough because each claim occupies a character.  No other definition
  has fuel.

  \<^bold>\<open>Parameters: code that is not in the repository.\<close>  PyJWT (\<open>jwt_lib\<close>) and the key set client
  (\<open>key_provider\<close>); pydantic's coercions of values that are not of the declared type (\<open>pydantic\<close>); the
  HTTP client behind the adapter, an arbitrary function that returns a response or one of the httpx failures; FastAPI's
  own answers and the JSON text of a \<open>datetime\<close> (\<open>proxy_lib\<close>, \<open>crm_lib\<close>); what httpx and the server
  make of a URL (\<open>cr_target\<close>); the language model (\<open>llm\<close>);
  \<open>repr\<close> of a \<open>float\<close> (\<open>float_repr\<close>); what a backend makes of a timestamp and whether it
  enforces the width of a column (\<open>db_store_time\<close>, \<open>db_checks_width\<close>).  Hypotheses about them are
  \<open>jwt_roundtrip\<close> and \<open>jwt_expiry\<close>, which \<open>plain_jwt\<close> satisfies, \<open>faithful_time\<close>, which every
  backend that stores the instant satisfies, and \<open>direct_target\<close>: below a base URL without a path of its own
  the path of an identifier of letters, digits, \<open>-\<close> and \<open>_\<close> arrives as written (RFC 3986).

  \<^bold>\<open>Not modelled.\<close>  Titles, tags and OpenAPI metadata; printing and argument parsing of the scripts; reading the
  environment (pydantic-settings) and caching of settings; connecting and pooling; the SQL text of the offline
  migration; the attributes \<open>relationship()\<close> declares and the server-side \<open>created_at\<close> and
  \<open>updated_at\<close> columns, neither of which the code reads; the listing of the audit events that the demonstration
  prints.  Characters from code point 256 on are outside \<open>char\<close>: the reader of JSON marks them
  as \<open>Outside\<close>.  CPython's limits on nesting depth and on the digits of an integer are not represented.
  \<open>tests\<close>, \<open>docker\<close>, \<open>infra\<close> and the documents are not part of the program.
\<close>

end
